(* ===== verification/Prelude.thy ===== *)
theory Prelude
  imports Main "HOL-Library.Word" "HOL-Library.AList"
begin

text \<open>
  Shared vocabulary of the development: machine integers, bytes, outcomes of C++ calls,
  vectors, byte ranges, little-endian numbers and \<open>std::unordered_map\<close>. The facts that
  every component uses are declared \<open>[simp]\<close> or collected under \<open>byte_range\<close> (ranges of
  byte lists) and \<open>map_facts\<close> (unordered maps).
\<close>

section \<open>Machine integers and bytes\<close>

type_synonym byte = "8 word"
type_synonym u32 = "32 word"
type_synonym u64 = "64 word"

named_theorems byte_range
named_theorems map_facts

section \<open>Outcomes of C++ calls\<close>

text \<open>
  A call returns, throws one of the exceptions the code throws (or the standard library
  throws for it), or runs into undefined behaviour (a vector index out of range, a null
  pointer dereferenced, an uninitialised value read). \<open>Undefined\<close> is a value of the model, so
  that its absence is something to prove.
\<close>

datatype error =
    RuntimeError string
  | OutOfRange
  | BadArrayNewLength
  | ProtocolError
  | Undefined

datatype 'a result = Ok 'a | Error error

primrec bindR :: "'a result \<Rightarrow> ('a \<Rightarrow> 'b result) \<Rightarrow> 'b result" where
  "bindR (Ok x) f = f x"
| "bindR (Error e) f = Error e"

lemma bindR_cong [fundef_cong]:
  "m = m' \<Longrightarrow> (\<And>x. m' = Ok x \<Longrightarrow> f x = g x) \<Longrightarrow> bindR m f = bindR m' g"
  by (cases m') auto

lemma bindR_eq_Ok: "bindR m f = Ok y \<longleftrightarrow> (\<exists>x. m = Ok x \<and> f x = Ok y)"
  by (cases m) auto

lemma bindR_OkE:
  assumes "bindR m f = Ok y"
  obtains x where "m = Ok x" "f x = Ok y"
  using assms by (auto simp: bindR_eq_Ok)

lemma bindR_eq_Error:
  "bindR m f = Error e \<longleftrightarrow> m = Error e \<or> (\<exists>x. m = Ok x \<and> f x = Error e)"
  by (cases m) auto

lemma bindR_assoc: "bindR (bindR m f) g = bindR m (\<lambda>x. bindR (f x) g)"
  by (cases m) auto

text \<open>\<open>mapR f xs\<close> runs \<open>f\<close> on each element in order and stops at the first failure.\<close>

fun mapR :: "('a \<Rightarrow> 'b result) \<Rightarrow> 'a list \<Rightarrow> 'b list result" where
  "mapR f [] = Ok []"
| "mapR f (x # xs) = bindR (f x) (\<lambda>y. bindR (mapR f xs) (\<lambda>ys. Ok (y # ys)))"

lemma mapR_Ok_length: "mapR f xs = Ok ys \<Longrightarrow> length ys = length xs"
  by (induction xs arbitrary: ys) (auto simp: bindR_eq_Ok)

lemma mapR_Ok_nth: "mapR f xs = Ok ys \<Longrightarrow> i < length xs \<Longrightarrow> f (xs ! i) = Ok (ys ! i)"
proof (induction xs arbitrary: ys i)
  case (Cons x xs)
  then show ?case by (cases i) (auto simp: bindR_eq_Ok)
qed simp

lemma mapR_Ok_I: "(\<And>x. x \<in> set xs \<Longrightarrow> f x = Ok (g x)) \<Longrightarrow> mapR f xs = Ok (map g xs)"
  by (induction xs) auto

lemma mapR_Ok_set: "mapR f xs = Ok ys \<Longrightarrow> y \<in> set ys \<Longrightarrow> \<exists>x\<in>set xs. f x = Ok y"
  by (induction xs arbitrary: ys) (auto simp: bindR_eq_Ok)

text \<open>Element access of a \<open>std::vector\<close> or array: out of range is undefined behaviour.\<close>

definition vec_at :: "'a list \<Rightarrow> nat \<Rightarrow> 'a result" where
  "vec_at xs i = (if i < length xs then Ok (xs ! i) else Error Undefined)"

lemma vec_at_in_range [simp]: "i < length xs \<Longrightarrow> vec_at xs i = Ok (xs ! i)"
  by (simp add: vec_at_def)

lemma vec_at_out_of_range [simp]: "length xs \<le> i \<Longrightarrow> vec_at xs i = Error Undefined"
  by (simp add: vec_at_def)

section \<open>Byte ranges\<close>

text \<open>\<open>bytes_at off n xs\<close> is the range of \<open>n\<close> bytes that starts at \<open>off\<close>, cut off at the end.\<close>

definition bytes_at :: "nat \<Rightarrow> nat \<Rightarrow> 'a list \<Rightarrow> 'a list" where
  "bytes_at off n xs = take n (drop off xs)"

lemma length_bytes_at [simp]: "length (bytes_at off n xs) = min n (length xs - off)"
  by (simp add: bytes_at_def min.commute)

lemma bytes_at_0 [simp]: "bytes_at off 0 xs = []"
  by (simp add: bytes_at_def)

lemma bytes_at_all [simp]: "bytes_at 0 (length xs) xs = xs"
  by (simp add: bytes_at_def)

lemma bytes_at_beyond [simp]: "length xs \<le> off \<Longrightarrow> bytes_at off n xs = []"
  by (simp add: bytes_at_def)

lemma bytes_at_add: "bytes_at off (m + n) xs = bytes_at off m xs @ bytes_at (off + m) n xs"
  by (simp add: bytes_at_def take_add drop_drop add.commute)

lemma bytes_at_bytes_at [byte_range]:
  "a + n \<le> m \<Longrightarrow> bytes_at a n (bytes_at b m xs) = bytes_at (b + a) n xs"
  by (simp add: bytes_at_def drop_take drop_drop min_def add.commute)

lemma bytes_at_append_left [byte_range]:
  "off + n \<le> length xs \<Longrightarrow> bytes_at off n (xs @ ys) = bytes_at off n xs"
  by (simp add: bytes_at_def)

lemma bytes_at_append_right [byte_range]:
  "length xs \<le> off \<Longrightarrow> bytes_at off n (xs @ ys) = bytes_at (off - length xs) n ys"
  by (simp add: bytes_at_def)

lemma bytes_at_append_split:
  "off \<le> length xs \<Longrightarrow>
   bytes_at off n (xs @ ys) = bytes_at off n xs @ bytes_at 0 (n - (length xs - off)) ys"
  by (simp add: bytes_at_def)

lemma bytes_at_min: "bytes_at off n xs = bytes_at off (min n (length xs - off)) xs"
  by (simp add: bytes_at_def min_def)

lemma bytes_at_drop: "bytes_at off n (drop k xs) = bytes_at (k + off) n xs"
  by (simp add: bytes_at_def add.commute)

lemma take_drop_prefix [byte_range]:
  "k + r \<le> n \<Longrightarrow> n \<le> length xs \<Longrightarrow>
   take r (drop k (take n xs @ ys)) = take r (drop k xs)"
  by (cases "r = 0") (auto simp: drop_take min_def)

lemma take_drop_all_prefix [byte_range]:
  "k \<le> length xs \<Longrightarrow> length xs - k \<le> r \<Longrightarrow>
   take r (drop k (xs @ ys)) = drop k xs @ take (r - (length xs - k)) ys"
  by simp

section \<open>Word arithmetic that does not wrap\<close>

lemma unat_add_u64: "unat a + unat b < 2 ^ 64 \<Longrightarrow> unat (a + b :: u64) = unat a + unat b"
  by (simp add: unat_word_ariths)

lemma unat_sub_u64: "unat b \<le> unat a \<Longrightarrow> unat (a - b :: u64) = unat a - unat b"
  by (simp add: unat_sub word_le_nat_alt)

lemma unat_of_nat_u64: "n < 2 ^ 64 \<Longrightarrow> unat (word_of_nat n :: u64) = n"
  by (simp add: unat_of_nat take_bit_nat_eq_self)

lemma unat_u64_less [simp]: "unat (w :: u64) < 18446744073709551616"
  using unsigned_less [of w] by simp

lemma unat_u32_less [simp]: "unat (w :: u32) < 4294967296"
  using unsigned_less [of w] by simp

lemma unat_ucast_u32 [simp]: "unat (ucast (w :: u32) :: u64) = unat w"
proof -
  have "unat w < 2 ^ 64" using unat_u32_less [of w] by (simp del: unat_u32_less)
  then show ?thesis by (simp add: unsigned_ucast_eq take_bit_nat_eq_self)
qed

section \<open>Little-endian numbers\<close>

text \<open>
  The code reads and writes integers by copying their object representation, which is
  little-endian on the hosts it runs on (and in the VTK files it reads).
\<close>

fun le_nat :: "byte list \<Rightarrow> nat" where
  "le_nat [] = 0"
| "le_nat (b # bs) = unat b + 256 * le_nat bs"

fun le_bytes :: "nat \<Rightarrow> nat \<Rightarrow> byte list" where
  "le_bytes 0 x = []"
| "le_bytes (Suc n) x = word_of_nat (x mod 256) # le_bytes n (x div 256)"

lemma le_bytes_numeral:
  "le_bytes (numeral n) x = word_of_nat (x mod 256) # le_bytes (pred_numeral n) (x div 256)"
  by (simp only: numeral_eq_Suc [of n] le_bytes.simps)

lemma length_le_bytes [simp]: "length (le_bytes n x) = n"
  by (induction n arbitrary: x) auto

lemma le_nat_bound: "le_nat bs < 256 ^ length bs"
proof (induction bs)
  case (Cons b bs)
  have "unat b < 256" using unsigned_less [of b] by simp
  with Cons show ?case by simp
qed simp

lemma le_nat_le_bytes: "x < 256 ^ n \<Longrightarrow> le_nat (le_bytes n x) = x"
proof (induction n arbitrary: x)
  case (Suc n)
  then have "x div 256 < 256 ^ n" by (simp add: div_less_iff_less_mult mult.commute)
  moreover have "unat (word_of_nat (x mod 256) :: byte) = x mod 256"
    by (simp add: unat_of_nat take_bit_nat_eq_self)
  ultimately show ?case using Suc.IH by simp
qed simp

lemma le_bytes_le_nat: "le_bytes (length bs) (le_nat bs) = bs"
proof (induction bs)
  case (Cons b bs)
  have "unat b < 256" using unsigned_less [of b] by simp
  with Cons show ?case by simp
qed simp

text \<open>An array of \<open>k\<close> integers, each \<open>w\<close> bytes wide.\<close>

fun le_array :: "nat \<Rightarrow> nat \<Rightarrow> byte list \<Rightarrow> nat list" where
  "le_array w 0 bs = []"
| "le_array w (Suc k) bs = le_nat (take w bs) # le_array w k (drop w bs)"

lemma length_le_array [simp]: "length (le_array w k bs) = k"
  by (induction k arbitrary: bs) auto

lemma le_array_concat:
  "(\<forall>x\<in>set xs. x < 256 ^ w) \<Longrightarrow> le_array w (length xs) (concat (map (le_bytes w) xs) @ ys) = xs"
  by (induction xs) (auto simp: le_nat_le_bytes)

lemma le_array_bytes: "length bs = w * k \<Longrightarrow> concat (map (le_bytes w) (le_array w k bs)) = bs"
proof (induction k arbitrary: bs)
  case (Suc k)
  then have "le_bytes w (le_nat (take w bs)) = take w bs"
    using le_bytes_le_nat [of "take w bs"] by simp
  with Suc show ?case by simp
qed simp

lemma le_array_bound: "x \<in> set (le_array w k bs) \<Longrightarrow> x < 256 ^ w"
proof (induction k arbitrary: bs)
  case (Suc k)
  have "le_nat (take w bs) < 256 ^ w"
    by (rule order_less_le_trans [OF le_nat_bound power_increasing]) simp_all
  with Suc show ?case by auto
qed simp

section \<open>Null pointers\<close>

text \<open>Using a null pointer, as an object or as a \<open>std::string\<close>, is undefined.\<close>

definition deref :: "'a option \<Rightarrow> 'a result" where
  "deref p = (case p of None \<Rightarrow> Error Undefined | Some x \<Rightarrow> Ok x)"

lemma deref_simps [simp]: "deref (Some x) = Ok x" "deref None = Error Undefined"
  by (simp_all add: deref_def)

lemma deref_eq_Ok: "deref p = Ok x \<longleftrightarrow> p = Some x"
  by (cases p) auto

section \<open>\<open>std::unordered_map\<close>\<close>

text \<open>
  An unordered map is the list of its entries in iteration order, which the standard leaves
  open: facts about a map never depend on the order. Keys are distinct.
\<close>

type_synonym ('k, 'v) umap = "('k \<times> 'v) list"

definition umap_ok :: "('k, 'v) umap \<Rightarrow> bool" where
  "umap_ok m \<longleftrightarrow> distinct (map fst m)"

text \<open>\<open>m.at(k)\<close> throws \<open>std::out_of_range\<close> where the key is missing.\<close>

definition umap_at :: "('k, 'v) umap \<Rightarrow> 'k \<Rightarrow> 'v result" where
  "umap_at m k = (case map_of m k of None \<Rightarrow> Error OutOfRange | Some v \<Rightarrow> Ok v)"

text \<open>\<open>m.emplace(k, v)\<close> keeps an entry that is already there.\<close>

definition umap_emplace :: "'k \<Rightarrow> 'v \<Rightarrow> ('k, 'v) umap \<Rightarrow> ('k, 'v) umap" where
  "umap_emplace k v m = (case map_of m k of None \<Rightarrow> m @ [(k, v)] | Some _ \<Rightarrow> m)"

lemma umap_at_Some [simp]: "map_of m k = Some v \<Longrightarrow> umap_at m k = Ok v"
  by (simp add: umap_at_def)

lemma umap_at_None [simp]: "map_of m k = None \<Longrightarrow> umap_at m k = Error OutOfRange"
  by (simp add: umap_at_def)

lemma umap_at_eq_Ok: "umap_at m k = Ok v \<longleftrightarrow> map_of m k = Some v"
  by (simp add: umap_at_def split: option.splits)

lemma umap_key: "map_of m k = Some v \<Longrightarrow> k \<in> fst ` set m"
  by (force dest: map_of_SomeD)

lemma umap_ok_Nil [simp]: "umap_ok []"
  by (simp add: umap_ok_def)

lemma umap_ok_update [map_facts]: "umap_ok m \<Longrightarrow> umap_ok (AList.update k v m)"
  by (simp add: umap_ok_def distinct_update)

lemma umap_ok_emplace [map_facts]: "umap_ok m \<Longrightarrow> umap_ok (umap_emplace k v m)"
  by (auto simp: umap_ok_def umap_emplace_def map_of_eq_None_iff split: option.splits)

lemma umap_emplace_lookup [map_facts]:
  "map_of (umap_emplace k v m) = (\<lambda>x. if map_of m k = None \<and> x = k then Some v else map_of m x)"
  by (auto simp: umap_emplace_def map_add_def fun_eq_iff split: option.splits)

lemma umap_emplace_keys [map_facts]: "fst ` set (umap_emplace k v m) = insert k (fst ` set m)"
  by (force simp: umap_emplace_def split: option.splits dest: map_of_SomeD)

end
