(* ===== verification/Random_Access.thy ===== *)
theory Random_Access
  imports Prelude
begin

text \<open>
  The interface \<open>RandomAccessFile\<close> (src/fmap.h) and the implementations that need no
  decoding: \<open>ReadonlyOSFile\<close> (src/fmap.cc), \<open>OffsettedRandomAccessFile\<close> (src/parser.cc) and
  \<open>StringBufFile\<close> (src/vfs.cc).
\<close>

section \<open>The interface\<close>

text \<open>
  \<open>Pread(buf, sz, offset)\<close> returns the number of bytes it stored, or -1. The model returns
  the bytes themselves: \<open>Ok None\<close> is the return value -1, \<open>Ok (Some bs)\<close> is the return value
  \<open>length bs\<close> with \<open>bs\<close> stored at the start of the buffer.
\<close>

type_synonym pread = "u64 \<Rightarrow> u64 \<Rightarrow> byte list option result"

text \<open>
  The promise the rest of the program relies on: a range that lies inside the file is read
  completely. What happens beyond the end is left to the implementations (the operating
  system reads short, \<open>Base64Reader\<close> fails).
\<close>

locale random_access_file =
  fixes Pread :: pread and content :: "byte list"
  assumes pread_within:
    "unat off + unat sz \<le> length content \<Longrightarrow>
     Pread sz off = Ok (Some (bytes_at (unat off) (unat sz) content))"
begin

lemma pread_full_length:
  assumes "unat off + unat sz \<le> length content"
  shows "\<exists>bs. Pread sz off = Ok (Some bs) \<and> length bs = unat sz"
  using assms by (simp add: pread_within)

lemma pread_adjacent:
  assumes "unat off + unat m + unat n \<le> length content"
    and "unat off + unat m + unat n < 2 ^ 64"
  shows "\<exists>xs ys. Pread m off = Ok (Some xs) \<and> Pread n (off + m) = Ok (Some ys) \<and>
                 Pread (m + n) off = Ok (Some (xs @ ys))"
proof -
  have "unat (off + m) = unat off + unat m" and "unat (m + n) = unat m + unat n"
    using assms(2) by (simp_all add: unat_add_u64)
  with assms(1) show ?thesis
    by (simp add: pread_within bytes_at_add add.assoc)
qed

end

text \<open>A file that reads short at its end and never fails, as POSIX files do.\<close>

locale eof_file =
  fixes Pread :: pread and content :: "byte list"
  assumes pread_eof: "Pread sz off = Ok (Some (bytes_at (unat off) (unat sz) content))"
begin

lemma pread_at_eof: "length content \<le> unat off \<Longrightarrow> Pread sz off = Ok (Some [])"
  by (simp add: pread_eof)

lemma pread_zero: "Pread 0 off = Ok (Some [])"
  by (simp add: pread_eof)

end

text \<open>
  All that is known of a read of any file: what it returns, short or not, is what the file has there.
\<close>

definition reads_from :: "pread \<Rightarrow> byte list \<Rightarrow> bool" where
  "reads_from Pread content \<longleftrightarrow>
     (\<forall>sz off bs. Pread sz off = Ok (Some bs) \<longrightarrow> bs = bytes_at (unat off) (length bs) content)"

lemma reads_fromD: "reads_from Pread content \<Longrightarrow> Pread sz off = Ok (Some bs) \<Longrightarrow> bytes_at (unat off) (length bs) content = bs"
  by (simp add: reads_from_def)

lemma eof_file_reads_from: "eof_file P content \<Longrightarrow> reads_from P content"
  by (auto simp: eof_file_def reads_from_def bytes_at_def min_def)

sublocale eof_file \<subseteq> raf: random_access_file Pread content
  by unfold_locales (rule pread_eof)

lemma eof_file_random_access: "eof_file P content \<Longrightarrow> random_access_file P content"
  by (simp add: eof_file_def random_access_file_def)

section \<open>\<open>ReadonlyOSFile\<close>\<close>

text \<open>
  The operating system's \<open>pread(2)\<close> is a parameter: from a file descriptor, a sz and an
  offset to the bytes it stores or -1.
\<close>

type_synonym os_pread = "int \<Rightarrow> u64 \<Rightarrow> u64 \<Rightarrow> byte list option"

record ReadonlyOSFile =
  osf_fd :: int

definition ReadonlyOSFile_Pread :: "os_pread \<Rightarrow> ReadonlyOSFile \<Rightarrow> pread" where
  "ReadonlyOSFile_Pread os file sz off = Ok (os (osf_fd file) sz off)"

text \<open>
  Documented behaviour of \<open>pread(2)\<close> on a regular file: the bytes from the offset on, as many
  as were asked for or as there are before the end of the file.
\<close>

definition os_regular_file :: "os_pread \<Rightarrow> int \<Rightarrow> byte list \<Rightarrow> bool" where
  "os_regular_file os fd content \<longleftrightarrow>
     (\<forall>sz off. os fd sz off = Some (bytes_at (unat off) (unat sz) content))"

lemma os_regular_eof_file:
  "os_regular_file os (osf_fd file) content \<Longrightarrow> eof_file (ReadonlyOSFile_Pread os file) content"
  by unfold_locales (simp add: ReadonlyOSFile_Pread_def os_regular_file_def)

lemma os_regular_random_access:
  "os_regular_file os (osf_fd file) content \<Longrightarrow> random_access_file (ReadonlyOSFile_Pread os file) content"
  by (rule eof_file_random_access [OF os_regular_eof_file])

section \<open>\<open>OffsettedRandomAccessFile\<close>\<close>

record OffsettedRandomAccessFile =
  oraf_base :: pread
  oraf_base_offset :: u64

definition OffsettedRandomAccessFile_Pread :: "OffsettedRandomAccessFile \<Rightarrow> pread" where
  "OffsettedRandomAccessFile_Pread f sz off = oraf_base f sz (oraf_base_offset f + off)"

lemma offsetted_raf:
  assumes "random_access_file base content"
    and "unat start \<le> length content" and "length content < 2 ^ 64"
  shows "random_access_file
     (OffsettedRandomAccessFile_Pread \<lparr>oraf_base = base, oraf_base_offset = start\<rparr>)
     (drop (unat start) content)"
proof unfold_locales
  fix off sz :: u64
  assume le: "unat off + unat sz \<le> length (drop (unat start) content)"
  with assms(2,3) have "unat (start + off) = unat start + unat off"
    by (simp add: unat_add_u64)
  moreover from this le assms(2) have "unat (start + off) + unat sz \<le> length content"
    by simp
  ultimately show "OffsettedRandomAccessFile_Pread \<lparr>oraf_base = base, oraf_base_offset = start\<rparr> sz off =
      Ok (Some (bytes_at (unat off) (unat sz) (drop (unat start) content)))"
    using random_access_file.pread_within [OF assms(1)]
    by (simp add: OffsettedRandomAccessFile_Pread_def bytes_at_drop)
qed

section \<open>\<open>StringBufFile\<close>\<close>

record StringBufFile =
  sbf_strbuf :: "byte list"

definition StringBufFile_Pread :: "StringBufFile \<Rightarrow> pread" where
  "StringBufFile_Pread f sz off =
     (let n = length (sbf_strbuf f) in
      if unat off < n
      then let nbytes = min (n - unat off) (unat sz)
           in Ok (Some (take nbytes (drop (unat off) (sbf_strbuf f))))
      else Ok (Some []))"

interpretation string_buf_file: eof_file "StringBufFile_Pread f" "sbf_strbuf f" for f
  by unfold_locales (auto simp: StringBufFile_Pread_def Let_def bytes_at_def min_def)

end
