(* ===== verification/Base64.thy ===== *)
theory Base64
  imports Random_Access
begin

text \<open>
  \<open>Base64Reader\<close> (src/base64.h, src/base64.cc): random access to the bytes that a base64
  stream inside another file decodes to. The decoder of one group of four characters is
  \<open>vtkBase64Utilities::DecodeTriplet\<close>, a library function and a parameter here: it returns
  the number of bytes it decoded and the three output bytes.
\<close>

type_synonym decode_triplet = "byte \<Rightarrow> byte \<Rightarrow> byte \<Rightarrow> byte \<Rightarrow> int \<times> byte \<times> byte \<times> byte"

record Base64Reader =
  b64_base :: pread
  b64_start :: u64

section \<open>Operations\<close>

text \<open>
  \<open>Decode4\<close> fails with -1 unless it gets four characters; its three output bytes are then
  not written.
\<close>

definition Decode4 ::
  "decode_triplet \<Rightarrow> Base64Reader \<Rightarrow> u64 \<Rightarrow> (int \<times> byte list) result" where
  "Decode4 dt rd off =
     bindR (b64_base rd 4 (b64_start rd + off)) (\<lambda>nr.
       case nr of
         Some [in0, in1, in2, in3] \<Rightarrow>
           (case dt in0 in1 in2 in3 of (n, c0, c1, c2) \<Rightarrow> Ok (n, [c0, c1, c2]))
       | _ \<Rightarrow> Ok (-1, []))"

text \<open>
  The loop of \<open>PreadTyped\<close>: \<open>rest\<close> is \<open>end - p\<close> and \<open>acc\<close> the bytes stored so far. The copy
  \<open>memcpy(p, c + skip, n)\<close> must stay inside the array \<open>c\<close> of three bytes.
\<close>

function PreadTyped_loop ::
  "decode_triplet \<Rightarrow> Base64Reader \<Rightarrow> nat \<Rightarrow> u64 \<Rightarrow> nat \<Rightarrow> byte list \<Rightarrow> byte list option result"
where
  "PreadTyped_loop dt rd rest base64_offset skip acc =
     (if rest = 0 then Ok (Some acc)
      else bindR (Decode4 dt rd base64_offset) (\<lambda>(r, c).
        if r = -1 then Ok None
        else if r \<le> int skip then Ok None
        else
          let available = nat (r - int skip);
              n = min available rest
          in if skip + n > 3 then Error Undefined
             else PreadTyped_loop dt rd (rest - n) (base64_offset + 4) 0
                    (acc @ take n (drop skip c))))"
  by pat_completeness auto
termination
  by (relation "measure (\<lambda>(dt, rd, rest, base64_offset, skip, acc). rest)") auto

declare PreadTyped_loop.simps [simp del]

definition PreadTyped :: "decode_triplet \<Rightarrow> Base64Reader \<Rightarrow> pread" where
  "PreadTyped dt rd sz off =
     PreadTyped_loop dt rd (unat sz) (off div 3 * 4) (unat (off mod 3)) []"

definition Base64Reader_Pread :: "decode_triplet \<Rightarrow> Base64Reader \<Rightarrow> pread" where
  "Base64Reader_Pread dt rd sz off = PreadTyped dt rd sz off"

section \<open>Specification: decoding a whole stream\<close>

text \<open>
  What a base64 text decodes to: group by group. A stream is \<^emph>\<open>whole\<close> when every group but
  the last decodes to three bytes and the last one to at least one: what an encoder writes.
\<close>

fun b64_decode :: "decode_triplet \<Rightarrow> byte list \<Rightarrow> byte list" where
  "b64_decode dt (a # b # c # d # cs) =
     (case dt a b c d of (n, c0, c1, c2) \<Rightarrow> take (nat n) [c0, c1, c2] @ b64_decode dt cs)"
| "b64_decode dt cs = []"

fun b64_whole :: "decode_triplet \<Rightarrow> byte list \<Rightarrow> bool" where
  "b64_whole dt [] = True"
| "b64_whole dt (a # b # c # d # cs) =
     (1 \<le> fst (dt a b c d) \<and> fst (dt a b c d) \<le> 3 \<and>
      (cs \<noteq> [] \<longrightarrow> fst (dt a b c d) = 3) \<and> b64_whole dt cs)"
| "b64_whole dt cs = False"

lemma drop_group: "drop (4 + n) (a # b # c # d # cs) = drop n cs"
  by (simp add: eval_nat_numeral)

lemma b64_decode_full_groups:
  "b64_whole dt cs \<Longrightarrow> 4 * k < length cs \<Longrightarrow>
   b64_decode dt (drop (4 * k) cs) = drop (3 * k) (b64_decode dt cs) \<and>
   b64_whole dt (drop (4 * k) cs)"
proof (induction dt cs arbitrary: k rule: b64_whole.induct)
  case (2 dt a b c d cs)
  show ?case
  proof (cases k)
    case (Suc j)
    with "2.prems" have "4 * j < length cs" and "cs \<noteq> []" by auto
    with 2 Suc show ?thesis by (auto simp: drop_group split: prod.splits)
  qed (use 2 in simp)
qed auto

lemma length_b64_decode_le:
  "b64_whole dt cs \<Longrightarrow> 4 * length (b64_decode dt cs) \<le> 3 * length cs"
  by (induction dt cs rule: b64_whole.induct) (auto split: prod.splits)

lemma length_b64_decode_all_full:
  "b64_whole dt cs \<Longrightarrow> length cs mod 4 = 0"
  by (induction dt cs rule: b64_whole.induct) (auto split: prod.splits)

section \<open>Reading agrees with decoding\<close>

lemma Decode4_group:
  assumes "random_access_file (b64_base rd) content"
    and "bytes_at (unat (b64_start rd + off)) 4 content = [a, b, c, d]"
  shows "Decode4 dt rd off = Ok (case dt a b c d of (n, c0, c1, c2) \<Rightarrow> (n, [c0, c1, c2]))"
proof -
  have "length (bytes_at (unat (b64_start rd + off)) 4 content) = 4"
    using assms(2) by simp
  then have "unat (b64_start rd + off) + unat (4 :: u64) \<le> length content" by simp
  from random_access_file.pread_within [OF assms(1) this] assms(2) show ?thesis
    by (simp add: Decode4_def split: prod.splits)
qed

text \<open>The first group of a stream, and where the rest of the stream is.\<close>

lemma stream_group:
  assumes "bytes_at (unat start + unat off) (length (a # b # c # d # cs)) content = a # b # c # d # cs"
    and "unat (start :: u64) + unat (off :: u64) + length (a # b # c # d # cs) \<le> length content"
    and "length content < 2 ^ 64"
  shows "bytes_at (unat (start + off)) 4 content = [a, b, c, d]"
    and "bytes_at (unat start + unat (off + 4)) (length cs) content = cs"
    and "unat (off + 4) = unat off + 4"
proof -
  let ?p = "unat start + unat off"
  have len4: "length (bytes_at ?p 4 content) = 4" using assms(2) by simp
  have "bytes_at ?p 4 content @ bytes_at (?p + 4) (length cs) content = [a, b, c, d] @ cs"
    using assms(1) bytes_at_add [of ?p 4 "length cs" content] by (simp add: eval_nat_numeral)
  with len4 have parts: "bytes_at ?p 4 content = [a, b, c, d]" "bytes_at (?p + 4) (length cs) content = cs"
    using append_eq_append_conv [of "bytes_at ?p 4 content" "[a, b, c, d]"] by auto
  have "unat (start + off) = ?p" using assms(2,3) by (intro unat_add_u64) simp
  with parts(1) show "bytes_at (unat (start + off)) 4 content = [a, b, c, d]" by simp
  show off4: "unat (off + 4) = unat off + 4"
    using assms(2,3) unat_add_u64 [of off 4] by simp
  show "bytes_at (unat start + unat (off + 4)) (length cs) content = cs"
    using parts(2) off4 by (simp add: add.assoc)
qed

text \<open>One turn of the loop takes what is wanted of a group, or what the group has.\<close>

lemma PreadTyped_loop_group:
  assumes "Decode4 dt rd off = Ok (n, [c0, c1, c2])" and "int skip < n" "n \<le> 3" and "rest \<noteq> 0"
  defines "m \<equiv> min (nat (n - int skip)) rest"
  shows "PreadTyped_loop dt rd rest off skip acc =
    PreadTyped_loop dt rd (rest - m) (off + 4) 0 (acc @ take m (drop skip [c0, c1, c2]))"
proof -
  have "\<not> 3 < skip + min (nat (n - int skip)) rest" using assms(2,3) by auto
  then show ?thesis using assms(2-4)
    by (subst PreadTyped_loop.simps) (simp add: assms(1) Let_def m_def)
qed

text \<open>A range of the decoded bytes that lies in the first group, and one that goes on after it.\<close>

lemma group_range:
  assumes "dt a b c d = (n, c0, c1, c2)" "n \<le> 3"
  shows "skip + m \<le> nat n \<Longrightarrow>
      bytes_at skip m (b64_decode dt (a # b # c # d # cs)) = take m (drop skip [c0, c1, c2])"
    and "n = 3 \<Longrightarrow> skip < 3 \<Longrightarrow> 3 - skip \<le> rest \<Longrightarrow>
      bytes_at skip rest (b64_decode dt (a # b # c # d # cs)) =
        take (3 - skip) (drop skip [c0, c1, c2]) @ bytes_at 0 (rest - (3 - skip)) (b64_decode dt cs)"
proof -
  assume "skip + m \<le> nat n"
  then have "take m (drop skip (take (nat n) [c0, c1, c2] @ b64_decode dt cs)) = take m (drop skip [c0, c1, c2])"
    using assms(2) by (intro take_drop_prefix) auto
  then show "bytes_at skip m (b64_decode dt (a # b # c # d # cs)) = take m (drop skip [c0, c1, c2])"
    using assms(1) by (simp add: bytes_at_def)
next
  assume "n = 3" "skip < 3" "3 - skip \<le> rest"
  then show "bytes_at skip rest (b64_decode dt (a # b # c # d # cs)) =
      take (3 - skip) (drop skip [c0, c1, c2]) @ bytes_at 0 (rest - (3 - skip)) (b64_decode dt cs)"
    using assms(1) take_drop_all_prefix [of skip "[c0, c1, c2]" rest "b64_decode dt cs"]
    by (simp add: bytes_at_def numeral_3_eq_3)
qed

lemma PreadTyped_loop_stream:
  assumes "random_access_file (b64_base rd) content"
    and "b64_whole dt cs"
    and "bytes_at (unat (b64_start rd) + unat off) (length cs) content = cs"
    and "unat (b64_start rd) + unat off + length cs \<le> length content"
    and "length content < 2 ^ 64"
    and "skip < 3" and "skip + rest \<le> length (b64_decode dt cs)"
  shows "PreadTyped_loop dt rd rest off skip acc =
           Ok (Some (acc @ bytes_at skip rest (b64_decode dt cs)))"
  using assms(2-7)
proof (induction dt cs arbitrary: rest off skip acc rule: b64_whole.induct)
  case (2 dt a b c d cs)
  obtain n c0 c1 c2 where dt: "dt a b c d = (n, c0, c1, c2)"
    by (cases "dt a b c d")
  note group = stream_group [OF "2.prems"(2,3,4)]
  have dec: "Decode4 dt rd off = Ok (n, [c0, c1, c2])"
    using Decode4_group [OF assms(1) group(1)] dt by simp
  have n: "1 \<le> n" "n \<le> 3" "cs \<noteq> [] \<longrightarrow> n = 3" "b64_whole dt cs"
    using "2.prems"(1) dt by auto
  have whole: "length (b64_decode dt (a # b # c # d # cs)) = nat n + length (b64_decode dt cs)"
    using dt n(2) by simp
  show ?case
  proof (cases "rest = 0")
    case True
    then show ?thesis by (simp add: PreadTyped_loop.simps)
  next
    case False
    have skip: "int skip < n"
      using False whole n(3) "2.prems"(5,6) by (cases "cs = []") auto
    define m where "m = min (nat (n - int skip)) rest"
    have m: "skip + m \<le> nat n" "m \<le> rest"
      using skip by (auto simp: m_def)
    note turn = PreadTyped_loop_group [OF dec skip n(2) False, folded m_def]
    show ?thesis
    proof (cases "rest - m = 0")
      case True
      with m have "m = rest" by simp
      with turn True \<open>m = rest\<close> show ?thesis
        using group_range(1) [where dt = dt, OF dt n(2)] m(1) by (simp add: PreadTyped_loop.simps [of dt rd 0])
    next
      case False
      then have meq: "m = nat n - skip" using skip by (auto simp: m_def)
      have "cs \<noteq> []" using False meq "2.prems"(6) whole n(2) by (auto)
      with n(3) have n3: "n = 3" by simp
      have "PreadTyped_loop dt rd (rest - m) (off + 4) 0 (acc @ take m (drop skip [c0, c1, c2])) =
          Ok (Some ((acc @ take m (drop skip [c0, c1, c2])) @ bytes_at 0 (rest - m) (b64_decode dt cs)))"
        using "2.prems" group n whole m meq n3 False by (intro "2.IH") auto
      then show ?thesis
        using turn group_range(2) [where dt = dt, OF dt n(2) n3, of skip rest] meq n3 m "2.prems"(5) by simp
    qed
  qed
qed (auto simp: PreadTyped_loop.simps)

text \<open>
  The reader over a base file that holds a whole stream of characters \<open>cs\<close> at \<open>start\<close> is a
  random access file whose content is what the stream decodes to, wherever in a group the read
  begins or ends, and whatever follows the stream in the base file.
\<close>

definition b64_stream_at ::
  "decode_triplet \<Rightarrow> u64 \<Rightarrow> byte list \<Rightarrow> byte list \<Rightarrow> bool" where
  "b64_stream_at dt start content cs \<longleftrightarrow>
     b64_whole dt cs \<and> bytes_at (unat start) (length cs) content = cs \<and>
     unat start + length cs \<le> length content \<and> length content < 2 ^ 64"

lemma Base64Reader_raf:
  assumes "random_access_file (b64_base rd) content"
    and "b64_stream_at dt (b64_start rd) content cs"
  shows "random_access_file (Base64Reader_Pread dt rd) (b64_decode dt cs)"
proof unfold_locales
  fix off sz :: u64
  assume le: "unat off + unat sz \<le> length (b64_decode dt cs)"
  have cs: "b64_whole dt cs" "bytes_at (unat (b64_start rd)) (length cs) content = cs"
    "unat (b64_start rd) + length cs \<le> length content" "length content < 2 ^ 64"
    using assms(2) by (simp_all add: b64_stream_at_def)
  show "Base64Reader_Pread dt rd sz off =
      Ok (Some (bytes_at (unat off) (unat sz) (b64_decode dt cs)))"
  proof (cases "unat sz = 0")
    case True
    then show ?thesis
      by (simp add: Base64Reader_Pread_def PreadTyped_def PreadTyped_loop.simps)
  next
    case False
    define k where "k = unat off div 3"
    have off: "unat off = 3 * k + unat (off mod 3)" "unat (off mod 3) < 3"
      by (simp_all add: k_def unat_mod)
    have k: "4 * k < length cs"
      using le False off length_b64_decode_le [OF cs(1)] by linarith
    have boff: "unat (off div 3 * 4) = 4 * k"
      using k cs(3,4) by (simp add: k_def unat_word_ariths unat_div mult.commute)
    have suffix: "b64_decode dt (drop (4 * k) cs) = drop (3 * k) (b64_decode dt cs)"
      "b64_whole dt (drop (4 * k) cs)"
      using b64_decode_full_groups [OF cs(1) k] by simp_all
    have "bytes_at (unat (b64_start rd) + 4 * k) (length (drop (4 * k) cs)) content =
        drop (4 * k) (bytes_at (unat (b64_start rd)) (length cs) content)"
      by (simp add: bytes_at_def drop_take add.commute)
    then have "PreadTyped_loop dt rd (unat sz) (off div 3 * 4) (unat (off mod 3)) [] =
        Ok (Some ([] @ bytes_at (unat (off mod 3)) (unat sz) (b64_decode dt (drop (4 * k) cs))))"
      using cs k le off boff suffix
      by (intro PreadTyped_loop_stream [OF assms(1) suffix(2)]) auto
    with off(1) show ?thesis
      by (simp add: Base64Reader_Pread_def PreadTyped_def suffix bytes_at_drop)
  qed
qed

lemma PreadTyped_loop_no_data:
  assumes "Decode4 dt rd off = Ok (n, c)" and "n \<le> int skip" and "rest \<noteq> 0"
  shows "PreadTyped_loop dt rd rest off skip acc = Ok None"
  using assms by (subst PreadTyped_loop.simps) simp

section \<open>Properties\<close>

text \<open>
  C7: Over a file that holds a whole base64 stream, the reader gives, for every range inside the
  decoded data, exactly the bytes of the range: wherever in a group of four characters it begins or
  ends, and whatever follows the stream in the file.
\<close>

theorem base64_reads_decoded:
  assumes "random_access_file (b64_base rd) content" and "b64_stream_at dt (b64_start rd) content cs"
    and "unat off + unat sz \<le> length (b64_decode dt cs)"
  shows "Base64Reader_Pread dt rd sz off = Ok (Some (bytes_at (unat off) (unat sz) (b64_decode dt cs)))"
  by (rule random_access_file.pread_within [OF Base64Reader_raf [OF assms(1,2)] assms(3)])

theorem base64_reads_decoded_witness:
  "Base64Reader_Pread (\<lambda>a b c d. (if d = 61 then 2 else 3, a, b, c))
     \<lparr>b64_base = \<lambda>sz off. Ok (Some (bytes_at (unat off) (unat sz) [9, 1, 2, 3, 0, 4, 5, 0, 61, 7])),
      b64_start = 1\<rparr> 3 1 = Ok (Some [2, 3, 4])"
proof -
  have "eof_file (\<lambda>sz off. Ok (Some (bytes_at (unat off) (unat sz) [9, 1, 2, 3, 0, 4, 5, 0, 61, 7 :: byte])))
      [9, 1, 2, 3, 0, 4, 5, 0, 61, 7]"
    by unfold_locales simp
  from base64_reads_decoded [of "\<lparr>b64_base = \<lambda>sz off. Ok (Some (bytes_at (unat off) (unat sz)
        [9, 1, 2, 3, 0, 4, 5, 0, 61, 7])), b64_start = 1\<rparr>", OF _ _, of _
        "\<lambda>a b c d. (if d = 61 then 2 else 3, a, b, c)" "[1, 2, 3, 0, 4, 5, 0, 61]" 1 3]
    eof_file_random_access [OF this]
  show ?thesis by (simp add: b64_stream_at_def bytes_at_def)
qed

lemma Decode4_returns:
  assumes "\<forall>a b c d. fst (dt a b c d) \<le> 3" and "\<forall>sz off. \<exists>r. b64_base rd sz off = Ok r"
  shows "\<exists>n c. Decode4 dt rd off = Ok (n, c) \<and> n \<le> 3 \<and> (n = -1 \<or> length c = 3)"
proof -
  obtain r where r: "b64_base rd 4 (b64_start rd + off) = Ok r" using assms(2) by blast
  show ?thesis
  proof (cases "\<exists>a b c d. r = Some [a, b, c, d]")
    case True
    then obtain a b c d where "r = Some [a, b, c, d]" by blast
    then show ?thesis
      using r assms(1) [rule_format, of a b c d] by (auto simp: Decode4_def split: prod.split)
  next
    case False
    then have "Decode4 dt rd off = Ok (-1, [])"
      using r by (auto simp: Decode4_def split: option.split list.split)
    then show ?thesis by simp
  qed
qed

lemma PreadTyped_loop_all_or_nothing:
  assumes "\<forall>a b c d. fst (dt a b c d) \<le> 3" and "\<forall>sz off. \<exists>r. b64_base rd sz off = Ok r"
  shows "skip < 3 \<Longrightarrow> PreadTyped_loop dt rd rest off skip acc = Ok None \<or>
    (\<exists>bs. PreadTyped_loop dt rd rest off skip acc = Ok (Some (acc @ bs)) \<and> length bs = rest)"
proof (induction rest arbitrary: off skip acc rule: less_induct)
  case (less rest)
  obtain r c where dec: "Decode4 dt rd off = Ok (r, c)" and r: "r \<le> 3" "r = -1 \<or> length c = 3"
    using Decode4_returns [OF assms, of off] by blast
  show ?case
  proof (cases "rest = 0 \<or> r = -1 \<or> r \<le> int skip")
    case True
    then show ?thesis using dec by (subst (1 2) PreadTyped_loop.simps) auto
  next
    case False
    define n where "n = min (nat (r - int skip)) rest"
    have n: "0 < n" "n \<le> rest" "skip + n \<le> 3"
      using False r(1) by (auto simp: n_def)
    have step: "PreadTyped_loop dt rd rest off skip acc =
        PreadTyped_loop dt rd (rest - n) (off + 4) 0 (acc @ take n (drop skip c))"
      using False dec n(3) by (subst PreadTyped_loop.simps) (simp add: Let_def n_def [symmetric])
    have len: "length (take n (drop skip c)) = n" using r(2) False n(3) by simp
    have "rest - n < rest" using n(1,2) by simp
    from less.IH [OF this, of 0 "off + 4" "acc @ take n (drop skip c)"]
    consider "PreadTyped_loop dt rd rest off skip acc = Ok None"
      | bs where "PreadTyped_loop dt rd rest off skip acc = Ok (Some (acc @ take n (drop skip c) @ bs))"
          "length bs = rest - n"
      unfolding step by auto
    then show ?thesis
    proof cases
      case 2
      then have "length (take n (drop skip c) @ bs) = rest" using len n(2) by simp
      with 2(1) show ?thesis by blast
    qed simp
  qed
qed

text \<open>
  C26: The reader never reads short: over a base file whose reads return, and with a decoder that
  gives at most three bytes for a group, every read fails with -1 or delivers as many bytes as were
  asked for, and what it copies from its three-byte buffer never reaches beyond the end of the buffer.
\<close>

theorem base64_all_or_nothing:
  assumes "\<forall>a b c d. fst (dt a b c d) \<le> 3" and "\<forall>sz off. \<exists>r. b64_base rd sz off = Ok r"
  shows "Base64Reader_Pread dt rd sz off = Ok None \<or>
    (\<exists>bs. Base64Reader_Pread dt rd sz off = Ok (Some bs) \<and> length bs = unat sz)"
  using PreadTyped_loop_all_or_nothing [OF assms, of "unat (off mod 3)" "unat sz" "off div 3 * 4" "[]"]
  by (simp add: Base64Reader_Pread_def PreadTyped_def unat_mod)

theorem base64_all_or_nothing_witness:
  "Base64Reader_Pread (\<lambda>a b c d. (3, a, b, c))
     \<lparr>b64_base = \<lambda>sz off. Ok (Some (bytes_at (unat off) (unat sz) [1, 2, 3])), b64_start = 0\<rparr> 3 0 = Ok None \<and>
   (Base64Reader_Pread (\<lambda>a b c d. (3, a, b, c))
     \<lparr>b64_base = \<lambda>sz off. Ok (Some (bytes_at (unat off) (unat sz) [1, 2, 3])), b64_start = 0\<rparr> 3 0 = Ok None \<or>
    (\<exists>bs. Base64Reader_Pread (\<lambda>a b c d. (3, a, b, c))
     \<lparr>b64_base = \<lambda>sz off. Ok (Some (bytes_at (unat off) (unat sz) [1, 2, 3])), b64_start = 0\<rparr> 3 0 = Ok (Some bs) \<and>
       length bs = unat (3 :: u64)))"
proof
  show "Base64Reader_Pread (\<lambda>a b c d. (3, a, b, c))
     \<lparr>b64_base = \<lambda>sz off. Ok (Some (bytes_at (unat off) (unat sz) [1, 2, 3])), b64_start = 0\<rparr> 3 0 = Ok None"
    by (simp add: Base64Reader_Pread_def PreadTyped_def PreadTyped_loop.simps Decode4_def bytes_at_def)
qed (rule base64_all_or_nothing; simp)

end
