(* ===== verification/File_Map.thy ===== *)
theory File_Map
  imports Base64
begin

text \<open>
  Address maps of virtual files (classes \<open>FileMap\<close> and \<open>MapBuilder\<close> of src/fmap.h,
  src/fmap.cc). A virtual file is a row of regions; the bytes of a region are either in the
  map's own buffer or in the VTK file, raw or base64-encoded. The builder appends regions, the
  map reads across them.
\<close>

section \<open>\<open>MapBuilder\<close>\<close>

record MapBuilder =
  mb_pending_base64_decoding :: bool
  mb_data_start :: u64
  mb_bytes_written :: u64
  mb_offsets :: "u64 list"
  mb_underlying_offsets :: "int list"
  mb_direct_buf :: "byte list"

definition MapBuilder_new :: "bool \<Rightarrow> u64 \<Rightarrow> MapBuilder" where
  "MapBuilder_new pending_base64_decoding data_start =
     \<lparr>mb_pending_base64_decoding = pending_base64_decoding, mb_data_start = data_start,
      mb_bytes_written = 0, mb_offsets = [], mb_underlying_offsets = [], mb_direct_buf = []\<rparr>"

definition AddDirect :: "byte list \<Rightarrow> MapBuilder \<Rightarrow> MapBuilder" where
  "AddDirect buf b =
     (let underlying_offset = int (length (mb_direct_buf b)) in
      b\<lparr>mb_offsets := mb_offsets b @ [mb_bytes_written b],
        mb_direct_buf := mb_direct_buf b @ buf,
        mb_underlying_offsets := mb_underlying_offsets b @ [- underlying_offset],
        mb_bytes_written := mb_bytes_written b + word_of_nat (length buf)\<rparr>)"

text \<open>
  \<open>1 + int64_t(offset)\<close> is an integer without bounds: only for an offset of \<open>2 ^ 63 - 1\<close>, which is beyond
  the end of any file, would the sum leave the range of \<open>int64_t\<close>.
\<close>

definition AddMappedRegion :: "u64 \<Rightarrow> u64 \<Rightarrow> MapBuilder \<Rightarrow> MapBuilder" where
  "AddMappedRegion off sz b =
     b\<lparr>mb_offsets := mb_offsets b @ [mb_bytes_written b],
       mb_underlying_offsets := mb_underlying_offsets b @ [1 + sint off],
       mb_bytes_written := mb_bytes_written b + sz\<rparr>"

section \<open>\<open>FileMap\<close>\<close>

record FileMap =
  fm_pending_base64_decoding :: bool
  fm_data_start :: u64
  fm_offsets :: "u64 list"
  fm_underlying_offsets :: "int list"
  fm_direct_buf :: "byte list"
  fm_n :: u64

definition FileMap_new ::
  "bool \<Rightarrow> u64 \<Rightarrow> u64 list \<Rightarrow> int list \<Rightarrow> byte list \<Rightarrow> FileMap" where
  "FileMap_new pending_base64_decoding data_start offsets underlying_offsets direct_buf =
     \<lparr>fm_pending_base64_decoding = pending_base64_decoding, fm_data_start = data_start,
      fm_offsets = offsets, fm_underlying_offsets = underlying_offsets,
      fm_direct_buf = direct_buf, fm_n = word_of_nat (length offsets) - 1\<rparr>"

definition Finish :: "MapBuilder \<Rightarrow> FileMap" where
  "Finish b =
     FileMap_new (mb_pending_base64_decoding b) (mb_data_start b)
       (mb_offsets b @ [mb_bytes_written b]) (mb_underlying_offsets b) (mb_direct_buf b)"

text \<open>
  \<open>FileMap::Read\<close>: a read inside one region. Positive offsets are positions of the encoded or
  raw array, plus one; other offsets are negated positions in the direct buffer.
\<close>

definition FileMap_Read ::
  "decode_triplet \<Rightarrow> FileMap \<Rightarrow> pread \<Rightarrow> u64 \<Rightarrow> u64 \<Rightarrow> u64 \<Rightarrow> byte list option result" where
  "FileMap_Read dt m base region_id region_offset sz =
     bindR (vec_at (fm_underlying_offsets m) (unat region_id)) (\<lambda>u.
       if 0 < u then
         if fm_pending_base64_decoding m
         then Base64Reader_Pread dt \<lparr>b64_base = base, b64_start = fm_data_start m\<rparr> sz
                (word_of_int (u - 1) + region_offset)
         else base sz (fm_data_start m + word_of_int u - 1 + region_offset)
       else
         let pos = word_of_int (- u) + region_offset
         in if unat pos + unat sz \<le> length (fm_direct_buf m)
            then Ok (Some (bytes_at (unat pos) (unat sz) (fm_direct_buf m)))
            else Error Undefined)"

text \<open>\<open>std::upper_bound\<close> on a sorted vector: the index of the first element greater than the key.\<close>

definition upper_bound :: "u64 list \<Rightarrow> u64 \<Rightarrow> nat" where
  "upper_bound xs key = length (takeWhile (\<lambda>x. x \<le> key) xs)"

text \<open>
  The loop of \<open>FileMap::Pread\<close>. A read that makes no progress leaves all its variables as they
  are, and then the loop never ends: \<open>None\<close> means that the call does not return.
\<close>

partial_function (option) FileMap_Pread_loop ::
  "decode_triplet \<Rightarrow> FileMap \<Rightarrow> pread \<Rightarrow> u64 \<Rightarrow> u64 \<Rightarrow> u64 \<Rightarrow> byte list \<Rightarrow>
   byte list option result option"
where
  "FileMap_Pread_loop dt m base sz off i acc =
     (if sz = 0 then Some (Ok (Some acc))
      else case vec_at (fm_offsets m) (unat (fm_n m)) of
        Error e \<Rightarrow> Some (Error e)
      | Ok eof \<Rightarrow>
          if \<not> off < eof then Some (Ok (Some acc))
          else case bindR (vec_at (fm_offsets m) (unat (i + 1))) (\<lambda>next.
                    bindR (vec_at (fm_offsets m) (unat i)) (\<lambda>cur.
                    bindR (FileMap_Read dt m base i (off - cur) (min sz (next - off))) (\<lambda>nr.
                    Ok (next, nr)))) of
            Error e \<Rightarrow> Some (Error e)
          | Ok (next, None) \<Rightarrow> Some (Ok None)
          | Ok (next, Some bs) \<Rightarrow>
              (let nr = word_of_nat (length bs) in
               FileMap_Pread_loop dt m base (sz - nr) (off + nr)
                 (if next \<le> off + nr then i + 1 else i) (acc @ bs)))"

definition FileMap_Pread ::
  "decode_triplet \<Rightarrow> FileMap \<Rightarrow> pread \<Rightarrow> u64 \<Rightarrow> u64 \<Rightarrow> byte list option result option" where
  "FileMap_Pread dt m base sz off =
     (let j = word_of_nat (upper_bound (fm_offsets m) off)
      in FileMap_Pread_loop dt m base sz off (j - 1) [])"

definition file_size :: "FileMap \<Rightarrow> u64 result" where
  "file_size m = vec_at (fm_offsets m) (unat (fm_n m))"

section \<open>Specification: rows of regions\<close>

datatype region = Direct "byte list" | Mapped u64 u64

fun region_size :: "region \<Rightarrow> nat" where
  "region_size (Direct bs) = length bs"
| "region_size (Mapped off sz) = unat sz"

definition regions_size :: "region list \<Rightarrow> nat" where
  "regions_size rs = sum_list (map region_size rs)"

fun direct_bytes :: "region \<Rightarrow> byte list" where
  "direct_bytes (Direct bs) = bs"
| "direct_bytes (Mapped off sz) = []"

text \<open>The bytes of a region, where \<open>data\<close> are the bytes of the array, decoded if need be.\<close>

fun region_content :: "byte list \<Rightarrow> region \<Rightarrow> byte list" where
  "region_content data (Direct bs) = bs"
| "region_content data (Mapped off sz) = bytes_at (unat off) (unat sz) data"

definition regions_content :: "byte list \<Rightarrow> region list \<Rightarrow> byte list" where
  "regions_content data rs = concat (map (region_content data) rs)"

fun region_inside :: "byte list \<Rightarrow> region \<Rightarrow> bool" where
  "region_inside data (Direct bs) = True"
| "region_inside data (Mapped off sz) = (unat off + unat sz \<le> length data)"

lemma regions_size_simps [simp]:
  "regions_size [] = 0"
  "regions_size (r # rs) = region_size r + regions_size rs"
  "regions_size (rs @ rs') = regions_size rs + regions_size rs'"
  by (simp_all add: regions_size_def)

lemma regions_content_simps [simp]:
  "regions_content data [] = []"
  "regions_content data (r # rs) = region_content data r @ regions_content data rs"
  "regions_content data (rs @ rs') = regions_content data rs @ regions_content data rs'"
  by (simp_all add: regions_content_def)

lemma length_region_content: "region_inside data r \<Longrightarrow> length (region_content data r) = region_size r"
  by (cases r) auto

lemma length_regions_content:
  "list_all (region_inside data) rs \<Longrightarrow> length (regions_content data rs) = regions_size rs"
  by (induction rs) (auto simp: length_region_content)

lemma regions_size_take_Suc:
  "i < length rs \<Longrightarrow> regions_size (take (Suc i) rs) = regions_size (take i rs) + region_size (rs ! i)"
  by (simp add: take_Suc_conv_app_nth)

lemma regions_size_take_le: "regions_size (take i rs) \<le> regions_size rs"
proof -
  have "regions_size rs = regions_size (take i rs @ drop i rs)" by simp
  then show ?thesis by (simp only: regions_size_simps)
qed

section \<open>The builder represents a row of regions\<close>

text \<open>The abstraction relation between builders and rows of regions.\<close>

definition region_address :: "region list \<Rightarrow> nat \<Rightarrow> int" where
  "region_address rs i =
     (case rs ! i of
        Direct bs \<Rightarrow> - int (length (concat (map direct_bytes (take i rs))))
      | Mapped off sz \<Rightarrow> 1 + sint off)"

lemma region_address_append [simp]:
  "i < length rs \<Longrightarrow> region_address (rs @ rs') i = region_address rs i"
  "region_address (rs @ Direct bs # rs') (length rs) = - int (length (concat (map direct_bytes rs)))"
  "region_address (rs @ Mapped off sz # rs') (length rs) = 1 + sint off"
  by (simp_all add: region_address_def nth_append split: region.split)

definition builds :: "MapBuilder \<Rightarrow> region list \<Rightarrow> bool" where
  "builds b rs \<longleftrightarrow>
     mb_bytes_written b = word_of_nat (regions_size rs) \<and>
     mb_offsets b = map (\<lambda>i. word_of_nat (regions_size (take i rs))) [0..<length rs] \<and>
     mb_direct_buf b = concat (map direct_bytes rs) \<and>
     mb_underlying_offsets b =
       map (region_address rs) [0..<length rs]"

lemma builds_new: "builds (MapBuilder_new p d) []"
  by (simp add: builds_def MapBuilder_new_def)

lemma upt_length_snoc: "[0..<length (xs @ [x])] = [0..<length xs] @ [length xs]"
  by simp

lemma builds_AddDirect: "builds b rs \<Longrightarrow> builds (AddDirect bs b) (rs @ [Direct bs])"
  unfolding builds_def AddDirect_def upt_length_snoc
  by (auto simp: Let_def nth_append)

lemma builds_AddMappedRegion:
  "builds b rs \<Longrightarrow> builds (AddMappedRegion off sz b) (rs @ [Mapped off sz])"
  unfolding builds_def AddMappedRegion_def upt_length_snoc
  by (auto simp: nth_append)

text \<open>The encoding and the start of the array data are fixed when the builder is made.\<close>

lemma builder_frame [simp]:
  "mb_pending_base64_decoding (AddDirect bs b) = mb_pending_base64_decoding b"
  "mb_data_start (AddDirect bs b) = mb_data_start b"
  "mb_pending_base64_decoding (AddMappedRegion off sz b) = mb_pending_base64_decoding b"
  "mb_data_start (AddMappedRegion off sz b) = mb_data_start b"
  "mb_pending_base64_decoding (MapBuilder_new p d) = p"
  "mb_data_start (MapBuilder_new p d) = d"
  by (simp_all add: AddDirect_def AddMappedRegion_def MapBuilder_new_def Let_def)

text \<open>The map that \<open>Finish\<close> makes of a row of regions.\<close>

definition maps_regions :: "FileMap \<Rightarrow> region list \<Rightarrow> bool" where
  "maps_regions m rs \<longleftrightarrow>
     fm_offsets m = map (\<lambda>i. word_of_nat (regions_size (take i rs))) [0..<Suc (length rs)] \<and>
     fm_n m = word_of_nat (length rs) \<and>
     fm_direct_buf m = concat (map direct_bytes rs) \<and>
     fm_underlying_offsets m =
       map (region_address rs) [0..<length rs]"

lemma maps_regions_Finish: "builds b rs \<Longrightarrow> maps_regions (Finish b) rs"
  by (simp add: builds_def maps_regions_def Finish_def FileMap_new_def)

section \<open>Reading one region\<close>

text \<open>
  The array data that a map reads its mapped regions from: the base64 stream at \<open>data_start_\<close>
  decoded, or the file from \<open>data_start_\<close> on.
\<close>

definition data_view :: "decode_triplet \<Rightarrow> FileMap \<Rightarrow> pread \<Rightarrow> pread" where
  "data_view dt m base =
     (if fm_pending_base64_decoding m
      then Base64Reader_Pread dt \<lparr>b64_base = base, b64_start = fm_data_start m\<rparr>
      else OffsettedRandomAccessFile_Pread \<lparr>oraf_base = base, oraf_base_offset = fm_data_start m\<rparr>)"

lemma FileMap_Read_mapped:
  assumes "vec_at (fm_underlying_offsets m) (unat i) = Ok u" and "0 < u"
  shows "FileMap_Read dt m base i region_offset sz =
         data_view dt m base sz (word_of_int (u - 1) + region_offset)"
  using assms
  by (simp add: FileMap_Read_def data_view_def OffsettedRandomAccessFile_Pread_def algebra_simps)

text \<open>What a row of regions must satisfy for its map: it fits the address space, and the mapped
  regions lie inside the array data.\<close>

definition regions_ok :: "byte list \<Rightarrow> region list \<Rightarrow> bool" where
  "regions_ok data rs \<longleftrightarrow>
     list_all (region_inside data) rs \<and> length data < 2 ^ 63 \<and>
     regions_size rs < 2 ^ 64 \<and> length rs < 2 ^ 60"

lemma sint_of_small_u64: "unat (w :: u64) < 2 ^ 63 \<Longrightarrow> sint w = int (unat w)"
proof -
  assume "unat w < 2 ^ 63"
  then have "int (unat w) < int (2 ^ 63)" by (simp only: of_nat_less_iff)
  then have "uint w < 2 ^ 63" by (simp only: uint_nat of_nat_power of_nat_numeral)
  then have "signed_take_bit 63 (uint w) = uint w"
    by (intro signed_take_bit_int_eq_self) (auto intro: order_trans [OF _ uint_ge_0])
  then show ?thesis by (simp add: sint_uint)
qed

lemma direct_bytes_position:
  assumes "i < length rs" and "rs ! i = Direct bs"
  defines "p \<equiv> length (concat (map direct_bytes (take i rs)))"
  shows "bytes_at p (length bs) (concat (map direct_bytes rs)) = bs"
    and "p + length bs \<le> length (concat (map direct_bytes rs))"
proof -
  have rs: "rs = take i rs @ Direct bs # drop (Suc i) rs"
    using assms(1,2) id_take_nth_drop [of i rs] by simp
  have eq: "concat (map direct_bytes rs) =
      concat (map direct_bytes (take i rs)) @ bs @ concat (map direct_bytes (drop (Suc i) rs))"
    by (subst rs) simp
  show "bytes_at p (length bs) (concat (map direct_bytes rs)) = bs"
    unfolding eq p_def by (simp add: bytes_at_def)
  show "p + length bs \<le> length (concat (map direct_bytes rs))"
    unfolding eq p_def by simp
qed

lemma length_direct_bytes_le: "length (concat (map direct_bytes rs)) \<le> regions_size rs"
proof (induction rs)
  case (Cons r rs)
  then show ?case by (cases r) auto
qed simp

lemma FileMap_Read_region:
  assumes "maps_regions m rs" and "regions_ok data rs"
    and view: "random_access_file (data_view dt m base) data"
    and "i < length rs" and le: "k + n \<le> region_size (rs ! i)"
  shows "FileMap_Read dt m base (word_of_nat i) (word_of_nat k) (word_of_nat n) =
         Ok (Some (bytes_at k n (region_content data (rs ! i))))"
proof -
  have ok: "list_all (region_inside data) rs" "length data < 2 ^ 63" "regions_size rs < 2 ^ 64"
    "length rs < 2 ^ 60"
    using assms(2) by (simp_all add: regions_ok_def)
  have i: "unat (word_of_nat i :: u64) = i"
    using assms(4) ok(4) by (intro unat_of_nat_u64) simp
  have addr: "vec_at (fm_underlying_offsets m) (unat (word_of_nat i :: u64)) = Ok (region_address rs i)"
    using assms(1,4) i by (simp add: maps_regions_def)
  have "region_size (rs ! i) \<le> regions_size rs"
    using regions_size_take_Suc [OF assms(4)] regions_size_take_le [of "Suc i" rs] by simp
  with le ok(3) have kn: "unat (word_of_nat k :: u64) = k" "unat (word_of_nat n :: u64) = n"
    by (simp_all add: unat_of_nat_u64)
  show ?thesis
  proof (cases "rs ! i")
    case (Mapped off sz)
    then have inside: "unat off + unat sz \<le> length data"
      using ok(1) assms(4) by (auto simp: list_all_length)
    then have u: "region_address rs i = 1 + int (unat off)"
      using Mapped ok(2) by (simp add: region_address_def sint_of_small_u64)
    have pos_u: "0 < region_address rs i" unfolding u by linarith
    have pos: "unat (word_of_int (1 + int (unat off) - 1) + word_of_nat k :: u64) = unat off + k"
      using le Mapped inside ok(2) kn by (subst unat_add_u64) auto
    show ?thesis
      using random_access_file.pread_within [OF view, of "word_of_int (1 + int (unat off) - 1) + word_of_nat k" "word_of_nat n"]
        FileMap_Read_mapped [OF addr pos_u] u pos le Mapped inside kn
      by (simp add: bytes_at_bytes_at)
  next
    case (Direct bs)
    let ?p = "length (concat (map direct_bytes (take i rs)))"
    have u: "region_address rs i = - int ?p"
      using Direct by (simp add: region_address_def)
    have p: "bytes_at ?p (length bs) (fm_direct_buf m) = bs" "?p + length bs \<le> length (fm_direct_buf m)"
      using direct_bytes_position [OF assms(4) Direct] assms(1) by (simp_all add: maps_regions_def)
    have "length (fm_direct_buf m) < 2 ^ 64"
      using assms(1) ok(3) length_direct_bytes_le [of rs] by (simp add: maps_regions_def)
    with p(2) le Direct kn have pos: "unat (word_of_int (int ?p) + word_of_nat k :: u64) = ?p + k"
      by (subst unat_add_u64) (auto simp: unat_of_nat_u64)
    have "bytes_at (?p + k) n (fm_direct_buf m) = bytes_at k n bs"
      using bytes_at_bytes_at [of k n "length bs" ?p "fm_direct_buf m"] p(1) le Direct by simp
    with addr u pos p(2) le Direct kn show ?thesis
      by (simp add: FileMap_Read_def Let_def)
  qed
qed

section \<open>Reading across regions\<close>

lemma upper_bound_position:
  assumes "xs \<noteq> []" and "hd xs \<le> key" and "\<not> last xs \<le> key"
  obtains j where "upper_bound xs key = Suc j" and "Suc j < length xs"
    and "xs ! j \<le> key" and "key < xs ! Suc j"
proof -
  let ?n = "upper_bound xs key"
  have "?n \<le> length xs" by (simp add: upper_bound_def length_takeWhile_le)
  moreover have "?n \<noteq> length xs"
  proof
    assume "?n = length xs"
    then have "takeWhile (\<lambda>x. x \<le> key) xs = xs"
      by (metis order_refl take_all_iff takeWhile_eq_take upper_bound_def)
    then have "last xs \<le> key"
      using assms(1) by (metis last_in_set set_takeWhileD)
    with assms(3) show False ..
  qed
  ultimately have lt: "?n < length xs" by simp
  have "0 < ?n" using assms(1,2) by (cases xs) (auto simp: upper_bound_def)
  then obtain j where j: "?n = Suc j" by (cases ?n) auto
  have "xs ! j = takeWhile (\<lambda>x. x \<le> key) xs ! j"
    using j by (simp add: upper_bound_def takeWhile_nth)
  then have "xs ! j \<le> key"
    using j by (metis lessI nth_mem set_takeWhileD upper_bound_def)
  moreover have "\<not> xs ! Suc j \<le> key"
    using lt j nth_length_takeWhile [of "\<lambda>x. x \<le> key" xs] by (simp add: upper_bound_def)
  ultimately show ?thesis using that j lt by (simp add: not_le)
qed

lemma regions_content_drop:
  "i < length rs \<Longrightarrow> regions_content data (drop i rs) =
     region_content data (rs ! i) @ regions_content data (drop (Suc i) rs)"
  by (simp add: Cons_nth_drop_Suc [symmetric])

lemma bytes_at_content_skip:
  assumes "list_all (region_inside data) rs"
  shows "bytes_at (regions_size (take i rs) + k) n (regions_content data rs) =
         bytes_at k n (regions_content data (drop i rs))"
proof -
  have split: "regions_content data rs = regions_content data (take i rs) @ regions_content data (drop i rs)"
    by (metis append_take_drop_id regions_content_simps(3))
  have "length (regions_content data (take i rs)) = regions_size (take i rs)"
    using assms by (intro length_regions_content) (auto simp: list_all_iff dest: in_set_takeD)
  then show ?thesis by (simp add: split bytes_at_append_right)
qed

text \<open>The offsets table of a map, as numbers.\<close>

lemma map_offsets:
  assumes "maps_regions m rs" and "regions_ok data rs" and "i \<le> length rs"
  shows "vec_at (fm_offsets m) i = Ok (word_of_nat (regions_size (take i rs)))"
    and "unat (word_of_nat (regions_size (take i rs)) :: u64) = regions_size (take i rs)"
proof -
  show "vec_at (fm_offsets m) i = Ok (word_of_nat (regions_size (take i rs)))"
    using assms(1,3) by (simp add: maps_regions_def nth_append del: upt_Suc)
  show "unat (word_of_nat (regions_size (take i rs)) :: u64) = regions_size (take i rs)"
    using assms(2) regions_size_take_le [of i rs]
    by (intro unat_of_nat_u64) (simp add: regions_ok_def)
qed

lemma map_n:
  assumes "maps_regions m rs" and "regions_ok data rs"
  shows "unat (fm_n m) = length rs"
  using assms by (simp add: maps_regions_def regions_ok_def unat_of_nat_u64)

lemma file_size_map:
  assumes "maps_regions m rs" and "regions_ok data rs"
  shows "file_size m = Ok (word_of_nat (regions_size rs))"
  using map_offsets [OF assms, of "length rs"] map_n [OF assms] by (simp add: file_size_def)

text \<open>The numbers that the loop computes with at byte \<open>k\<close> of region \<open>i\<close>.\<close>

lemma loop_position:
  assumes "maps_regions m rs" and "regions_ok data rs" and "i < length rs" and "k \<le> region_size (rs ! i)"
  defines "s \<equiv> regions_size (take i rs)"
  shows "s + region_size (rs ! i) \<le> regions_size rs"
    and "unat (word_of_nat (s + k) :: u64) = s + k"
    and "vec_at (fm_offsets m) i = Ok (word_of_nat s)"
    and "vec_at (fm_offsets m) (Suc i) = Ok (word_of_nat (s + region_size (rs ! i)))"
    and "unat (word_of_nat (s + region_size (rs ! i)) :: u64) = s + region_size (rs ! i)"
    and "unat (word_of_nat i :: u64) = i" "unat (word_of_nat i + 1 :: u64) = Suc i"
    and "length (region_content data (rs ! i)) = region_size (rs ! i)"
proof -
  have ok: "list_all (region_inside data) rs" "regions_size rs < 2 ^ 64" "length rs < 2 ^ 60"
    using assms(2) by (simp_all add: regions_ok_def)
  have s': "regions_size (take (Suc i) rs) = s + region_size (rs ! i)"
    unfolding s_def using assms(3) by (rule regions_size_take_Suc)
  show le: "s + region_size (rs ! i) \<le> regions_size rs"
    using regions_size_take_le [of "Suc i" rs] s' by simp
  show "unat (word_of_nat (s + k) :: u64) = s + k"
    using assms(4) le ok(2) by (intro unat_of_nat_u64) simp
  show "vec_at (fm_offsets m) i = Ok (word_of_nat s)"
    using map_offsets(1) [OF assms(1,2), of i] assms(3) by (simp add: s_def)
  show "vec_at (fm_offsets m) (Suc i) = Ok (word_of_nat (s + region_size (rs ! i)))"
    "unat (word_of_nat (s + region_size (rs ! i)) :: u64) = s + region_size (rs ! i)"
    using map_offsets [OF assms(1,2), of "Suc i"] assms(3) s' by simp_all
  show "unat (word_of_nat i :: u64) = i" "unat (word_of_nat i + 1 :: u64) = Suc i"
    using assms(3) ok(3) unat_of_nat_u64 [of i] unat_of_nat_u64 [of "Suc i"] by (simp_all add: add.commute)
  show "length (region_content data (rs ! i)) = region_size (rs ! i)"
    using ok(1) assms(3) by (intro length_region_content) (simp add: list_all_length)
qed

text \<open>The loop stops when nothing more is wanted, or at the end of the last region.\<close>

lemma FileMap_Pread_loop_stop:
  assumes "maps_regions m rs" and "regions_ok data rs" and "n < 2 ^ 64"
    and "n = 0 \<or> regions_size rs \<le> unat off"
  shows "FileMap_Pread_loop dt m base (word_of_nat n) off i acc = Some (Ok (Some acc))"
  using assms(3,4) map_offsets [OF assms(1,2), of "length rs"] map_n [OF assms(1,2)]
  by (subst FileMap_Pread_loop.simps) (auto simp: word_less_nat_alt)

text \<open>Before that, one turn takes the bytes that are wanted of the region, or what it still has.\<close>

lemma FileMap_Pread_loop_turn:
  assumes "maps_regions m rs" and "regions_ok data rs"
    and view: "random_access_file (data_view dt m base) data"
    and i: "i < length rs" and k: "k \<le> region_size (rs ! i)" and n: "n \<noteq> 0" "n < 2 ^ 64"
    and more: "regions_size (take i rs) + k < regions_size rs"
  defines "l \<equiv> min n (region_size (rs ! i) - k)" and "s \<equiv> regions_size (take i rs)"
  shows "FileMap_Pread_loop dt m base (word_of_nat n) (word_of_nat (s + k)) (word_of_nat i) acc =
    FileMap_Pread_loop dt m base (word_of_nat (n - l)) (word_of_nat (s + k + l))
      (word_of_nat (if l = region_size (rs ! i) - k then Suc i else i))
      (acc @ bytes_at k l (region_content data (rs ! i)))"
proof -
  let ?r = "rs ! i"
  note pos = loop_position [OF assms(1,2) i k, folded s_def]
  have size: "regions_size rs < 2 ^ 64" using assms(2) by (simp add: regions_ok_def)
  have l: "k + l \<le> region_size ?r" "l \<le> n" using k by (auto simp: l_def)
  have un: "unat (word_of_nat n :: u64) = n" using n(2) by (rule unat_of_nat_u64)
  have eof: "vec_at (fm_offsets m) (unat (fm_n m)) = Ok (word_of_nat (regions_size rs))"
      "unat (word_of_nat (regions_size rs) :: u64) = regions_size rs"
    using map_offsets [OF assms(1,2), of "length rs"] map_n [OF assms(1,2)] by simp_all
  have lim: "word_of_nat (s + region_size ?r) - word_of_nat (s + k) = (word_of_nat (region_size ?r - k) :: u64)"
    using k by (simp add: of_nat_diff)
  have "unat (word_of_nat (region_size ?r - k) :: u64) = region_size ?r - k"
    using pos(1) size by (intro unat_of_nat_u64) simp
  then have minl: "min (word_of_nat n) (word_of_nat (region_size ?r - k)) = (word_of_nat l :: u64)"
    using un by (auto simp: l_def min_def word_le_nat_alt)
  have read: "FileMap_Read dt m base (word_of_nat i) (word_of_nat k) (word_of_nat l) =
      Ok (Some (bytes_at k l (region_content data ?r)))"
    by (rule FileMap_Read_region [OF assms(1,2) view i l(1)])
  have guards: "(word_of_nat n :: u64) \<noteq> 0" "(word_of_nat (s + k) :: u64) < word_of_nat (regions_size rs)"
    using n(1) un more pos(2) eof(2) unfolding s_def by (metis unat_0, simp only: word_less_nat_alt)
  have "unat (word_of_nat (s + k) + word_of_nat l :: u64) = s + k + l"
    using unat_of_nat_u64 [of "s + k + l"] l(1) pos(1) size by simp
  with pos(5) l(1) have next_le: "(word_of_nat (s + region_size ?r) \<le> (word_of_nat (s + k) + word_of_nat l :: u64))
      \<longleftrightarrow> l = region_size ?r - k"
    by (auto simp only: word_le_nat_alt)
  have sums: "(word_of_nat n - word_of_nat l :: u64) = word_of_nat (n - l)"
    "(word_of_nat (s + k) + word_of_nat l :: u64) = word_of_nat (s + k + l)"
    "(word_of_nat i + 1 :: u64) = word_of_nat (Suc i)"
    using l(2) by (simp_all add: of_nat_diff)
  have rel: "word_of_nat (s + k) - word_of_nat s = (word_of_nat k :: u64)" by simp
  have len: "length (bytes_at k l (region_content data ?r)) = l" using l(1) pos(8) by simp
  show ?thesis
    using guards eof(1) pos(3,4,6,7) lim minl read len rel next_le sums
    by (subst FileMap_Pread_loop.simps) (simp add: Let_def del: length_bytes_at of_nat_add of_nat_Suc)
qed

text \<open>
  The loop, entered at byte \<open>k\<close> of region \<open>i\<close>, returns the bytes from there on: as many as are
  wanted or as there are. It goes through the regions once, so it ends.
\<close>

lemma bytes_at_beyond_content:
  assumes "regions_ok data rs" and "n = 0 \<or> regions_size rs \<le> regions_size (take i rs) + k"
  shows "bytes_at k n (regions_content data (drop i rs)) = []"
proof -
  have "length (regions_content data (drop i rs)) = regions_size (drop i rs)"
    using assms(1) by (intro length_regions_content) (auto simp: regions_ok_def list_all_iff dest: in_set_dropD)
  moreover have "regions_size rs = regions_size (take i rs) + regions_size (drop i rs)"
    by (metis append_take_drop_id regions_size_simps(3))
  ultimately show ?thesis using assms(2) by (auto simp: bytes_at_def)
qed

text \<open>A read that ends inside a region, and one that goes on in the next.\<close>

lemma bytes_at_within_region:
  assumes "i < length rs" "length (region_content data (rs ! i)) = region_size (rs ! i)"
    and "k \<le> region_size (rs ! i)"
  shows "n \<le> region_size (rs ! i) - k \<Longrightarrow>
      bytes_at k n (regions_content data (drop i rs)) = bytes_at k n (region_content data (rs ! i))"
    and "region_size (rs ! i) - k < n \<Longrightarrow> l = region_size (rs ! i) - k \<Longrightarrow>
      bytes_at k n (regions_content data (drop i rs)) =
        bytes_at k l (region_content data (rs ! i)) @
        bytes_at 0 (n - l) (regions_content data (drop (Suc i) rs))"
  using assms bytes_at_append_split [of k "region_content data (rs ! i)" n "regions_content data (drop (Suc i) rs)"]
  by (simp_all add: regions_content_drop bytes_at_append_left) (simp_all add: bytes_at_def)

lemma FileMap_Pread_loop_content:
  assumes "maps_regions m rs" and "regions_ok data rs"
    and view: "random_access_file (data_view dt m base) data"
  shows "i \<le> length rs \<Longrightarrow> k \<le> (if i < length rs then region_size (rs ! i) else 0) \<Longrightarrow> n < 2 ^ 64 \<Longrightarrow>
    FileMap_Pread_loop dt m base (word_of_nat n) (word_of_nat (regions_size (take i rs) + k))
        (word_of_nat i) acc =
      Some (Ok (Some (acc @ bytes_at k n (regions_content data (drop i rs)))))"
proof (induction "length rs - i" arbitrary: i k n acc)
  case (0 i k n acc)
  then have "i = length rs" "k = 0" by auto
  then show ?case
    using FileMap_Pread_loop_stop [OF assms(1,2) 0(4)] map_offsets(2) [OF assms(1,2), of "length rs"] by simp
next
  case (Suc d i k n acc)
  then have i: "i < length rs" by simp
  with Suc.prems(2) have k: "k \<le> region_size (rs ! i)" by simp
  let ?s = "regions_size (take i rs)" and ?r = "rs ! i"
  note pos = loop_position [OF assms(1,2) i k]
  note content = bytes_at_within_region [OF i pos(8) k]
  show ?case
  proof (cases "n = 0 \<or> regions_size rs \<le> ?s + k")
    case True
    then have "bytes_at k n (regions_content data (drop i rs)) = []"
      by (rule bytes_at_beyond_content [OF assms(2)])
    then show ?thesis using FileMap_Pread_loop_stop [OF assms(1,2) Suc.prems(3)] True pos(2) by simp
  next
    case False
    define l where "l = min n (region_size ?r - k)"
    have turn: "FileMap_Pread_loop dt m base (word_of_nat n) (word_of_nat (?s + k)) (word_of_nat i) acc =
        FileMap_Pread_loop dt m base (word_of_nat (n - l)) (word_of_nat (?s + k + l))
          (word_of_nat (if l = region_size ?r - k then Suc i else i))
          (acc @ bytes_at k l (region_content data ?r))"
      unfolding l_def using False Suc.prems(3) by (intro FileMap_Pread_loop_turn [OF assms i k]) simp_all
    show ?thesis
    proof (cases "n \<le> region_size ?r - k")
      case True
      then show ?thesis
        using turn content(1) l_def FileMap_Pread_loop_stop [OF assms(1,2), of 0] by simp
    next
      case False
      then have l': "l = region_size ?r - k" and n': "n = l + (n - l)" by (simp_all add: l_def)
      have "?s + k + l = regions_size (take (Suc i) rs) + 0"
        using l' k regions_size_take_Suc [OF i] by simp
      moreover have "FileMap_Pread_loop dt m base (word_of_nat (n - l))
          (word_of_nat (regions_size (take (Suc i) rs) + 0)) (word_of_nat (Suc i))
          (acc @ bytes_at k l (region_content data ?r)) =
        Some (Ok (Some ((acc @ bytes_at k l (region_content data ?r)) @ bytes_at 0 (n - l) (regions_content data (drop (Suc i) rs)))))"
        using Suc.hyps(2) i Suc.prems(3) by (intro Suc.hyps(1)) auto
      ultimately show ?thesis using turn l' content(2) [of n l] False by (simp del: of_nat_add of_nat_Suc)
    qed
  qed
qed

text \<open>\<open>FileMap::Pread\<close> reads the content of the row of regions, and reads short at its end.\<close>

text \<open>The binary search finds the region that an offset inside the file lies in.\<close>

lemma offset_region:
  assumes "maps_regions m rs" and "regions_ok data rs" and "unat off < regions_size rs"
  obtains j k where "upper_bound (fm_offsets m) off = Suc j" "j < length rs" "k \<le> region_size (rs ! j)"
    "unat off = regions_size (take j rs) + k"
proof -
  let ?xs = "fm_offsets m"
  have offs: "?xs ! i = word_of_nat (regions_size (take i rs))" if "i \<le> length rs" for i
    using assms(1) that by (simp add: maps_regions_def nth_append del: upt_Suc)
  have len: "length ?xs = Suc (length rs)" using assms(1) by (simp add: maps_regions_def)
  then have ne: "?xs \<noteq> []" by auto
  have hd: "hd ?xs \<le> off" using offs [of 0] ne by (simp add: hd_conv_nth)
  have "\<not> last ?xs \<le> off"
    using assms(3) offs [of "length rs"] map_offsets(2) [OF assms(1,2), of "length rs"] ne len
    by (simp add: last_conv_nth word_le_nat_alt)
  from upper_bound_position [OF ne hd this] obtain j where
    j: "upper_bound ?xs off = Suc j" "Suc j < length ?xs" "?xs ! j \<le> off" "off < ?xs ! Suc j" .
  then have jr: "j < length rs" using len by simp
  have s: "regions_size (take j rs) \<le> unat off"
    using j(3) offs [of j] map_offsets(2) [OF assms(1,2), of j] jr by (simp add: word_le_nat_alt)
  have "unat off < regions_size (take (Suc j) rs)"
    using j(4) offs [of "Suc j"] map_offsets(2) [OF assms(1,2), of "Suc j"] jr
    by (simp add: word_less_nat_alt)
  then have "unat off - regions_size (take j rs) \<le> region_size (rs ! j)"
    using regions_size_take_Suc [OF jr] s by simp
  moreover have "unat off = regions_size (take j rs) + (unat off - regions_size (take j rs))"
    by (rule le_add_diff_inverse [OF s, symmetric])
  ultimately show ?thesis using j(1) jr that by blast
qed

lemma FileMap_Pread_content:
  assumes "maps_regions m rs" and "regions_ok data rs"
    and view: "random_access_file (data_view dt m base) data"
  shows "FileMap_Pread dt m base sz off =
         Some (Ok (Some (bytes_at (unat off) (unat sz) (regions_content data rs))))"
proof (cases "unat off < regions_size rs")
  case True
  from offset_region [OF assms(1,2) this] obtain j k where j: "upper_bound (fm_offsets m) off = Suc j"
    "j < length rs" "k \<le> region_size (rs ! j)" "unat off = regions_size (take j rs) + k" .
  have off: "off = word_of_nat (regions_size (take j rs) + k)"
    using j(4) by (simp flip: j(4))
  have "unat sz < 2 ^ 64" using unat_u64_less [of sz] by (simp del: unat_u64_less)
  with FileMap_Pread_loop_content [OF assms, of j k "unat sz" "[]"] j(2,3)
  have "FileMap_Pread_loop dt m base sz off (word_of_nat j) [] =
      Some (Ok (Some (bytes_at k (unat sz) (regions_content data (drop j rs)))))"
    using off by simp
  moreover have "list_all (region_inside data) rs" using assms(2) by (simp add: regions_ok_def)
  then have "bytes_at k (unat sz) (regions_content data (drop j rs)) =
      bytes_at (unat off) (unat sz) (regions_content data rs)"
    using bytes_at_content_skip [of data rs j k "unat sz"] j(4) by simp
  ultimately show ?thesis using j(1) by (simp add: FileMap_Pread_def Let_def)
next
  case False
  have "length (regions_content data rs) \<le> unat off"
    using False assms(2) length_regions_content [of data rs] by (simp add: regions_ok_def)
  moreover have "\<not> off < word_of_nat (regions_size rs)"
    using False map_offsets(2) [OF assms(1,2), of "length rs"] by (simp add: word_less_nat_alt)
  ultimately show ?thesis
    using map_offsets(1) [OF assms(1,2), of "length rs"] map_n [OF assms(1,2)]
    by (auto simp: FileMap_Pread_def Let_def FileMap_Pread_loop.simps)
qed

text \<open>
  The loop ends only if reads make progress. Inside a region, with bytes still wanted, a read
  that returns no bytes (the VTK file was cut off) is repeated for ever.
\<close>

lemma FileMap_Pread_loop_stuck:
  assumes "sz \<noteq> 0" and "vec_at (fm_offsets m) (unat (fm_n m)) = Ok eof" and "off < eof"
    and "vec_at (fm_offsets m) (unat (i + 1)) = Ok nxt" and "vec_at (fm_offsets m) (unat i) = Ok cur"
    and "off < nxt"
    and "FileMap_Read dt m base i (off - cur) (min sz (nxt - off)) = Ok (Some [])"
  shows "FileMap_Pread_loop dt m base sz off i acc = None"
proof (rule ccontr)
  assume "FileMap_Pread_loop dt m base sz off i acc \<noteq> None"
  then obtain r where r: "FileMap_Pread_loop dt m base sz off i acc = Some r" by auto
  let ?P = "\<lambda>dt' m' base' sz' off' i' acc' (r :: byte list option result).
    \<not> (dt' = dt \<and> m' = m \<and> base' = base \<and> sz' = sz \<and> off' = off \<and> i' = i)"
  have "?P dt m base sz off i acc r"
  proof (rule FileMap_Pread_loop.raw_induct [where P = ?P, OF _ r])
    fix loop dt' m' base' sz' off' i' acc' r'
    assume IH: "\<And>dt' m' base' sz' off' i' acc' r'.
        loop dt' m' base' sz' off' i' acc' = Some r' \<Longrightarrow> ?P dt' m' base' sz' off' i' acc' r'"
      and eq: "(if sz' = 0 then Some (Ok (Some acc'))
         else case vec_at (fm_offsets m') (unat (fm_n m')) of
           Error e \<Rightarrow> Some (Error e)
         | Ok eof \<Rightarrow>
             if \<not> off' < eof then Some (Ok (Some acc'))
             else case bindR (vec_at (fm_offsets m') (unat (i' + 1))) (\<lambda>next.
                       bindR (vec_at (fm_offsets m') (unat i')) (\<lambda>cur.
                       bindR (FileMap_Read dt' m' base' i' (off' - cur) (min sz' (next - off'))) (\<lambda>nr.
                       Ok (next, nr)))) of
               Error e \<Rightarrow> Some (Error e)
             | Ok (next, None) \<Rightarrow> Some (Ok None)
             | Ok (next, Some bs) \<Rightarrow>
                 (let nr = word_of_nat (length bs) in
                  loop dt' m' base' (sz' - nr) (off' + nr)
                    (if next \<le> off' + nr then i' + 1 else i') (acc' @ bs))) = Some r'"
    show "?P dt' m' base' sz' off' i' acc' r'"
    proof
      assume "dt' = dt \<and> m' = m \<and> base' = base \<and> sz' = sz \<and> off' = off \<and> i' = i"
      with eq assms have "loop dt m base sz off i acc' = Some r'"
        by (simp add: not_le [symmetric] del: not_le)
      from IH [OF this] show False by simp
    qed
  qed
  then show False by simp
qed

section \<open>What the builder and the map do together\<close>

fun add_region :: "region \<Rightarrow> MapBuilder \<Rightarrow> MapBuilder" where
  "add_region (Direct bs) b = AddDirect bs b"
| "add_region (Mapped off sz) b = AddMappedRegion off sz b"

definition build_regions :: "bool \<Rightarrow> u64 \<Rightarrow> region list \<Rightarrow> FileMap" where
  "build_regions base64 start rs = Finish (fold add_region rs (MapBuilder_new base64 start))"

lemma builds_fold: "builds b rs \<Longrightarrow> builds (fold add_region rs' b) (rs @ rs')"
proof (induction rs' arbitrary: b rs)
  case (Cons r rs')
  then have "builds (add_region r b) (rs @ [r])"
    by (cases r) (simp_all add: builds_AddDirect builds_AddMappedRegion)
  from Cons.IH [OF this] show ?case by simp
qed simp

lemma build_regions_maps: "maps_regions (build_regions base64 start rs) rs"
  unfolding build_regions_def
  using maps_regions_Finish [OF builds_fold [OF builds_new, of rs base64 start]] by simp

lemma fold_add_region_frame:
  "mb_pending_base64_decoding (fold add_region rs b) = mb_pending_base64_decoding b \<and>
   mb_data_start (fold add_region rs b) = mb_data_start b"
proof (induction rs arbitrary: b)
  case (Cons r rs)
  then show ?case by (cases r) simp_all
qed simp

lemma build_regions_frame:
  "fm_pending_base64_decoding (build_regions base64 start rs) = base64"
  "fm_data_start (build_regions base64 start rs) = start"
  using fold_add_region_frame [of rs "MapBuilder_new base64 start"]
  by (simp_all add: build_regions_def Finish_def FileMap_new_def)

text \<open>
  C6: A map that the builder made of any row of regions, some in its own buffer and some in the
  VTK file, is a random access file of the regions' bytes in their order: whatever the offset and
  the size, and however many regions the range crosses, a read gives the bytes of the range, cut off
  at the end of the last region; the reading loop ends.
\<close>

theorem map_reads_regions:
  assumes "regions_ok data rs"
    and "random_access_file (data_view dt (build_regions base64 start rs) base) data"
  shows "FileMap_Pread dt (build_regions base64 start rs) base sz off =
      Some (Ok (Some (bytes_at (unat off) (unat sz) (regions_content data rs)))) \<and>
    file_size (build_regions base64 start rs) = Ok (word_of_nat (length (regions_content data rs)))"
  using FileMap_Pread_content [OF build_regions_maps assms] file_size_map [OF build_regions_maps assms(1)]
    length_regions_content [of data rs] assms(1)
  by (simp add: regions_ok_def)

theorem map_reads_regions_witness:
  "FileMap_Pread (\<lambda>a b c d. (3, a, b, c))
     (build_regions False 0 [Direct [7], Mapped 1 2, Mapped 0 0, Direct [8, 9]])
     (\<lambda>sz off. Ok (Some (bytes_at (unat off) (unat sz) [1, 2, 3]))) 3 1 = Some (Ok (Some [2, 3, 8]))"
proof -
  have "eof_file (\<lambda>sz off. Ok (Some (bytes_at (unat off) (unat sz) [1, 2, 3 :: byte]))) [1, 2, 3]"
    by unfold_locales simp
  from offsetted_raf [OF eof_file_random_access [OF this], of 0]
  have "random_access_file (data_view (\<lambda>a b c d. (3, a, b, c))
      (build_regions False 0 [Direct [7], Mapped 1 2, Mapped 0 0, Direct [8, 9]])
      (\<lambda>sz off. Ok (Some (bytes_at (unat off) (unat sz) [1, 2, 3])))) [1, 2, 3]"
    by (simp add: data_view_def build_regions_frame)
  from map_reads_regions [OF _ this, of 3 1] show ?thesis
    by (simp add: regions_ok_def bytes_at_def)
qed

lemma regions_size_take_mono: "i \<le> j \<Longrightarrow> regions_size (take i rs) \<le> regions_size (take j rs)"
  using regions_size_take_le [of i "take j rs"] by (simp add: min_def)

text \<open>The search finds the region that a position lies in.\<close>

lemma upper_bound_region:
  assumes "maps_regions m rs" and "regions_size rs < 2 ^ 64"
    and i: "i < length rs" and k: "k < region_size (rs ! i)"
    and off: "off = word_of_nat (regions_size (take i rs) + k)"
  shows "upper_bound (fm_offsets m) off = Suc i"
proof -
  let ?xs = "fm_offsets m"
  have offs: "?xs ! j = word_of_nat (regions_size (take j rs))" if "j \<le> length rs" for j
    using assms(1) that by (simp add: maps_regions_def nth_append del: upt_Suc)
  have len: "length ?xs = Suc (length rs)" using assms(1) by (simp add: maps_regions_def)
  then have ne: "?xs \<noteq> []" by auto
  have u: "unat (word_of_nat (regions_size (take j rs)) :: u64) = regions_size (take j rs)" for j
    using regions_size_take_le [of j rs] assms(2) by (intro unat_of_nat_u64) simp
  have next_i: "regions_size (take (Suc i) rs) = regions_size (take i rs) + region_size (rs ! i)"
    using i by (rule regions_size_take_Suc)
  have uo: "unat off = regions_size (take i rs) + k"
    using k next_i regions_size_take_le [of "Suc i" rs] assms(2) off
    by (simp only: off) (intro unat_of_nat_u64, simp)
  have "unat (last ?xs) = regions_size rs"
    using offs [of "length rs"] u [of "length rs"] ne len by (simp add: last_conv_nth)
  then have last: "\<not> last ?xs \<le> off"
    using uo k next_i regions_size_take_le [of "Suc i" rs] by (simp add: word_le_nat_alt)
  have hd: "hd ?xs \<le> off" using offs [of 0] ne by (simp add: hd_conv_nth)
  from upper_bound_position [OF ne hd last] obtain j where
    j: "upper_bound ?xs off = Suc j" "Suc j < length ?xs" "?xs ! j \<le> off" "off < ?xs ! Suc j" .
  then have jl: "j < length rs" using len by simp
  have lo: "regions_size (take j rs) \<le> regions_size (take i rs) + k"
    using j(3) offs [of j] jl u uo by (simp add: word_le_nat_alt)
  have hi: "regions_size (take i rs) + k < regions_size (take (Suc j) rs)"
    using j(4) offs [of "Suc j"] jl u uo by (simp add: word_less_nat_alt)
  have "\<not> j < i" using hi regions_size_take_mono [of "Suc j" i rs] by auto
  moreover have "\<not> i < j" using lo k next_i regions_size_take_mono [of "Suc i" j rs] by auto
  ultimately show ?thesis using j(1) by simp
qed

text \<open>
  C22: On a VTK file that ends before the data of an array does, and where the data is raw, not encoded in
  base64, a read at a position whose byte is missing never returns: the operating system reads zero
  bytes there, and the loop goes round for ever.
\<close>

theorem truncated_file_read_never_returns:
  assumes "maps_regions m rs" and "regions_size rs < 2 ^ 64" and "length rs < 2 ^ 60"
    and "\<not> fm_pending_base64_decoding m" and "eof_file base content"
    and "i < length rs" and "rs ! i = Mapped roff rsz" and "unat roff < 2 ^ 63" and "k < unat rsz"
    and "length content \<le> unat (fm_data_start m + roff + word_of_nat k)" and "sz \<noteq> 0"
  shows "FileMap_Pread dt m base sz (word_of_nat (regions_size (take i rs) + k)) = None"
proof -
  let ?s = "regions_size (take i rs)"
  let ?off = "word_of_nat (?s + k) :: u64"
  have k: "k < region_size (rs ! i)" using assms(7,9) by simp
  note j = upper_bound_region [OF assms(1,2,6) k refl]
  have next_i: "regions_size (take (Suc i) rs) = ?s + region_size (rs ! i)"
    using assms(6) by (rule regions_size_take_Suc)
  have u: "unat (word_of_nat (regions_size (take j rs)) :: u64) = regions_size (take j rs)" for j
    using regions_size_take_le [of j rs] assms(2) by (intro unat_of_nat_u64) simp
  have offs: "vec_at (fm_offsets m) j = Ok (word_of_nat (regions_size (take j rs)))" if "j \<le> length rs" for j
    using assms(1) that by (simp add: maps_regions_def vec_at_in_range nth_append del: upt_Suc)
  have un: "unat (fm_n m) = length rs"
    using assms(1,3) by (simp add: maps_regions_def unat_of_nat_u64)
  have uo: "unat ?off = ?s + k"
    using k next_i regions_size_take_le [of "Suc i" rs] assms(2) by (intro unat_of_nat_u64) simp
  have ui: "unat (word_of_nat i :: u64) = i" "unat (word_of_nat i + 1 :: u64) = Suc i"
    using assms(3,6) unat_of_nat_u64 [of i] unat_of_nat_u64 [of "Suc i"] by (simp_all add: add.commute)
  have addr: "vec_at (fm_underlying_offsets m) i = Ok (1 + int (unat roff))"
    using assms(1,6,7,8) by (simp add: maps_regions_def region_address_def sint_of_small_u64)
  have rel: "?off - word_of_nat ?s = word_of_nat k" by simp
  have stuck: "FileMap_Read dt m base (word_of_nat i) (?off - word_of_nat ?s) l = Ok (Some [])" for l
    unfolding rel
    using addr assms(4,10) ui(1) eof_file.pread_at_eof [OF assms(5)]
    by (simp add: FileMap_Read_def add.assoc add_pos_nonneg)
  have "FileMap_Pread_loop dt m base sz ?off (word_of_nat i) [] = None"
  proof (rule FileMap_Pread_loop_stuck [OF assms(11)])
    show "vec_at (fm_offsets m) (unat (fm_n m)) = Ok (word_of_nat (regions_size rs))"
      using offs [of "length rs"] un by simp
    show "?off < word_of_nat (regions_size rs)"
      using uo u [of "length rs"] k next_i regions_size_take_le [of "Suc i" rs]
      by (simp add: word_less_nat_alt del: of_nat_add)
    show "vec_at (fm_offsets m) (unat (word_of_nat i + 1 :: u64)) =
        Ok (word_of_nat (regions_size (take (Suc i) rs)))"
      using offs [of "Suc i"] assms(6) ui(2) by simp
    show "vec_at (fm_offsets m) (unat (word_of_nat i :: u64)) = Ok (word_of_nat ?s)"
      using offs [of i] assms(6) ui(1) by simp
    show "?off < word_of_nat (regions_size (take (Suc i) rs))"
      using uo u [of "Suc i"] k next_i by (simp add: word_less_nat_alt del: of_nat_add)
  qed (rule stuck)
  then show ?thesis using j by (simp add: FileMap_Pread_def Let_def)
qed

theorem truncated_file_read_never_returns_witness:
  "FileMap_Pread (\<lambda>a b c d. (3, a, b, c)) (build_regions False 0 [Direct [7], Mapped 0 4])
     (\<lambda>sz off. Ok (Some (bytes_at (unat off) (unat sz) [1, 2]))) 10 3 = None"
proof -
  have "eof_file (\<lambda>sz off. Ok (Some (bytes_at (unat off) (unat sz) [1, 2 :: byte]))) [1, 2]"
    by unfold_locales simp
  from truncated_file_read_never_returns
    [OF build_regions_maps [of False 0 "[Direct [7], Mapped 0 4]"] _ _ _ this, of 1 0 4 2 10]
  show ?thesis by (simp add: build_regions_frame)
qed

end
