(* ===== verification/Arr.thy ===== *)
theory Arr
  imports Random_Access
begin

text \<open>
  Data array headers (src/arr.h, src/arr.cc): the enumerations of array encodings, value types
  and compression methods, and the parsers of the binary header that precedes an array in the
  appended data section, with 32-bit or 64-bit header fields.
\<close>

section \<open>Enumerations\<close>

datatype EncodingType = RAW | BASE64

datatype DataType =
  INT8 | UINT8 | INT32 | UINT32 | INT64 | UINT64 | FLOAT32 | FLOAT64 | UNKNOWN

datatype CompressionType = NONE | ZLIB | LZ4 | UNKNOWN_COMPRESSION

text \<open>\<open>GetValueSize\<close>: bytes per value in the VTK array.\<close>

fun GetValueSize :: "DataType \<Rightarrow> nat result" where
  "GetValueSize INT8 = Ok 1"
| "GetValueSize UINT8 = Ok 1"
| "GetValueSize INT32 = Ok 4"
| "GetValueSize UINT32 = Ok 4"
| "GetValueSize FLOAT32 = Ok 4"
| "GetValueSize INT64 = Ok 8"
| "GetValueSize UINT64 = Ok 8"
| "GetValueSize FLOAT64 = Ok 8"
| "GetValueSize _ = Error (RuntimeError ''Unknown data type'')"

lemma GetValueSize_Ok: "GetValueSize t = Ok n \<Longrightarrow> n = 1 \<or> n = 4 \<or> n = 8"
  by (cases t) auto

lemma GetValueSize_pos: "GetValueSize t = Ok n \<Longrightarrow> 0 < n"
  by (auto dest: GetValueSize_Ok)

lemma GetValueSize_fails: "GetValueSize t = Error e \<longleftrightarrow>
    t = UNKNOWN \<and> e = RuntimeError ''Unknown data type''"
  by (cases t) auto

section \<open>Compressed arrays\<close>

record CompressedArray =
  ca_num_blks :: u64
  ca_blk_sz :: u64
  ca_last_blk_sz :: u64
  ca_compressed_blk_sz :: "u64 list"
  ca_data_start :: u64

definition header_error :: error where
  "header_error = RuntimeError ''Fail to read data array header''"

definition sizes_error :: error where
  "sizes_error = RuntimeError ''Fail to read array block sizes''"

text \<open>
  \<open>ParseCompressed64\<close>. The array-new expression throws when \<open>8 * info[0]\<close> exceeds the largest
  object size, \<open>2 ^ 63 - 1\<close> bytes; memory itself is taken to be available. The buffer
  becomes the table as it is; by the check before, all of its entries have been read.
\<close>

definition ParseCompressed64 :: "pread \<Rightarrow> u64 \<Rightarrow> CompressedArray result" where
  "ParseCompressed64 file off =
     bindR (file 24 off) (\<lambda>nr.
       case nr of
         None \<Rightarrow> Error header_error
       | Some hdr \<Rightarrow>
           if length hdr \<noteq> 24 then Error header_error
           else
             let info = map word_of_nat (le_array 8 3 hdr) :: u64 list;
                 n = info ! 0
             in if 2 ^ 63 - 1 < 8 * unat n then Error BadArrayNewLength
                else bindR (file (8 * n) (off + 24)) (\<lambda>nr.
                  case nr of
                    None \<Rightarrow> Error sizes_error
                  | Some tbl \<Rightarrow>
                      if length tbl \<noteq> unat (8 * n) then Error sizes_error
                      else Ok \<lparr>ca_num_blks = n, ca_blk_sz = info ! 1, ca_last_blk_sz = info ! 2,
                               ca_compressed_blk_sz = map word_of_nat (le_array 8 (unat n) tbl),
                               ca_data_start = off + 24 + 8 * n\<rparr>))"

text \<open>
  \<open>ParseCompressed32\<close>. The table size \<open>4 * info[0]\<close> is computed in 32 bits. Where it wraps,
  fewer entries are read than the copying loop visits: the loop reads uninitialised values.
\<close>

definition ParseCompressed32 :: "pread \<Rightarrow> u64 \<Rightarrow> CompressedArray result" where
  "ParseCompressed32 file off =
     bindR (file 12 off) (\<lambda>nr.
       case nr of
         None \<Rightarrow> Error header_error
       | Some hdr \<Rightarrow>
           if length hdr \<noteq> 12 then Error header_error
           else
             let info = map word_of_nat (le_array 4 3 hdr) :: u32 list;
                 n = info ! 0
             in bindR (file (ucast (4 * n)) (off + 12)) (\<lambda>nr.
                  case nr of
                    None \<Rightarrow> Error sizes_error
                  | Some tbl \<Rightarrow>
                      if length tbl \<noteq> unat (4 * n) then Error sizes_error
                      else if length tbl < 4 * unat n then Error Undefined
                      else Ok \<lparr>ca_num_blks = ucast n, ca_blk_sz = ucast (info ! 1),
                               ca_last_blk_sz = ucast (info ! 2),
                               ca_compressed_blk_sz = map word_of_nat (le_array 4 (unat n) tbl),
                               ca_data_start = off + 12 + ucast (4 * n)\<rparr>))"

section \<open>Uncompressed arrays\<close>

record UncompressedArray =
  ua_total_bytes :: u64
  ua_data_start :: u64

definition ParseUncompressed64 :: "pread \<Rightarrow> u64 \<Rightarrow> UncompressedArray result" where
  "ParseUncompressed64 file off =
     bindR (file 8 off) (\<lambda>nr.
       case nr of
         None \<Rightarrow> Error header_error
       | Some bs \<Rightarrow>
           if length bs \<noteq> 8 then Error header_error
           else Ok \<lparr>ua_total_bytes = word_of_nat (le_nat bs), ua_data_start = off + 8\<rparr>)"

definition ParseUncompressed32 :: "pread \<Rightarrow> u64 \<Rightarrow> UncompressedArray result" where
  "ParseUncompressed32 file off =
     bindR (file 4 off) (\<lambda>nr.
       case nr of
         None \<Rightarrow> Error header_error
       | Some bs \<Rightarrow>
           if length bs \<noteq> 4 then Error header_error
           else Ok \<lparr>ua_total_bytes = word_of_nat (le_nat bs), ua_data_start = off + 4\<rparr>)"

section \<open>The header formats\<close>

text \<open>
  The layout the parsers expect, as an encoder: with fields of \<open>w\<close> bytes, the number of
  blocks, the uncompressed size of a block and of the last one, and the compressed size of each
  block.
\<close>

definition compressed_header :: "nat \<Rightarrow> nat \<Rightarrow> nat \<Rightarrow> nat list \<Rightarrow> byte list" where
  "compressed_header w blk lastblk szs =
     concat (map (le_bytes w) ([length szs, blk, lastblk] @ szs))"

lemma length_concat_le_bytes: "length (concat (map (le_bytes w) xs)) = w * length xs"
  by (induction xs) auto

lemma length_compressed_header: "length (compressed_header w blk lastblk szs) = 3 * w + w * length szs"
  by (simp add: compressed_header_def length_concat_le_bytes)

text \<open>Reading three fields, then a table that follows them.\<close>

lemma compressed_header_fields:
  assumes "bytes_at off (3 * w + w * length szs) content = compressed_header w blk lastblk szs"
    and "length szs < 256 ^ w" "blk < 256 ^ w" "lastblk < 256 ^ w" "\<forall>x\<in>set szs. x < 256 ^ w"
  shows "le_array w 3 (bytes_at off (3 * w) content) = [length szs, blk, lastblk]"
    and "le_array w (length szs) (bytes_at (off + 3 * w) (w * length szs) content) = szs"
proof -
  let ?h = "concat (map (le_bytes w) [length szs, blk, lastblk])"
  let ?t = "concat (map (le_bytes w) szs)"
  have len: "length (bytes_at off (3 * w + w * length szs) content) = 3 * w + w * length szs"
    using assms(1) by (simp only: length_compressed_header)
  then have "length (bytes_at off (3 * w) content) = 3 * w"
    by (cases "w = 0") auto
  moreover have "length ?h = 3 * w" by simp
  moreover have "bytes_at off (3 * w) content @ bytes_at (off + 3 * w) (w * length szs) content
      = ?h @ ?t"
    using assms(1) by (simp add: bytes_at_add compressed_header_def)
  ultimately have h: "bytes_at off (3 * w) content = ?h"
    and t: "bytes_at (off + 3 * w) (w * length szs) content = ?t"
    using append_eq_append_conv [of "bytes_at off (3 * w) content" ?h] by auto
  show "le_array w 3 (bytes_at off (3 * w) content) = [length szs, blk, lastblk]"
    using le_array_concat [of "[length szs, blk, lastblk]" w "[]"] assms(2-4) h
    by (simp add: numeral_3_eq_3)
  show "le_array w (length szs) (bytes_at (off + 3 * w) (w * length szs) content) = szs"
    using le_array_concat [of szs w "[]"] assms(5) t by simp
qed

lemma header_within:
  assumes "bytes_at off (3 * w + w * length szs) content = compressed_header w blk lastblk szs"
    and "0 < w"
  shows "off + 3 * w + w * length szs \<le> length content"
proof -
  have "length (bytes_at off (3 * w + w * length szs) content) = 3 * w + w * length szs"
    using assms(1) by (simp only: length_compressed_header)
  then show ?thesis using assms(2) by simp
qed

section \<open>The parsers read the formats\<close>

lemma ParseCompressed64_reads:
  assumes raf: "random_access_file file content"
    and hdr: "bytes_at (unat off) (3 * 8 + 8 * length szs) content = compressed_header 8 blk lastblk szs"
    and bounds: "8 * length szs < 2 ^ 63" "blk < 2 ^ 64" "lastblk < 2 ^ 64" "\<forall>x\<in>set szs. x < 2 ^ 64"
    and fits: "length content < 2 ^ 64"
  shows "ParseCompressed64 file off =
    Ok \<lparr>ca_num_blks = word_of_nat (length szs), ca_blk_sz = word_of_nat blk,
        ca_last_blk_sz = word_of_nat lastblk, ca_compressed_blk_sz = map word_of_nat szs,
        ca_data_start = off + 24 + 8 * word_of_nat (length szs)\<rparr>"
proof -
  have in_file: "unat off + 24 + 8 * length szs \<le> length content"
    using header_within [OF hdr] by simp
  have fields: "le_array 8 3 (bytes_at (unat off) 24 content) = [length szs, blk, lastblk]"
    "le_array 8 (length szs) (bytes_at (unat off + 24) (8 * length szs) content) = szs"
    using compressed_header_fields [OF hdr] bounds by simp_all
  have n: "unat (word_of_nat (length szs) :: u64) = length szs"
    "unat (8 * word_of_nat (length szs) :: u64) = 8 * length szs"
    using bounds(1) by (simp_all add: unat_of_nat_u64 unat_word_ariths)
  have o24: "unat (off + 24) = unat off + 24"
    using in_file fits unat_add_u64 [of off 24] by simp
  have r1: "file 24 off = Ok (Some (bytes_at (unat off) 24 content))"
    using random_access_file.pread_within [OF raf, of off 24] in_file by simp
  have r2: "file (8 * word_of_nat (length szs)) (off + 24) =
      Ok (Some (bytes_at (unat off + 24) (8 * length szs) content))"
    using random_access_file.pread_within [OF raf, of "off + 24" "8 * word_of_nat (length szs)"]
      in_file o24 n by simp
  have l2: "length (bytes_at (unat off + 24) (8 * length szs) content) = 8 * length szs"
    and l1: "length (bytes_at (unat off) 24 content) = 24"
    using in_file by simp_all
  show ?thesis
    using bounds(1) n
    by (simp add: ParseCompressed64_def r1 fields r2 Let_def l1 l2 del: length_bytes_at)
qed

lemma ParseCompressed32_reads:
  assumes raf: "random_access_file file content"
    and hdr: "bytes_at (unat off) (3 * 4 + 4 * length szs) content = compressed_header 4 blk lastblk szs"
    and bounds: "4 * length szs < 2 ^ 32" "blk < 2 ^ 32" "lastblk < 2 ^ 32" "\<forall>x\<in>set szs. x < 2 ^ 32"
    and fits: "length content < 2 ^ 64"
  shows "ParseCompressed32 file off =
    Ok \<lparr>ca_num_blks = word_of_nat (length szs), ca_blk_sz = word_of_nat blk,
        ca_last_blk_sz = word_of_nat lastblk, ca_compressed_blk_sz = map word_of_nat szs,
        ca_data_start = off + 12 + 4 * word_of_nat (length szs)\<rparr>"
proof -
  have in_file: "unat off + 12 + 4 * length szs \<le> length content"
    using header_within [OF hdr] by simp
  have fields: "le_array 4 3 (bytes_at (unat off) 12 content) = [length szs, blk, lastblk]"
    "le_array 4 (length szs) (bytes_at (unat off + 12) (4 * length szs) content) = szs"
    using compressed_header_fields [OF hdr] bounds by simp_all
  have u: "unat (word_of_nat k :: u32) = k" "ucast (word_of_nat k :: u32) = (word_of_nat k :: u64)"
    if "k < 2 ^ 32" for k
    using that by (simp_all add: unat_of_nat take_bit_nat_eq_self unsigned_of_nat)
  have four: "4 * word_of_nat (length szs) = (word_of_nat (4 * length szs) :: u32)" by simp
  have n1: "unat (word_of_nat (length szs) :: u32) = length szs"
    using bounds(1) by (intro u(1)) simp
  have n2: "unat (4 * word_of_nat (length szs) :: u32) = 4 * length szs"
    unfolding four using bounds(1) by (rule u(1))
  have n3: "ucast (4 * word_of_nat (length szs) :: u32) = (4 * word_of_nat (length szs) :: u64)"
    unfolding four u(2) [OF bounds(1)] by simp
  have n64: "unat (4 * word_of_nat (length szs) :: u64) = 4 * length szs"
    using bounds(1) unat_of_nat_u64 [of "4 * length szs"] by simp
  have o12: "unat (off + 12) = unat off + 12"
    using in_file fits unat_add_u64 [of off 12] by simp
  have r1: "file 12 off = Ok (Some (bytes_at (unat off) 12 content))"
    using random_access_file.pread_within [OF raf, of off 12] in_file by simp
  have r2: "file (4 * word_of_nat (length szs)) (off + 12) =
      Ok (Some (bytes_at (unat off + 12) (4 * length szs) content))"
    using random_access_file.pread_within [OF raf, of "off + 12" "4 * word_of_nat (length szs)"]
      in_file o12 n64 by simp
  have l2: "length (bytes_at (unat off + 12) (4 * length szs) content) = 4 * length szs"
    and l1: "length (bytes_at (unat off) 12 content) = 12"
    using in_file by simp_all
  show ?thesis
    using bounds n1 n2 n3 u
    by (simp add: ParseCompressed32_def r1 fields r2 Let_def l1 l2 del: length_bytes_at)
qed

lemma ParseUncompressed64_reads:
  assumes "random_access_file file content"
    and "bytes_at (unat off) 8 content = le_bytes 8 n" and "n < 2 ^ 64"
  shows "ParseUncompressed64 file off = Ok \<lparr>ua_total_bytes = word_of_nat n, ua_data_start = off + 8\<rparr>"
proof -
  have len: "length (bytes_at (unat off) 8 content) = 8"
    using assms(2) by (simp del: length_bytes_at)
  then have "unat off + unat (8 :: u64) \<le> length content" by simp
  from random_access_file.pread_within [OF assms(1) this] assms(2,3) show ?thesis
    by (simp add: ParseUncompressed64_def le_nat_le_bytes)
qed

lemma ParseUncompressed32_reads:
  assumes "random_access_file file content"
    and "bytes_at (unat off) 4 content = le_bytes 4 n" and "n < 2 ^ 32"
  shows "ParseUncompressed32 file off = Ok \<lparr>ua_total_bytes = word_of_nat n, ua_data_start = off + 4\<rparr>"
proof -
  have len: "length (bytes_at (unat off) 4 content) = 4"
    using assms(2) by (simp del: length_bytes_at)
  then have "unat off + unat (4 :: u64) \<le> length content" by simp
  from random_access_file.pread_within [OF assms(1) this] assms(2,3) show ?thesis
    by (simp add: ParseUncompressed32_def le_nat_le_bytes)
qed

text \<open>What a successful parse has found at its offset, whatever the file holds.\<close>

definition header_found :: "nat \<Rightarrow> u64 \<Rightarrow> CompressedArray \<Rightarrow> byte list \<Rightarrow> bool" where
  "header_found w off arr content \<longleftrightarrow>
     (let hdr = compressed_header w (unat (ca_blk_sz arr)) (unat (ca_last_blk_sz arr))
            (map unat (ca_compressed_blk_sz arr))
      in bytes_at (unat off) (length hdr) content = hdr \<and>
         length (ca_compressed_blk_sz arr) = unat (ca_num_blks arr) \<and>
         unat (ca_data_start arr) = unat off + length hdr)"

lemma array_of_three: "length xs = 3 \<Longrightarrow> xs = [xs ! 0, xs ! 1, xs ! 2]"
  by (auto simp: length_Suc_conv numeral_3_eq_3 numeral_2_eq_2)

text \<open>The two reads, put together.\<close>

lemma header_found_reads:
  assumes h: "bytes_at (unat off) (length hdr) content = hdr" "length hdr = 3 * w"
    and t: "bytes_at (unat (off + word_of_nat (3 * w))) (length tbl) content = tbl" "length tbl = w * n"
    and fields: "le_array w 3 hdr = [n, unat (ca_blk_sz arr), unat (ca_last_blk_sz arr)]"
    and arr: "unat (ca_num_blks arr) = n" "map unat (ca_compressed_blk_sz arr) = le_array w n tbl"
      "ca_data_start arr = off + word_of_nat (3 * w) + word_of_nat (w * n)"
    and fits: "length content < 2 ^ 64" and "0 < w"
  shows "header_found w off arr content"
proof -
  have "length (bytes_at (unat off) (3 * w) content) = 3 * w" using h by simp
  then have in1: "unat off + 3 * w \<le> length content" using \<open>0 < w\<close> by simp
  have "unat (word_of_nat (3 * w) :: u64) = 3 * w" using in1 fits by (intro unat_of_nat_u64) simp
  then have off1: "unat (off + word_of_nat (3 * w)) = unat off + 3 * w"
    using fits in1 by (subst unat_add_u64) simp_all
  have "length (bytes_at (unat off + 3 * w) (w * n) content) = w * n" using t off1 by simp
  then have in2: "unat off + 3 * w + w * n \<le> length content" using in1 by (cases "w * n = 0") auto
  have "unat (word_of_nat (w * n) :: u64) = w * n" using in2 fits by (intro unat_of_nat_u64) simp
  then have off2: "unat (off + word_of_nat (3 * w) + word_of_nat (w * n)) = unat off + 3 * w + w * n"
    using fits off1 in2 by (subst unat_add_u64) simp_all
  have "compressed_header w (unat (ca_blk_sz arr)) (unat (ca_last_blk_sz arr)) (map unat (ca_compressed_blk_sz arr)) =
      concat (map (le_bytes w) (le_array w 3 hdr)) @ concat (map (le_bytes w) (le_array w n tbl))"
    by (simp add: compressed_header_def arr fields)
  also have "\<dots> = hdr @ tbl" using h(2) t(2) by (simp add: le_array_bytes mult.commute)
  finally have eq: "compressed_header w (unat (ca_blk_sz arr)) (unat (ca_last_blk_sz arr))
      (map unat (ca_compressed_blk_sz arr)) = hdr @ tbl" .
  have "bytes_at (unat off) (3 * w + w * n) content = hdr @ tbl"
    using h t off1 by (simp add: bytes_at_add)
  moreover have "length (ca_compressed_blk_sz arr) = n"
    using arg_cong [OF arr(2), of length] by simp
  ultimately show ?thesis using h(2) t(2) off2 by (simp add: header_found_def Let_def eq arr(1,3))
qed

lemma ParseCompressed64_sound:
  assumes "reads_from file content" and "length content < 2 ^ 64" and "ParseCompressed64 file off = Ok arr"
  shows "header_found 8 off arr content"
proof -
  from assms(3) obtain hdr tbl where hdr: "file 24 off = Ok (Some hdr)" "length hdr = 24"
    and small: "\<not> 2 ^ 63 - 1 < 8 * unat (word_of_nat (le_array 8 3 hdr ! 0) :: u64)"
    and tbl: "file (8 * word_of_nat (le_array 8 3 hdr ! 0)) (off + 24) = Ok (Some tbl)"
      "length tbl = unat (8 * word_of_nat (le_array 8 3 hdr ! 0) :: u64)"
    and arr: "ca_num_blks arr = word_of_nat (le_array 8 3 hdr ! 0)" "ca_blk_sz arr = word_of_nat (le_array 8 3 hdr ! 1)"
      "ca_last_blk_sz arr = word_of_nat (le_array 8 3 hdr ! 2)"
      "ca_compressed_blk_sz arr = map word_of_nat (le_array 8 (unat (word_of_nat (le_array 8 3 hdr ! 0) :: u64)) tbl)"
      "ca_data_start arr = off + 24 + 8 * word_of_nat (le_array 8 3 hdr ! 0)"
    by (auto simp: ParseCompressed64_def Let_def elim!: bindR_OkE split: option.split_asm if_split_asm)
  define n where "n = le_array 8 3 hdr ! 0"
  have bound: "x < 2 ^ 64" if "x \<in> set (le_array 8 k bs)" for x k bs using le_array_bound [OF that] by simp
  have words: "map unat (map word_of_nat (le_array 8 k bs) :: u64 list) = le_array 8 k bs" for k bs
    by (simp add: map_idI unat_of_nat_u64 [OF bound])
  have three: "le_array 8 3 hdr = [n, le_array 8 3 hdr ! 1, le_array 8 3 hdr ! 2]"
    unfolding n_def by (rule array_of_three) simp
  have fit: "n < 2 ^ 64" "le_array 8 3 hdr ! 1 < 2 ^ 64" "le_array 8 3 hdr ! 2 < 2 ^ 64"
    unfolding n_def by (rule bound [of _ 3 hdr], simp)+
  then have n: "unat (word_of_nat n :: u64) = n" by (simp add: unat_of_nat_u64)
  with small have n8: "8 * n < 2 ^ 64" by (simp add: n_def)
  have t8: "unat (8 * word_of_nat n :: u64) = 8 * n"
    using n8 n by (simp add: unat_word_ariths)
  show ?thesis
  proof (rule header_found_reads [where hdr = hdr and tbl = tbl and n = n])
    show "bytes_at (unat off) (length hdr) content = hdr" by (rule reads_fromD [OF assms(1) hdr(1)])
    show "bytes_at (unat (off + word_of_nat (3 * 8))) (length tbl) content = tbl"
      using reads_fromD [OF assms(1) tbl(1)] by simp
    show "le_array 8 3 hdr = [n, unat (ca_blk_sz arr), unat (ca_last_blk_sz arr)]"
      using three fit by (simp add: arr unat_of_nat_u64)
    show "map unat (ca_compressed_blk_sz arr) = le_array 8 n tbl"
      unfolding arr words by (simp add: n flip: n_def)
    show "length tbl = 8 * n" using tbl(2) t8 by (simp flip: n_def)
  qed (use assms(2) hdr(2) n in \<open>simp_all add: arr flip: n_def\<close>)
qed

lemma ParseCompressed32_sound:
  assumes "reads_from file content" and "length content < 2 ^ 64" and "ParseCompressed32 file off = Ok arr"
  shows "header_found 4 off arr content"
proof -
  from assms(3) obtain hdr tbl where hdr: "file 12 off = Ok (Some hdr)" "length hdr = 12"
    and tbl: "file (ucast (4 * word_of_nat (le_array 4 3 hdr ! 0) :: u32)) (off + 12) = Ok (Some tbl)"
      "length tbl = unat (4 * word_of_nat (le_array 4 3 hdr ! 0) :: u32)"
      "\<not> length tbl < 4 * unat (word_of_nat (le_array 4 3 hdr ! 0) :: u32)"
    and arr: "ca_num_blks arr = ucast (word_of_nat (le_array 4 3 hdr ! 0) :: u32)"
      "ca_blk_sz arr = ucast (word_of_nat (le_array 4 3 hdr ! 1) :: u32)"
      "ca_last_blk_sz arr = ucast (word_of_nat (le_array 4 3 hdr ! 2) :: u32)"
      "ca_compressed_blk_sz arr = map word_of_nat (le_array 4 (unat (word_of_nat (le_array 4 3 hdr ! 0) :: u32)) tbl)"
      "ca_data_start arr = off + 12 + ucast (4 * word_of_nat (le_array 4 3 hdr ! 0) :: u32)"
    by (auto simp: ParseCompressed32_def Let_def elim!: bindR_OkE split: option.split_asm if_split_asm)
  define n where "n = le_array 4 3 hdr ! 0"
  have bound: "x < 2 ^ 32" if "x \<in> set (le_array 4 k bs)" for x k bs using le_array_bound [OF that] by simp
  have words: "map unat (map word_of_nat (le_array 4 k bs) :: u64 list) = le_array 4 k bs" for k bs
    by (simp add: map_idI unat_of_nat_u64 order_less_trans [OF bound])
  have u: "unat (word_of_nat x :: u32) = x" if "x < 2 ^ 32" for x
    using that by (simp add: unat_of_nat take_bit_nat_eq_self)
  have three: "le_array 4 3 hdr = [n, le_array 4 3 hdr ! 1, le_array 4 3 hdr ! 2]"
    unfolding n_def by (rule array_of_three) simp
  have fit: "n < 2 ^ 32" "le_array 4 3 hdr ! 1 < 2 ^ 32" "le_array 4 3 hdr ! 2 < 2 ^ 32"
    unfolding n_def by (rule bound [of _ 3 hdr], simp)+
  have t: "unat (4 * word_of_nat n :: u32) = 4 * n mod 2 ^ 32"
    using u [OF fit(1)] by (simp add: unat_word_ariths)
  have "\<not> length tbl < 4 * n" using tbl(3) u [OF fit(1)] by (simp flip: n_def)
  then have n4: "4 * n < 2 ^ 32"
    using tbl(2) unat_u32_less [of "4 * word_of_nat n :: u32"] by (simp flip: n_def del: unat_u32_less)
  with t have t4: "unat (4 * word_of_nat n :: u32) = 4 * n" by simp
  then have uc: "ucast (4 * word_of_nat n :: u32) = (word_of_nat (4 * n) :: u64)"
    by (simp flip: t4)
  show ?thesis
  proof (rule header_found_reads [where hdr = hdr and tbl = tbl and n = n])
    show "bytes_at (unat off) (length hdr) content = hdr" by (rule reads_fromD [OF assms(1) hdr(1)])
    show "bytes_at (unat (off + word_of_nat (3 * 4))) (length tbl) content = tbl"
      using reads_fromD [OF assms(1) tbl(1)] by simp
    show "le_array 4 3 hdr = [n, unat (ca_blk_sz arr), unat (ca_last_blk_sz arr)]"
      using three fit u by (simp add: arr)
    show "map unat (ca_compressed_blk_sz arr) = le_array 4 n tbl"
      unfolding arr words using u [OF fit(1)] by (simp flip: n_def)
    show "length tbl = 4 * n" using tbl(2) t4 by (simp flip: n_def)
    show "ca_data_start arr = off + word_of_nat (3 * 4) + word_of_nat (4 * n)"
      using uc by (simp add: arr flip: n_def)
  qed (use assms(2) hdr(2) u [OF fit(1)] in \<open>simp_all add: arr flip: n_def\<close>)
qed

section \<open>Properties\<close>

text \<open>
  C24: The header of a compressed array with 64-bit fields, at any offset of a file, is parsed to
  exactly its fields: the number of blocks, the two uncompressed sizes, the table of compressed
  sizes, and the position after the header.
\<close>

theorem compressed_header64_parsed:
  assumes "random_access_file file content"
    and "bytes_at (unat off) (3 * 8 + 8 * length szs) content = compressed_header 8 blk lastblk szs"
    and "8 * length szs < 2 ^ 63" "blk < 2 ^ 64" "lastblk < 2 ^ 64" "\<forall>x\<in>set szs. x < 2 ^ 64"
    and "length content < 2 ^ 64"
  shows "\<exists>arr. ParseCompressed64 file off = Ok arr \<and>
    unat (ca_num_blks arr) = length szs \<and> unat (ca_blk_sz arr) = blk \<and>
    unat (ca_last_blk_sz arr) = lastblk \<and> map unat (ca_compressed_blk_sz arr) = szs \<and>
    ca_data_start arr = off + word_of_nat (length (compressed_header 8 blk lastblk szs))"
proof -
  have "map unat (map word_of_nat szs :: u64 list) = szs"
    using assms(6) by (induction szs) (simp_all add: unat_of_nat_u64)
  then show ?thesis
    using ParseCompressed64_reads [OF assms] assms(3-5)
    by (simp add: unat_of_nat_u64 length_compressed_header)
qed

theorem compressed_header64_parsed_witness:
  "\<exists>arr. ParseCompressed64 (\<lambda>sz off. Ok (Some (bytes_at (unat off) (unat sz)
       (compressed_header 8 100 50 [7])))) 0 = Ok arr \<and>
     unat (ca_num_blks arr) = length [7 :: nat] \<and> unat (ca_blk_sz arr) = 100 \<and>
     unat (ca_last_blk_sz arr) = 50 \<and> map unat (ca_compressed_blk_sz arr) = [7] \<and>
     ca_data_start arr = 0 + word_of_nat (length (compressed_header 8 100 50 [7]))"
proof (rule compressed_header64_parsed)
  show "random_access_file (\<lambda>sz off. Ok (Some (bytes_at (unat off) (unat sz)
      (compressed_header 8 100 50 [7])))) (compressed_header 8 100 50 [7])"
    by unfold_locales simp
qed (simp_all add: length_compressed_header bytes_at_def)



text \<open>
  C23: Nothing but a header is parsed. If the parse of a compressed array succeeds, the file has at this
  offset, whole and byte for byte, the header that the result says: the number of blocks, the two
  uncompressed sizes and the complete table, in fields of 64 or of 32 bits; the data start right
  after it, with no wrap-around. All that is known of the reads is that they return, short or not,
  bytes of the file from the place that was asked for, so the parsers' own checks exclude a table
  that was cut off.
\<close>

theorem compressed_header_sound:
  assumes "reads_from file content" and "length content < 2 ^ 64"
  shows "(ParseCompressed64 file off = Ok arr \<longrightarrow> header_found 8 off arr content) \<and>
    (ParseCompressed32 file off = Ok arr \<longrightarrow> header_found 4 off arr content)"
  using ParseCompressed64_sound [OF assms] ParseCompressed32_sound [OF assms] by blast

theorem compressed_header_sound_witness:
  "ParseCompressed64 (\<lambda>sz off. Ok (Some (bytes_at (unat off) (unat sz) (compressed_header 8 100 50 [7])))) 0 =
     Ok \<lparr>ca_num_blks = 1, ca_blk_sz = 100, ca_last_blk_sz = 50, ca_compressed_blk_sz = [7], ca_data_start = 32\<rparr> \<and>
   header_found 8 0 \<lparr>ca_num_blks = 1, ca_blk_sz = 100, ca_last_blk_sz = 50, ca_compressed_blk_sz = [7],
       ca_data_start = 32\<rparr> (compressed_header 8 100 50 [7])"
proof -
  let ?content = "compressed_header 8 100 50 [7]"
  let ?file = "\<lambda>sz off. Ok (Some (bytes_at (unat off) (unat sz) ?content)) :: byte list option result"
  have eof: "eof_file ?file ?content" by unfold_locales simp
  have len: "length ?content < 2 ^ 64" by (simp add: length_compressed_header)
  have run: "ParseCompressed64 ?file 0 =
      Ok \<lparr>ca_num_blks = 1, ca_blk_sz = 100, ca_last_blk_sz = 50, ca_compressed_blk_sz = [7], ca_data_start = 32\<rparr>"
    using ParseCompressed64_reads [OF eof_file_random_access [OF eof], of 0 "[7]" 100 50] len
    by (simp add: bytes_at_def length_compressed_header)
  with compressed_header_sound [OF eof_file_reads_from [OF eof] len] show ?thesis by blast
qed

text \<open>
  C25: With 32-bit fields and \<open>2 ^ 30\<close> blocks or more, the size of the table wraps around: a part
  of the table is read, the check of the number of bytes passes, and the copying loop runs on into
  memory that was never written.
\<close>

theorem compressed_header32_wraps:
  assumes "random_access_file file content" and "length content < 2 ^ 64"
    and "bytes_at (unat off) 12 content = concat (map (le_bytes 4) [n, blk, lastblk])"
    and "2 ^ 30 \<le> n" "n < 2 ^ 32" "blk < 2 ^ 32" "lastblk < 2 ^ 32"
    and "unat off + 12 + 4 * n mod 2 ^ 32 \<le> length content"
  shows "ParseCompressed32 file off = Error Undefined"
proof -
  have fields: "le_array 4 3 (bytes_at (unat off) 12 content) = [n, blk, lastblk]"
    using le_array_concat [of "[n, blk, lastblk]" 4 "[]"] assms(3,5-7) by (simp add: numeral_3_eq_3)
  have un: "unat (word_of_nat n :: u32) = n"
    using assms(5) by (simp add: unat_of_nat take_bit_nat_eq_self)
  define k where "k = 4 * n mod 2 ^ 32"
  have u4: "unat (4 * word_of_nat n :: u32) = k"
    using un by (simp add: unat_word_ariths k_def)
  have fit: "unat off + 12 + k \<le> length content" using assms(8) by (simp only: k_def)
  have less: "k < 4 * n"
  proof -
    have "k < 2 ^ 32" by (simp add: k_def)
    then show ?thesis using assms(4) by simp
  qed
  have o12: "unat (off + 12) = unat off + 12"
    using assms(2) fit unat_add_u64 [of off 12] by simp
  have r1: "file 12 off = Ok (Some (bytes_at (unat off) 12 content))"
    using random_access_file.pread_within [OF assms(1), of off 12] fit by simp
  have r2: "file (ucast (4 * word_of_nat n :: u32)) (off + 12) =
      Ok (Some (bytes_at (unat off + 12) k content))"
    using random_access_file.pread_within [OF assms(1), of "off + 12" "ucast (4 * word_of_nat n :: u32)"]
      fit o12 u4 by simp
  have l1: "length (bytes_at (unat off) 12 content) = 12"
    and l2: "length (bytes_at (unat off + 12) k content) = k"
    using fit by simp_all
  show ?thesis using less
    by (simp add: ParseCompressed32_def r1 fields r2 Let_def l1 l2 u4 un del: length_bytes_at)
qed

theorem compressed_header32_wraps_witness:
  "ParseCompressed32 (\<lambda>sz off. Ok (Some (bytes_at (unat off) (unat sz)
     (concat (map (le_bytes 4) [2 ^ 30, 100, 50]))))) 0 = Error Undefined"
proof (rule compressed_header32_wraps [where n = "2 ^ 30" and blk = 100 and lastblk = 50])
  show "random_access_file (\<lambda>sz off. Ok (Some (bytes_at (unat off) (unat sz)
      (concat (map (le_bytes 4) [2 ^ 30, 100, 50]))))) (concat (map (le_bytes 4) [2 ^ 30, 100, 50]))"
    by unfold_locales simp
qed (simp_all add: bytes_at_def)

end
