(* ===== verification/Thrift.thy ===== *)
theory Thrift
  imports Prelude
begin

text \<open>
  The calls that the generated Thrift code (src/gen-cpp/parquet_types.cpp) makes on its
  \<open>TProtocol\<close>, one token per call. Writing a struct yields the sequence of its write calls;
  reading consumes such a sequence, and a read call that meets another token fails. The bytes
  that the compact protocol makes of the tokens belong to the Thrift library and are a
  parameter where they matter (theory \<open>Parquet_Map\<close>).

  The generated functions all have one shape: \<open>w_struct\<close>, \<open>w_field\<close>, \<open>w_opt\<close>, \<open>w_list\<close> are
  the statements a write function is made of, \<open>read_struct\<close> is the loop of a read function and
  \<open>Req\<close>/\<open>Opt\<close> the two kinds of cases of its switch.
\<close>

section \<open>Tokens\<close>

type_synonym i8 = "8 word"
type_synonym i16 = "16 word"
type_synonym i32 = "32 word"
type_synonym i64 = "64 word"

datatype TType =
  T_STOP | T_BOOL | T_BYTE | T_DOUBLE | T_I16 | T_I32 | T_I64 | T_STRING | T_STRUCT | T_LIST

datatype tok =
    StructBegin string
  | StructEnd
  | FieldBegin string TType nat
  | FieldEnd
  | FieldStop
  | ListBegin TType u32
  | ListEnd
  | VBool bool
  | VByte i8
  | VI16 i16
  | VI32 i32
  | VI64 i64
  | VDouble u64
  | VString string
  | VBinary string

named_theorems thrift_rt \<comment> \<open>what a reader makes of written tokens\<close>

section \<open>Writing\<close>

definition w_bool :: "bool \<Rightarrow> tok list" where "w_bool v = [VBool v]"
definition w_byte :: "i8 \<Rightarrow> tok list" where "w_byte v = [VByte v]"
definition w_i16 :: "i16 \<Rightarrow> tok list" where "w_i16 v = [VI16 v]"
definition w_i32 :: "i32 \<Rightarrow> tok list" where "w_i32 v = [VI32 v]"
definition w_i64 :: "i64 \<Rightarrow> tok list" where "w_i64 v = [VI64 v]"
definition w_double :: "u64 \<Rightarrow> tok list" where "w_double v = [VDouble v]"
definition w_string :: "string \<Rightarrow> tok list" where "w_string v = [VString v]"
definition w_binary :: "string \<Rightarrow> tok list" where "w_binary v = [VBinary v]"

definition w_list :: "TType \<Rightarrow> ('a \<Rightarrow> tok list) \<Rightarrow> 'a list \<Rightarrow> tok list" where
  "w_list ety w xs = ListBegin ety (word_of_nat (length xs)) # concat (map w xs) @ [ListEnd]"

definition w_field :: "string \<Rightarrow> TType \<Rightarrow> nat \<Rightarrow> ('a \<Rightarrow> tok list) \<Rightarrow> 'a \<Rightarrow> tok list" where
  "w_field nm ty fid w x = FieldBegin nm ty fid # w x @ [FieldEnd]"

text \<open>An optional field is written only where its \<open>__isset\<close> flag is set.\<close>

definition w_opt :: "string \<Rightarrow> TType \<Rightarrow> nat \<Rightarrow> ('a \<Rightarrow> tok list) \<Rightarrow> 'a option \<Rightarrow> tok list" where
  "w_opt nm ty fid w v = (case v of None \<Rightarrow> [] | Some x \<Rightarrow> w_field nm ty fid w x)"

definition w_struct :: "string \<Rightarrow> tok list list \<Rightarrow> tok list" where
  "w_struct nm fields = StructBegin nm # concat fields @ [FieldStop, StructEnd]"

section \<open>Reading\<close>

type_synonym 'a reader = "tok list \<Rightarrow> ('a \<times> tok list) result"

fun r_bool :: "bool reader" where
  "r_bool (VBool v # ts) = Ok (v, ts)" | "r_bool _ = Error ProtocolError"
fun r_byte :: "i8 reader" where
  "r_byte (VByte v # ts) = Ok (v, ts)" | "r_byte _ = Error ProtocolError"
fun r_i16 :: "i16 reader" where
  "r_i16 (VI16 v # ts) = Ok (v, ts)" | "r_i16 _ = Error ProtocolError"
fun r_i32 :: "i32 reader" where
  "r_i32 (VI32 v # ts) = Ok (v, ts)" | "r_i32 _ = Error ProtocolError"
fun r_i64 :: "i64 reader" where
  "r_i64 (VI64 v # ts) = Ok (v, ts)" | "r_i64 _ = Error ProtocolError"
fun r_double :: "u64 reader" where
  "r_double (VDouble v # ts) = Ok (v, ts)" | "r_double _ = Error ProtocolError"
fun r_string :: "string reader" where
  "r_string (VString v # ts) = Ok (v, ts)" | "r_string _ = Error ProtocolError"
fun r_binary :: "string reader" where
  "r_binary (VBinary v # ts) = Ok (v, ts)" | "r_binary _ = Error ProtocolError"

fun r_elems :: "nat \<Rightarrow> 'a reader \<Rightarrow> 'a list reader" where
  "r_elems 0 r ts = Ok ([], ts)"
| "r_elems (Suc n) r ts =
     bindR (r ts) (\<lambda>(x, ts). bindR (r_elems n r ts) (\<lambda>(xs, ts). Ok (x # xs, ts)))"

fun r_list :: "'a reader \<Rightarrow> 'a list reader" where
  "r_list r (ListBegin ety n # ts) =
     bindR (r_elems (unat n) r ts) (\<lambda>(xs, ts).
       case ts of ListEnd # ts \<Rightarrow> Ok (xs, ts) | _ \<Rightarrow> Error ProtocolError)"
| "r_list r _ = Error ProtocolError"

text \<open>
  The cases of a read function's switch. \<open>into r upd\<close> reads a value, with the struct as it is
  (a nested struct is read into the member it has), and stores it. A required field sets its
  local \<open>isset_\<close> flag, an optional one the struct's own flag, which is its \<open>Some\<close>.
\<close>

definition into :: "('s \<Rightarrow> 'a reader) \<Rightarrow> ('a \<Rightarrow> 's \<Rightarrow> 's) \<Rightarrow> 's \<Rightarrow> 's reader" where
  "into r upd s ts = bindR (r s ts) (\<lambda>(v, ts). Ok (upd v s, ts))"

datatype 's field_case = Req "'s \<Rightarrow> 's reader" | Opt "'s \<Rightarrow> 's reader"

definition req :: "('s \<Rightarrow> 'a reader) \<Rightarrow> ('a \<Rightarrow> 's \<Rightarrow> 's) \<Rightarrow> 's field_case option" where
  "req r upd = Some (Req (into r upd))"

definition opt :: "('s \<Rightarrow> 'a reader) \<Rightarrow> ('a option \<Rightarrow> 's \<Rightarrow> 's) \<Rightarrow> 's field_case option" where
  "opt r upd = Some (Opt (into r (\<lambda>v. upd (Some v))))"

type_synonym skip = "TType \<Rightarrow> tok list \<Rightarrow> tok list result"

text \<open>
  The loop \<open>while (true)\<close> over the fields of a struct; \<open>seen\<close> holds the \<open>isset_\<close> flags that are
  set. A field that the switch does not know, or knows with another type, is skipped by the
  library's \<open>skip\<close>, a parameter. No reader returns more tokens than it was given, so the check
  on lengths, there for the termination proof, never fails.
\<close>

function read_fields ::
  "skip \<Rightarrow> (nat \<Rightarrow> TType \<Rightarrow> 's field_case option) \<Rightarrow> 's \<Rightarrow> nat list \<Rightarrow> ('s \<times> nat list) reader"
where
  "read_fields skip fld s seen ts =
     (case ts of
        FieldStop # ts \<Rightarrow> Ok ((s, seen), ts)
      | FieldBegin nm ty fid # ts \<Rightarrow>
          bindR
            (case fld fid ty of
               Some (Req rd) \<Rightarrow> bindR (rd s ts) (\<lambda>(s, ts). Ok (s, fid # seen, ts))
             | Some (Opt rd) \<Rightarrow> bindR (rd s ts) (\<lambda>(s, ts). Ok (s, seen, ts))
             | None \<Rightarrow> bindR (skip ty ts) (\<lambda>ts. Ok (s, seen, ts)))
            (\<lambda>(s, seen, ts').
               case ts' of
                 FieldEnd # ts' \<Rightarrow>
                   if length ts' \<le> length ts then read_fields skip fld s seen ts'
                   else Error ProtocolError
               | _ \<Rightarrow> Error ProtocolError)
      | _ \<Rightarrow> Error ProtocolError)"
  by pat_completeness auto
termination
  by (relation "measure (\<lambda>(skip, fld, s, seen, ts). length ts)") auto

declare read_fields.simps [simp del]

definition read_struct ::
  "skip \<Rightarrow> nat list \<Rightarrow> (nat \<Rightarrow> TType \<Rightarrow> 's field_case option) \<Rightarrow> 's \<Rightarrow> 's reader" where
  "read_struct skip required fld s ts =
     (case ts of
        StructBegin nm # ts \<Rightarrow>
          bindR (read_fields skip fld s [] ts) (\<lambda>((s, seen), ts).
            case ts of
              StructEnd # ts \<Rightarrow>
                if list_all (\<lambda>fid. List.member seen fid) required then Ok (s, ts)
                else Error ProtocolError
            | _ \<Rightarrow> Error ProtocolError)
      | _ \<Rightarrow> Error ProtocolError)"

section \<open>Reading what was written\<close>

lemma r_basic [thrift_rt]:
  "r_bool (w_bool b @ rest) = Ok (b, rest)"
  "r_byte (w_byte y @ rest) = Ok (y, rest)"
  "r_i16 (w_i16 h @ rest) = Ok (h, rest)"
  "r_i32 (w_i32 i @ rest) = Ok (i, rest)"
  "r_i64 (w_i64 l @ rest) = Ok (l, rest)"
  "r_double (w_double d @ rest) = Ok (d, rest)"
  "r_string (w_string s @ rest) = Ok (s, rest)"
  "r_binary (w_binary s @ rest) = Ok (s, rest)"
  by (simp_all add: w_bool_def w_byte_def w_i16_def w_i32_def w_i64_def w_double_def
      w_string_def w_binary_def)

lemma r_elems_written:
  assumes "\<And>x rest. x \<in> set xs \<Longrightarrow> r (w x @ rest) = Ok (x, rest)"
  shows "r_elems (length xs) r (concat (map w xs) @ rest) = Ok (xs, rest)"
  using assms by (induction xs) auto

text \<open>The count of a list is written in 32 bits: longer lists do not survive.\<close>

definition short_list :: "'a list \<Rightarrow> bool" where
  "short_list xs \<longleftrightarrow> length xs < 2 ^ 32"

lemma r_list_written [thrift_rt]:
  assumes "short_list xs" and "\<And>x rest. x \<in> set xs \<Longrightarrow> r (w x @ rest) = Ok (x, rest)"
  shows "r_list r (w_list ety w xs @ rest) = Ok (xs, rest)"
proof -
  have "unat (word_of_nat (length xs) :: u32) = length xs"
    using assms(1) by (simp add: short_list_def unat_of_nat take_bit_nat_eq_self)
  with r_elems_written [of xs r w "ListEnd # rest", OF assms(2)] show ?thesis
    by (simp add: w_list_def)
qed

lemma read_fields_stop [thrift_rt]:
  "read_fields skip fld s seen (FieldStop # rest) = Ok ((s, seen), rest)"
  by (simp add: read_fields.simps)

lemma read_fields_req [thrift_rt]:
  assumes "fld fid ty = req r upd" and "\<And>rest. r s (w x @ rest) = Ok (x, rest)"
  shows "read_fields skip fld s seen (w_field nm ty fid w x @ rest) =
         read_fields skip fld (upd x s) (fid # seen) rest"
  using assms by (subst read_fields.simps) (simp add: w_field_def req_def into_def)

lemma read_fields_opt [thrift_rt]:
  assumes "fld fid ty = opt r upd"
    and "\<And>x rest. v = Some x \<Longrightarrow> r s (w x @ rest) = Ok (x, rest)" and "upd None s = s"
  shows "read_fields skip fld s seen (w_opt nm ty fid w v @ rest) =
         read_fields skip fld (upd v s) seen rest"
  using assms
  by (cases v) (simp_all add: w_opt_def w_field_def opt_def into_def read_fields.simps [of _ _ _ _ "FieldBegin nm ty fid # _"])

text \<open>The same where the round trip of the field's value has a condition \<open>P\<close>.\<close>

lemma read_fields_opt_if:
  assumes "fld fid ty = opt r upd" and "pred_option P v"
    and "\<And>x rest. P x \<Longrightarrow> r s (w x @ rest) = Ok (x, rest)" and "upd None s = s"
  shows "read_fields skip fld s seen (w_opt nm ty fid w v @ rest) =
         read_fields skip fld (upd v s) seen rest"
  using assms by (intro read_fields_opt) auto

lemmas read_fields_opt_list [thrift_rt] = read_fields_opt_if [where P = short_list]

text \<open>
  The general case: the reader makes \<open>g x\<close> of what was written of \<open>x\<close>, and a field that is not there
  keeps what the struct has by default.
\<close>

lemma read_fields_opt_reads:
  assumes "fld fid ty = opt r upd" and "\<And>x rest. v = Some x \<Longrightarrow> r s (w x @ rest) = Ok (g x, rest)"
  shows "read_fields skip fld s seen (w_opt nm ty fid w v @ rest) =
         read_fields skip fld (case v of None \<Rightarrow> s | Some x \<Rightarrow> upd (Some (g x)) s) seen rest"
  using assms
  by (cases v) (simp_all add: w_opt_def w_field_def opt_def into_def read_fields.simps [of _ _ _ _ "FieldBegin nm ty fid # _"])

text \<open>A field that the switch does not list is passed over, when \<open>skip\<close> passes over its value.\<close>

lemma read_fields_unknown:
  assumes "fld fid ty = None" and "skip ty (w x @ FieldEnd # rest) = Ok (FieldEnd # rest)"
  shows "read_fields skip fld s seen (w_field nm ty fid w x @ rest) =
         read_fields skip fld s seen rest"
  using assms by (subst read_fields.simps) (simp add: w_field_def)

section \<open>Objects that can be read back\<close>

text \<open>
  The contract of a write function and a read function: what \<open>fits\<close> is read back as it was written,
  up to its end.
\<close>

locale metadata_object =
  fixes wr :: "'a \<Rightarrow> tok list" and rd :: "'a reader" and fits :: "'a \<Rightarrow> bool"
  assumes round_trip: "fits x \<Longrightarrow> rd (wr x @ rest) = Ok (x, rest)"
begin

lemma read_alone: "fits x \<Longrightarrow> rd (wr x) = Ok (x, [])"
  using round_trip [of x "[]"] by simp

text \<open>No written object is the beginning of another.\<close>

lemma prefix_free:
  assumes "fits x" "fits y"
  shows "wr x @ r = wr y @ s \<longleftrightarrow> x = y \<and> r = s"
proof
  assume "wr x @ r = wr y @ s"
  then have "Ok (x, r) = Ok (y, s)"
    by (simp only: round_trip [OF assms(1), symmetric] round_trip [OF assms(2), symmetric])
  then show "x = y \<and> r = s" by simp
qed simp

end

end
