(* ===== verification/Parquet_Types.thy ===== *)
theory Parquet_Types
  imports Thrift
begin

text \<open>
  The generated types of Parquet metadata (src/gen-cpp/parquet_types.h, constructors in
  parquet_types.cpp): every struct of the format. An optional
  field with its \<open>__isset\<close> flag is an \<open>option\<close>, \<open>None\<close> where the flag is not set; \<open>X_init\<close> is
  what the default constructor of \<open>X\<close> makes, with the flags as the constructor of \<open>__isset\<close> leaves them:
  all unset, but for \<open>is_compressed\<close> of \<open>DataPageHeaderV2\<close>, which is set and true. Integers are two's
  complement words, a \<open>double\<close> is its 64 bits. A field of an enumeration type holds an \<open>int32_t\<close>, as the generated code casts any
  number it reads to the type; \<open>E_val\<close> gives the numbers of the enumerators.
\<close>

section \<open>Enumerations\<close>

datatype Type =
  Type_BOOLEAN | Type_INT32 | Type_INT64
  | Type_INT96 | Type_FLOAT | Type_DOUBLE
  | Type_BYTE_ARRAY | Type_FIXED_LEN_BYTE_ARRAY

type_synonym Type_t = i32

fun Type_val :: "Type \<Rightarrow> Type_t" where
  "Type_val Type_BOOLEAN = 0"
| "Type_val Type_INT32 = 1"
| "Type_val Type_INT64 = 2"
| "Type_val Type_INT96 = 3"
| "Type_val Type_FLOAT = 4"
| "Type_val Type_DOUBLE = 5"
| "Type_val Type_BYTE_ARRAY = 6"
| "Type_val Type_FIXED_LEN_BYTE_ARRAY = 7"

datatype ConvertedType =
  ConvertedType_UTF8 | ConvertedType_MAP | ConvertedType_MAP_KEY_VALUE
  | ConvertedType_LIST | ConvertedType_ENUM | ConvertedType_DECIMAL
  | ConvertedType_DATE | ConvertedType_TIME_MILLIS | ConvertedType_TIME_MICROS
  | ConvertedType_TIMESTAMP_MILLIS | ConvertedType_TIMESTAMP_MICROS | ConvertedType_UINT_8
  | ConvertedType_UINT_16 | ConvertedType_UINT_32 | ConvertedType_UINT_64
  | ConvertedType_INT_8 | ConvertedType_INT_16 | ConvertedType_INT_32
  | ConvertedType_INT_64 | ConvertedType_JSON | ConvertedType_BSON
  | ConvertedType_INTERVAL

type_synonym ConvertedType_t = i32

fun ConvertedType_val :: "ConvertedType \<Rightarrow> ConvertedType_t" where
  "ConvertedType_val ConvertedType_UTF8 = 0"
| "ConvertedType_val ConvertedType_MAP = 1"
| "ConvertedType_val ConvertedType_MAP_KEY_VALUE = 2"
| "ConvertedType_val ConvertedType_LIST = 3"
| "ConvertedType_val ConvertedType_ENUM = 4"
| "ConvertedType_val ConvertedType_DECIMAL = 5"
| "ConvertedType_val ConvertedType_DATE = 6"
| "ConvertedType_val ConvertedType_TIME_MILLIS = 7"
| "ConvertedType_val ConvertedType_TIME_MICROS = 8"
| "ConvertedType_val ConvertedType_TIMESTAMP_MILLIS = 9"
| "ConvertedType_val ConvertedType_TIMESTAMP_MICROS = 10"
| "ConvertedType_val ConvertedType_UINT_8 = 11"
| "ConvertedType_val ConvertedType_UINT_16 = 12"
| "ConvertedType_val ConvertedType_UINT_32 = 13"
| "ConvertedType_val ConvertedType_UINT_64 = 14"
| "ConvertedType_val ConvertedType_INT_8 = 15"
| "ConvertedType_val ConvertedType_INT_16 = 16"
| "ConvertedType_val ConvertedType_INT_32 = 17"
| "ConvertedType_val ConvertedType_INT_64 = 18"
| "ConvertedType_val ConvertedType_JSON = 19"
| "ConvertedType_val ConvertedType_BSON = 20"
| "ConvertedType_val ConvertedType_INTERVAL = 21"

datatype FieldRepetitionType =
  FieldRepetitionType_REQUIRED | FieldRepetitionType_OPTIONAL | FieldRepetitionType_REPEATED

type_synonym FieldRepetitionType_t = i32

fun FieldRepetitionType_val :: "FieldRepetitionType \<Rightarrow> FieldRepetitionType_t" where
  "FieldRepetitionType_val FieldRepetitionType_REQUIRED = 0"
| "FieldRepetitionType_val FieldRepetitionType_OPTIONAL = 1"
| "FieldRepetitionType_val FieldRepetitionType_REPEATED = 2"

datatype EdgeInterpolationAlgorithm =
  EdgeInterpolationAlgorithm_SPHERICAL | EdgeInterpolationAlgorithm_VINCENTY | EdgeInterpolationAlgorithm_THOMAS
  | EdgeInterpolationAlgorithm_ANDOYER | EdgeInterpolationAlgorithm_KARNEY

type_synonym EdgeInterpolationAlgorithm_t = i32

fun EdgeInterpolationAlgorithm_val :: "EdgeInterpolationAlgorithm \<Rightarrow> EdgeInterpolationAlgorithm_t" where
  "EdgeInterpolationAlgorithm_val EdgeInterpolationAlgorithm_SPHERICAL = 0"
| "EdgeInterpolationAlgorithm_val EdgeInterpolationAlgorithm_VINCENTY = 1"
| "EdgeInterpolationAlgorithm_val EdgeInterpolationAlgorithm_THOMAS = 2"
| "EdgeInterpolationAlgorithm_val EdgeInterpolationAlgorithm_ANDOYER = 3"
| "EdgeInterpolationAlgorithm_val EdgeInterpolationAlgorithm_KARNEY = 4"

datatype Encoding =
  Encoding_PLAIN | Encoding_PLAIN_DICTIONARY | Encoding_RLE
  | Encoding_BIT_PACKED | Encoding_DELTA_BINARY_PACKED | Encoding_DELTA_LENGTH_BYTE_ARRAY
  | Encoding_DELTA_BYTE_ARRAY | Encoding_RLE_DICTIONARY | Encoding_BYTE_STREAM_SPLIT

type_synonym Encoding_t = i32

fun Encoding_val :: "Encoding \<Rightarrow> Encoding_t" where
  "Encoding_val Encoding_PLAIN = 0"
| "Encoding_val Encoding_PLAIN_DICTIONARY = 2"
| "Encoding_val Encoding_RLE = 3"
| "Encoding_val Encoding_BIT_PACKED = 4"
| "Encoding_val Encoding_DELTA_BINARY_PACKED = 5"
| "Encoding_val Encoding_DELTA_LENGTH_BYTE_ARRAY = 6"
| "Encoding_val Encoding_DELTA_BYTE_ARRAY = 7"
| "Encoding_val Encoding_RLE_DICTIONARY = 8"
| "Encoding_val Encoding_BYTE_STREAM_SPLIT = 9"

datatype CompressionCodec =
  CompressionCodec_UNCOMPRESSED | CompressionCodec_SNAPPY | CompressionCodec_GZIP
  | CompressionCodec_LZO | CompressionCodec_BROTLI | CompressionCodec_LZ4
  | CompressionCodec_ZSTD | CompressionCodec_LZ4_RAW

type_synonym CompressionCodec_t = i32

fun CompressionCodec_val :: "CompressionCodec \<Rightarrow> CompressionCodec_t" where
  "CompressionCodec_val CompressionCodec_UNCOMPRESSED = 0"
| "CompressionCodec_val CompressionCodec_SNAPPY = 1"
| "CompressionCodec_val CompressionCodec_GZIP = 2"
| "CompressionCodec_val CompressionCodec_LZO = 3"
| "CompressionCodec_val CompressionCodec_BROTLI = 4"
| "CompressionCodec_val CompressionCodec_LZ4 = 5"
| "CompressionCodec_val CompressionCodec_ZSTD = 6"
| "CompressionCodec_val CompressionCodec_LZ4_RAW = 7"

datatype PageType =
  PageType_DATA_PAGE | PageType_INDEX_PAGE | PageType_DICTIONARY_PAGE | PageType_DATA_PAGE_V2

type_synonym PageType_t = i32

fun PageType_val :: "PageType \<Rightarrow> PageType_t" where
  "PageType_val PageType_DATA_PAGE = 0"
| "PageType_val PageType_INDEX_PAGE = 1"
| "PageType_val PageType_DICTIONARY_PAGE = 2"
| "PageType_val PageType_DATA_PAGE_V2 = 3"

datatype BoundaryOrder =
  BoundaryOrder_UNORDERED | BoundaryOrder_ASCENDING | BoundaryOrder_DESCENDING

type_synonym BoundaryOrder_t = i32

fun BoundaryOrder_val :: "BoundaryOrder \<Rightarrow> BoundaryOrder_t" where
  "BoundaryOrder_val BoundaryOrder_UNORDERED = 0"
| "BoundaryOrder_val BoundaryOrder_ASCENDING = 1"
| "BoundaryOrder_val BoundaryOrder_DESCENDING = 2"

section \<open>Structs\<close>

record SizeStatistics =
  SizeStatistics_unencoded_byte_array_data_bytes :: "i64 option"
  SizeStatistics_repetition_level_histogram :: "(i64 list) option"
  SizeStatistics_definition_level_histogram :: "(i64 list) option"

definition SizeStatistics_init :: SizeStatistics where
  "SizeStatistics_init =
    \<lparr>SizeStatistics_unencoded_byte_array_data_bytes = None,
     SizeStatistics_repetition_level_histogram = None,
     SizeStatistics_definition_level_histogram = None\<rparr>"

record BoundingBox =
  BoundingBox_xmin :: "u64"
  BoundingBox_xmax :: "u64"
  BoundingBox_ymin :: "u64"
  BoundingBox_ymax :: "u64"
  BoundingBox_zmin :: "u64 option"
  BoundingBox_zmax :: "u64 option"
  BoundingBox_mmin :: "u64 option"
  BoundingBox_mmax :: "u64 option"

definition BoundingBox_init :: BoundingBox where
  "BoundingBox_init =
    \<lparr>BoundingBox_xmin = 0,
     BoundingBox_xmax = 0,
     BoundingBox_ymin = 0,
     BoundingBox_ymax = 0,
     BoundingBox_zmin = None,
     BoundingBox_zmax = None,
     BoundingBox_mmin = None,
     BoundingBox_mmax = None\<rparr>"

record GeospatialStatistics =
  GeospatialStatistics_bbox :: "BoundingBox option"
  GeospatialStatistics_geospatial_types :: "(i32 list) option"

definition GeospatialStatistics_init :: GeospatialStatistics where
  "GeospatialStatistics_init =
    \<lparr>GeospatialStatistics_bbox = None,
     GeospatialStatistics_geospatial_types = None\<rparr>"

record Statistics =
  Statistics_max :: "string option"
  Statistics_min :: "string option"
  Statistics_null_count :: "i64 option"
  Statistics_distinct_count :: "i64 option"
  Statistics_max_value :: "string option"
  Statistics_min_value :: "string option"
  Statistics_is_max_value_exact :: "bool option"
  Statistics_is_min_value_exact :: "bool option"

definition Statistics_init :: Statistics where
  "Statistics_init =
    \<lparr>Statistics_max = None,
     Statistics_min = None,
     Statistics_null_count = None,
     Statistics_distinct_count = None,
     Statistics_max_value = None,
     Statistics_min_value = None,
     Statistics_is_max_value_exact = None,
     Statistics_is_min_value_exact = None\<rparr>"

datatype StringType = StringType

definition StringType_init :: StringType where
  "StringType_init = StringType"

datatype UUIDType = UUIDType

definition UUIDType_init :: UUIDType where
  "UUIDType_init = UUIDType"

datatype MapType = MapType

definition MapType_init :: MapType where
  "MapType_init = MapType"

datatype ListType = ListType

definition ListType_init :: ListType where
  "ListType_init = ListType"

datatype EnumType = EnumType

definition EnumType_init :: EnumType where
  "EnumType_init = EnumType"

datatype DateType = DateType

definition DateType_init :: DateType where
  "DateType_init = DateType"

datatype Float16Type = Float16Type

definition Float16Type_init :: Float16Type where
  "Float16Type_init = Float16Type"

datatype NullType = NullType

definition NullType_init :: NullType where
  "NullType_init = NullType"

record DecimalType =
  DecimalType_scale :: "i32"
  DecimalType_precision :: "i32"

definition DecimalType_init :: DecimalType where
  "DecimalType_init =
    \<lparr>DecimalType_scale = 0,
     DecimalType_precision = 0\<rparr>"

datatype MilliSeconds = MilliSeconds

definition MilliSeconds_init :: MilliSeconds where
  "MilliSeconds_init = MilliSeconds"

datatype MicroSeconds = MicroSeconds

definition MicroSeconds_init :: MicroSeconds where
  "MicroSeconds_init = MicroSeconds"

datatype NanoSeconds = NanoSeconds

definition NanoSeconds_init :: NanoSeconds where
  "NanoSeconds_init = NanoSeconds"

record TimeUnit =
  TimeUnit_MILLIS :: "MilliSeconds option"
  TimeUnit_MICROS :: "MicroSeconds option"
  TimeUnit_NANOS :: "NanoSeconds option"

definition TimeUnit_init :: TimeUnit where
  "TimeUnit_init =
    \<lparr>TimeUnit_MILLIS = None,
     TimeUnit_MICROS = None,
     TimeUnit_NANOS = None\<rparr>"

record TimestampType =
  TimestampType_isAdjustedToUTC :: "bool"
  TimestampType_unit :: "TimeUnit"

definition TimestampType_init :: TimestampType where
  "TimestampType_init =
    \<lparr>TimestampType_isAdjustedToUTC = False,
     TimestampType_unit = TimeUnit_init\<rparr>"

record TimeType =
  TimeType_isAdjustedToUTC :: "bool"
  TimeType_unit :: "TimeUnit"

definition TimeType_init :: TimeType where
  "TimeType_init =
    \<lparr>TimeType_isAdjustedToUTC = False,
     TimeType_unit = TimeUnit_init\<rparr>"

record IntType =
  IntType_bitWidth :: "i8"
  IntType_isSigned :: "bool"

definition IntType_init :: IntType where
  "IntType_init =
    \<lparr>IntType_bitWidth = 0,
     IntType_isSigned = False\<rparr>"

datatype JsonType = JsonType

definition JsonType_init :: JsonType where
  "JsonType_init = JsonType"

datatype BsonType = BsonType

definition BsonType_init :: BsonType where
  "BsonType_init = BsonType"

record VariantType =
  VariantType_specification_version :: "i8 option"

definition VariantType_init :: VariantType where
  "VariantType_init =
    \<lparr>VariantType_specification_version = None\<rparr>"

record GeometryType =
  GeometryType_crs :: "string option"

definition GeometryType_init :: GeometryType where
  "GeometryType_init =
    \<lparr>GeometryType_crs = None\<rparr>"

record GeographyType =
  GeographyType_crs :: "string option"
  GeographyType_algorithm :: "EdgeInterpolationAlgorithm_t option"

definition GeographyType_init :: GeographyType where
  "GeographyType_init =
    \<lparr>GeographyType_crs = None,
     GeographyType_algorithm = None\<rparr>"

record LogicalType =
  LogicalType_STRING :: "StringType option"
  LogicalType_MAP :: "MapType option"
  LogicalType_LIST :: "ListType option"
  LogicalType_ENUM :: "EnumType option"
  LogicalType_DECIMAL :: "DecimalType option"
  LogicalType_DATE :: "DateType option"
  LogicalType_TIME :: "TimeType option"
  LogicalType_TIMESTAMP :: "TimestampType option"
  LogicalType_INTEGER :: "IntType option"
  LogicalType_UNKNOWN :: "NullType option"
  LogicalType_JSON :: "JsonType option"
  LogicalType_BSON :: "BsonType option"
  LogicalType_UUID :: "UUIDType option"
  LogicalType_FLOAT16 :: "Float16Type option"
  LogicalType_VARIANT :: "VariantType option"
  LogicalType_GEOMETRY :: "GeometryType option"
  LogicalType_GEOGRAPHY :: "GeographyType option"

definition LogicalType_init :: LogicalType where
  "LogicalType_init =
    \<lparr>LogicalType_STRING = None,
     LogicalType_MAP = None,
     LogicalType_LIST = None,
     LogicalType_ENUM = None,
     LogicalType_DECIMAL = None,
     LogicalType_DATE = None,
     LogicalType_TIME = None,
     LogicalType_TIMESTAMP = None,
     LogicalType_INTEGER = None,
     LogicalType_UNKNOWN = None,
     LogicalType_JSON = None,
     LogicalType_BSON = None,
     LogicalType_UUID = None,
     LogicalType_FLOAT16 = None,
     LogicalType_VARIANT = None,
     LogicalType_GEOMETRY = None,
     LogicalType_GEOGRAPHY = None\<rparr>"

record SchemaElement =
  SchemaElement_type :: "Type_t option"
  SchemaElement_type_length :: "i32 option"
  SchemaElement_repetition_type :: "FieldRepetitionType_t option"
  SchemaElement_name :: "string"
  SchemaElement_num_children :: "i32 option"
  SchemaElement_converted_type :: "ConvertedType_t option"
  SchemaElement_scale :: "i32 option"
  SchemaElement_precision :: "i32 option"
  SchemaElement_field_id :: "i32 option"
  SchemaElement_logicalType :: "LogicalType option"

definition SchemaElement_init :: SchemaElement where
  "SchemaElement_init =
    \<lparr>SchemaElement_type = None,
     SchemaElement_type_length = None,
     SchemaElement_repetition_type = None,
     SchemaElement_name = [],
     SchemaElement_num_children = None,
     SchemaElement_converted_type = None,
     SchemaElement_scale = None,
     SchemaElement_precision = None,
     SchemaElement_field_id = None,
     SchemaElement_logicalType = None\<rparr>"

record DataPageHeader =
  DataPageHeader_num_values :: "i32"
  DataPageHeader_encoding :: "Encoding_t"
  DataPageHeader_definition_level_encoding :: "Encoding_t"
  DataPageHeader_repetition_level_encoding :: "Encoding_t"
  DataPageHeader_statistics :: "Statistics option"

definition DataPageHeader_init :: DataPageHeader where
  "DataPageHeader_init =
    \<lparr>DataPageHeader_num_values = 0,
     DataPageHeader_encoding = 0,
     DataPageHeader_definition_level_encoding = 0,
     DataPageHeader_repetition_level_encoding = 0,
     DataPageHeader_statistics = None\<rparr>"

datatype IndexPageHeader = IndexPageHeader

definition IndexPageHeader_init :: IndexPageHeader where
  "IndexPageHeader_init = IndexPageHeader"

record DictionaryPageHeader =
  DictionaryPageHeader_num_values :: "i32"
  DictionaryPageHeader_encoding :: "Encoding_t"
  DictionaryPageHeader_is_sorted :: "bool option"

definition DictionaryPageHeader_init :: DictionaryPageHeader where
  "DictionaryPageHeader_init =
    \<lparr>DictionaryPageHeader_num_values = 0,
     DictionaryPageHeader_encoding = 0,
     DictionaryPageHeader_is_sorted = None\<rparr>"

record DataPageHeaderV2 =
  DataPageHeaderV2_num_values :: "i32"
  DataPageHeaderV2_num_nulls :: "i32"
  DataPageHeaderV2_num_rows :: "i32"
  DataPageHeaderV2_encoding :: "Encoding_t"
  DataPageHeaderV2_definition_levels_byte_length :: "i32"
  DataPageHeaderV2_repetition_levels_byte_length :: "i32"
  DataPageHeaderV2_is_compressed :: "bool option"
  DataPageHeaderV2_statistics :: "Statistics option"

definition DataPageHeaderV2_init :: DataPageHeaderV2 where
  "DataPageHeaderV2_init =
    \<lparr>DataPageHeaderV2_num_values = 0,
     DataPageHeaderV2_num_nulls = 0,
     DataPageHeaderV2_num_rows = 0,
     DataPageHeaderV2_encoding = 0,
     DataPageHeaderV2_definition_levels_byte_length = 0,
     DataPageHeaderV2_repetition_levels_byte_length = 0,
     DataPageHeaderV2_is_compressed = Some True,
     DataPageHeaderV2_statistics = None\<rparr>"

datatype SplitBlockAlgorithm = SplitBlockAlgorithm

definition SplitBlockAlgorithm_init :: SplitBlockAlgorithm where
  "SplitBlockAlgorithm_init = SplitBlockAlgorithm"

record BloomFilterAlgorithm =
  BloomFilterAlgorithm_BLOCK :: "SplitBlockAlgorithm option"

definition BloomFilterAlgorithm_init :: BloomFilterAlgorithm where
  "BloomFilterAlgorithm_init =
    \<lparr>BloomFilterAlgorithm_BLOCK = None\<rparr>"

datatype XxHash = XxHash

definition XxHash_init :: XxHash where
  "XxHash_init = XxHash"

record BloomFilterHash =
  BloomFilterHash_XXHASH :: "XxHash option"

definition BloomFilterHash_init :: BloomFilterHash where
  "BloomFilterHash_init =
    \<lparr>BloomFilterHash_XXHASH = None\<rparr>"

datatype Uncompressed = Uncompressed

definition Uncompressed_init :: Uncompressed where
  "Uncompressed_init = Uncompressed"

record BloomFilterCompression =
  BloomFilterCompression_UNCOMPRESSED :: "Uncompressed option"

definition BloomFilterCompression_init :: BloomFilterCompression where
  "BloomFilterCompression_init =
    \<lparr>BloomFilterCompression_UNCOMPRESSED = None\<rparr>"

record BloomFilterHeader =
  BloomFilterHeader_numBytes :: "i32"
  BloomFilterHeader_algorithm :: "BloomFilterAlgorithm"
  BloomFilterHeader_hash :: "BloomFilterHash"
  BloomFilterHeader_compression :: "BloomFilterCompression"

definition BloomFilterHeader_init :: BloomFilterHeader where
  "BloomFilterHeader_init =
    \<lparr>BloomFilterHeader_numBytes = 0,
     BloomFilterHeader_algorithm = BloomFilterAlgorithm_init,
     BloomFilterHeader_hash = BloomFilterHash_init,
     BloomFilterHeader_compression = BloomFilterCompression_init\<rparr>"

record PageHeader =
  PageHeader_type :: "PageType_t"
  PageHeader_uncompressed_page_size :: "i32"
  PageHeader_compressed_page_size :: "i32"
  PageHeader_crc :: "i32 option"
  PageHeader_data_page_header :: "DataPageHeader option"
  PageHeader_index_page_header :: "IndexPageHeader option"
  PageHeader_dictionary_page_header :: "DictionaryPageHeader option"
  PageHeader_data_page_header_v2 :: "DataPageHeaderV2 option"

definition PageHeader_init :: PageHeader where
  "PageHeader_init =
    \<lparr>PageHeader_type = 0,
     PageHeader_uncompressed_page_size = 0,
     PageHeader_compressed_page_size = 0,
     PageHeader_crc = None,
     PageHeader_data_page_header = None,
     PageHeader_index_page_header = None,
     PageHeader_dictionary_page_header = None,
     PageHeader_data_page_header_v2 = None\<rparr>"

record KeyValue =
  KeyValue_key :: "string"
  KeyValue_value :: "string option"

definition KeyValue_init :: KeyValue where
  "KeyValue_init =
    \<lparr>KeyValue_key = [],
     KeyValue_value = None\<rparr>"

record SortingColumn =
  SortingColumn_column_idx :: "i32"
  SortingColumn_descending :: "bool"
  SortingColumn_nulls_first :: "bool"

definition SortingColumn_init :: SortingColumn where
  "SortingColumn_init =
    \<lparr>SortingColumn_column_idx = 0,
     SortingColumn_descending = False,
     SortingColumn_nulls_first = False\<rparr>"

record PageEncodingStats =
  PageEncodingStats_page_type :: "PageType_t"
  PageEncodingStats_encoding :: "Encoding_t"
  PageEncodingStats_count :: "i32"

definition PageEncodingStats_init :: PageEncodingStats where
  "PageEncodingStats_init =
    \<lparr>PageEncodingStats_page_type = 0,
     PageEncodingStats_encoding = 0,
     PageEncodingStats_count = 0\<rparr>"

record ColumnMetaData =
  ColumnMetaData_type :: "Type_t"
  ColumnMetaData_encodings :: "Encoding_t list"
  ColumnMetaData_path_in_schema :: "string list"
  ColumnMetaData_codec :: "CompressionCodec_t"
  ColumnMetaData_num_values :: "i64"
  ColumnMetaData_total_uncompressed_size :: "i64"
  ColumnMetaData_total_compressed_size :: "i64"
  ColumnMetaData_key_value_metadata :: "(KeyValue list) option"
  ColumnMetaData_data_page_offset :: "i64"
  ColumnMetaData_index_page_offset :: "i64 option"
  ColumnMetaData_dictionary_page_offset :: "i64 option"
  ColumnMetaData_statistics :: "Statistics option"
  ColumnMetaData_encoding_stats :: "(PageEncodingStats list) option"
  ColumnMetaData_bloom_filter_offset :: "i64 option"
  ColumnMetaData_bloom_filter_length :: "i32 option"
  ColumnMetaData_size_statistics :: "SizeStatistics option"
  ColumnMetaData_geospatial_statistics :: "GeospatialStatistics option"

definition ColumnMetaData_init :: ColumnMetaData where
  "ColumnMetaData_init =
    \<lparr>ColumnMetaData_type = 0,
     ColumnMetaData_encodings = [],
     ColumnMetaData_path_in_schema = [],
     ColumnMetaData_codec = 0,
     ColumnMetaData_num_values = 0,
     ColumnMetaData_total_uncompressed_size = 0,
     ColumnMetaData_total_compressed_size = 0,
     ColumnMetaData_key_value_metadata = None,
     ColumnMetaData_data_page_offset = 0,
     ColumnMetaData_index_page_offset = None,
     ColumnMetaData_dictionary_page_offset = None,
     ColumnMetaData_statistics = None,
     ColumnMetaData_encoding_stats = None,
     ColumnMetaData_bloom_filter_offset = None,
     ColumnMetaData_bloom_filter_length = None,
     ColumnMetaData_size_statistics = None,
     ColumnMetaData_geospatial_statistics = None\<rparr>"

datatype EncryptionWithFooterKey = EncryptionWithFooterKey

definition EncryptionWithFooterKey_init :: EncryptionWithFooterKey where
  "EncryptionWithFooterKey_init = EncryptionWithFooterKey"

record EncryptionWithColumnKey =
  EncryptionWithColumnKey_path_in_schema :: "string list"
  EncryptionWithColumnKey_key_metadata :: "string option"

definition EncryptionWithColumnKey_init :: EncryptionWithColumnKey where
  "EncryptionWithColumnKey_init =
    \<lparr>EncryptionWithColumnKey_path_in_schema = [],
     EncryptionWithColumnKey_key_metadata = None\<rparr>"

record ColumnCryptoMetaData =
  ColumnCryptoMetaData_ENCRYPTION_WITH_FOOTER_KEY :: "EncryptionWithFooterKey option"
  ColumnCryptoMetaData_ENCRYPTION_WITH_COLUMN_KEY :: "EncryptionWithColumnKey option"

definition ColumnCryptoMetaData_init :: ColumnCryptoMetaData where
  "ColumnCryptoMetaData_init =
    \<lparr>ColumnCryptoMetaData_ENCRYPTION_WITH_FOOTER_KEY = None,
     ColumnCryptoMetaData_ENCRYPTION_WITH_COLUMN_KEY = None\<rparr>"

record ColumnChunk =
  ColumnChunk_file_path :: "string option"
  ColumnChunk_file_offset :: "i64"
  ColumnChunk_meta_data :: "ColumnMetaData option"
  ColumnChunk_offset_index_offset :: "i64 option"
  ColumnChunk_offset_index_length :: "i32 option"
  ColumnChunk_column_index_offset :: "i64 option"
  ColumnChunk_column_index_length :: "i32 option"
  ColumnChunk_crypto_metadata :: "ColumnCryptoMetaData option"
  ColumnChunk_encrypted_column_metadata :: "string option"

definition ColumnChunk_init :: ColumnChunk where
  "ColumnChunk_init =
    \<lparr>ColumnChunk_file_path = None,
     ColumnChunk_file_offset = 0,
     ColumnChunk_meta_data = None,
     ColumnChunk_offset_index_offset = None,
     ColumnChunk_offset_index_length = None,
     ColumnChunk_column_index_offset = None,
     ColumnChunk_column_index_length = None,
     ColumnChunk_crypto_metadata = None,
     ColumnChunk_encrypted_column_metadata = None\<rparr>"

record RowGroup =
  RowGroup_columns :: "ColumnChunk list"
  RowGroup_total_byte_size :: "i64"
  RowGroup_num_rows :: "i64"
  RowGroup_sorting_columns :: "(SortingColumn list) option"
  RowGroup_file_offset :: "i64 option"
  RowGroup_total_compressed_size :: "i64 option"
  RowGroup_ordinal :: "i16 option"

definition RowGroup_init :: RowGroup where
  "RowGroup_init =
    \<lparr>RowGroup_columns = [],
     RowGroup_total_byte_size = 0,
     RowGroup_num_rows = 0,
     RowGroup_sorting_columns = None,
     RowGroup_file_offset = None,
     RowGroup_total_compressed_size = None,
     RowGroup_ordinal = None\<rparr>"

datatype TypeDefinedOrder = TypeDefinedOrder

definition TypeDefinedOrder_init :: TypeDefinedOrder where
  "TypeDefinedOrder_init = TypeDefinedOrder"

record ColumnOrder =
  ColumnOrder_TYPE_ORDER :: "TypeDefinedOrder option"

definition ColumnOrder_init :: ColumnOrder where
  "ColumnOrder_init =
    \<lparr>ColumnOrder_TYPE_ORDER = None\<rparr>"

record PageLocation =
  PageLocation_offset :: "i64"
  PageLocation_compressed_page_size :: "i32"
  PageLocation_first_row_index :: "i64"

definition PageLocation_init :: PageLocation where
  "PageLocation_init =
    \<lparr>PageLocation_offset = 0,
     PageLocation_compressed_page_size = 0,
     PageLocation_first_row_index = 0\<rparr>"

record OffsetIndex =
  OffsetIndex_page_locations :: "PageLocation list"
  OffsetIndex_unencoded_byte_array_data_bytes :: "(i64 list) option"

definition OffsetIndex_init :: OffsetIndex where
  "OffsetIndex_init =
    \<lparr>OffsetIndex_page_locations = [],
     OffsetIndex_unencoded_byte_array_data_bytes = None\<rparr>"

record ColumnIndex =
  ColumnIndex_null_pages :: "bool list"
  ColumnIndex_min_values :: "string list"
  ColumnIndex_max_values :: "string list"
  ColumnIndex_boundary_order :: "BoundaryOrder_t"
  ColumnIndex_null_counts :: "(i64 list) option"
  ColumnIndex_repetition_level_histograms :: "(i64 list) option"
  ColumnIndex_definition_level_histograms :: "(i64 list) option"

definition ColumnIndex_init :: ColumnIndex where
  "ColumnIndex_init =
    \<lparr>ColumnIndex_null_pages = [],
     ColumnIndex_min_values = [],
     ColumnIndex_max_values = [],
     ColumnIndex_boundary_order = 0,
     ColumnIndex_null_counts = None,
     ColumnIndex_repetition_level_histograms = None,
     ColumnIndex_definition_level_histograms = None\<rparr>"

record AesGcmV1 =
  AesGcmV1_aad_prefix :: "string option"
  AesGcmV1_aad_file_unique :: "string option"
  AesGcmV1_supply_aad_prefix :: "bool option"

definition AesGcmV1_init :: AesGcmV1 where
  "AesGcmV1_init =
    \<lparr>AesGcmV1_aad_prefix = None,
     AesGcmV1_aad_file_unique = None,
     AesGcmV1_supply_aad_prefix = None\<rparr>"

record AesGcmCtrV1 =
  AesGcmCtrV1_aad_prefix :: "string option"
  AesGcmCtrV1_aad_file_unique :: "string option"
  AesGcmCtrV1_supply_aad_prefix :: "bool option"

definition AesGcmCtrV1_init :: AesGcmCtrV1 where
  "AesGcmCtrV1_init =
    \<lparr>AesGcmCtrV1_aad_prefix = None,
     AesGcmCtrV1_aad_file_unique = None,
     AesGcmCtrV1_supply_aad_prefix = None\<rparr>"

record EncryptionAlgorithm =
  EncryptionAlgorithm_AES_GCM_V1 :: "AesGcmV1 option"
  EncryptionAlgorithm_AES_GCM_CTR_V1 :: "AesGcmCtrV1 option"

definition EncryptionAlgorithm_init :: EncryptionAlgorithm where
  "EncryptionAlgorithm_init =
    \<lparr>EncryptionAlgorithm_AES_GCM_V1 = None,
     EncryptionAlgorithm_AES_GCM_CTR_V1 = None\<rparr>"

record FileMetaData =
  FileMetaData_version :: "i32"
  FileMetaData_schema :: "SchemaElement list"
  FileMetaData_num_rows :: "i64"
  FileMetaData_row_groups :: "RowGroup list"
  FileMetaData_key_value_metadata :: "(KeyValue list) option"
  FileMetaData_created_by :: "string option"
  FileMetaData_column_orders :: "(ColumnOrder list) option"
  FileMetaData_encryption_algorithm :: "EncryptionAlgorithm option"
  FileMetaData_footer_signing_key_metadata :: "string option"

definition FileMetaData_init :: FileMetaData where
  "FileMetaData_init =
    \<lparr>FileMetaData_version = 0,
     FileMetaData_schema = [],
     FileMetaData_num_rows = 0,
     FileMetaData_row_groups = [],
     FileMetaData_key_value_metadata = None,
     FileMetaData_created_by = None,
     FileMetaData_column_orders = None,
     FileMetaData_encryption_algorithm = None,
     FileMetaData_footer_signing_key_metadata = None\<rparr>"

record FileCryptoMetaData =
  FileCryptoMetaData_encryption_algorithm :: "EncryptionAlgorithm"
  FileCryptoMetaData_key_metadata :: "string option"

definition FileCryptoMetaData_init :: FileCryptoMetaData where
  "FileCryptoMetaData_init =
    \<lparr>FileCryptoMetaData_encryption_algorithm = EncryptionAlgorithm_init,
     FileCryptoMetaData_key_metadata = None\<rparr>"

end
