(* ===== verification/Parquet_Setters.thy ===== *)
theory Parquet_Setters
  imports Parquet_Types
begin

text \<open>
  The setters of the generated classes (src/gen-cpp/parquet_types.cpp), \<open>X_set_f\<close> for
  \<open>X::__set_f\<close>. A setter of an optional field sets its \<open>__isset\<close> flag, too.
\<close>

definition SizeStatistics_set_unencoded_byte_array_data_bytes :: "i64 \<Rightarrow> SizeStatistics \<Rightarrow> SizeStatistics" where
  [simp]: "SizeStatistics_set_unencoded_byte_array_data_bytes val x = x\<lparr>SizeStatistics_unencoded_byte_array_data_bytes := Some val\<rparr>"

definition SizeStatistics_set_repetition_level_histogram :: "i64 list \<Rightarrow> SizeStatistics \<Rightarrow> SizeStatistics" where
  [simp]: "SizeStatistics_set_repetition_level_histogram val x = x\<lparr>SizeStatistics_repetition_level_histogram := Some val\<rparr>"

definition SizeStatistics_set_definition_level_histogram :: "i64 list \<Rightarrow> SizeStatistics \<Rightarrow> SizeStatistics" where
  [simp]: "SizeStatistics_set_definition_level_histogram val x = x\<lparr>SizeStatistics_definition_level_histogram := Some val\<rparr>"

definition BoundingBox_set_xmin :: "u64 \<Rightarrow> BoundingBox \<Rightarrow> BoundingBox" where
  [simp]: "BoundingBox_set_xmin val x = x\<lparr>BoundingBox_xmin := val\<rparr>"

definition BoundingBox_set_xmax :: "u64 \<Rightarrow> BoundingBox \<Rightarrow> BoundingBox" where
  [simp]: "BoundingBox_set_xmax val x = x\<lparr>BoundingBox_xmax := val\<rparr>"

definition BoundingBox_set_ymin :: "u64 \<Rightarrow> BoundingBox \<Rightarrow> BoundingBox" where
  [simp]: "BoundingBox_set_ymin val x = x\<lparr>BoundingBox_ymin := val\<rparr>"

definition BoundingBox_set_ymax :: "u64 \<Rightarrow> BoundingBox \<Rightarrow> BoundingBox" where
  [simp]: "BoundingBox_set_ymax val x = x\<lparr>BoundingBox_ymax := val\<rparr>"

definition BoundingBox_set_zmin :: "u64 \<Rightarrow> BoundingBox \<Rightarrow> BoundingBox" where
  [simp]: "BoundingBox_set_zmin val x = x\<lparr>BoundingBox_zmin := Some val\<rparr>"

definition BoundingBox_set_zmax :: "u64 \<Rightarrow> BoundingBox \<Rightarrow> BoundingBox" where
  [simp]: "BoundingBox_set_zmax val x = x\<lparr>BoundingBox_zmax := Some val\<rparr>"

definition BoundingBox_set_mmin :: "u64 \<Rightarrow> BoundingBox \<Rightarrow> BoundingBox" where
  [simp]: "BoundingBox_set_mmin val x = x\<lparr>BoundingBox_mmin := Some val\<rparr>"

definition BoundingBox_set_mmax :: "u64 \<Rightarrow> BoundingBox \<Rightarrow> BoundingBox" where
  [simp]: "BoundingBox_set_mmax val x = x\<lparr>BoundingBox_mmax := Some val\<rparr>"

definition GeospatialStatistics_set_bbox :: "BoundingBox \<Rightarrow> GeospatialStatistics \<Rightarrow> GeospatialStatistics" where
  [simp]: "GeospatialStatistics_set_bbox val x = x\<lparr>GeospatialStatistics_bbox := Some val\<rparr>"

definition GeospatialStatistics_set_geospatial_types :: "i32 list \<Rightarrow> GeospatialStatistics \<Rightarrow> GeospatialStatistics" where
  [simp]: "GeospatialStatistics_set_geospatial_types val x = x\<lparr>GeospatialStatistics_geospatial_types := Some val\<rparr>"

definition Statistics_set_max :: "string \<Rightarrow> Statistics \<Rightarrow> Statistics" where
  [simp]: "Statistics_set_max val x = x\<lparr>Statistics_max := Some val\<rparr>"

definition Statistics_set_min :: "string \<Rightarrow> Statistics \<Rightarrow> Statistics" where
  [simp]: "Statistics_set_min val x = x\<lparr>Statistics_min := Some val\<rparr>"

definition Statistics_set_null_count :: "i64 \<Rightarrow> Statistics \<Rightarrow> Statistics" where
  [simp]: "Statistics_set_null_count val x = x\<lparr>Statistics_null_count := Some val\<rparr>"

definition Statistics_set_distinct_count :: "i64 \<Rightarrow> Statistics \<Rightarrow> Statistics" where
  [simp]: "Statistics_set_distinct_count val x = x\<lparr>Statistics_distinct_count := Some val\<rparr>"

definition Statistics_set_max_value :: "string \<Rightarrow> Statistics \<Rightarrow> Statistics" where
  [simp]: "Statistics_set_max_value val x = x\<lparr>Statistics_max_value := Some val\<rparr>"

definition Statistics_set_min_value :: "string \<Rightarrow> Statistics \<Rightarrow> Statistics" where
  [simp]: "Statistics_set_min_value val x = x\<lparr>Statistics_min_value := Some val\<rparr>"

definition Statistics_set_is_max_value_exact :: "bool \<Rightarrow> Statistics \<Rightarrow> Statistics" where
  [simp]: "Statistics_set_is_max_value_exact val x = x\<lparr>Statistics_is_max_value_exact := Some val\<rparr>"

definition Statistics_set_is_min_value_exact :: "bool \<Rightarrow> Statistics \<Rightarrow> Statistics" where
  [simp]: "Statistics_set_is_min_value_exact val x = x\<lparr>Statistics_is_min_value_exact := Some val\<rparr>"

definition DecimalType_set_scale :: "i32 \<Rightarrow> DecimalType \<Rightarrow> DecimalType" where
  [simp]: "DecimalType_set_scale val x = x\<lparr>DecimalType_scale := val\<rparr>"

definition DecimalType_set_precision :: "i32 \<Rightarrow> DecimalType \<Rightarrow> DecimalType" where
  [simp]: "DecimalType_set_precision val x = x\<lparr>DecimalType_precision := val\<rparr>"

definition TimeUnit_set_MILLIS :: "MilliSeconds \<Rightarrow> TimeUnit \<Rightarrow> TimeUnit" where
  [simp]: "TimeUnit_set_MILLIS val x = x\<lparr>TimeUnit_MILLIS := Some val\<rparr>"

definition TimeUnit_set_MICROS :: "MicroSeconds \<Rightarrow> TimeUnit \<Rightarrow> TimeUnit" where
  [simp]: "TimeUnit_set_MICROS val x = x\<lparr>TimeUnit_MICROS := Some val\<rparr>"

definition TimeUnit_set_NANOS :: "NanoSeconds \<Rightarrow> TimeUnit \<Rightarrow> TimeUnit" where
  [simp]: "TimeUnit_set_NANOS val x = x\<lparr>TimeUnit_NANOS := Some val\<rparr>"

definition TimestampType_set_isAdjustedToUTC :: "bool \<Rightarrow> TimestampType \<Rightarrow> TimestampType" where
  [simp]: "TimestampType_set_isAdjustedToUTC val x = x\<lparr>TimestampType_isAdjustedToUTC := val\<rparr>"

definition TimestampType_set_unit :: "TimeUnit \<Rightarrow> TimestampType \<Rightarrow> TimestampType" where
  [simp]: "TimestampType_set_unit val x = x\<lparr>TimestampType_unit := val\<rparr>"

definition TimeType_set_isAdjustedToUTC :: "bool \<Rightarrow> TimeType \<Rightarrow> TimeType" where
  [simp]: "TimeType_set_isAdjustedToUTC val x = x\<lparr>TimeType_isAdjustedToUTC := val\<rparr>"

definition TimeType_set_unit :: "TimeUnit \<Rightarrow> TimeType \<Rightarrow> TimeType" where
  [simp]: "TimeType_set_unit val x = x\<lparr>TimeType_unit := val\<rparr>"

definition IntType_set_bitWidth :: "i8 \<Rightarrow> IntType \<Rightarrow> IntType" where
  [simp]: "IntType_set_bitWidth val x = x\<lparr>IntType_bitWidth := val\<rparr>"

definition IntType_set_isSigned :: "bool \<Rightarrow> IntType \<Rightarrow> IntType" where
  [simp]: "IntType_set_isSigned val x = x\<lparr>IntType_isSigned := val\<rparr>"

definition VariantType_set_specification_version :: "i8 \<Rightarrow> VariantType \<Rightarrow> VariantType" where
  [simp]: "VariantType_set_specification_version val x = x\<lparr>VariantType_specification_version := Some val\<rparr>"

definition GeometryType_set_crs :: "string \<Rightarrow> GeometryType \<Rightarrow> GeometryType" where
  [simp]: "GeometryType_set_crs val x = x\<lparr>GeometryType_crs := Some val\<rparr>"

definition GeographyType_set_crs :: "string \<Rightarrow> GeographyType \<Rightarrow> GeographyType" where
  [simp]: "GeographyType_set_crs val x = x\<lparr>GeographyType_crs := Some val\<rparr>"

definition GeographyType_set_algorithm :: "EdgeInterpolationAlgorithm_t \<Rightarrow> GeographyType \<Rightarrow> GeographyType" where
  [simp]: "GeographyType_set_algorithm val x = x\<lparr>GeographyType_algorithm := Some val\<rparr>"

definition LogicalType_set_STRING :: "StringType \<Rightarrow> LogicalType \<Rightarrow> LogicalType" where
  [simp]: "LogicalType_set_STRING val x = x\<lparr>LogicalType_STRING := Some val\<rparr>"

definition LogicalType_set_MAP :: "MapType \<Rightarrow> LogicalType \<Rightarrow> LogicalType" where
  [simp]: "LogicalType_set_MAP val x = x\<lparr>LogicalType_MAP := Some val\<rparr>"

definition LogicalType_set_LIST :: "ListType \<Rightarrow> LogicalType \<Rightarrow> LogicalType" where
  [simp]: "LogicalType_set_LIST val x = x\<lparr>LogicalType_LIST := Some val\<rparr>"

definition LogicalType_set_ENUM :: "EnumType \<Rightarrow> LogicalType \<Rightarrow> LogicalType" where
  [simp]: "LogicalType_set_ENUM val x = x\<lparr>LogicalType_ENUM := Some val\<rparr>"

definition LogicalType_set_DECIMAL :: "DecimalType \<Rightarrow> LogicalType \<Rightarrow> LogicalType" where
  [simp]: "LogicalType_set_DECIMAL val x = x\<lparr>LogicalType_DECIMAL := Some val\<rparr>"

definition LogicalType_set_DATE :: "DateType \<Rightarrow> LogicalType \<Rightarrow> LogicalType" where
  [simp]: "LogicalType_set_DATE val x = x\<lparr>LogicalType_DATE := Some val\<rparr>"

definition LogicalType_set_TIME :: "TimeType \<Rightarrow> LogicalType \<Rightarrow> LogicalType" where
  [simp]: "LogicalType_set_TIME val x = x\<lparr>LogicalType_TIME := Some val\<rparr>"

definition LogicalType_set_TIMESTAMP :: "TimestampType \<Rightarrow> LogicalType \<Rightarrow> LogicalType" where
  [simp]: "LogicalType_set_TIMESTAMP val x = x\<lparr>LogicalType_TIMESTAMP := Some val\<rparr>"

definition LogicalType_set_INTEGER :: "IntType \<Rightarrow> LogicalType \<Rightarrow> LogicalType" where
  [simp]: "LogicalType_set_INTEGER val x = x\<lparr>LogicalType_INTEGER := Some val\<rparr>"

definition LogicalType_set_UNKNOWN :: "NullType \<Rightarrow> LogicalType \<Rightarrow> LogicalType" where
  [simp]: "LogicalType_set_UNKNOWN val x = x\<lparr>LogicalType_UNKNOWN := Some val\<rparr>"

definition LogicalType_set_JSON :: "JsonType \<Rightarrow> LogicalType \<Rightarrow> LogicalType" where
  [simp]: "LogicalType_set_JSON val x = x\<lparr>LogicalType_JSON := Some val\<rparr>"

definition LogicalType_set_BSON :: "BsonType \<Rightarrow> LogicalType \<Rightarrow> LogicalType" where
  [simp]: "LogicalType_set_BSON val x = x\<lparr>LogicalType_BSON := Some val\<rparr>"

definition LogicalType_set_UUID :: "UUIDType \<Rightarrow> LogicalType \<Rightarrow> LogicalType" where
  [simp]: "LogicalType_set_UUID val x = x\<lparr>LogicalType_UUID := Some val\<rparr>"

definition LogicalType_set_FLOAT16 :: "Float16Type \<Rightarrow> LogicalType \<Rightarrow> LogicalType" where
  [simp]: "LogicalType_set_FLOAT16 val x = x\<lparr>LogicalType_FLOAT16 := Some val\<rparr>"

definition LogicalType_set_VARIANT :: "VariantType \<Rightarrow> LogicalType \<Rightarrow> LogicalType" where
  [simp]: "LogicalType_set_VARIANT val x = x\<lparr>LogicalType_VARIANT := Some val\<rparr>"

definition LogicalType_set_GEOMETRY :: "GeometryType \<Rightarrow> LogicalType \<Rightarrow> LogicalType" where
  [simp]: "LogicalType_set_GEOMETRY val x = x\<lparr>LogicalType_GEOMETRY := Some val\<rparr>"

definition LogicalType_set_GEOGRAPHY :: "GeographyType \<Rightarrow> LogicalType \<Rightarrow> LogicalType" where
  [simp]: "LogicalType_set_GEOGRAPHY val x = x\<lparr>LogicalType_GEOGRAPHY := Some val\<rparr>"

definition SchemaElement_set_type :: "Type_t \<Rightarrow> SchemaElement \<Rightarrow> SchemaElement" where
  [simp]: "SchemaElement_set_type val x = x\<lparr>SchemaElement_type := Some val\<rparr>"

definition SchemaElement_set_type_length :: "i32 \<Rightarrow> SchemaElement \<Rightarrow> SchemaElement" where
  [simp]: "SchemaElement_set_type_length val x = x\<lparr>SchemaElement_type_length := Some val\<rparr>"

definition SchemaElement_set_repetition_type :: "FieldRepetitionType_t \<Rightarrow> SchemaElement \<Rightarrow> SchemaElement" where
  [simp]: "SchemaElement_set_repetition_type val x = x\<lparr>SchemaElement_repetition_type := Some val\<rparr>"

definition SchemaElement_set_name :: "string \<Rightarrow> SchemaElement \<Rightarrow> SchemaElement" where
  [simp]: "SchemaElement_set_name val x = x\<lparr>SchemaElement_name := val\<rparr>"

definition SchemaElement_set_num_children :: "i32 \<Rightarrow> SchemaElement \<Rightarrow> SchemaElement" where
  [simp]: "SchemaElement_set_num_children val x = x\<lparr>SchemaElement_num_children := Some val\<rparr>"

definition SchemaElement_set_converted_type :: "ConvertedType_t \<Rightarrow> SchemaElement \<Rightarrow> SchemaElement" where
  [simp]: "SchemaElement_set_converted_type val x = x\<lparr>SchemaElement_converted_type := Some val\<rparr>"

definition SchemaElement_set_scale :: "i32 \<Rightarrow> SchemaElement \<Rightarrow> SchemaElement" where
  [simp]: "SchemaElement_set_scale val x = x\<lparr>SchemaElement_scale := Some val\<rparr>"

definition SchemaElement_set_precision :: "i32 \<Rightarrow> SchemaElement \<Rightarrow> SchemaElement" where
  [simp]: "SchemaElement_set_precision val x = x\<lparr>SchemaElement_precision := Some val\<rparr>"

definition SchemaElement_set_field_id :: "i32 \<Rightarrow> SchemaElement \<Rightarrow> SchemaElement" where
  [simp]: "SchemaElement_set_field_id val x = x\<lparr>SchemaElement_field_id := Some val\<rparr>"

definition SchemaElement_set_logicalType :: "LogicalType \<Rightarrow> SchemaElement \<Rightarrow> SchemaElement" where
  [simp]: "SchemaElement_set_logicalType val x = x\<lparr>SchemaElement_logicalType := Some val\<rparr>"

definition DataPageHeader_set_num_values :: "i32 \<Rightarrow> DataPageHeader \<Rightarrow> DataPageHeader" where
  [simp]: "DataPageHeader_set_num_values val x = x\<lparr>DataPageHeader_num_values := val\<rparr>"

definition DataPageHeader_set_encoding :: "Encoding_t \<Rightarrow> DataPageHeader \<Rightarrow> DataPageHeader" where
  [simp]: "DataPageHeader_set_encoding val x = x\<lparr>DataPageHeader_encoding := val\<rparr>"

definition DataPageHeader_set_definition_level_encoding :: "Encoding_t \<Rightarrow> DataPageHeader \<Rightarrow> DataPageHeader" where
  [simp]: "DataPageHeader_set_definition_level_encoding val x = x\<lparr>DataPageHeader_definition_level_encoding := val\<rparr>"

definition DataPageHeader_set_repetition_level_encoding :: "Encoding_t \<Rightarrow> DataPageHeader \<Rightarrow> DataPageHeader" where
  [simp]: "DataPageHeader_set_repetition_level_encoding val x = x\<lparr>DataPageHeader_repetition_level_encoding := val\<rparr>"

definition DataPageHeader_set_statistics :: "Statistics \<Rightarrow> DataPageHeader \<Rightarrow> DataPageHeader" where
  [simp]: "DataPageHeader_set_statistics val x = x\<lparr>DataPageHeader_statistics := Some val\<rparr>"

definition DictionaryPageHeader_set_num_values :: "i32 \<Rightarrow> DictionaryPageHeader \<Rightarrow> DictionaryPageHeader" where
  [simp]: "DictionaryPageHeader_set_num_values val x = x\<lparr>DictionaryPageHeader_num_values := val\<rparr>"

definition DictionaryPageHeader_set_encoding :: "Encoding_t \<Rightarrow> DictionaryPageHeader \<Rightarrow> DictionaryPageHeader" where
  [simp]: "DictionaryPageHeader_set_encoding val x = x\<lparr>DictionaryPageHeader_encoding := val\<rparr>"

definition DictionaryPageHeader_set_is_sorted :: "bool \<Rightarrow> DictionaryPageHeader \<Rightarrow> DictionaryPageHeader" where
  [simp]: "DictionaryPageHeader_set_is_sorted val x = x\<lparr>DictionaryPageHeader_is_sorted := Some val\<rparr>"

definition DataPageHeaderV2_set_num_values :: "i32 \<Rightarrow> DataPageHeaderV2 \<Rightarrow> DataPageHeaderV2" where
  [simp]: "DataPageHeaderV2_set_num_values val x = x\<lparr>DataPageHeaderV2_num_values := val\<rparr>"

definition DataPageHeaderV2_set_num_nulls :: "i32 \<Rightarrow> DataPageHeaderV2 \<Rightarrow> DataPageHeaderV2" where
  [simp]: "DataPageHeaderV2_set_num_nulls val x = x\<lparr>DataPageHeaderV2_num_nulls := val\<rparr>"

definition DataPageHeaderV2_set_num_rows :: "i32 \<Rightarrow> DataPageHeaderV2 \<Rightarrow> DataPageHeaderV2" where
  [simp]: "DataPageHeaderV2_set_num_rows val x = x\<lparr>DataPageHeaderV2_num_rows := val\<rparr>"

definition DataPageHeaderV2_set_encoding :: "Encoding_t \<Rightarrow> DataPageHeaderV2 \<Rightarrow> DataPageHeaderV2" where
  [simp]: "DataPageHeaderV2_set_encoding val x = x\<lparr>DataPageHeaderV2_encoding := val\<rparr>"

definition DataPageHeaderV2_set_definition_levels_byte_length :: "i32 \<Rightarrow> DataPageHeaderV2 \<Rightarrow> DataPageHeaderV2" where
  [simp]: "DataPageHeaderV2_set_definition_levels_byte_length val x = x\<lparr>DataPageHeaderV2_definition_levels_byte_length := val\<rparr>"

definition DataPageHeaderV2_set_repetition_levels_byte_length :: "i32 \<Rightarrow> DataPageHeaderV2 \<Rightarrow> DataPageHeaderV2" where
  [simp]: "DataPageHeaderV2_set_repetition_levels_byte_length val x = x\<lparr>DataPageHeaderV2_repetition_levels_byte_length := val\<rparr>"

definition DataPageHeaderV2_set_is_compressed :: "bool \<Rightarrow> DataPageHeaderV2 \<Rightarrow> DataPageHeaderV2" where
  [simp]: "DataPageHeaderV2_set_is_compressed val x = x\<lparr>DataPageHeaderV2_is_compressed := Some val\<rparr>"

definition DataPageHeaderV2_set_statistics :: "Statistics \<Rightarrow> DataPageHeaderV2 \<Rightarrow> DataPageHeaderV2" where
  [simp]: "DataPageHeaderV2_set_statistics val x = x\<lparr>DataPageHeaderV2_statistics := Some val\<rparr>"

definition BloomFilterAlgorithm_set_BLOCK :: "SplitBlockAlgorithm \<Rightarrow> BloomFilterAlgorithm \<Rightarrow> BloomFilterAlgorithm" where
  [simp]: "BloomFilterAlgorithm_set_BLOCK val x = x\<lparr>BloomFilterAlgorithm_BLOCK := Some val\<rparr>"

definition BloomFilterHash_set_XXHASH :: "XxHash \<Rightarrow> BloomFilterHash \<Rightarrow> BloomFilterHash" where
  [simp]: "BloomFilterHash_set_XXHASH val x = x\<lparr>BloomFilterHash_XXHASH := Some val\<rparr>"

definition BloomFilterCompression_set_UNCOMPRESSED :: "Uncompressed \<Rightarrow> BloomFilterCompression \<Rightarrow> BloomFilterCompression" where
  [simp]: "BloomFilterCompression_set_UNCOMPRESSED val x = x\<lparr>BloomFilterCompression_UNCOMPRESSED := Some val\<rparr>"

definition BloomFilterHeader_set_numBytes :: "i32 \<Rightarrow> BloomFilterHeader \<Rightarrow> BloomFilterHeader" where
  [simp]: "BloomFilterHeader_set_numBytes val x = x\<lparr>BloomFilterHeader_numBytes := val\<rparr>"

definition BloomFilterHeader_set_algorithm :: "BloomFilterAlgorithm \<Rightarrow> BloomFilterHeader \<Rightarrow> BloomFilterHeader" where
  [simp]: "BloomFilterHeader_set_algorithm val x = x\<lparr>BloomFilterHeader_algorithm := val\<rparr>"

definition BloomFilterHeader_set_hash :: "BloomFilterHash \<Rightarrow> BloomFilterHeader \<Rightarrow> BloomFilterHeader" where
  [simp]: "BloomFilterHeader_set_hash val x = x\<lparr>BloomFilterHeader_hash := val\<rparr>"

definition BloomFilterHeader_set_compression :: "BloomFilterCompression \<Rightarrow> BloomFilterHeader \<Rightarrow> BloomFilterHeader" where
  [simp]: "BloomFilterHeader_set_compression val x = x\<lparr>BloomFilterHeader_compression := val\<rparr>"

definition PageHeader_set_type :: "PageType_t \<Rightarrow> PageHeader \<Rightarrow> PageHeader" where
  [simp]: "PageHeader_set_type val x = x\<lparr>PageHeader_type := val\<rparr>"

definition PageHeader_set_uncompressed_page_size :: "i32 \<Rightarrow> PageHeader \<Rightarrow> PageHeader" where
  [simp]: "PageHeader_set_uncompressed_page_size val x = x\<lparr>PageHeader_uncompressed_page_size := val\<rparr>"

definition PageHeader_set_compressed_page_size :: "i32 \<Rightarrow> PageHeader \<Rightarrow> PageHeader" where
  [simp]: "PageHeader_set_compressed_page_size val x = x\<lparr>PageHeader_compressed_page_size := val\<rparr>"

definition PageHeader_set_crc :: "i32 \<Rightarrow> PageHeader \<Rightarrow> PageHeader" where
  [simp]: "PageHeader_set_crc val x = x\<lparr>PageHeader_crc := Some val\<rparr>"

definition PageHeader_set_data_page_header :: "DataPageHeader \<Rightarrow> PageHeader \<Rightarrow> PageHeader" where
  [simp]: "PageHeader_set_data_page_header val x = x\<lparr>PageHeader_data_page_header := Some val\<rparr>"

definition PageHeader_set_index_page_header :: "IndexPageHeader \<Rightarrow> PageHeader \<Rightarrow> PageHeader" where
  [simp]: "PageHeader_set_index_page_header val x = x\<lparr>PageHeader_index_page_header := Some val\<rparr>"

definition PageHeader_set_dictionary_page_header :: "DictionaryPageHeader \<Rightarrow> PageHeader \<Rightarrow> PageHeader" where
  [simp]: "PageHeader_set_dictionary_page_header val x = x\<lparr>PageHeader_dictionary_page_header := Some val\<rparr>"

definition PageHeader_set_data_page_header_v2 :: "DataPageHeaderV2 \<Rightarrow> PageHeader \<Rightarrow> PageHeader" where
  [simp]: "PageHeader_set_data_page_header_v2 val x = x\<lparr>PageHeader_data_page_header_v2 := Some val\<rparr>"

definition KeyValue_set_key :: "string \<Rightarrow> KeyValue \<Rightarrow> KeyValue" where
  [simp]: "KeyValue_set_key val x = x\<lparr>KeyValue_key := val\<rparr>"

definition KeyValue_set_value :: "string \<Rightarrow> KeyValue \<Rightarrow> KeyValue" where
  [simp]: "KeyValue_set_value val x = x\<lparr>KeyValue_value := Some val\<rparr>"

definition SortingColumn_set_column_idx :: "i32 \<Rightarrow> SortingColumn \<Rightarrow> SortingColumn" where
  [simp]: "SortingColumn_set_column_idx val x = x\<lparr>SortingColumn_column_idx := val\<rparr>"

definition SortingColumn_set_descending :: "bool \<Rightarrow> SortingColumn \<Rightarrow> SortingColumn" where
  [simp]: "SortingColumn_set_descending val x = x\<lparr>SortingColumn_descending := val\<rparr>"

definition SortingColumn_set_nulls_first :: "bool \<Rightarrow> SortingColumn \<Rightarrow> SortingColumn" where
  [simp]: "SortingColumn_set_nulls_first val x = x\<lparr>SortingColumn_nulls_first := val\<rparr>"

definition PageEncodingStats_set_page_type :: "PageType_t \<Rightarrow> PageEncodingStats \<Rightarrow> PageEncodingStats" where
  [simp]: "PageEncodingStats_set_page_type val x = x\<lparr>PageEncodingStats_page_type := val\<rparr>"

definition PageEncodingStats_set_encoding :: "Encoding_t \<Rightarrow> PageEncodingStats \<Rightarrow> PageEncodingStats" where
  [simp]: "PageEncodingStats_set_encoding val x = x\<lparr>PageEncodingStats_encoding := val\<rparr>"

definition PageEncodingStats_set_count :: "i32 \<Rightarrow> PageEncodingStats \<Rightarrow> PageEncodingStats" where
  [simp]: "PageEncodingStats_set_count val x = x\<lparr>PageEncodingStats_count := val\<rparr>"

definition ColumnMetaData_set_type :: "Type_t \<Rightarrow> ColumnMetaData \<Rightarrow> ColumnMetaData" where
  [simp]: "ColumnMetaData_set_type val x = x\<lparr>ColumnMetaData_type := val\<rparr>"

definition ColumnMetaData_set_encodings :: "Encoding_t list \<Rightarrow> ColumnMetaData \<Rightarrow> ColumnMetaData" where
  [simp]: "ColumnMetaData_set_encodings val x = x\<lparr>ColumnMetaData_encodings := val\<rparr>"

definition ColumnMetaData_set_path_in_schema :: "string list \<Rightarrow> ColumnMetaData \<Rightarrow> ColumnMetaData" where
  [simp]: "ColumnMetaData_set_path_in_schema val x = x\<lparr>ColumnMetaData_path_in_schema := val\<rparr>"

definition ColumnMetaData_set_codec :: "CompressionCodec_t \<Rightarrow> ColumnMetaData \<Rightarrow> ColumnMetaData" where
  [simp]: "ColumnMetaData_set_codec val x = x\<lparr>ColumnMetaData_codec := val\<rparr>"

definition ColumnMetaData_set_num_values :: "i64 \<Rightarrow> ColumnMetaData \<Rightarrow> ColumnMetaData" where
  [simp]: "ColumnMetaData_set_num_values val x = x\<lparr>ColumnMetaData_num_values := val\<rparr>"

definition ColumnMetaData_set_total_uncompressed_size :: "i64 \<Rightarrow> ColumnMetaData \<Rightarrow> ColumnMetaData" where
  [simp]: "ColumnMetaData_set_total_uncompressed_size val x = x\<lparr>ColumnMetaData_total_uncompressed_size := val\<rparr>"

definition ColumnMetaData_set_total_compressed_size :: "i64 \<Rightarrow> ColumnMetaData \<Rightarrow> ColumnMetaData" where
  [simp]: "ColumnMetaData_set_total_compressed_size val x = x\<lparr>ColumnMetaData_total_compressed_size := val\<rparr>"

definition ColumnMetaData_set_key_value_metadata :: "KeyValue list \<Rightarrow> ColumnMetaData \<Rightarrow> ColumnMetaData" where
  [simp]: "ColumnMetaData_set_key_value_metadata val x = x\<lparr>ColumnMetaData_key_value_metadata := Some val\<rparr>"

definition ColumnMetaData_set_data_page_offset :: "i64 \<Rightarrow> ColumnMetaData \<Rightarrow> ColumnMetaData" where
  [simp]: "ColumnMetaData_set_data_page_offset val x = x\<lparr>ColumnMetaData_data_page_offset := val\<rparr>"

definition ColumnMetaData_set_index_page_offset :: "i64 \<Rightarrow> ColumnMetaData \<Rightarrow> ColumnMetaData" where
  [simp]: "ColumnMetaData_set_index_page_offset val x = x\<lparr>ColumnMetaData_index_page_offset := Some val\<rparr>"

definition ColumnMetaData_set_dictionary_page_offset :: "i64 \<Rightarrow> ColumnMetaData \<Rightarrow> ColumnMetaData" where
  [simp]: "ColumnMetaData_set_dictionary_page_offset val x = x\<lparr>ColumnMetaData_dictionary_page_offset := Some val\<rparr>"

definition ColumnMetaData_set_statistics :: "Statistics \<Rightarrow> ColumnMetaData \<Rightarrow> ColumnMetaData" where
  [simp]: "ColumnMetaData_set_statistics val x = x\<lparr>ColumnMetaData_statistics := Some val\<rparr>"

definition ColumnMetaData_set_encoding_stats :: "PageEncodingStats list \<Rightarrow> ColumnMetaData \<Rightarrow> ColumnMetaData" where
  [simp]: "ColumnMetaData_set_encoding_stats val x = x\<lparr>ColumnMetaData_encoding_stats := Some val\<rparr>"

definition ColumnMetaData_set_bloom_filter_offset :: "i64 \<Rightarrow> ColumnMetaData \<Rightarrow> ColumnMetaData" where
  [simp]: "ColumnMetaData_set_bloom_filter_offset val x = x\<lparr>ColumnMetaData_bloom_filter_offset := Some val\<rparr>"

definition ColumnMetaData_set_bloom_filter_length :: "i32 \<Rightarrow> ColumnMetaData \<Rightarrow> ColumnMetaData" where
  [simp]: "ColumnMetaData_set_bloom_filter_length val x = x\<lparr>ColumnMetaData_bloom_filter_length := Some val\<rparr>"

definition ColumnMetaData_set_size_statistics :: "SizeStatistics \<Rightarrow> ColumnMetaData \<Rightarrow> ColumnMetaData" where
  [simp]: "ColumnMetaData_set_size_statistics val x = x\<lparr>ColumnMetaData_size_statistics := Some val\<rparr>"

definition ColumnMetaData_set_geospatial_statistics :: "GeospatialStatistics \<Rightarrow> ColumnMetaData \<Rightarrow> ColumnMetaData" where
  [simp]: "ColumnMetaData_set_geospatial_statistics val x = x\<lparr>ColumnMetaData_geospatial_statistics := Some val\<rparr>"

definition EncryptionWithColumnKey_set_path_in_schema :: "string list \<Rightarrow> EncryptionWithColumnKey \<Rightarrow> EncryptionWithColumnKey" where
  [simp]: "EncryptionWithColumnKey_set_path_in_schema val x = x\<lparr>EncryptionWithColumnKey_path_in_schema := val\<rparr>"

definition EncryptionWithColumnKey_set_key_metadata :: "string \<Rightarrow> EncryptionWithColumnKey \<Rightarrow> EncryptionWithColumnKey" where
  [simp]: "EncryptionWithColumnKey_set_key_metadata val x = x\<lparr>EncryptionWithColumnKey_key_metadata := Some val\<rparr>"

definition ColumnCryptoMetaData_set_ENCRYPTION_WITH_FOOTER_KEY :: "EncryptionWithFooterKey \<Rightarrow> ColumnCryptoMetaData \<Rightarrow> ColumnCryptoMetaData" where
  [simp]: "ColumnCryptoMetaData_set_ENCRYPTION_WITH_FOOTER_KEY val x = x\<lparr>ColumnCryptoMetaData_ENCRYPTION_WITH_FOOTER_KEY := Some val\<rparr>"

definition ColumnCryptoMetaData_set_ENCRYPTION_WITH_COLUMN_KEY :: "EncryptionWithColumnKey \<Rightarrow> ColumnCryptoMetaData \<Rightarrow> ColumnCryptoMetaData" where
  [simp]: "ColumnCryptoMetaData_set_ENCRYPTION_WITH_COLUMN_KEY val x = x\<lparr>ColumnCryptoMetaData_ENCRYPTION_WITH_COLUMN_KEY := Some val\<rparr>"

definition ColumnChunk_set_file_path :: "string \<Rightarrow> ColumnChunk \<Rightarrow> ColumnChunk" where
  [simp]: "ColumnChunk_set_file_path val x = x\<lparr>ColumnChunk_file_path := Some val\<rparr>"

definition ColumnChunk_set_file_offset :: "i64 \<Rightarrow> ColumnChunk \<Rightarrow> ColumnChunk" where
  [simp]: "ColumnChunk_set_file_offset val x = x\<lparr>ColumnChunk_file_offset := val\<rparr>"

definition ColumnChunk_set_meta_data :: "ColumnMetaData \<Rightarrow> ColumnChunk \<Rightarrow> ColumnChunk" where
  [simp]: "ColumnChunk_set_meta_data val x = x\<lparr>ColumnChunk_meta_data := Some val\<rparr>"

definition ColumnChunk_set_offset_index_offset :: "i64 \<Rightarrow> ColumnChunk \<Rightarrow> ColumnChunk" where
  [simp]: "ColumnChunk_set_offset_index_offset val x = x\<lparr>ColumnChunk_offset_index_offset := Some val\<rparr>"

definition ColumnChunk_set_offset_index_length :: "i32 \<Rightarrow> ColumnChunk \<Rightarrow> ColumnChunk" where
  [simp]: "ColumnChunk_set_offset_index_length val x = x\<lparr>ColumnChunk_offset_index_length := Some val\<rparr>"

definition ColumnChunk_set_column_index_offset :: "i64 \<Rightarrow> ColumnChunk \<Rightarrow> ColumnChunk" where
  [simp]: "ColumnChunk_set_column_index_offset val x = x\<lparr>ColumnChunk_column_index_offset := Some val\<rparr>"

definition ColumnChunk_set_column_index_length :: "i32 \<Rightarrow> ColumnChunk \<Rightarrow> ColumnChunk" where
  [simp]: "ColumnChunk_set_column_index_length val x = x\<lparr>ColumnChunk_column_index_length := Some val\<rparr>"

definition ColumnChunk_set_crypto_metadata :: "ColumnCryptoMetaData \<Rightarrow> ColumnChunk \<Rightarrow> ColumnChunk" where
  [simp]: "ColumnChunk_set_crypto_metadata val x = x\<lparr>ColumnChunk_crypto_metadata := Some val\<rparr>"

definition ColumnChunk_set_encrypted_column_metadata :: "string \<Rightarrow> ColumnChunk \<Rightarrow> ColumnChunk" where
  [simp]: "ColumnChunk_set_encrypted_column_metadata val x = x\<lparr>ColumnChunk_encrypted_column_metadata := Some val\<rparr>"

definition RowGroup_set_columns :: "ColumnChunk list \<Rightarrow> RowGroup \<Rightarrow> RowGroup" where
  [simp]: "RowGroup_set_columns val x = x\<lparr>RowGroup_columns := val\<rparr>"

definition RowGroup_set_total_byte_size :: "i64 \<Rightarrow> RowGroup \<Rightarrow> RowGroup" where
  [simp]: "RowGroup_set_total_byte_size val x = x\<lparr>RowGroup_total_byte_size := val\<rparr>"

definition RowGroup_set_num_rows :: "i64 \<Rightarrow> RowGroup \<Rightarrow> RowGroup" where
  [simp]: "RowGroup_set_num_rows val x = x\<lparr>RowGroup_num_rows := val\<rparr>"

definition RowGroup_set_sorting_columns :: "SortingColumn list \<Rightarrow> RowGroup \<Rightarrow> RowGroup" where
  [simp]: "RowGroup_set_sorting_columns val x = x\<lparr>RowGroup_sorting_columns := Some val\<rparr>"

definition RowGroup_set_file_offset :: "i64 \<Rightarrow> RowGroup \<Rightarrow> RowGroup" where
  [simp]: "RowGroup_set_file_offset val x = x\<lparr>RowGroup_file_offset := Some val\<rparr>"

definition RowGroup_set_total_compressed_size :: "i64 \<Rightarrow> RowGroup \<Rightarrow> RowGroup" where
  [simp]: "RowGroup_set_total_compressed_size val x = x\<lparr>RowGroup_total_compressed_size := Some val\<rparr>"

definition RowGroup_set_ordinal :: "i16 \<Rightarrow> RowGroup \<Rightarrow> RowGroup" where
  [simp]: "RowGroup_set_ordinal val x = x\<lparr>RowGroup_ordinal := Some val\<rparr>"

definition ColumnOrder_set_TYPE_ORDER :: "TypeDefinedOrder \<Rightarrow> ColumnOrder \<Rightarrow> ColumnOrder" where
  [simp]: "ColumnOrder_set_TYPE_ORDER val x = x\<lparr>ColumnOrder_TYPE_ORDER := Some val\<rparr>"

definition PageLocation_set_offset :: "i64 \<Rightarrow> PageLocation \<Rightarrow> PageLocation" where
  [simp]: "PageLocation_set_offset val x = x\<lparr>PageLocation_offset := val\<rparr>"

definition PageLocation_set_compressed_page_size :: "i32 \<Rightarrow> PageLocation \<Rightarrow> PageLocation" where
  [simp]: "PageLocation_set_compressed_page_size val x = x\<lparr>PageLocation_compressed_page_size := val\<rparr>"

definition PageLocation_set_first_row_index :: "i64 \<Rightarrow> PageLocation \<Rightarrow> PageLocation" where
  [simp]: "PageLocation_set_first_row_index val x = x\<lparr>PageLocation_first_row_index := val\<rparr>"

definition OffsetIndex_set_page_locations :: "PageLocation list \<Rightarrow> OffsetIndex \<Rightarrow> OffsetIndex" where
  [simp]: "OffsetIndex_set_page_locations val x = x\<lparr>OffsetIndex_page_locations := val\<rparr>"

definition OffsetIndex_set_unencoded_byte_array_data_bytes :: "i64 list \<Rightarrow> OffsetIndex \<Rightarrow> OffsetIndex" where
  [simp]: "OffsetIndex_set_unencoded_byte_array_data_bytes val x = x\<lparr>OffsetIndex_unencoded_byte_array_data_bytes := Some val\<rparr>"

definition ColumnIndex_set_null_pages :: "bool list \<Rightarrow> ColumnIndex \<Rightarrow> ColumnIndex" where
  [simp]: "ColumnIndex_set_null_pages val x = x\<lparr>ColumnIndex_null_pages := val\<rparr>"

definition ColumnIndex_set_min_values :: "string list \<Rightarrow> ColumnIndex \<Rightarrow> ColumnIndex" where
  [simp]: "ColumnIndex_set_min_values val x = x\<lparr>ColumnIndex_min_values := val\<rparr>"

definition ColumnIndex_set_max_values :: "string list \<Rightarrow> ColumnIndex \<Rightarrow> ColumnIndex" where
  [simp]: "ColumnIndex_set_max_values val x = x\<lparr>ColumnIndex_max_values := val\<rparr>"

definition ColumnIndex_set_boundary_order :: "BoundaryOrder_t \<Rightarrow> ColumnIndex \<Rightarrow> ColumnIndex" where
  [simp]: "ColumnIndex_set_boundary_order val x = x\<lparr>ColumnIndex_boundary_order := val\<rparr>"

definition ColumnIndex_set_null_counts :: "i64 list \<Rightarrow> ColumnIndex \<Rightarrow> ColumnIndex" where
  [simp]: "ColumnIndex_set_null_counts val x = x\<lparr>ColumnIndex_null_counts := Some val\<rparr>"

definition ColumnIndex_set_repetition_level_histograms :: "i64 list \<Rightarrow> ColumnIndex \<Rightarrow> ColumnIndex" where
  [simp]: "ColumnIndex_set_repetition_level_histograms val x = x\<lparr>ColumnIndex_repetition_level_histograms := Some val\<rparr>"

definition ColumnIndex_set_definition_level_histograms :: "i64 list \<Rightarrow> ColumnIndex \<Rightarrow> ColumnIndex" where
  [simp]: "ColumnIndex_set_definition_level_histograms val x = x\<lparr>ColumnIndex_definition_level_histograms := Some val\<rparr>"

definition AesGcmV1_set_aad_prefix :: "string \<Rightarrow> AesGcmV1 \<Rightarrow> AesGcmV1" where
  [simp]: "AesGcmV1_set_aad_prefix val x = x\<lparr>AesGcmV1_aad_prefix := Some val\<rparr>"

definition AesGcmV1_set_aad_file_unique :: "string \<Rightarrow> AesGcmV1 \<Rightarrow> AesGcmV1" where
  [simp]: "AesGcmV1_set_aad_file_unique val x = x\<lparr>AesGcmV1_aad_file_unique := Some val\<rparr>"

definition AesGcmV1_set_supply_aad_prefix :: "bool \<Rightarrow> AesGcmV1 \<Rightarrow> AesGcmV1" where
  [simp]: "AesGcmV1_set_supply_aad_prefix val x = x\<lparr>AesGcmV1_supply_aad_prefix := Some val\<rparr>"

definition AesGcmCtrV1_set_aad_prefix :: "string \<Rightarrow> AesGcmCtrV1 \<Rightarrow> AesGcmCtrV1" where
  [simp]: "AesGcmCtrV1_set_aad_prefix val x = x\<lparr>AesGcmCtrV1_aad_prefix := Some val\<rparr>"

definition AesGcmCtrV1_set_aad_file_unique :: "string \<Rightarrow> AesGcmCtrV1 \<Rightarrow> AesGcmCtrV1" where
  [simp]: "AesGcmCtrV1_set_aad_file_unique val x = x\<lparr>AesGcmCtrV1_aad_file_unique := Some val\<rparr>"

definition AesGcmCtrV1_set_supply_aad_prefix :: "bool \<Rightarrow> AesGcmCtrV1 \<Rightarrow> AesGcmCtrV1" where
  [simp]: "AesGcmCtrV1_set_supply_aad_prefix val x = x\<lparr>AesGcmCtrV1_supply_aad_prefix := Some val\<rparr>"

definition EncryptionAlgorithm_set_AES_GCM_V1 :: "AesGcmV1 \<Rightarrow> EncryptionAlgorithm \<Rightarrow> EncryptionAlgorithm" where
  [simp]: "EncryptionAlgorithm_set_AES_GCM_V1 val x = x\<lparr>EncryptionAlgorithm_AES_GCM_V1 := Some val\<rparr>"

definition EncryptionAlgorithm_set_AES_GCM_CTR_V1 :: "AesGcmCtrV1 \<Rightarrow> EncryptionAlgorithm \<Rightarrow> EncryptionAlgorithm" where
  [simp]: "EncryptionAlgorithm_set_AES_GCM_CTR_V1 val x = x\<lparr>EncryptionAlgorithm_AES_GCM_CTR_V1 := Some val\<rparr>"

definition FileMetaData_set_version :: "i32 \<Rightarrow> FileMetaData \<Rightarrow> FileMetaData" where
  [simp]: "FileMetaData_set_version val x = x\<lparr>FileMetaData_version := val\<rparr>"

definition FileMetaData_set_schema :: "SchemaElement list \<Rightarrow> FileMetaData \<Rightarrow> FileMetaData" where
  [simp]: "FileMetaData_set_schema val x = x\<lparr>FileMetaData_schema := val\<rparr>"

definition FileMetaData_set_num_rows :: "i64 \<Rightarrow> FileMetaData \<Rightarrow> FileMetaData" where
  [simp]: "FileMetaData_set_num_rows val x = x\<lparr>FileMetaData_num_rows := val\<rparr>"

definition FileMetaData_set_row_groups :: "RowGroup list \<Rightarrow> FileMetaData \<Rightarrow> FileMetaData" where
  [simp]: "FileMetaData_set_row_groups val x = x\<lparr>FileMetaData_row_groups := val\<rparr>"

definition FileMetaData_set_key_value_metadata :: "KeyValue list \<Rightarrow> FileMetaData \<Rightarrow> FileMetaData" where
  [simp]: "FileMetaData_set_key_value_metadata val x = x\<lparr>FileMetaData_key_value_metadata := Some val\<rparr>"

definition FileMetaData_set_created_by :: "string \<Rightarrow> FileMetaData \<Rightarrow> FileMetaData" where
  [simp]: "FileMetaData_set_created_by val x = x\<lparr>FileMetaData_created_by := Some val\<rparr>"

definition FileMetaData_set_column_orders :: "ColumnOrder list \<Rightarrow> FileMetaData \<Rightarrow> FileMetaData" where
  [simp]: "FileMetaData_set_column_orders val x = x\<lparr>FileMetaData_column_orders := Some val\<rparr>"

definition FileMetaData_set_encryption_algorithm :: "EncryptionAlgorithm \<Rightarrow> FileMetaData \<Rightarrow> FileMetaData" where
  [simp]: "FileMetaData_set_encryption_algorithm val x = x\<lparr>FileMetaData_encryption_algorithm := Some val\<rparr>"

definition FileMetaData_set_footer_signing_key_metadata :: "string \<Rightarrow> FileMetaData \<Rightarrow> FileMetaData" where
  [simp]: "FileMetaData_set_footer_signing_key_metadata val x = x\<lparr>FileMetaData_footer_signing_key_metadata := Some val\<rparr>"

definition FileCryptoMetaData_set_encryption_algorithm :: "EncryptionAlgorithm \<Rightarrow> FileCryptoMetaData \<Rightarrow> FileCryptoMetaData" where
  [simp]: "FileCryptoMetaData_set_encryption_algorithm val x = x\<lparr>FileCryptoMetaData_encryption_algorithm := val\<rparr>"

definition FileCryptoMetaData_set_key_metadata :: "string \<Rightarrow> FileCryptoMetaData \<Rightarrow> FileCryptoMetaData" where
  [simp]: "FileCryptoMetaData_set_key_metadata val x = x\<lparr>FileCryptoMetaData_key_metadata := Some val\<rparr>"

end
