(* ===== verification/Parquet_Write.thy ===== *)
theory Parquet_Write
  imports Parquet_Types
begin

text \<open>
  The generated \<open>write\<close> functions (src/gen-cpp/parquet_types.cpp): the calls each struct makes on
  the protocol, fields in the order of their ids, optional ones where they are set. The number
  of bytes that the C++ functions add up and return is not used by the program and left out, as
  is the depth counter of \<open>TOutputRecursionTracker\<close>.
\<close>

definition write_SizeStatistics :: "SizeStatistics \<Rightarrow> tok list" where
  "write_SizeStatistics x = w_struct ''SizeStatistics''
    [w_opt ''unencoded_byte_array_data_bytes'' T_I64 1 w_i64 (SizeStatistics_unencoded_byte_array_data_bytes x),
     w_opt ''repetition_level_histogram'' T_LIST 2 (w_list T_I64 w_i64) (SizeStatistics_repetition_level_histogram x),
     w_opt ''definition_level_histogram'' T_LIST 3 (w_list T_I64 w_i64) (SizeStatistics_definition_level_histogram x)]"

definition write_BoundingBox :: "BoundingBox \<Rightarrow> tok list" where
  "write_BoundingBox x = w_struct ''BoundingBox''
    [w_field ''xmin'' T_DOUBLE 1 w_double (BoundingBox_xmin x),
     w_field ''xmax'' T_DOUBLE 2 w_double (BoundingBox_xmax x),
     w_field ''ymin'' T_DOUBLE 3 w_double (BoundingBox_ymin x),
     w_field ''ymax'' T_DOUBLE 4 w_double (BoundingBox_ymax x),
     w_opt ''zmin'' T_DOUBLE 5 w_double (BoundingBox_zmin x),
     w_opt ''zmax'' T_DOUBLE 6 w_double (BoundingBox_zmax x),
     w_opt ''mmin'' T_DOUBLE 7 w_double (BoundingBox_mmin x),
     w_opt ''mmax'' T_DOUBLE 8 w_double (BoundingBox_mmax x)]"

definition write_GeospatialStatistics :: "GeospatialStatistics \<Rightarrow> tok list" where
  "write_GeospatialStatistics x = w_struct ''GeospatialStatistics''
    [w_opt ''bbox'' T_STRUCT 1 write_BoundingBox (GeospatialStatistics_bbox x),
     w_opt ''geospatial_types'' T_LIST 2 (w_list T_I32 w_i32) (GeospatialStatistics_geospatial_types x)]"

definition write_Statistics :: "Statistics \<Rightarrow> tok list" where
  "write_Statistics x = w_struct ''Statistics''
    [w_opt ''max'' T_STRING 1 w_binary (Statistics_max x),
     w_opt ''min'' T_STRING 2 w_binary (Statistics_min x),
     w_opt ''null_count'' T_I64 3 w_i64 (Statistics_null_count x),
     w_opt ''distinct_count'' T_I64 4 w_i64 (Statistics_distinct_count x),
     w_opt ''max_value'' T_STRING 5 w_binary (Statistics_max_value x),
     w_opt ''min_value'' T_STRING 6 w_binary (Statistics_min_value x),
     w_opt ''is_max_value_exact'' T_BOOL 7 w_bool (Statistics_is_max_value_exact x),
     w_opt ''is_min_value_exact'' T_BOOL 8 w_bool (Statistics_is_min_value_exact x)]"

definition write_StringType :: "StringType \<Rightarrow> tok list" where
  "write_StringType x = w_struct ''StringType''
    []"

definition write_UUIDType :: "UUIDType \<Rightarrow> tok list" where
  "write_UUIDType x = w_struct ''UUIDType''
    []"

definition write_MapType :: "MapType \<Rightarrow> tok list" where
  "write_MapType x = w_struct ''MapType''
    []"

definition write_ListType :: "ListType \<Rightarrow> tok list" where
  "write_ListType x = w_struct ''ListType''
    []"

definition write_EnumType :: "EnumType \<Rightarrow> tok list" where
  "write_EnumType x = w_struct ''EnumType''
    []"

definition write_DateType :: "DateType \<Rightarrow> tok list" where
  "write_DateType x = w_struct ''DateType''
    []"

definition write_Float16Type :: "Float16Type \<Rightarrow> tok list" where
  "write_Float16Type x = w_struct ''Float16Type''
    []"

definition write_NullType :: "NullType \<Rightarrow> tok list" where
  "write_NullType x = w_struct ''NullType''
    []"

definition write_DecimalType :: "DecimalType \<Rightarrow> tok list" where
  "write_DecimalType x = w_struct ''DecimalType''
    [w_field ''scale'' T_I32 1 w_i32 (DecimalType_scale x),
     w_field ''precision'' T_I32 2 w_i32 (DecimalType_precision x)]"

definition write_MilliSeconds :: "MilliSeconds \<Rightarrow> tok list" where
  "write_MilliSeconds x = w_struct ''MilliSeconds''
    []"

definition write_MicroSeconds :: "MicroSeconds \<Rightarrow> tok list" where
  "write_MicroSeconds x = w_struct ''MicroSeconds''
    []"

definition write_NanoSeconds :: "NanoSeconds \<Rightarrow> tok list" where
  "write_NanoSeconds x = w_struct ''NanoSeconds''
    []"

definition write_TimeUnit :: "TimeUnit \<Rightarrow> tok list" where
  "write_TimeUnit x = w_struct ''TimeUnit''
    [w_opt ''MILLIS'' T_STRUCT 1 write_MilliSeconds (TimeUnit_MILLIS x),
     w_opt ''MICROS'' T_STRUCT 2 write_MicroSeconds (TimeUnit_MICROS x),
     w_opt ''NANOS'' T_STRUCT 3 write_NanoSeconds (TimeUnit_NANOS x)]"

definition write_TimestampType :: "TimestampType \<Rightarrow> tok list" where
  "write_TimestampType x = w_struct ''TimestampType''
    [w_field ''isAdjustedToUTC'' T_BOOL 1 w_bool (TimestampType_isAdjustedToUTC x),
     w_field ''unit'' T_STRUCT 2 write_TimeUnit (TimestampType_unit x)]"

definition write_TimeType :: "TimeType \<Rightarrow> tok list" where
  "write_TimeType x = w_struct ''TimeType''
    [w_field ''isAdjustedToUTC'' T_BOOL 1 w_bool (TimeType_isAdjustedToUTC x),
     w_field ''unit'' T_STRUCT 2 write_TimeUnit (TimeType_unit x)]"

definition write_IntType :: "IntType \<Rightarrow> tok list" where
  "write_IntType x = w_struct ''IntType''
    [w_field ''bitWidth'' T_BYTE 1 w_byte (IntType_bitWidth x),
     w_field ''isSigned'' T_BOOL 2 w_bool (IntType_isSigned x)]"

definition write_JsonType :: "JsonType \<Rightarrow> tok list" where
  "write_JsonType x = w_struct ''JsonType''
    []"

definition write_BsonType :: "BsonType \<Rightarrow> tok list" where
  "write_BsonType x = w_struct ''BsonType''
    []"

definition write_VariantType :: "VariantType \<Rightarrow> tok list" where
  "write_VariantType x = w_struct ''VariantType''
    [w_opt ''specification_version'' T_BYTE 1 w_byte (VariantType_specification_version x)]"

definition write_GeometryType :: "GeometryType \<Rightarrow> tok list" where
  "write_GeometryType x = w_struct ''GeometryType''
    [w_opt ''crs'' T_STRING 1 w_string (GeometryType_crs x)]"

definition write_GeographyType :: "GeographyType \<Rightarrow> tok list" where
  "write_GeographyType x = w_struct ''GeographyType''
    [w_opt ''crs'' T_STRING 1 w_string (GeographyType_crs x),
     w_opt ''algorithm'' T_I32 2 w_i32 (GeographyType_algorithm x)]"

definition write_LogicalType :: "LogicalType \<Rightarrow> tok list" where
  "write_LogicalType x = w_struct ''LogicalType''
    [w_opt ''STRING'' T_STRUCT 1 write_StringType (LogicalType_STRING x),
     w_opt ''MAP'' T_STRUCT 2 write_MapType (LogicalType_MAP x),
     w_opt ''LIST'' T_STRUCT 3 write_ListType (LogicalType_LIST x),
     w_opt ''ENUM'' T_STRUCT 4 write_EnumType (LogicalType_ENUM x),
     w_opt ''DECIMAL'' T_STRUCT 5 write_DecimalType (LogicalType_DECIMAL x),
     w_opt ''DATE'' T_STRUCT 6 write_DateType (LogicalType_DATE x),
     w_opt ''TIME'' T_STRUCT 7 write_TimeType (LogicalType_TIME x),
     w_opt ''TIMESTAMP'' T_STRUCT 8 write_TimestampType (LogicalType_TIMESTAMP x),
     w_opt ''INTEGER'' T_STRUCT 10 write_IntType (LogicalType_INTEGER x),
     w_opt ''UNKNOWN'' T_STRUCT 11 write_NullType (LogicalType_UNKNOWN x),
     w_opt ''JSON'' T_STRUCT 12 write_JsonType (LogicalType_JSON x),
     w_opt ''BSON'' T_STRUCT 13 write_BsonType (LogicalType_BSON x),
     w_opt ''UUID'' T_STRUCT 14 write_UUIDType (LogicalType_UUID x),
     w_opt ''FLOAT16'' T_STRUCT 15 write_Float16Type (LogicalType_FLOAT16 x),
     w_opt ''VARIANT'' T_STRUCT 16 write_VariantType (LogicalType_VARIANT x),
     w_opt ''GEOMETRY'' T_STRUCT 17 write_GeometryType (LogicalType_GEOMETRY x),
     w_opt ''GEOGRAPHY'' T_STRUCT 18 write_GeographyType (LogicalType_GEOGRAPHY x)]"

definition write_SchemaElement :: "SchemaElement \<Rightarrow> tok list" where
  "write_SchemaElement x = w_struct ''SchemaElement''
    [w_opt ''type'' T_I32 1 w_i32 (SchemaElement_type x),
     w_opt ''type_length'' T_I32 2 w_i32 (SchemaElement_type_length x),
     w_opt ''repetition_type'' T_I32 3 w_i32 (SchemaElement_repetition_type x),
     w_field ''name'' T_STRING 4 w_string (SchemaElement_name x),
     w_opt ''num_children'' T_I32 5 w_i32 (SchemaElement_num_children x),
     w_opt ''converted_type'' T_I32 6 w_i32 (SchemaElement_converted_type x),
     w_opt ''scale'' T_I32 7 w_i32 (SchemaElement_scale x),
     w_opt ''precision'' T_I32 8 w_i32 (SchemaElement_precision x),
     w_opt ''field_id'' T_I32 9 w_i32 (SchemaElement_field_id x),
     w_opt ''logicalType'' T_STRUCT 10 write_LogicalType (SchemaElement_logicalType x)]"

definition write_DataPageHeader :: "DataPageHeader \<Rightarrow> tok list" where
  "write_DataPageHeader x = w_struct ''DataPageHeader''
    [w_field ''num_values'' T_I32 1 w_i32 (DataPageHeader_num_values x),
     w_field ''encoding'' T_I32 2 w_i32 (DataPageHeader_encoding x),
     w_field ''definition_level_encoding'' T_I32 3 w_i32 (DataPageHeader_definition_level_encoding x),
     w_field ''repetition_level_encoding'' T_I32 4 w_i32 (DataPageHeader_repetition_level_encoding x),
     w_opt ''statistics'' T_STRUCT 5 write_Statistics (DataPageHeader_statistics x)]"

definition write_IndexPageHeader :: "IndexPageHeader \<Rightarrow> tok list" where
  "write_IndexPageHeader x = w_struct ''IndexPageHeader''
    []"

definition write_DictionaryPageHeader :: "DictionaryPageHeader \<Rightarrow> tok list" where
  "write_DictionaryPageHeader x = w_struct ''DictionaryPageHeader''
    [w_field ''num_values'' T_I32 1 w_i32 (DictionaryPageHeader_num_values x),
     w_field ''encoding'' T_I32 2 w_i32 (DictionaryPageHeader_encoding x),
     w_opt ''is_sorted'' T_BOOL 3 w_bool (DictionaryPageHeader_is_sorted x)]"

definition write_DataPageHeaderV2 :: "DataPageHeaderV2 \<Rightarrow> tok list" where
  "write_DataPageHeaderV2 x = w_struct ''DataPageHeaderV2''
    [w_field ''num_values'' T_I32 1 w_i32 (DataPageHeaderV2_num_values x),
     w_field ''num_nulls'' T_I32 2 w_i32 (DataPageHeaderV2_num_nulls x),
     w_field ''num_rows'' T_I32 3 w_i32 (DataPageHeaderV2_num_rows x),
     w_field ''encoding'' T_I32 4 w_i32 (DataPageHeaderV2_encoding x),
     w_field ''definition_levels_byte_length'' T_I32 5 w_i32 (DataPageHeaderV2_definition_levels_byte_length x),
     w_field ''repetition_levels_byte_length'' T_I32 6 w_i32 (DataPageHeaderV2_repetition_levels_byte_length x),
     w_opt ''is_compressed'' T_BOOL 7 w_bool (DataPageHeaderV2_is_compressed x),
     w_opt ''statistics'' T_STRUCT 8 write_Statistics (DataPageHeaderV2_statistics x)]"

definition write_SplitBlockAlgorithm :: "SplitBlockAlgorithm \<Rightarrow> tok list" where
  "write_SplitBlockAlgorithm x = w_struct ''SplitBlockAlgorithm''
    []"

definition write_BloomFilterAlgorithm :: "BloomFilterAlgorithm \<Rightarrow> tok list" where
  "write_BloomFilterAlgorithm x = w_struct ''BloomFilterAlgorithm''
    [w_opt ''BLOCK'' T_STRUCT 1 write_SplitBlockAlgorithm (BloomFilterAlgorithm_BLOCK x)]"

definition write_XxHash :: "XxHash \<Rightarrow> tok list" where
  "write_XxHash x = w_struct ''XxHash''
    []"

definition write_BloomFilterHash :: "BloomFilterHash \<Rightarrow> tok list" where
  "write_BloomFilterHash x = w_struct ''BloomFilterHash''
    [w_opt ''XXHASH'' T_STRUCT 1 write_XxHash (BloomFilterHash_XXHASH x)]"

definition write_Uncompressed :: "Uncompressed \<Rightarrow> tok list" where
  "write_Uncompressed x = w_struct ''Uncompressed''
    []"

definition write_BloomFilterCompression :: "BloomFilterCompression \<Rightarrow> tok list" where
  "write_BloomFilterCompression x = w_struct ''BloomFilterCompression''
    [w_opt ''UNCOMPRESSED'' T_STRUCT 1 write_Uncompressed (BloomFilterCompression_UNCOMPRESSED x)]"

definition write_BloomFilterHeader :: "BloomFilterHeader \<Rightarrow> tok list" where
  "write_BloomFilterHeader x = w_struct ''BloomFilterHeader''
    [w_field ''numBytes'' T_I32 1 w_i32 (BloomFilterHeader_numBytes x),
     w_field ''algorithm'' T_STRUCT 2 write_BloomFilterAlgorithm (BloomFilterHeader_algorithm x),
     w_field ''hash'' T_STRUCT 3 write_BloomFilterHash (BloomFilterHeader_hash x),
     w_field ''compression'' T_STRUCT 4 write_BloomFilterCompression (BloomFilterHeader_compression x)]"

definition write_PageHeader :: "PageHeader \<Rightarrow> tok list" where
  "write_PageHeader x = w_struct ''PageHeader''
    [w_field ''type'' T_I32 1 w_i32 (PageHeader_type x),
     w_field ''uncompressed_page_size'' T_I32 2 w_i32 (PageHeader_uncompressed_page_size x),
     w_field ''compressed_page_size'' T_I32 3 w_i32 (PageHeader_compressed_page_size x),
     w_opt ''crc'' T_I32 4 w_i32 (PageHeader_crc x),
     w_opt ''data_page_header'' T_STRUCT 5 write_DataPageHeader (PageHeader_data_page_header x),
     w_opt ''index_page_header'' T_STRUCT 6 write_IndexPageHeader (PageHeader_index_page_header x),
     w_opt ''dictionary_page_header'' T_STRUCT 7 write_DictionaryPageHeader (PageHeader_dictionary_page_header x),
     w_opt ''data_page_header_v2'' T_STRUCT 8 write_DataPageHeaderV2 (PageHeader_data_page_header_v2 x)]"

definition write_KeyValue :: "KeyValue \<Rightarrow> tok list" where
  "write_KeyValue x = w_struct ''KeyValue''
    [w_field ''key'' T_STRING 1 w_string (KeyValue_key x),
     w_opt ''value'' T_STRING 2 w_string (KeyValue_value x)]"

definition write_SortingColumn :: "SortingColumn \<Rightarrow> tok list" where
  "write_SortingColumn x = w_struct ''SortingColumn''
    [w_field ''column_idx'' T_I32 1 w_i32 (SortingColumn_column_idx x),
     w_field ''descending'' T_BOOL 2 w_bool (SortingColumn_descending x),
     w_field ''nulls_first'' T_BOOL 3 w_bool (SortingColumn_nulls_first x)]"

definition write_PageEncodingStats :: "PageEncodingStats \<Rightarrow> tok list" where
  "write_PageEncodingStats x = w_struct ''PageEncodingStats''
    [w_field ''page_type'' T_I32 1 w_i32 (PageEncodingStats_page_type x),
     w_field ''encoding'' T_I32 2 w_i32 (PageEncodingStats_encoding x),
     w_field ''count'' T_I32 3 w_i32 (PageEncodingStats_count x)]"

definition write_ColumnMetaData :: "ColumnMetaData \<Rightarrow> tok list" where
  "write_ColumnMetaData x = w_struct ''ColumnMetaData''
    [w_field ''type'' T_I32 1 w_i32 (ColumnMetaData_type x),
     w_field ''encodings'' T_LIST 2 (w_list T_I32 w_i32) (ColumnMetaData_encodings x),
     w_field ''path_in_schema'' T_LIST 3 (w_list T_STRING w_string) (ColumnMetaData_path_in_schema x),
     w_field ''codec'' T_I32 4 w_i32 (ColumnMetaData_codec x),
     w_field ''num_values'' T_I64 5 w_i64 (ColumnMetaData_num_values x),
     w_field ''total_uncompressed_size'' T_I64 6 w_i64 (ColumnMetaData_total_uncompressed_size x),
     w_field ''total_compressed_size'' T_I64 7 w_i64 (ColumnMetaData_total_compressed_size x),
     w_opt ''key_value_metadata'' T_LIST 8 (w_list T_STRUCT write_KeyValue) (ColumnMetaData_key_value_metadata x),
     w_field ''data_page_offset'' T_I64 9 w_i64 (ColumnMetaData_data_page_offset x),
     w_opt ''index_page_offset'' T_I64 10 w_i64 (ColumnMetaData_index_page_offset x),
     w_opt ''dictionary_page_offset'' T_I64 11 w_i64 (ColumnMetaData_dictionary_page_offset x),
     w_opt ''statistics'' T_STRUCT 12 write_Statistics (ColumnMetaData_statistics x),
     w_opt ''encoding_stats'' T_LIST 13 (w_list T_STRUCT write_PageEncodingStats) (ColumnMetaData_encoding_stats x),
     w_opt ''bloom_filter_offset'' T_I64 14 w_i64 (ColumnMetaData_bloom_filter_offset x),
     w_opt ''bloom_filter_length'' T_I32 15 w_i32 (ColumnMetaData_bloom_filter_length x),
     w_opt ''size_statistics'' T_STRUCT 16 write_SizeStatistics (ColumnMetaData_size_statistics x),
     w_opt ''geospatial_statistics'' T_STRUCT 17 write_GeospatialStatistics (ColumnMetaData_geospatial_statistics x)]"

definition write_EncryptionWithFooterKey :: "EncryptionWithFooterKey \<Rightarrow> tok list" where
  "write_EncryptionWithFooterKey x = w_struct ''EncryptionWithFooterKey''
    []"

definition write_EncryptionWithColumnKey :: "EncryptionWithColumnKey \<Rightarrow> tok list" where
  "write_EncryptionWithColumnKey x = w_struct ''EncryptionWithColumnKey''
    [w_field ''path_in_schema'' T_LIST 1 (w_list T_STRING w_string) (EncryptionWithColumnKey_path_in_schema x),
     w_opt ''key_metadata'' T_STRING 2 w_binary (EncryptionWithColumnKey_key_metadata x)]"

definition write_ColumnCryptoMetaData :: "ColumnCryptoMetaData \<Rightarrow> tok list" where
  "write_ColumnCryptoMetaData x = w_struct ''ColumnCryptoMetaData''
    [w_opt ''ENCRYPTION_WITH_FOOTER_KEY'' T_STRUCT 1 write_EncryptionWithFooterKey (ColumnCryptoMetaData_ENCRYPTION_WITH_FOOTER_KEY x),
     w_opt ''ENCRYPTION_WITH_COLUMN_KEY'' T_STRUCT 2 write_EncryptionWithColumnKey (ColumnCryptoMetaData_ENCRYPTION_WITH_COLUMN_KEY x)]"

definition write_ColumnChunk :: "ColumnChunk \<Rightarrow> tok list" where
  "write_ColumnChunk x = w_struct ''ColumnChunk''
    [w_opt ''file_path'' T_STRING 1 w_string (ColumnChunk_file_path x),
     w_field ''file_offset'' T_I64 2 w_i64 (ColumnChunk_file_offset x),
     w_opt ''meta_data'' T_STRUCT 3 write_ColumnMetaData (ColumnChunk_meta_data x),
     w_opt ''offset_index_offset'' T_I64 4 w_i64 (ColumnChunk_offset_index_offset x),
     w_opt ''offset_index_length'' T_I32 5 w_i32 (ColumnChunk_offset_index_length x),
     w_opt ''column_index_offset'' T_I64 6 w_i64 (ColumnChunk_column_index_offset x),
     w_opt ''column_index_length'' T_I32 7 w_i32 (ColumnChunk_column_index_length x),
     w_opt ''crypto_metadata'' T_STRUCT 8 write_ColumnCryptoMetaData (ColumnChunk_crypto_metadata x),
     w_opt ''encrypted_column_metadata'' T_STRING 9 w_binary (ColumnChunk_encrypted_column_metadata x)]"

definition write_RowGroup :: "RowGroup \<Rightarrow> tok list" where
  "write_RowGroup x = w_struct ''RowGroup''
    [w_field ''columns'' T_LIST 1 (w_list T_STRUCT write_ColumnChunk) (RowGroup_columns x),
     w_field ''total_byte_size'' T_I64 2 w_i64 (RowGroup_total_byte_size x),
     w_field ''num_rows'' T_I64 3 w_i64 (RowGroup_num_rows x),
     w_opt ''sorting_columns'' T_LIST 4 (w_list T_STRUCT write_SortingColumn) (RowGroup_sorting_columns x),
     w_opt ''file_offset'' T_I64 5 w_i64 (RowGroup_file_offset x),
     w_opt ''total_compressed_size'' T_I64 6 w_i64 (RowGroup_total_compressed_size x),
     w_opt ''ordinal'' T_I16 7 w_i16 (RowGroup_ordinal x)]"

definition write_TypeDefinedOrder :: "TypeDefinedOrder \<Rightarrow> tok list" where
  "write_TypeDefinedOrder x = w_struct ''TypeDefinedOrder''
    []"

definition write_ColumnOrder :: "ColumnOrder \<Rightarrow> tok list" where
  "write_ColumnOrder x = w_struct ''ColumnOrder''
    [w_opt ''TYPE_ORDER'' T_STRUCT 1 write_TypeDefinedOrder (ColumnOrder_TYPE_ORDER x)]"

definition write_PageLocation :: "PageLocation \<Rightarrow> tok list" where
  "write_PageLocation x = w_struct ''PageLocation''
    [w_field ''offset'' T_I64 1 w_i64 (PageLocation_offset x),
     w_field ''compressed_page_size'' T_I32 2 w_i32 (PageLocation_compressed_page_size x),
     w_field ''first_row_index'' T_I64 3 w_i64 (PageLocation_first_row_index x)]"

definition write_OffsetIndex :: "OffsetIndex \<Rightarrow> tok list" where
  "write_OffsetIndex x = w_struct ''OffsetIndex''
    [w_field ''page_locations'' T_LIST 1 (w_list T_STRUCT write_PageLocation) (OffsetIndex_page_locations x),
     w_opt ''unencoded_byte_array_data_bytes'' T_LIST 2 (w_list T_I64 w_i64) (OffsetIndex_unencoded_byte_array_data_bytes x)]"

definition write_ColumnIndex :: "ColumnIndex \<Rightarrow> tok list" where
  "write_ColumnIndex x = w_struct ''ColumnIndex''
    [w_field ''null_pages'' T_LIST 1 (w_list T_BOOL w_bool) (ColumnIndex_null_pages x),
     w_field ''min_values'' T_LIST 2 (w_list T_STRING w_binary) (ColumnIndex_min_values x),
     w_field ''max_values'' T_LIST 3 (w_list T_STRING w_binary) (ColumnIndex_max_values x),
     w_field ''boundary_order'' T_I32 4 w_i32 (ColumnIndex_boundary_order x),
     w_opt ''null_counts'' T_LIST 5 (w_list T_I64 w_i64) (ColumnIndex_null_counts x),
     w_opt ''repetition_level_histograms'' T_LIST 6 (w_list T_I64 w_i64) (ColumnIndex_repetition_level_histograms x),
     w_opt ''definition_level_histograms'' T_LIST 7 (w_list T_I64 w_i64) (ColumnIndex_definition_level_histograms x)]"

definition write_AesGcmV1 :: "AesGcmV1 \<Rightarrow> tok list" where
  "write_AesGcmV1 x = w_struct ''AesGcmV1''
    [w_opt ''aad_prefix'' T_STRING 1 w_binary (AesGcmV1_aad_prefix x),
     w_opt ''aad_file_unique'' T_STRING 2 w_binary (AesGcmV1_aad_file_unique x),
     w_opt ''supply_aad_prefix'' T_BOOL 3 w_bool (AesGcmV1_supply_aad_prefix x)]"

definition write_AesGcmCtrV1 :: "AesGcmCtrV1 \<Rightarrow> tok list" where
  "write_AesGcmCtrV1 x = w_struct ''AesGcmCtrV1''
    [w_opt ''aad_prefix'' T_STRING 1 w_binary (AesGcmCtrV1_aad_prefix x),
     w_opt ''aad_file_unique'' T_STRING 2 w_binary (AesGcmCtrV1_aad_file_unique x),
     w_opt ''supply_aad_prefix'' T_BOOL 3 w_bool (AesGcmCtrV1_supply_aad_prefix x)]"

definition write_EncryptionAlgorithm :: "EncryptionAlgorithm \<Rightarrow> tok list" where
  "write_EncryptionAlgorithm x = w_struct ''EncryptionAlgorithm''
    [w_opt ''AES_GCM_V1'' T_STRUCT 1 write_AesGcmV1 (EncryptionAlgorithm_AES_GCM_V1 x),
     w_opt ''AES_GCM_CTR_V1'' T_STRUCT 2 write_AesGcmCtrV1 (EncryptionAlgorithm_AES_GCM_CTR_V1 x)]"

definition write_FileMetaData :: "FileMetaData \<Rightarrow> tok list" where
  "write_FileMetaData x = w_struct ''FileMetaData''
    [w_field ''version'' T_I32 1 w_i32 (FileMetaData_version x),
     w_field ''schema'' T_LIST 2 (w_list T_STRUCT write_SchemaElement) (FileMetaData_schema x),
     w_field ''num_rows'' T_I64 3 w_i64 (FileMetaData_num_rows x),
     w_field ''row_groups'' T_LIST 4 (w_list T_STRUCT write_RowGroup) (FileMetaData_row_groups x),
     w_opt ''key_value_metadata'' T_LIST 5 (w_list T_STRUCT write_KeyValue) (FileMetaData_key_value_metadata x),
     w_opt ''created_by'' T_STRING 6 w_string (FileMetaData_created_by x),
     w_opt ''column_orders'' T_LIST 7 (w_list T_STRUCT write_ColumnOrder) (FileMetaData_column_orders x),
     w_opt ''encryption_algorithm'' T_STRUCT 8 write_EncryptionAlgorithm (FileMetaData_encryption_algorithm x),
     w_opt ''footer_signing_key_metadata'' T_STRING 9 w_binary (FileMetaData_footer_signing_key_metadata x)]"

definition write_FileCryptoMetaData :: "FileCryptoMetaData \<Rightarrow> tok list" where
  "write_FileCryptoMetaData x = w_struct ''FileCryptoMetaData''
    [w_field ''encryption_algorithm'' T_STRUCT 1 write_EncryptionAlgorithm (FileCryptoMetaData_encryption_algorithm x),
     w_opt ''key_metadata'' T_STRING 2 w_binary (FileCryptoMetaData_key_metadata x)]"

end
