(* ===== verification/Parquet_Map.thy ===== *)
theory Parquet_Map
  imports File_Map Arr Parquet_Setters Parquet_Write "HOL-Library.Signed_Division"
begin

text \<open>
  Parquet files as address maps (src/fmap.cc from \<open>AppendPage\<close> on, src/thrift_serializer.h):
  the page header before each data block, the footer, and the two overloads of \<open>BuildMap\<close>.
\<close>

section \<open>\<open>ThriftSerializer\<close>\<close>

text \<open>
  The compact protocol turns the calls of a write function into bytes, or throws (\<open>None\<close>). It
  is part of the Thrift library and a parameter here.
\<close>

type_synonym compact = "tok list \<Rightarrow> byte list option"

record ThriftSerializer =
  mem_buffer :: "byte list"

definition ThriftSerializer_new :: ThriftSerializer where
  "ThriftSerializer_new = \<lparr>mem_buffer = []\<rparr>"

definition serialize_error :: error where
  "serialize_error = RuntimeError ''Couldn't serialize thrift''"

definition SerializeObject :: "compact \<Rightarrow> tok list \<Rightarrow> ThriftSerializer \<Rightarrow> ThriftSerializer result" where
  "SerializeObject compact obj ser =
     (let ser = ser\<lparr>mem_buffer := []\<rparr> in
      case compact obj of
        None \<Rightarrow> Error serialize_error
      | Some bs \<Rightarrow> Ok (ser\<lparr>mem_buffer := mem_buffer ser @ bs\<rparr>))"

definition SerializeToBuffer ::
  "compact \<Rightarrow> tok list \<Rightarrow> ThriftSerializer \<Rightarrow> (byte list \<times> ThriftSerializer) result" where
  "SerializeToBuffer compact obj ser =
     bindR (SerializeObject compact obj ser) (\<lambda>ser. Ok (mem_buffer ser, ser))"

definition SerializeToString ::
  "compact \<Rightarrow> tok list \<Rightarrow> ThriftSerializer \<Rightarrow> (byte list \<times> ThriftSerializer) result" where
  "SerializeToString compact obj ser =
     bindR (SerializeObject compact obj ser) (\<lambda>ser. let result = mem_buffer ser in Ok (result, ser))"

lemma SerializeToBuffer_eq:
  "SerializeToBuffer compact obj ser =
     (case compact obj of None \<Rightarrow> Error serialize_error | Some bs \<Rightarrow> Ok (bs, \<lparr>mem_buffer = bs\<rparr>))"
  by (cases ser) (simp add: SerializeToBuffer_def SerializeObject_def split: option.split)

section \<open>Pages\<close>

text \<open>
  \<open>data_page_v2\<close> is the page header that \<open>AppendPage\<close> fills in. \<open>int32_t(uncompressed_size)\<close>
  keeps the bits; the division by \<open>value_size\<close> is signed and truncates. The flag \<open>is_compressed\<close>
  of the header is set to true where the pages are compressed; elsewhere it is left as the
  constructor made it, and that is set to true, too.
\<close>

definition data_page_v2 :: "nat \<Rightarrow> u32 \<Rightarrow> u32 \<Rightarrow> bool \<Rightarrow> PageHeader" where
  "data_page_v2 value_size compressed_size uncompressed_size is_compressed =
     (let page_header = PageHeader_set_type (PageType_val PageType_DATA_PAGE_V2) PageHeader_init;
          page_header = PageHeader_set_uncompressed_page_size uncompressed_size page_header;
          page_header = PageHeader_set_compressed_page_size compressed_size page_header;
          num_values = word_of_int (sint uncompressed_size sdiv int value_size) :: i32;
          v2 = DataPageHeaderV2_set_num_values num_values DataPageHeaderV2_init;
          v2 = DataPageHeaderV2_set_num_nulls 0 v2;
          v2 = DataPageHeaderV2_set_num_rows num_values v2;
          v2 = DataPageHeaderV2_set_encoding (Encoding_val Encoding_PLAIN) v2;
          v2 = DataPageHeaderV2_set_definition_levels_byte_length 0 v2;
          v2 = DataPageHeaderV2_set_repetition_levels_byte_length 0 v2;
          v2 = (if is_compressed then DataPageHeaderV2_set_is_compressed True v2 else v2)
      in PageHeader_set_data_page_header_v2 v2 page_header)"

lemma data_page_v2_flag:
  "DataPageHeaderV2_is_compressed (the (PageHeader_data_page_header_v2 (data_page_v2 v c u cmp))) = Some True"
  by (simp add: data_page_v2_def DataPageHeaderV2_init_def Let_def)

text \<open>So the condition makes no difference.\<close>

lemma data_page_v2_any_flag: "data_page_v2 v c u cmp = data_page_v2 v c u True"
  by (cases cmp) (simp_all add: data_page_v2_def DataPageHeaderV2_init_def Let_def)

definition AppendPage ::
  "compact \<Rightarrow> nat \<Rightarrow> u64 \<Rightarrow> u32 \<Rightarrow> u32 \<Rightarrow> bool \<Rightarrow> ThriftSerializer \<Rightarrow> MapBuilder \<Rightarrow>
   (u32 \<times> ThriftSerializer \<times> MapBuilder) result" where
  "AppendPage compact value_size off compressed_size uncompressed_size is_compressed ser b =
     bindR (SerializeToBuffer compact
              (write_PageHeader (data_page_v2 value_size compressed_size uncompressed_size is_compressed)) ser)
       (\<lambda>(buf, ser).
          Ok (word_of_nat (length buf), ser,
              AddMappedRegion off (ucast compressed_size) (AddDirect buf b)))"

section \<open>Types and codecs\<close>

definition unsupported_type :: error where
  "unsupported_type = RuntimeError ''Unsupported array data type''"

definition unsupported_compression :: error where
  "unsupported_compression = RuntimeError ''Unsupported data compression type''"

text \<open>\<open>ToParquetConvertedType\<close> returns whether there is a converted type, and which.\<close>

fun ToParquetConvertedType :: "DataType \<Rightarrow> ConvertedType option result" where
  "ToParquetConvertedType INT8 = Ok (Some ConvertedType_INT_8)"
| "ToParquetConvertedType UINT8 = Ok (Some ConvertedType_UINT_8)"
| "ToParquetConvertedType INT32 = Ok (Some ConvertedType_INT_32)"
| "ToParquetConvertedType UINT32 = Ok (Some ConvertedType_UINT_32)"
| "ToParquetConvertedType INT64 = Ok (Some ConvertedType_INT_64)"
| "ToParquetConvertedType UINT64 = Ok (Some ConvertedType_UINT_64)"
| "ToParquetConvertedType FLOAT32 = Ok None"
| "ToParquetConvertedType FLOAT64 = Ok None"
| "ToParquetConvertedType _ = Error unsupported_type"

fun ToParquetType :: "DataType \<Rightarrow> Type result" where
  "ToParquetType INT8 = Ok Type_INT32"
| "ToParquetType UINT8 = Ok Type_INT32"
| "ToParquetType INT32 = Ok Type_INT32"
| "ToParquetType UINT32 = Ok Type_INT32"
| "ToParquetType INT64 = Ok Type_INT64"
| "ToParquetType UINT64 = Ok Type_INT64"
| "ToParquetType FLOAT32 = Ok Type_FLOAT"
| "ToParquetType FLOAT64 = Ok Type_DOUBLE"
| "ToParquetType _ = Error unsupported_type"

fun ToParquetCodec :: "CompressionType \<Rightarrow> CompressionCodec result" where
  "ToParquetCodec NONE = Ok CompressionCodec_UNCOMPRESSED"
| "ToParquetCodec ZLIB = Ok CompressionCodec_GZIP"
| "ToParquetCodec LZ4 = Ok CompressionCodec_LZ4_RAW"
| "ToParquetCodec _ = Error unsupported_compression"

section \<open>The footer\<close>

text \<open>The schema: a group with one required column of the array's name and type.\<close>

definition column_schema :: "string \<Rightarrow> Type \<Rightarrow> ConvertedType option \<Rightarrow> SchemaElement list" where
  "column_schema name on_storage_type conv =
     (let group = SchemaElement_set_name ''vtkfile'' SchemaElement_init;
          group = SchemaElement_set_repetition_type (FieldRepetitionType_val FieldRepetitionType_REQUIRED) group;
          group = SchemaElement_set_num_children 1 group;
          ele = SchemaElement_set_name name SchemaElement_init;
          ele = SchemaElement_set_repetition_type (FieldRepetitionType_val FieldRepetitionType_REQUIRED) ele;
          ele = SchemaElement_set_type (Type_val on_storage_type) ele;
          ele = (case conv of None \<Rightarrow> ele
                 | Some c \<Rightarrow> SchemaElement_set_converted_type (ConvertedType_val c) ele)
      in [group, ele])"

definition column_meta_data ::
  "string \<Rightarrow> Type \<Rightarrow> CompressionCodec \<Rightarrow> i64 \<Rightarrow> i64 \<Rightarrow> i64 \<Rightarrow> ColumnMetaData" where
  "column_meta_data name on_storage_type codec total_compressed_size total_uncompressed_size total_count =
     (let meta_data = ColumnMetaData_set_type (Type_val on_storage_type) ColumnMetaData_init;
          meta_data = ColumnMetaData_set_encodings [Encoding_val Encoding_PLAIN] meta_data;
          meta_data = ColumnMetaData_set_path_in_schema [name] meta_data;
          meta_data = ColumnMetaData_set_codec (CompressionCodec_val codec) meta_data;
          meta_data = ColumnMetaData_set_num_values total_count meta_data;
          meta_data = ColumnMetaData_set_total_uncompressed_size total_uncompressed_size meta_data;
          meta_data = ColumnMetaData_set_total_compressed_size total_compressed_size meta_data;
          meta_data = ColumnMetaData_set_data_page_offset 4 meta_data;
          stats = Statistics_set_null_count 0 Statistics_init
      in ColumnMetaData_set_statistics stats meta_data)"

definition file_meta_data ::
  "string \<Rightarrow> Type \<Rightarrow> ConvertedType option \<Rightarrow> CompressionCodec \<Rightarrow> i64 \<Rightarrow> i64 \<Rightarrow> i64 \<Rightarrow> FileMetaData" where
  "file_meta_data name on_storage_type conv codec total_compressed_size total_uncompressed_size total_count =
     (let file_meta_data = FileMetaData_set_version 2 FileMetaData_init;
          file_meta_data = FileMetaData_set_schema (column_schema name on_storage_type conv) file_meta_data;
          file_meta_data = FileMetaData_set_num_rows total_count file_meta_data;
          column = ColumnChunk_set_file_offset 0 ColumnChunk_init;
          column = ColumnChunk_set_meta_data (column_meta_data name on_storage_type codec
            total_compressed_size total_uncompressed_size total_count) column;
          row_group = RowGroup_set_columns [column] RowGroup_init;
          row_group = RowGroup_set_num_rows total_count row_group;
          row_group = RowGroup_set_total_byte_size total_uncompressed_size row_group;
          row_group = RowGroup_set_file_offset 4 row_group;
          row_group = RowGroup_set_total_compressed_size total_compressed_size row_group
      in FileMetaData_set_row_groups [row_group] file_meta_data)"

definition AppendFooter ::
  "compact \<Rightarrow> string \<Rightarrow> DataType \<Rightarrow> CompressionType \<Rightarrow> i64 \<Rightarrow> i64 \<Rightarrow> i64 \<Rightarrow>
   ThriftSerializer \<Rightarrow> MapBuilder \<Rightarrow> (u32 \<times> ThriftSerializer \<times> MapBuilder) result" where
  "AppendFooter compact name type codec total_compressed_size total_uncompressed_size total_count ser b =
     bindR (ToParquetType type) (\<lambda>on_storage_type.
     bindR (ToParquetConvertedType type) (\<lambda>conv.
     bindR (ToParquetCodec codec) (\<lambda>pcodec.
     bindR (SerializeToBuffer compact
              (write_FileMetaData (file_meta_data name on_storage_type conv pcodec
                 total_compressed_size total_uncompressed_size total_count)) ser) (\<lambda>(buf, ser).
       Ok (word_of_nat (length buf), ser, AddDirect buf b)))))"

section \<open>\<open>BuildMap\<close>\<close>

definition PAR1 :: "byte list" where
  "PAR1 = map of_char ''PAR1''"

text \<open>
  The local variables of \<open>BuildMap\<close> that its loop changes. The \<open>int64_t\<close> totals are words: their
  additions are computed modulo \<open>2 ^ 64\<close>.
\<close>

record build =
  b_ser :: ThriftSerializer
  b_builder :: MapBuilder
  b_offset :: u64
  b_total_compressed_size :: i64
  b_total_uncompressed_size :: i64
  b_total_count :: i64

definition build_start :: "bool \<Rightarrow> u64 \<Rightarrow> build" where
  "build_start pending_base64_decoding data_start =
     \<lparr>b_ser = ThriftSerializer_new,
      b_builder = AddDirect PAR1 (MapBuilder_new pending_base64_decoding data_start),
      b_offset = 0, b_total_compressed_size = 0, b_total_uncompressed_size = 0, b_total_count = 0\<rparr>"

text \<open>
  The loop \<open>for (int i = 0; i < n; i++)\<close> with \<open>n\<close> an unsigned 64-bit bound: where the bound is
  beyond the range of \<open>int\<close>, the increment overflows, which is undefined.
\<close>

fun for_int :: "(nat \<Rightarrow> 's \<Rightarrow> 's result) \<Rightarrow> nat \<Rightarrow> nat \<Rightarrow> 's \<Rightarrow> 's result" where
  "for_int body i 0 s = Ok s"
| "for_int body i (Suc k) s =
     bindR (body i s) (\<lambda>s.
       if 2 ^ 31 \<le> Suc i then Error Undefined else for_int body (Suc i) k s)"

text \<open>
  One compressed block, as in the body of the loop and after it: sizes are cut to 32 bits when
  they are assigned to \<open>uint32_t\<close> variables, and \<open>header_size + compressed_size\<close> is a 32-bit sum.
\<close>

definition compressed_block :: "compact \<Rightarrow> nat \<Rightarrow> u64 \<Rightarrow> u64 \<Rightarrow> build \<Rightarrow> build result" where
  "compressed_block compact value_size csz usz s =
     (let compressed_size = ucast csz :: u32;
          uncompressed_size = ucast usz :: u32
      in bindR (AppendPage compact value_size (b_offset s) compressed_size uncompressed_size True
                  (b_ser s) (b_builder s)) (\<lambda>(header_size, ser, builder).
           Ok (s\<lparr>b_ser := ser, b_builder := builder,
                 b_total_compressed_size :=
                   b_total_compressed_size s + ucast (header_size + compressed_size),
                 b_total_uncompressed_size :=
                   b_total_uncompressed_size s + ucast (header_size + uncompressed_size),
                 b_total_count :=
                   b_total_count s + ucast (uncompressed_size div word_of_nat value_size)\<rparr>)))"

definition compressed_body :: "compact \<Rightarrow> nat \<Rightarrow> CompressedArray \<Rightarrow> nat \<Rightarrow> build \<Rightarrow> build result" where
  "compressed_body compact value_size arr i s =
     bindR (vec_at (ca_compressed_blk_sz arr) i) (\<lambda>csz.
     bindR (compressed_block compact value_size csz (ca_blk_sz arr) s) (\<lambda>s.
       Ok (s\<lparr>b_offset := b_offset s + ucast (ucast csz :: u32)\<rparr>)))"

text \<open>What both overloads do after the pages.\<close>

definition build_finish :: "compact \<Rightarrow> string \<Rightarrow> DataType \<Rightarrow> CompressionType \<Rightarrow> build \<Rightarrow> FileMap result" where
  "build_finish compact name type codec s =
     bindR (AppendFooter compact name type codec (b_total_compressed_size s)
              (b_total_uncompressed_size s) (b_total_count s) (b_ser s) (b_builder s))
       (\<lambda>(foot_size, ser, builder).
          Ok (Finish (AddDirect PAR1 (AddDirect (le_bytes 4 (unat foot_size)) builder))))"

definition BuildMap_compressed ::
  "compact \<Rightarrow> string \<Rightarrow> DataType \<Rightarrow> CompressionType \<Rightarrow> bool \<Rightarrow> CompressedArray \<Rightarrow> FileMap result" where
  "BuildMap_compressed compact name type codec pending_base64_decoding arr =
     bindR (GetValueSize type) (\<lambda>value_size.
     bindR (for_int (compressed_body compact value_size arr) 0 (unat (ca_num_blks arr - 1))
              (build_start pending_base64_decoding (ca_data_start arr))) (\<lambda>s.
     bindR (vec_at (ca_compressed_blk_sz arr) (unat (ca_num_blks arr - 1))) (\<lambda>csz.
     bindR (compressed_block compact value_size csz (ca_last_blk_sz arr) s) (\<lambda>s.
       build_finish compact name type codec s))))"

text \<open>
  Uncompressed data is cut into blocks of 32768 bytes. Here the sums are 64 bits wide.
\<close>

definition uncompressed_block :: "compact \<Rightarrow> nat \<Rightarrow> u64 \<Rightarrow> build \<Rightarrow> build result" where
  "uncompressed_block compact value_size sz s =
     bindR (AppendPage compact value_size (b_offset s) (ucast sz) (ucast sz) False
              (b_ser s) (b_builder s)) (\<lambda>(header_size, ser, builder).
       Ok (s\<lparr>b_ser := ser, b_builder := builder,
             b_total_compressed_size := b_total_compressed_size s + (ucast header_size + sz),
             b_total_uncompressed_size := b_total_uncompressed_size s + (ucast header_size + sz),
             b_total_count := b_total_count s + sz div word_of_nat value_size\<rparr>))"

definition blk_sz :: u64 where
  "blk_sz = 32768"

definition uncompressed_body :: "compact \<Rightarrow> nat \<Rightarrow> nat \<Rightarrow> build \<Rightarrow> build result" where
  "uncompressed_body compact value_size i s =
     bindR (uncompressed_block compact value_size blk_sz s) (\<lambda>s.
       Ok (s\<lparr>b_offset := b_offset s + blk_sz\<rparr>))"

definition num_blks :: "u64 \<Rightarrow> u64" where
  "num_blks total_bytes = (total_bytes + blk_sz - 1) div blk_sz"

definition last_blk_sz :: "u64 \<Rightarrow> u64" where
  "last_blk_sz total_bytes = (total_bytes - 1) mod 32768 + 1"

definition BuildMap_uncompressed ::
  "compact \<Rightarrow> string \<Rightarrow> DataType \<Rightarrow> bool \<Rightarrow> UncompressedArray \<Rightarrow> FileMap result" where
  "BuildMap_uncompressed compact name type pending_base64_decoding arr =
     bindR (GetValueSize type) (\<lambda>value_size.
     bindR (for_int (uncompressed_body compact value_size) 0 (unat (num_blks (ua_total_bytes arr) - 1))
              (build_start pending_base64_decoding (ua_data_start arr))) (\<lambda>s.
     bindR (uncompressed_block compact value_size (last_blk_sz (ua_total_bytes arr)) s) (\<lambda>s.
       build_finish compact name type NONE s)))"

section \<open>Specification: the layout of a Parquet file\<close>

text \<open>A block is the compressed and the uncompressed size of one page of data.\<close>

type_synonym block = "u32 \<times> u32"

definition page_header :: "(tok list \<Rightarrow> byte list) \<Rightarrow> nat \<Rightarrow> bool \<Rightarrow> block \<Rightarrow> byte list" where
  "page_header enc value_size is_compressed b =
     enc (write_PageHeader (data_page_v2 value_size (fst b) (snd b) is_compressed))"

text \<open>The pages of the blocks \<open>bs\<close>, with headers \<open>h b\<close>, whose data starts at \<open>off\<close>.\<close>

fun page_regions :: "(block \<Rightarrow> byte list) \<Rightarrow> nat \<Rightarrow> block list \<Rightarrow> region list" where
  "page_regions h off [] = []"
| "page_regions h off (b # bs) =
     Direct (h b) # Mapped (word_of_nat off) (ucast (fst b)) # page_regions h (off + unat (fst b)) bs"

definition data_size :: "block list \<Rightarrow> nat" where
  "data_size bs = sum_list (map (\<lambda>b. unat (fst b)) bs)"

definition chunk_compressed_size :: "(block \<Rightarrow> byte list) \<Rightarrow> block list \<Rightarrow> nat" where
  "chunk_compressed_size h bs = sum_list (map (\<lambda>b. length (h b) + unat (fst b)) bs)"

definition chunk_uncompressed_size :: "(block \<Rightarrow> byte list) \<Rightarrow> block list \<Rightarrow> nat" where
  "chunk_uncompressed_size h bs = sum_list (map (\<lambda>b. length (h b) + unat (snd b)) bs)"

definition value_count :: "nat \<Rightarrow> block list \<Rightarrow> nat" where
  "value_count value_size bs = sum_list (map (\<lambda>b. unat (snd b) div value_size) bs)"

lemma block_sums [simp]:
  "data_size [] = 0" "data_size (b # bs) = unat (fst b) + data_size bs"
  "data_size (bs @ bs') = data_size bs + data_size bs'"
  "chunk_compressed_size h [] = 0"
  "chunk_compressed_size h (b # bs) = length (h b) + unat (fst b) + chunk_compressed_size h bs"
  "chunk_compressed_size h (bs @ bs') = chunk_compressed_size h bs + chunk_compressed_size h bs'"
  "chunk_uncompressed_size h [] = 0"
  "chunk_uncompressed_size h (b # bs) = length (h b) + unat (snd b) + chunk_uncompressed_size h bs"
  "chunk_uncompressed_size h (bs @ bs') = chunk_uncompressed_size h bs + chunk_uncompressed_size h bs'"
  "value_count v [] = 0"
  "value_count v (b # bs) = unat (snd b) div v + value_count v bs"
  "value_count v (bs @ bs') = value_count v bs + value_count v bs'"
  by (simp_all add: data_size_def chunk_compressed_size_def chunk_uncompressed_size_def value_count_def)

lemma page_regions_append [simp]:
  "page_regions h off (bs @ bs') = page_regions h off bs @ page_regions h (off + data_size bs) bs'"
  by (induction bs arbitrary: off) (auto simp: add.assoc)

lemma page_regions_size: "regions_size (page_regions h off bs) = chunk_compressed_size h bs"
  by (induction bs arbitrary: off) auto

lemma length_page_regions: "length (page_regions h off bs) = 2 * length bs"
  by (induction bs arbitrary: off) auto

text \<open>Headers and data of a block fit in 32 bits together, so the 32-bit sums are exact.\<close>

definition block_fits :: "(block \<Rightarrow> byte list) \<Rightarrow> block \<Rightarrow> bool" where
  "block_fits h b \<longleftrightarrow> length (h b) + unat (fst b) < 2 ^ 32 \<and> length (h b) + unat (snd b) < 2 ^ 32"

text \<open>
  What the variables of \<open>BuildMap\<close> hold after the blocks \<open>bs\<close>, in the loop.
\<close>

definition build_inv ::
  "(block \<Rightarrow> byte list) \<Rightarrow> nat \<Rightarrow> bool \<Rightarrow> u64 \<Rightarrow> block list \<Rightarrow> build \<Rightarrow> bool" where
  "build_inv h value_size pending start bs s \<longleftrightarrow>
     builds (b_builder s) (Direct PAR1 # page_regions h 0 bs) \<and>
     mb_pending_base64_decoding (b_builder s) = pending \<and> mb_data_start (b_builder s) = start \<and>
     b_total_compressed_size s = word_of_nat (chunk_compressed_size h bs) \<and>
     b_total_uncompressed_size s = word_of_nat (chunk_uncompressed_size h bs) \<and>
     b_total_count s = word_of_nat (value_count value_size bs)"

lemma build_inv_start: "build_inv h v pending start [] (build_start pending start)"
  using builds_AddDirect [OF builds_new, of PAR1 pending start]
  by (simp add: build_inv_def build_start_def)

lemma ucast_sum_u32:
  assumes "n + unat (c :: u32) < 2 ^ 32"
  shows "ucast (word_of_nat n + c :: u32) = (word_of_nat (n + unat c) :: u64)"
proof -
  have n: "unat (word_of_nat n :: u32) = n"
    using assms by (simp add: unat_of_nat take_bit_nat_eq_self)
  have "unat (ucast (word_of_nat n + c :: u32) :: u64) = n + unat c"
    using assms n by (simp add: unat_word_ariths)
  moreover have "unat (word_of_nat (n + unat c) :: u64) = n + unat c"
    using assms by (intro unat_of_nat_u64) simp
  ultimately show ?thesis by (metis word_unat_eq_iff)
qed

section \<open>Each block adds its page\<close>

text \<open>
  From here on the Thrift library is one that does not throw: \<open>enc\<close> gives the bytes of every
  sequence of calls.
\<close>

lemma AppendPage_eq:
  "AppendPage (\<lambda>ts. Some (enc ts)) v off c u cmp ser b =
     Ok (word_of_nat (length (page_header enc v cmp (c, u))),
         \<lparr>mem_buffer = page_header enc v cmp (c, u)\<rparr>,
         AddMappedRegion off (ucast c) (AddDirect (page_header enc v cmp (c, u)) b))"
  by (simp add: AppendPage_def SerializeToBuffer_eq page_header_def)

lemma builds_page:
  assumes "builds b rs"
  shows "builds (AddMappedRegion off sz (AddDirect hdr b)) (rs @ [Direct hdr, Mapped off sz])"
  using builds_AddMappedRegion [OF builds_AddDirect [OF assms], of off sz hdr] by simp

lemma compressed_block_adds:
  fixes csz usz :: u64
  defines "blk \<equiv> (ucast csz, ucast usz) :: block"
  assumes inv: "build_inv h v pending start bs s" and off: "b_offset s = word_of_nat (data_size bs)"
    and h: "h = page_header enc v True" and fits: "block_fits h blk" and v: "0 < v" "v < 2 ^ 32"
  shows "\<exists>s'. compressed_block (\<lambda>ts. Some (enc ts)) v csz usz s = Ok s' \<and>
           build_inv h v pending start (bs @ [blk]) s' \<and> b_offset s' = b_offset s"
proof -
  have sums: "ucast (word_of_nat (length (h blk)) + fst blk :: u32) =
      (word_of_nat (length (h blk) + unat (fst blk)) :: u64)"
    "ucast (word_of_nat (length (h blk)) + snd blk :: u32) =
      (word_of_nat (length (h blk) + unat (snd blk)) :: u64)"
    using fits by (simp_all add: block_fits_def ucast_sum_u32 del: of_nat_add)
  have vu: "unat (word_of_nat v :: u32) = v"
    using v(2) by (simp add: unat_of_nat take_bit_nat_eq_self)
  have count: "ucast (snd blk div word_of_nat v :: u32) = (word_of_nat (unat (snd blk) div v) :: u64)"
  proof -
    have "unat (snd blk div word_of_nat v) = unat (snd blk) div v"
      by (simp add: unat_div vu)
    moreover have "unat (word_of_nat (unat (snd blk) div v) :: u64) = unat (snd blk) div v"
      using unat_u32_less [of "snd blk"] div_le_dividend [of "unat (snd blk)" v]
      by (intro unat_of_nat_u64) (simp del: unat_u32_less div_le_dividend)
    ultimately show ?thesis by (metis unat_ucast_u32 word_unat_eq_iff)
  qed
  define s' where "s' = s
    \<lparr>b_ser := \<lparr>mem_buffer = h blk\<rparr>,
     b_builder := AddMappedRegion (b_offset s) (ucast (fst blk)) (AddDirect (h blk) (b_builder s)),
     b_total_compressed_size := b_total_compressed_size s + word_of_nat (length (h blk) + unat (fst blk)),
     b_total_uncompressed_size := b_total_uncompressed_size s + word_of_nat (length (h blk) + unat (snd blk)),
     b_total_count := b_total_count s + word_of_nat (unat (snd blk) div v)\<rparr>"
  have "compressed_block (\<lambda>ts. Some (enc ts)) v csz usz s = Ok s'"
    using sums count
    by (simp add: compressed_block_def Let_def AppendPage_eq blk_def [symmetric] h [symmetric]
        s'_def del: of_nat_add)
      (simp add: blk_def)
  moreover have "build_inv h v pending start (bs @ [blk]) s'"
    using inv off builds_page [of "b_builder s" "Direct PAR1 # page_regions h 0 bs" "b_offset s" "ucast (fst blk)" "h blk"]
    by (simp add: build_inv_def s'_def)
  ultimately show ?thesis by (auto simp: s'_def)
qed

text \<open>In the uncompressed overload both sizes of a block are equal and given in 64 bits.\<close>

lemma uncompressed_block_adds:
  fixes sz :: u64
  defines "blk \<equiv> (ucast sz, ucast sz) :: block"
  assumes inv: "build_inv h v pending start bs s" and off: "b_offset s = word_of_nat (data_size bs)"
    and h: "h = page_header enc v False" and sz: "unat sz < 2 ^ 32" and len: "length (h blk) < 2 ^ 32"
    and v: "0 < v" "v < 2 ^ 32"
  shows "\<exists>s'. uncompressed_block (\<lambda>ts. Some (enc ts)) v sz s = Ok s' \<and>
           build_inv h v pending start (bs @ [blk]) s' \<and> b_offset s' = b_offset s"
proof -
  have u: "unat (ucast sz :: u32) = unat sz"
    using sz by (simp add: unsigned_ucast_eq take_bit_nat_eq_self)
  have uu: "ucast (ucast sz :: u32) = sz"
    using u by (metis unat_ucast_u32 word_unat_eq_iff)
  have hl: "ucast (word_of_nat (length (h blk)) :: u32) + sz = (word_of_nat (length (h blk) + unat sz) :: u64)"
    using ucast_sum_u32 [of "length (h blk)" 0] len by simp
  have vu: "unat (word_of_nat v :: u64) = v"
    using v(2) by (intro unat_of_nat_u64) simp
  have count: "sz div word_of_nat v = (word_of_nat (unat sz div v) :: u64)"
  proof -
    have "unat (sz div word_of_nat v) = unat sz div v" by (simp add: unat_div vu)
    moreover have "unat (word_of_nat (unat sz div v) :: u64) = unat sz div v"
      using unat_u64_less [of sz] div_le_dividend [of "unat sz" v]
      by (intro unat_of_nat_u64) (simp del: unat_u64_less div_le_dividend)
    ultimately show ?thesis by (metis word_unat_eq_iff)
  qed
  define s' where "s' = s
    \<lparr>b_ser := \<lparr>mem_buffer = h blk\<rparr>,
     b_builder := AddMappedRegion (b_offset s) (ucast (fst blk)) (AddDirect (h blk) (b_builder s)),
     b_total_compressed_size := b_total_compressed_size s + word_of_nat (length (h blk) + unat sz),
     b_total_uncompressed_size := b_total_uncompressed_size s + word_of_nat (length (h blk) + unat sz),
     b_total_count := b_total_count s + word_of_nat (unat sz div v)\<rparr>"
  have "uncompressed_block (\<lambda>ts. Some (enc ts)) v sz s = Ok s'"
    using hl count
    by (simp add: uncompressed_block_def AppendPage_eq blk_def [symmetric] h [symmetric]
        s'_def del: of_nat_add)
      (simp add: blk_def)
  moreover have "build_inv h v pending start (bs @ [blk]) s'"
    using inv off u builds_page [of "b_builder s" "Direct PAR1 # page_regions h 0 bs" "b_offset s" "ucast (fst blk)" "h blk"]
    by (simp add: build_inv_def s'_def blk_def)
  ultimately show ?thesis by (auto simp: s'_def)
qed

section \<open>The loop adds all pages but the last\<close>

text \<open>An invariant of a counted loop: \<open>P i\<close> before round \<open>i\<close>.\<close>

lemma for_int_invariant:
  assumes "P i s" and "i + k < 2 ^ 31"
    and "\<And>j s. i \<le> j \<Longrightarrow> j < i + k \<Longrightarrow> P j s \<Longrightarrow> \<exists>s'. body j s = Ok s' \<and> P (Suc j) s'"
  shows "\<exists>s'. for_int body i k s = Ok s' \<and> P (i + k) s'"
  using assms
proof (induction k arbitrary: i s)
  case (Suc k)
  from Suc.prems(1) Suc.prems(3) [of i s] obtain s1 where
    s1: "body i s = Ok s1" "P (Suc i) s1" by auto
  have "\<exists>s'. for_int body (Suc i) k s1 = Ok s' \<and> P (Suc i + k) s'"
    using Suc.prems(2,3) by (intro Suc.IH [OF s1(2)]) auto
  with s1 Suc.prems(2) show ?case by simp
qed simp

text \<open>The blocks of a compressed array, as \<open>BuildMap\<close> sees them.\<close>

definition compressed_blocks :: "CompressedArray \<Rightarrow> block list" where
  "compressed_blocks arr =
     map (\<lambda>i. (ucast (ca_compressed_blk_sz arr ! i),
              ucast (if Suc i = unat (ca_num_blks arr) then ca_last_blk_sz arr else ca_blk_sz arr)))
       [0..<unat (ca_num_blks arr)]"

definition compressed_array_ok :: "CompressedArray \<Rightarrow> bool" where
  "compressed_array_ok arr \<longleftrightarrow>
     0 < unat (ca_num_blks arr) \<and> unat (ca_num_blks arr) \<le> 2 ^ 31 \<and>
     length (ca_compressed_blk_sz arr) = unat (ca_num_blks arr)"

text \<open>The blocks of an uncompressed array: full ones, then what is left.\<close>

definition uncompressed_blocks :: "u64 \<Rightarrow> block list" where
  "uncompressed_blocks total_bytes =
     replicate (unat (num_blks total_bytes - 1)) (ucast blk_sz, ucast blk_sz) @
     [(ucast (last_blk_sz total_bytes), ucast (last_blk_sz total_bytes))]"

lemma unat_minus_1_u64: "0 < unat (w :: u64) \<Longrightarrow> unat (w - 1) = unat w - 1"
  by (simp add: unat_sub_u64)

lemma map_upt_snoc: "0 < n \<Longrightarrow> map f [0..<n] = map f [0..<n - 1] @ [f (n - 1)]"
  by (cases n) simp_all

lemma compressed_loop:
  assumes ok: "compressed_array_ok arr" and h: "h = page_header enc v True"
    and fits: "list_all (block_fits h) (compressed_blocks arr)" and v: "0 < v" "v < 2 ^ 32"
  defines "n \<equiv> unat (ca_num_blks arr)"
  shows "\<exists>s. for_int (compressed_body (\<lambda>ts. Some (enc ts)) v arr) 0 (n - 1)
               (build_start pending (ca_data_start arr)) = Ok s \<and>
             build_inv h v pending (ca_data_start arr) (take (n - 1) (compressed_blocks arr)) s \<and>
             b_offset s = word_of_nat (data_size (take (n - 1) (compressed_blocks arr)))"
proof -
  let ?P = "\<lambda>i s. build_inv h v pending (ca_data_start arr) (take i (compressed_blocks arr)) s \<and>
      b_offset s = word_of_nat (data_size (take i (compressed_blocks arr)))"
  have len: "length (compressed_blocks arr) = n" by (simp add: compressed_blocks_def n_def)
  have "\<exists>s'. for_int (compressed_body (\<lambda>ts. Some (enc ts)) v arr) 0 (n - 1)
               (build_start pending (ca_data_start arr)) = Ok s' \<and> ?P (0 + (n - 1)) s'"
  proof (rule for_int_invariant)
    show "?P 0 (build_start pending (ca_data_start arr))"
      by (simp add: build_inv_start) (simp add: build_start_def)
    show "0 + (n - 1) < 2 ^ 31"
      using ok unfolding compressed_array_ok_def n_def by linarith
  next
    fix j s
    assume j: "0 \<le> j" "j < 0 + (n - 1)" and P: "?P j s"
    let ?c = "ca_compressed_blk_sz arr ! j"
    have blk: "compressed_blocks arr ! j = (ucast ?c, ucast (ca_blk_sz arr))"
      using j by (auto simp: compressed_blocks_def n_def)
    have tk: "take (Suc j) (compressed_blocks arr) = take j (compressed_blocks arr) @ [(ucast ?c, ucast (ca_blk_sz arr))]"
      using j len blk by (simp add: take_Suc_conv_app_nth)
    have at: "vec_at (ca_compressed_blk_sz arr) j = Ok ?c"
      using ok j by (simp add: compressed_array_ok_def n_def)
    have "block_fits h (ucast ?c, ucast (ca_blk_sz arr))"
      using fits j len by (auto simp: list_all_length simp flip: blk)
    from compressed_block_adds [OF conjunct1 [OF P] conjunct2 [OF P] h this v] obtain s' where
      s': "compressed_block (\<lambda>ts. Some (enc ts)) v ?c (ca_blk_sz arr) s = Ok s'"
        "build_inv h v pending (ca_data_start arr) (take (Suc j) (compressed_blocks arr)) s'"
        "b_offset s' = b_offset s"
      using tk by auto
    have "ucast (ucast ?c :: u32) = (word_of_nat (unat (ucast ?c :: u32)) :: u64)"
      by simp
    then show "\<exists>s'. compressed_body (\<lambda>ts. Some (enc ts)) v arr j s = Ok s' \<and> ?P (Suc j) s'"
      using at s' P tk by (simp add: compressed_body_def build_inv_def)
  qed
  then show ?thesis by simp
qed

section \<open>\<open>BuildMap\<close> lays out a Parquet file\<close>

definition parquet_regions :: "(block \<Rightarrow> byte list) \<Rightarrow> byte list \<Rightarrow> block list \<Rightarrow> region list" where
  "parquet_regions h foot bs =
     Direct PAR1 # page_regions h 0 bs @
     [Direct foot, Direct (le_bytes 4 (unat (word_of_nat (length foot) :: u32))), Direct PAR1]"

text \<open>The metadata and the bytes of the footer for the blocks \<open>bs\<close>.\<close>

definition footer_meta_data ::
  "(block \<Rightarrow> byte list) \<Rightarrow> nat \<Rightarrow> string \<Rightarrow> Type \<Rightarrow> ConvertedType option \<Rightarrow> CompressionCodec \<Rightarrow>
   block list \<Rightarrow> FileMetaData" where
  "footer_meta_data h v name t conv codec bs =
     file_meta_data name t conv codec (word_of_nat (chunk_compressed_size h bs))
       (word_of_nat (chunk_uncompressed_size h bs)) (word_of_nat (value_count v bs))"

lemma build_finish_regions:
  assumes "build_inv h v pending start bs s"
    and "ToParquetType type = Ok t" and "ToParquetConvertedType type = Ok conv"
    and "ToParquetCodec codec = Ok pcodec"
    and "foot = enc (write_FileMetaData (footer_meta_data h v name t conv pcodec bs))"
  shows "\<exists>m. build_finish (\<lambda>ts. Some (enc ts)) name type codec s = Ok m \<and>
           maps_regions m (parquet_regions h foot bs) \<and>
           fm_pending_base64_decoding m = pending \<and> fm_data_start m = start"
proof -
  let ?b = "AddDirect PAR1 (AddDirect (le_bytes 4 (unat (word_of_nat (length foot) :: u32)))
              (AddDirect foot (b_builder s)))"
  have "builds (b_builder s) (Direct PAR1 # page_regions h 0 bs)"
    using assms(1) by (simp add: build_inv_def)
  from builds_AddDirect [OF builds_AddDirect [OF builds_AddDirect [OF this]]]
  have "builds ?b (parquet_regions h foot bs)"
    by (simp add: parquet_regions_def)
  moreover have "build_finish (\<lambda>ts. Some (enc ts)) name type codec s = Ok (Finish ?b)"
    using assms
    by (simp add: build_finish_def AppendFooter_def SerializeToBuffer_eq build_inv_def footer_meta_data_def)
  moreover have "fm_pending_base64_decoding (Finish ?b) = pending" "fm_data_start (Finish ?b) = start"
    using assms(1) by (simp_all add: Finish_def FileMap_new_def build_inv_def)
  ultimately show ?thesis using maps_regions_Finish by blast
qed

lemma known_type:
  assumes "GetValueSize type = Ok v"
  obtains t conv where "ToParquetType type = Ok t" "ToParquetConvertedType type = Ok conv"
  using assms by (cases type) auto

lemma value_size_bounds: "GetValueSize type = Ok v \<Longrightarrow> 0 < v \<and> v < 2 ^ 32"
  by (auto dest: GetValueSize_Ok)

lemma compressed_blocks_last:
  assumes "compressed_array_ok arr"
  defines "n \<equiv> unat (ca_num_blks arr)"
  shows "compressed_blocks arr = take (n - 1) (compressed_blocks arr) @
           [(ucast (ca_compressed_blk_sz arr ! (n - 1)), ucast (ca_last_blk_sz arr))]"
proof -
  have n: "0 < n" using assms by (simp add: compressed_array_ok_def)
  have len: "length (compressed_blocks arr) = n" by (simp add: compressed_blocks_def n_def)
  have "compressed_blocks arr ! (n - 1) =
      (ucast (ca_compressed_blk_sz arr ! (n - 1)), ucast (ca_last_blk_sz arr))"
    using n by (simp add: compressed_blocks_def n_def)
  with n len show ?thesis
    by (metis One_nat_def Suc_pred diff_less lessI order_refl take_Suc_conv_app_nth take_all)
qed

lemma BuildMap_compressed_regions:
  assumes type: "GetValueSize type = Ok v" "ToParquetType type = Ok t"
      "ToParquetConvertedType type = Ok conv" "ToParquetCodec codec = Ok pcodec"
    and ok: "compressed_array_ok arr"
    and h: "h = page_header enc v True"
    and fits: "list_all (block_fits h) (compressed_blocks arr)"
    and foot: "foot = enc (write_FileMetaData
                 (footer_meta_data h v name t conv pcodec (compressed_blocks arr)))"
  shows "\<exists>m. BuildMap_compressed (\<lambda>ts. Some (enc ts)) name type codec pending arr = Ok m \<and>
           maps_regions m (parquet_regions h foot (compressed_blocks arr)) \<and>
           fm_pending_base64_decoding m = pending \<and> fm_data_start m = ca_data_start arr"
proof -
  define n where "n = unat (ca_num_blks arr)"
  let ?bs = "compressed_blocks arr" and ?c = "ca_compressed_blk_sz arr ! (n - 1)"
  have v: "0 < v" "v < 2 ^ 32" using value_size_bounds [OF type(1)] by simp_all
  have n: "0 < n" "unat (ca_num_blks arr - 1) = n - 1"
    using ok by (simp_all add: n_def compressed_array_ok_def unat_minus_1_u64)
  note last = compressed_blocks_last [OF ok, folded n_def]
  from compressed_loop [OF ok h fits v, of pending] obtain s where
    s: "for_int (compressed_body (\<lambda>ts. Some (enc ts)) v arr) 0 (n - 1)
          (build_start pending (ca_data_start arr)) = Ok s"
      "build_inv h v pending (ca_data_start arr) (take (n - 1) ?bs) s"
      "b_offset s = word_of_nat (data_size (take (n - 1) ?bs))"
    unfolding n_def by blast
  have "block_fits h (ucast ?c, ucast (ca_last_blk_sz arr))"
    using fits by (subst (asm) last) simp
  from compressed_block_adds [OF s(2,3) h this v] obtain s' where
    s': "compressed_block (\<lambda>ts. Some (enc ts)) v ?c (ca_last_blk_sz arr) s = Ok s'"
      "build_inv h v pending (ca_data_start arr) ?bs s'"
    using last by auto
  have "vec_at (ca_compressed_blk_sz arr) (n - 1) = Ok ?c"
    using ok n(1) by (simp add: compressed_array_ok_def n_def)
  with build_finish_regions [where enc = enc, OF s'(2) type(2-4) foot] show ?thesis
    using type(1) n(2) s(1) s'(1) by (simp add: BuildMap_compressed_def)
qed

lemma uncompressed_loop:
  assumes h: "h = page_header enc v False" and len: "length (h (ucast blk_sz, ucast blk_sz)) < 2 ^ 32"
    and v: "0 < v" "v < 2 ^ 32" and n: "n < 2 ^ 31"
  shows "\<exists>s. for_int (uncompressed_body (\<lambda>ts. Some (enc ts)) v) 0 n (build_start pending start) = Ok s \<and>
             build_inv h v pending start (replicate n (ucast blk_sz, ucast blk_sz)) s \<and>
             b_offset s = word_of_nat (data_size (replicate n (ucast blk_sz, ucast blk_sz)))"
proof -
  let ?blk = "(ucast blk_sz, ucast blk_sz) :: block"
  let ?P = "\<lambda>i s. build_inv h v pending start (replicate i ?blk) s \<and>
      b_offset s = word_of_nat (data_size (replicate i ?blk))"
  have "\<exists>s'. for_int (uncompressed_body (\<lambda>ts. Some (enc ts)) v) 0 n (build_start pending start) = Ok s' \<and>
      ?P (0 + n) s'"
  proof (rule for_int_invariant)
    show "?P 0 (build_start pending start)"
      by (simp add: build_inv_start) (simp add: build_start_def)
    show "0 + n < 2 ^ 31" using n by simp
  next
    fix j s
    assume P: "?P j s"
    have sz: "unat blk_sz < 2 ^ 32" by (simp add: blk_sz_def)
    from uncompressed_block_adds [OF conjunct1 [OF P] conjunct2 [OF P] h sz len v] obtain s' where
      s': "uncompressed_block (\<lambda>ts. Some (enc ts)) v blk_sz s = Ok s'"
        "build_inv h v pending start (replicate (Suc j) ?blk) s'" "b_offset s' = b_offset s"
      by (auto simp: replicate_append_same)
    have "unat (ucast blk_sz :: u32) = 32768" by (simp add: blk_sz_def)
    then show "\<exists>s'. uncompressed_body (\<lambda>ts. Some (enc ts)) v j s = Ok s' \<and> ?P (Suc j) s'"
      using s' P by (simp add: uncompressed_body_def build_inv_def) (simp add: blk_sz_def)
  qed
  then show ?thesis by simp
qed

text \<open>The number of blocks and the size of the last one add up to the array.\<close>

lemma uncompressed_block_count:
  assumes "0 < unat total_bytes" and "unat total_bytes < 2 ^ 46"
  shows "unat (num_blks total_bytes - 1) = (unat total_bytes - 1) div 32768"
    and "unat (last_blk_sz total_bytes) = (unat total_bytes - 1) mod 32768 + 1"
proof -
  have m1: "unat (total_bytes - 1) = unat total_bytes - 1"
    using assms(1) by (rule unat_minus_1_u64)
  have "total_bytes + blk_sz - 1 = (total_bytes - 1) + blk_sz" by simp
  then have "unat (total_bytes + blk_sz - 1) = unat total_bytes - 1 + 32768"
    using m1 assms by (simp add: unat_add_u64 blk_sz_def)
  then have n: "unat (num_blks total_bytes) = (unat total_bytes - 1) div 32768 + 1"
    by (simp add: num_blks_def unat_div blk_sz_def)
  then show "unat (num_blks total_bytes - 1) = (unat total_bytes - 1) div 32768"
    by (simp add: unat_minus_1_u64)
  have "unat ((total_bytes - 1) mod 32768) = (unat total_bytes - 1) mod 32768"
    by (simp add: unat_mod m1)
  then show "unat (last_blk_sz total_bytes) = (unat total_bytes - 1) mod 32768 + 1"
    unfolding last_blk_sz_def by (subst unat_add_u64) simp_all
qed

lemma BuildMap_uncompressed_regions:
  assumes type: "GetValueSize type = Ok v" "ToParquetType type = Ok t"
      "ToParquetConvertedType type = Ok conv"
    and sz: "0 < unat (ua_total_bytes arr)" "unat (ua_total_bytes arr) < 2 ^ 46"
    and h: "h = page_header enc v False"
    and len: "list_all (\<lambda>b. length (h b) < 2 ^ 32) (uncompressed_blocks (ua_total_bytes arr))"
      "length (h (ucast blk_sz, ucast blk_sz)) < 2 ^ 32"
    and foot: "foot = enc (write_FileMetaData
                 (footer_meta_data h v name t conv CompressionCodec_UNCOMPRESSED
                   (uncompressed_blocks (ua_total_bytes arr))))"
  shows "\<exists>m. BuildMap_uncompressed (\<lambda>ts. Some (enc ts)) name type pending arr = Ok m \<and>
           maps_regions m (parquet_regions h foot (uncompressed_blocks (ua_total_bytes arr))) \<and>
           fm_pending_base64_decoding m = pending \<and> fm_data_start m = ua_data_start arr"
proof -
  let ?t = "ua_total_bytes arr" and ?blk = "(ucast blk_sz, ucast blk_sz) :: block"
  define n where "n = unat (num_blks ?t - 1)"
  have v: "0 < v" "v < 2 ^ 32" using value_size_bounds [OF type(1)] by simp_all
  have "n < 2 ^ 31"
    using uncompressed_block_count(1) [OF sz] sz unfolding n_def by simp
  from uncompressed_loop [OF h len(2) v this, of pending "ua_data_start arr"] obtain s where
    s: "for_int (uncompressed_body (\<lambda>ts. Some (enc ts)) v) 0 n (build_start pending (ua_data_start arr)) = Ok s"
      "build_inv h v pending (ua_data_start arr) (replicate n ?blk) s"
      "b_offset s = word_of_nat (data_size (replicate n ?blk))"
    by blast
  have l: "unat (last_blk_sz ?t) < 2 ^ 32"
  proof -
    have "(unat ?t - 1) mod 32768 < 32768" by simp
    then show ?thesis using uncompressed_block_count(2) [OF sz] by simp
  qed
  have "length (h (ucast (last_blk_sz ?t), ucast (last_blk_sz ?t))) < 2 ^ 32"
    using len(1) by (simp add: uncompressed_blocks_def)
  from uncompressed_block_adds [OF s(2,3) h l this v] obtain s' where
    s': "uncompressed_block (\<lambda>ts. Some (enc ts)) v (last_blk_sz ?t) s = Ok s'"
      "build_inv h v pending (ua_data_start arr) (uncompressed_blocks ?t) s'"
    by (auto simp: uncompressed_blocks_def n_def)
  with build_finish_regions [where enc = enc and codec = NONE, OF s'(2) type(2,3) _ foot] show ?thesis
    using type(1) s(1) by (simp add: BuildMap_uncompressed_def n_def)
qed

end
