(* ===== verification/Vfs.thy ===== *)
theory Vfs
  imports File_Map Thrift
begin

text \<open>
  The virtual file system (src/vfs.h, src/vfs.cc): file objects over strings and over address
  maps, the three kinds of directories, their iterators, and the file attributes they take
  over from the VTK file.
\<close>

section \<open>File objects\<close>

record VirtualFile =
  vf_map :: FileMap
  vf_base :: ReadonlyOSFile
  vf_own_base :: bool

definition VirtualFile_Pread ::
  "os_pread \<Rightarrow> decode_triplet \<Rightarrow> VirtualFile \<Rightarrow> u64 \<Rightarrow> u64 \<Rightarrow> byte list option result option" where
  "VirtualFile_Pread os dt f sz off =
     FileMap_Pread dt (vf_map f) (ReadonlyOSFile_Pread os (vf_base f)) sz off"

text \<open>The objects behind the \<open>RandomAccessFile\<close> pointers that \<open>Open\<close> returns.\<close>

datatype RandomAccessFile = AStringBufFile StringBufFile | AVirtualFile VirtualFile

fun RandomAccessFile_Pread ::
  "os_pread \<Rightarrow> decode_triplet \<Rightarrow> RandomAccessFile \<Rightarrow> u64 \<Rightarrow> u64 \<Rightarrow> byte list option result option"
where
  "RandomAccessFile_Pread os dt (AStringBufFile f) sz off = Some (StringBufFile_Pread f sz off)"
| "RandomAccessFile_Pread os dt (AVirtualFile f) sz off = VirtualFile_Pread os dt f sz off"

section \<open>File attributes\<close>

type_synonym timespec = "i64 \<times> i64"

record stat =
  st_dev :: u64
  st_ino :: u64
  st_mode :: u32
  st_nlink :: u64
  st_uid :: u32
  st_gid :: u32
  st_rdev :: u64
  st_size :: i64
  st_blksize :: i64
  st_blocks :: i64
  st_atim :: timespec
  st_mtim :: timespec
  st_ctim :: timespec

definition S_IRUSR :: u32 where "S_IRUSR = 0x100"
definition S_IRGRP :: u32 where "S_IRGRP = 0x020"
definition S_IROTH :: u32 where "S_IROTH = 0x004"
definition S_IXUSR :: u32 where "S_IXUSR = 0x040"
definition S_IXGRP :: u32 where "S_IXGRP = 0x008"
definition S_IXOTH :: u32 where "S_IXOTH = 0x001"
definition S_IFDIR :: u32 where "S_IFDIR = 0x4000"
definition S_IFREG :: u32 where "S_IFREG = 0x8000"

lemmas mode_bits =
  S_IRUSR_def S_IRGRP_def S_IROTH_def S_IXUSR_def S_IXGRP_def S_IXOTH_def S_IFDIR_def S_IFREG_def

unbundle bit_operations_syntax

definition zero_stat :: stat where
  "zero_stat = \<lparr>st_dev = 0, st_ino = 0, st_mode = 0, st_nlink = 0, st_uid = 0, st_gid = 0,
     st_rdev = 0, st_size = 0, st_blksize = 0, st_blocks = 0,
     st_atim = (0, 0), st_mtim = (0, 0), st_ctim = (0, 0)\<rparr>"

definition SanitizedStat :: "stat \<Rightarrow> stat" where
  "SanitizedStat inp = zero_stat
     \<lparr>st_mode := st_mode inp AND (S_IRUSR OR S_IRGRP OR S_IROTH),
      st_atim := st_atim inp, st_mtim := st_mtim inp, st_ctim := st_ctim inp,
      st_rdev := st_rdev inp, st_dev := st_dev inp, st_uid := st_uid inp, st_gid := st_gid inp\<rparr>"

text \<open>
  \<open>NewOSFile\<close> (src/fmap.cc): \<open>open(2)\<close> and \<open>fstat(2)\<close> are parameters, with \<open>None\<close> for -1. The
  descriptors that the process holds open are passed along.
\<close>

definition open_error :: error where
  "open_error = RuntimeError ''Cannot open file for reading''"

definition fstat_error :: error where
  "fstat_error = RuntimeError ''Cannot stat file''"

definition NewOSFile ::
  "(string \<Rightarrow> int option) \<Rightarrow> (int \<Rightarrow> stat option) \<Rightarrow> string \<Rightarrow> int list \<Rightarrow>
   (ReadonlyOSFile \<times> stat) result \<times> int list" where
  "NewOSFile os_open os_fstat fname fds =
     (case os_open fname of
        None \<Rightarrow> (Error open_error, fds)
      | Some fd \<Rightarrow>
          (case os_fstat fd of
             None \<Rightarrow> (Error fstat_error, fd # fds)
           | Some statbuf \<Rightarrow> (Ok (\<lparr>osf_fd = fd\<rparr>, statbuf), fd # fds)))"

section \<open>Directories\<close>

record FileStat =
  fs_file_size :: u64
  fs_is_dir :: bool

datatype Dir =
    MetadataDir "(string, string) umap"
  | ArrayDir "(string, FileMap) umap" ReadonlyOSFile bool
  | VtkTree "(string, Dir) umap" stat ReadonlyOSFile bool

definition VtkTree_new :: "(string, Dir) umap \<Rightarrow> stat \<Rightarrow> ReadonlyOSFile \<Rightarrow> bool \<Rightarrow> Dir" where
  "VtkTree_new subdir statbuf base own_base = VtkTree subdir (SanitizedStat statbuf) base own_base"

text \<open>
  \<open>Open\<close> and \<open>GetDir\<close> return a pointer, \<open>None\<close> where it is \<open>NULL\<close>. A \<open>std::string\<close> is its
  characters; read as a file it is their codes.
\<close>

definition string_bytes :: "string \<Rightarrow> byte list" where
  "string_bytes s = map of_char s"

definition MetadataDir_Open :: "(string, string) umap \<Rightarrow> string \<Rightarrow> RandomAccessFile option result" where
  "MetadataDir_Open m name =
     bindR (umap_at m name) (\<lambda>s. Ok (Some (AStringBufFile \<lparr>sbf_strbuf = string_bytes s\<rparr>)))"

definition ArrayDir_Open ::
  "(string, FileMap) umap \<Rightarrow> ReadonlyOSFile \<Rightarrow> string \<Rightarrow> RandomAccessFile option result" where
  "ArrayDir_Open arr_maps base name =
     bindR (umap_at arr_maps name) (\<lambda>m.
       Ok (Some (AVirtualFile \<lparr>vf_map = m, vf_base = base, vf_own_base = False\<rparr>)))"

definition VtkTree_Open :: "(string, Dir) umap \<Rightarrow> string \<Rightarrow> RandomAccessFile option result" where
  "VtkTree_Open subdirs name = Ok None"

definition MetadataDir_GetDir :: "(string, string) umap \<Rightarrow> string \<Rightarrow> Dir option result" where
  "MetadataDir_GetDir m name = Ok None"

definition ArrayDir_GetDir :: "(string, FileMap) umap \<Rightarrow> string \<Rightarrow> Dir option result" where
  "ArrayDir_GetDir arr_maps name = Ok None"

definition VtkTree_GetDir :: "(string, Dir) umap \<Rightarrow> string \<Rightarrow> Dir option result" where
  "VtkTree_GetDir subdirs name = bindR (umap_at subdirs name) (\<lambda>d. Ok (Some d))"

text \<open>\<open>Stat\<close> returns whether it found the name, and then fills in a \<open>FileStat\<close>.\<close>

definition MetadataDir_Stat :: "(string, string) umap \<Rightarrow> string \<Rightarrow> FileStat option result" where
  "MetadataDir_Stat m name =
     (case map_of m name of
        Some s \<Rightarrow> Ok (Some \<lparr>fs_file_size = word_of_nat (length s), fs_is_dir = False\<rparr>)
      | None \<Rightarrow> Ok None)"

definition ArrayDir_Stat :: "(string, FileMap) umap \<Rightarrow> string \<Rightarrow> FileStat option result" where
  "ArrayDir_Stat arr_maps name =
     (case map_of arr_maps name of
        Some m \<Rightarrow> bindR (file_size m) (\<lambda>n. Ok (Some \<lparr>fs_file_size = n, fs_is_dir = False\<rparr>))
      | None \<Rightarrow> Ok None)"

definition VtkTree_Stat :: "(string, Dir) umap \<Rightarrow> string \<Rightarrow> FileStat option result" where
  "VtkTree_Stat subdirs name =
     (case map_of subdirs name of
        Some d \<Rightarrow> Ok (Some \<lparr>fs_file_size = 0, fs_is_dir = True\<rparr>)
      | None \<Rightarrow> Ok None)"

text \<open>The virtual calls on a \<open>Dir\<close>.\<close>

fun Dir_Open :: "Dir \<Rightarrow> string \<Rightarrow> RandomAccessFile option result" where
  "Dir_Open (MetadataDir m) name = MetadataDir_Open m name"
| "Dir_Open (ArrayDir arr_maps base own_base) name = ArrayDir_Open arr_maps base name"
| "Dir_Open (VtkTree subdirs st base own_base) name = VtkTree_Open subdirs name"

fun Dir_GetDir :: "Dir \<Rightarrow> string \<Rightarrow> Dir option result" where
  "Dir_GetDir (MetadataDir m) name = MetadataDir_GetDir m name"
| "Dir_GetDir (ArrayDir arr_maps base own_base) name = ArrayDir_GetDir arr_maps name"
| "Dir_GetDir (VtkTree subdirs st base own_base) name = VtkTree_GetDir subdirs name"

fun Dir_Stat :: "Dir \<Rightarrow> string \<Rightarrow> FileStat option result" where
  "Dir_Stat (MetadataDir m) name = MetadataDir_Stat m name"
| "Dir_Stat (ArrayDir arr_maps base own_base) name = ArrayDir_Stat arr_maps name"
| "Dir_Stat (VtkTree subdirs st base own_base) name = VtkTree_Stat subdirs name"

lemmas dir_methods [simp] =
  MetadataDir_Open_def ArrayDir_Open_def VtkTree_Open_def
  MetadataDir_GetDir_def ArrayDir_GetDir_def VtkTree_GetDir_def
  MetadataDir_Stat_def ArrayDir_Stat_def VtkTree_Stat_def

section \<open>Iterators\<close>

text \<open>
  \<open>KeyIter\<close>: a position in the iteration order of a map, \<open>end()\<close> being the number of entries.
  Reading or advancing the end iterator is undefined.
\<close>

record KeyIter =
  ki_keys :: "string list"
  ki_it :: nat

definition KeyIter_new :: "(string, 'v) umap \<Rightarrow> KeyIter" where
  "KeyIter_new m = \<lparr>ki_keys = map fst m, ki_it = length m\<rparr>"

definition Valid :: "KeyIter \<Rightarrow> bool" where
  "Valid it \<longleftrightarrow> ki_it it \<noteq> length (ki_keys it)"

definition Value :: "KeyIter \<Rightarrow> string result" where
  "Value it = vec_at (ki_keys it) (ki_it it)"

definition Next :: "KeyIter \<Rightarrow> KeyIter result" where
  "Next it = (if ki_it it < length (ki_keys it) then Ok (it\<lparr>ki_it := Suc (ki_it it)\<rparr>)
              else Error Undefined)"

definition SeekToFirst :: "KeyIter \<Rightarrow> KeyIter" where
  "SeekToFirst it = it\<lparr>ki_it := 0\<rparr>"

fun Dir_NewIter :: "Dir \<Rightarrow> KeyIter" where
  "Dir_NewIter (MetadataDir m) = KeyIter_new m"
| "Dir_NewIter (ArrayDir arr_maps base own_base) = KeyIter_new arr_maps"
| "Dir_NewIter (VtkTree subdirs st base own_base) = KeyIter_new subdirs"

section \<open>What clients rely on\<close>

text \<open>
  The contract of the abstract class \<open>Dir\<close>: a name that \<open>Stat\<close> reports as a file can be
  opened, one that it reports as a directory can be entered, it reports exactly the names that
  the iterator lists, and a new iterator over them is at the end.
\<close>

locale directory =
  fixes Stat :: "string \<Rightarrow> FileStat option result"
    and Open :: "string \<Rightarrow> RandomAccessFile option result"
    and GetDir :: "string \<Rightarrow> Dir option result"
    and NewIter :: KeyIter
  assumes stat_file: "Stat name = Ok (Some st) \<Longrightarrow> \<not> fs_is_dir st \<Longrightarrow> \<exists>f. Open name = Ok (Some f)"
    and stat_dir: "Stat name = Ok (Some st) \<Longrightarrow> fs_is_dir st \<Longrightarrow> \<exists>d. GetDir name = Ok (Some d)"
    and stat_none: "Stat name = Ok None \<longleftrightarrow> name \<notin> set (ki_keys NewIter)"
    and iter_at_end: "\<not> Valid NewIter"
begin

lemma listed_found: "name \<in> set (ki_keys NewIter) \<Longrightarrow> Stat name \<noteq> Ok None"
  by (simp add: stat_none)

lemma found_usable:
  assumes "Stat name = Ok (Some st)"
  shows "(\<exists>f. Open name = Ok (Some f)) \<or> (\<exists>d. GetDir name = Ok (Some d))"
  using assms stat_file stat_dir by blast

text \<open>Walking the iterator from the first entry lists the names.\<close>

lemma seek_valid: "Valid (SeekToFirst NewIter) \<longleftrightarrow> ki_keys NewIter \<noteq> []"
  by (auto simp: Valid_def SeekToFirst_def)

end

interpretation dir: directory "Dir_Stat d" "Dir_Open d" "Dir_GetDir d" "Dir_NewIter d" for d
proof unfold_locales
  fix name st
  assume "Dir_Stat d name = Ok (Some st)" and "\<not> fs_is_dir st"
  then show "\<exists>f. Dir_Open d name = Ok (Some f)"
    by (cases d) (auto split: option.split_asm)
next
  fix name st
  assume "Dir_Stat d name = Ok (Some st)" and "fs_is_dir st"
  then show "\<exists>d'. Dir_GetDir d name = Ok (Some d')"
    by (cases d) (auto split: option.split_asm elim!: bindR_OkE)
next
  fix name
  show "Dir_Stat d name = Ok None \<longleftrightarrow> name \<notin> set (ki_keys (Dir_NewIter d))"
    by (cases d) (auto simp: KeyIter_new_def map_of_eq_None_iff bindR_eq_Ok
        split: option.split dest: umap_key)
next
  show "\<not> Valid (Dir_NewIter d)"
    by (cases d) (simp_all add: Valid_def KeyIter_new_def)
qed

section \<open>Well-formed trees\<close>

text \<open>Every map of a tree has its end marker, so that \<open>file_size\<close> reads inside its table.\<close>

definition map_ok :: "FileMap \<Rightarrow> bool" where
  "map_ok m \<longleftrightarrow> (\<exists>n. file_size m = Ok n)"

fun dir_ok :: "Dir \<Rightarrow> bool" where
  "dir_ok (MetadataDir m) = umap_ok m"
| "dir_ok (ArrayDir arr_maps base own_base) =
     (umap_ok arr_maps \<and> list_all (\<lambda>(n, m). map_ok m) arr_maps)"
| "dir_ok (VtkTree subdirs st base own_base) =
     (umap_ok subdirs \<and> list_all (\<lambda>(n, d). dir_ok d) subdirs)"

lemma Dir_Stat_returns: "dir_ok d \<Longrightarrow> \<exists>r. Dir_Stat d name = Ok r"
  by (cases d) (fastforce simp: list_all_iff map_ok_def split: option.split dest!: map_of_SomeD)+

lemma Dir_GetDir_ok: "dir_ok d \<Longrightarrow> Dir_GetDir d name = Ok (Some d') \<Longrightarrow> dir_ok d'"
  by (cases d) (auto simp: list_all_iff umap_at_eq_Ok elim!: bindR_OkE dest!: map_of_SomeD)

text \<open>A map made of a row of regions reports the size of what it reads.\<close>

lemma map_ok_regions: "maps_regions m rs \<Longrightarrow> regions_ok data rs \<Longrightarrow> map_ok m"
  using file_size_map by (auto simp: map_ok_def)

lemma Dir_Stat_array_size:
  assumes "map_of arr_maps name = Some m" and "maps_regions m rs" and "regions_ok data rs"
  shows "Dir_Stat (ArrayDir arr_maps base own) name =
           Ok (Some \<lparr>fs_file_size = word_of_nat (length (regions_content data rs)), fs_is_dir = False\<rparr>)"
  using assms length_regions_content [of data rs]
  by (simp add: file_size_map [OF assms(2,3)] regions_ok_def)

section \<open>Destructors\<close>

text \<open>
  Deleting a directory deletes its parts; the file descriptor of a \<open>ReadonlyOSFile\<close> is closed
  when the object that owns it is deleted. \<open>delete\<close> gives the descriptors that are closed, in
  their order.
\<close>

definition ReadonlyOSFile_delete :: "ReadonlyOSFile \<Rightarrow> int list" where
  "ReadonlyOSFile_delete file = [osf_fd file]"

fun RandomAccessFile_delete :: "RandomAccessFile \<Rightarrow> int list" where
  "RandomAccessFile_delete (AStringBufFile f) = []"
| "RandomAccessFile_delete (AVirtualFile f) =
     (if vf_own_base f then ReadonlyOSFile_delete (vf_base f) else [])"

definition ArrayDir_delete :: "ReadonlyOSFile \<Rightarrow> bool \<Rightarrow> int list" where
  "ArrayDir_delete base own_base = (if own_base then ReadonlyOSFile_delete base else [])"

definition VtkTree_delete :: "ReadonlyOSFile \<Rightarrow> bool \<Rightarrow> int list" where
  "VtkTree_delete base own_base = (if own_base then ReadonlyOSFile_delete base else [])"

text \<open>The destructor of a tree runs first, then those of the members.\<close>

fun Dir_delete :: "Dir \<Rightarrow> int list" where
  "Dir_delete (MetadataDir m) = []"
| "Dir_delete (ArrayDir arr_maps base own_base) = ArrayDir_delete base own_base"
| "Dir_delete (VtkTree subdirs st base own_base) =
     VtkTree_delete base own_base @ concat (map (\<lambda>(name, d). Dir_delete d) subdirs)"

lemmas dir_destructors [simp] = ArrayDir_delete_def VtkTree_delete_def

text \<open>An array directory never gives a file that owns the VTK file.\<close>

lemma Dir_Open_delete: "Dir_Open d name = Ok (Some f) \<Longrightarrow> RandomAccessFile_delete f = []"
  by (cases d) (auto elim!: bindR_OkE)

section \<open>Entries\<close>

text \<open>
  The abstract view of a directory: what a name stands for, a directory or a file with the
  size that is reported for it.
\<close>

datatype Entry = EDir Dir | EFile RandomAccessFile u64

definition map_size :: "FileMap \<Rightarrow> u64" where
  "map_size m = (case file_size m of Ok n \<Rightarrow> n | Error e \<Rightarrow> 0)"

fun entry :: "Dir \<Rightarrow> string \<Rightarrow> Entry option" where
  "entry (MetadataDir m) name =
     map_option (\<lambda>s. EFile (AStringBufFile \<lparr>sbf_strbuf = string_bytes s\<rparr>) (word_of_nat (length s)))
       (map_of m name)"
| "entry (ArrayDir arr_maps base own_base) name =
     map_option (\<lambda>m. EFile (AVirtualFile \<lparr>vf_map = m, vf_base = base, vf_own_base = False\<rparr>) (map_size m))
       (map_of arr_maps name)"
| "entry (VtkTree subdirs st base own_base) name = map_option EDir (map_of subdirs name)"

fun entry_stat :: "Entry \<Rightarrow> FileStat" where
  "entry_stat (EDir d) = \<lparr>fs_file_size = 0, fs_is_dir = True\<rparr>"
| "entry_stat (EFile f n) = \<lparr>fs_file_size = n, fs_is_dir = False\<rparr>"

fun entry_ok :: "Entry \<Rightarrow> bool" where
  "entry_ok (EDir d) = dir_ok d"
| "entry_ok (EFile f n) = True"

lemma entry_ok: "dir_ok d \<Longrightarrow> entry d name = Some e \<Longrightarrow> entry_ok e"
  by (cases d) (fastforce simp: list_all_iff dest!: map_of_SomeD)+

lemma Dir_Stat_entry: "dir_ok d \<Longrightarrow> Dir_Stat d name = Ok (map_option entry_stat (entry d name))"
  by (cases d)
    (fastforce simp: list_all_iff map_ok_def map_size_def split: option.split dest!: map_of_SomeD)+

lemma Dir_GetDir_entry: "entry d name = Some (EDir d') \<Longrightarrow> Dir_GetDir d name = Ok (Some d')"
  by (cases d) auto

lemma Dir_Open_entry: "entry d name = Some (EFile f n) \<Longrightarrow> Dir_Open d name = Ok (Some f)"
  by (cases d) auto

lemma entry_keys: "entry d name \<noteq> None \<longleftrightarrow> name \<in> set (ki_keys (Dir_NewIter d))"
  by (cases d) (auto simp: KeyIter_new_def map_of_eq_None_iff dest: umap_key)

section \<open>What a file holds\<close>

text \<open>A file holds bytes if every read returns, with the bytes from the offset on.\<close>

definition file_holds :: "os_pread \<Rightarrow> decode_triplet \<Rightarrow> RandomAccessFile \<Rightarrow> byte list \<Rightarrow> bool" where
  "file_holds os dt f content \<longleftrightarrow>
     (\<forall>sz off. RandomAccessFile_Pread os dt f sz off =
        Some (Ok (Some (bytes_at (unat off) (unat sz) content))))"

lemma string_file_holds: "file_holds os dt (AStringBufFile f) (sbf_strbuf f)"
  by (simp add: file_holds_def string_buf_file.pread_eof)

lemma mapped_file_holds:
  assumes "maps_regions m rs" and "regions_ok data rs"
    and "random_access_file (data_view dt m (ReadonlyOSFile_Pread os base)) data"
  shows "file_holds os dt (AVirtualFile \<lparr>vf_map = m, vf_base = base, vf_own_base = own\<rparr>)
           (regions_content data rs)"
  using FileMap_Pread_content [OF assms] by (simp add: file_holds_def VirtualFile_Pread_def)

end
