(* ===== verification/Decimal.thy ===== *)
theory Decimal
  imports Prelude
begin

text \<open>
  Decimal numbers as text: the functions \<open>atoll\<close> and \<open>atoi\<close> of the C library, with which the program
  reads the attribute \<open>offset\<close> of an array and the options of the benchmark, the digits of a number,
  as VTK and \<open>std::to_string\<close> write them, and the round trip between the two.
\<close>

section \<open>Reading numbers\<close>

definition char_code :: "char \<Rightarrow> int" where
  "char_code c = of_char c"

definition isspace :: "char \<Rightarrow> bool" where
  "isspace c \<longleftrightarrow> char_code c = 32 \<or> 9 \<le> char_code c \<and> char_code c \<le> 13"

definition isdigit :: "char \<Rightarrow> bool" where
  "isdigit c \<longleftrightarrow> 48 \<le> char_code c \<and> char_code c \<le> 57"

definition digits_value :: "string \<Rightarrow> int" where
  "digits_value s = foldl (\<lambda>n c. 10 * n + (char_code c - 48)) 0 (takeWhile isdigit s)"

text \<open>White space, a sign, digits; what follows them is ignored, and no digits are 0.\<close>

definition number_at_start :: "string \<Rightarrow> int" where
  "number_at_start s =
     (case dropWhile isspace s of
        [] \<Rightarrow> 0
      | c # cs \<Rightarrow> if c = CHR ''-'' then - digits_value cs
                  else if c = CHR ''+'' then digits_value cs
                  else digits_value (c # cs))"

text \<open>A value that the type of the result does not hold is undefined.\<close>

definition atoll :: "string \<Rightarrow> int result" where
  "atoll s = (let v = number_at_start s in if - (2 ^ 63) \<le> v \<and> v < 2 ^ 63 then Ok v else Error Undefined)"

definition atoi :: "string \<Rightarrow> int result" where
  "atoi s = (let v = number_at_start s in if - (2 ^ 31) \<le> v \<and> v < 2 ^ 31 then Ok v else Error Undefined)"

section \<open>Writing numbers\<close>

definition digit :: "nat \<Rightarrow> char" where
  "digit n = ''0123456789'' ! n"

fun decimal :: "nat \<Rightarrow> string" where
  "decimal n = (if n < 10 then [digit n] else decimal (n div 10) @ [digit (n mod 10)])"

declare decimal.simps [simp del]

definition int_text :: "int \<Rightarrow> string" where
  "int_text i = (if i < 0 then CHR ''-'' # decimal (nat (- i)) else decimal (nat i))"

section \<open>Reading what was written\<close>

lemma digit_code: "n < 10 \<Longrightarrow> char_code (digit n) = 48 + int n"
proof -
  assume "n < 10"
  then have "n \<in> set [0..<10]" by simp
  also have "[0..<10] = [0, 1, 2, 3, 4, 5, 6, 7, 8, 9]" by (simp add: upt_rec)
  finally have "list_all (\<lambda>i. char_code (digit i) = 48 + int i) [0, 1, 2, 3, 4, 5, 6, 7, 8, 9] \<Longrightarrow> ?thesis"
    by (simp only: list_all_iff)
  then show ?thesis by (simp add: char_code_def digit_def of_char_def)
qed

lemma decimal_digits: "\<forall>c\<in>set (decimal n). isdigit c"
proof (induction n rule: decimal.induct)
  case (1 n)
  then show ?case
    by (subst decimal.simps) (auto simp: isdigit_def digit_code)
qed

lemma decimal_not_Nil: "decimal n \<noteq> []"
  by (subst decimal.simps) simp

lemma decimal_value: "foldl (\<lambda>n c. 10 * n + (char_code c - 48)) 0 (decimal n) = int n"
proof (induction n rule: decimal.induct)
  case (1 n)
  then show ?case
    by (subst decimal.simps) (simp add: digit_code, simp add: zdiv_int zmod_int)
qed

lemma not_digits: "\<not> isspace (CHR ''-'')" "\<not> isdigit (CHR ''-'')" "\<not> isdigit (CHR ''+'')"
  "isdigit c \<Longrightarrow> \<not> isspace c"
  by (simp_all add: isspace_def isdigit_def char_code_def of_char_def)

lemma digits_value_decimal:
  assumes "rest = [] \<or> \<not> isdigit (hd rest)"
  shows "digits_value (decimal n @ rest) = int n"
proof -
  have "takeWhile isdigit (decimal n @ rest) = decimal n"
    using decimal_digits [of n] assms by (cases rest) (simp_all add: takeWhile_append2)
  then show ?thesis by (simp add: digits_value_def decimal_value)
qed

lemma hd_decimal: "isdigit (hd (decimal n))"
  using decimal_digits [of n] decimal_not_Nil [of n] by simp

lemma number_of_int_text:
  assumes "\<forall>c\<in>set sp. isspace c" and "rest = [] \<or> \<not> isdigit (hd rest)"
  shows "number_at_start (sp @ int_text i @ rest) = i"
proof (cases "i < 0")
  case True
  then have "dropWhile isspace (sp @ int_text i @ rest) = CHR ''-'' # decimal (nat (- i)) @ rest"
    using assms(1) by (simp add: dropWhile_append2 int_text_def not_digits)
  with True show ?thesis by (simp add: number_at_start_def digits_value_decimal [OF assms(2)])
next
  case False
  obtain c cs where d: "decimal (nat i) = c # cs" using decimal_not_Nil [of "nat i"] by (cases "decimal (nat i)") auto
  then have c: "isdigit c" "c \<noteq> CHR ''-''" "c \<noteq> CHR ''+''" "\<not> isspace c"
    using hd_decimal [of "nat i"] not_digits by auto
  with d False have "dropWhile isspace (sp @ int_text i @ rest) = decimal (nat i) @ rest"
    using assms(1) by (simp add: dropWhile_append2 int_text_def)
  moreover have "digits_value (decimal (nat i) @ rest) = i"
    using False by (simp add: digits_value_decimal [OF assms(2)])
  ultimately show ?thesis using d c by (simp add: number_at_start_def)
qed

lemma int_text_inj: "int_text i = int_text j \<longleftrightarrow> i = j"
  by (metis number_of_int_text [of "[]" "[]"] append_Nil append_Nil2 empty_iff list.set(1))

lemma hd_int_text: "int_text i \<noteq> [] \<and> (hd (int_text i) = CHR ''-'' \<or> isdigit (hd (int_text i)))"
  using decimal_not_Nil hd_decimal by (simp add: int_text_def)

lemma atoll_decimal:
  assumes "n < 2 ^ 63" and "\<forall>c\<in>set sp. isspace c" and "rest = [] \<or> \<not> isdigit (hd rest)"
  shows "atoll (sp @ decimal n @ rest) = Ok (int n)"
  using number_of_int_text [OF assms(2,3), of "int n"] assms(1) by (simp add: atoll_def int_text_def Let_def)

lemma atoi_decimal:
  assumes "n < 2 ^ 31"
  shows "atoi (decimal n) = Ok (int n)"
  using number_of_int_text [of "[]" "[]" "int n"] assms by (simp add: atoi_def int_text_def Let_def)

end
