(* ===== verification/Parser.thy ===== *)
theory Parser
  imports Parquet_Map Vfs Decimal
begin

text \<open>
  From a VTK file to a tree (src/parser.cc). The VTK library reads the XML; what the code asks
  of its elements and of its reader are parameters. The array headers are read from the file
  itself.
\<close>

section \<open>The VTK library\<close>

text \<open>
  The methods of \<open>vtkXMLDataElement\<close> that the code calls, on elements of any type. A \<open>char*\<close> or
  an element pointer is \<open>None\<close> where it is null.
\<close>

record 'e vtk_element =
  GetNumberOfAttributes :: "'e \<Rightarrow> int"
  GetAttributeName :: "'e \<Rightarrow> int \<Rightarrow> string option"
  GetAttributeValue :: "'e \<Rightarrow> int \<Rightarrow> string option"
  GetAttribute :: "'e \<Rightarrow> string \<Rightarrow> string option"
  GetNumberOfNestedElements :: "'e \<Rightarrow> int"
  GetNestedElement :: "'e \<Rightarrow> int \<Rightarrow> 'e option"
  LookupElementWithName :: "'e \<Rightarrow> string \<Rightarrow> 'e option"
  FindNestedElementWithName :: "'e \<Rightarrow> string \<Rightarrow> 'e option"

text \<open>
  What a reader answers once it has a file name; the compressor is given by its \<open>IsA\<close>.
\<close>

record 'e vtk_reader =
  UpdateInformation :: bool
  GetCompressor :: "(string \<Rightarrow> bool) option"
  GetAppendedDataPosition :: i64
  GetRootElement :: "'e option"
  GetNumberOfPointArrays :: int
  GetPointArrayName :: "int \<Rightarrow> string option"
  GetNumberOfCellArrays :: int
  GetCellArrayName :: "int \<Rightarrow> string option"

text \<open>\<open>for (int i = 0; i < n; i++)\<close> over values of \<open>int\<close>.\<close>

fun foldR :: "('a \<Rightarrow> 's \<Rightarrow> 's result) \<Rightarrow> 'a list \<Rightarrow> 's \<Rightarrow> 's result" where
  "foldR f [] s = Ok s"
| "foldR f (x # xs) s = bindR (f x s) (foldR f xs)"

definition for_upto :: "int \<Rightarrow> (int \<Rightarrow> 's \<Rightarrow> 's result) \<Rightarrow> 's \<Rightarrow> 's result" where
  "for_upto n body = foldR body (map int [0..<nat n])"

section \<open>Attributes\<close>

type_synonym attrs = "(string, string) umap"

text \<open>\<open>(*des)[k] = v\<close>\<close>

definition CopyAttrs :: "'e vtk_element \<Rightarrow> 'e option \<Rightarrow> attrs \<Rightarrow> attrs result" where
  "CopyAttrs vtk src des =
     bindR (deref src) (\<lambda>src.
       for_upto (GetNumberOfAttributes vtk src) (\<lambda>i des.
         bindR (deref (GetAttributeValue vtk src i)) (\<lambda>v.
         bindR (deref (GetAttributeName vtk src i)) (\<lambda>k.
           Ok (AList.update k v des)))) des)"

type_synonym arr_info = "(string, attrs) umap"

text \<open>\<open>CopyAttrs(&(*info)[name], src)\<close>: a missing entry is made first.\<close>

definition copy_into :: "'e vtk_element \<Rightarrow> string option \<Rightarrow> 'e option \<Rightarrow> arr_info \<Rightarrow> arr_info result" where
  "copy_into vtk name src info =
     bindR (deref name) (\<lambda>name.
     bindR (CopyAttrs vtk src (case map_of info name of None \<Rightarrow> [] | Some a \<Rightarrow> a)) (\<lambda>a.
       Ok (AList.update name a info)))"

definition ExtractNamedInfo :: "string \<Rightarrow> 'e vtk_element \<Rightarrow> 'e \<Rightarrow> arr_info \<Rightarrow> arr_info result" where
  "ExtractNamedInfo section_name vtk root info =
     bindR (deref (LookupElementWithName vtk root section_name)) (\<lambda>parent.
       for_upto (GetNumberOfNestedElements vtk parent) (\<lambda>i info.
         bindR (deref (GetNestedElement vtk parent i)) (\<lambda>arr.
           copy_into vtk (GetAttribute vtk arr ''Name'') (Some arr) info)) info)"

definition ExtractCellsInfo :: "'e vtk_element \<Rightarrow> 'e \<Rightarrow> arr_info \<Rightarrow> arr_info result" where
  "ExtractCellsInfo = ExtractNamedInfo ''Cells''"

definition ExtractPointsInfo :: "'e vtk_element \<Rightarrow> 'e \<Rightarrow> arr_info \<Rightarrow> arr_info result" where
  "ExtractPointsInfo = ExtractNamedInfo ''Points''"

text \<open>The elements below \<open>PointData\<close> or \<open>CellData\<close>, under the names that the reader gives.\<close>

definition copy_fields ::
  "'e vtk_element \<Rightarrow> 'e option \<Rightarrow> int \<Rightarrow> (int \<Rightarrow> string option) \<Rightarrow> arr_info \<Rightarrow> arr_info result" where
  "copy_fields vtk parent n array_name info =
     for_upto n (\<lambda>i info.
       bindR (deref parent) (\<lambda>parent.
         copy_into vtk (array_name i) (GetNestedElement vtk parent i) info)) info"

definition ExtractFieldArrayInfo ::
  "'e vtk_element \<Rightarrow> 'e vtk_reader \<Rightarrow> 'e \<Rightarrow> arr_info \<Rightarrow> arr_info \<Rightarrow> (arr_info \<times> arr_info) result" where
  "ExtractFieldArrayInfo vtk reader root point_arr_info cell_arr_info =
     bindR (copy_fields vtk (LookupElementWithName vtk root ''PointData'')
              (GetNumberOfPointArrays reader) (GetPointArrayName reader) point_arr_info) (\<lambda>pinfo.
     bindR (copy_fields vtk (LookupElementWithName vtk root ''CellData'')
              (GetNumberOfCellArrays reader) (GetCellArrayName reader) cell_arr_info) (\<lambda>cinfo.
       Ok (pinfo, cinfo)))"

section \<open>Formats and types\<close>

definition IdentifyCompressionType :: "(string \<Rightarrow> bool) option \<Rightarrow> CompressionType result" where
  "IdentifyCompressionType compr =
     (case compr of
        None \<Rightarrow> Ok NONE
      | Some IsA \<Rightarrow>
          if IsA ''vtkZLibDataCompressor'' then Ok ZLIB
          else if IsA ''vtkLZ4DataCompressor'' then Ok LZ4
          else Error (RuntimeError ''Unsupported data compression type''))"

definition ParseEncodingType :: "'e vtk_element \<Rightarrow> 'e option \<Rightarrow> EncodingType result" where
  "ParseEncodingType vtk app =
     (case app of
        None \<Rightarrow> Ok RAW
      | Some app \<Rightarrow>
          bindR (deref (GetAttribute vtk app ''encoding'')) (\<lambda>enc.
            Ok (if enc = ''base64'' then BASE64 else RAW)))"

definition ParseHeaderType :: "attrs \<Rightarrow> DataType result" where
  "ParseHeaderType m =
     bindR (umap_at m ''header_type'') (\<lambda>t.
       if t = ''UInt32'' then Ok UINT32
       else if t = ''UInt64'' then Ok UINT64
       else Error (RuntimeError ''Unknown header type''))"

definition ParseValueType :: "string \<Rightarrow> DataType result" where
  "ParseValueType t =
     (if t = ''Int8'' then Ok INT8
      else if t = ''UInt8'' then Ok UINT8
      else if t = ''Int32'' then Ok INT32
      else if t = ''UInt32'' then Ok UINT32
      else if t = ''Int64'' then Ok INT64
      else if t = ''UInt64'' then Ok UINT64
      else if t = ''Float32'' then Ok FLOAT32
      else if t = ''Float64'' then Ok FLOAT64
      else Error (RuntimeError ''Unsupported data array type''))"

section \<open>Arrays\<close>

text \<open>The reader of an array header: positions are relative to the start of the array.\<close>

definition NewArrayHeaderReader :: "decode_triplet \<Rightarrow> pread \<Rightarrow> u64 \<Rightarrow> bool \<Rightarrow> pread" where
  "NewArrayHeaderReader dt base off is_base64_encoded =
     (if is_base64_encoded then Base64Reader_Pread dt \<lparr>b64_base = base, b64_start = off\<rparr>
      else OffsettedRandomAccessFile_Pread \<lparr>oraf_base = base, oraf_base_offset = off\<rparr>)"

text \<open>The position in the file that follows a header of \<open>header_bytes\<close> decoded bytes.\<close>

definition array_data_start :: "bool \<Rightarrow> u64 \<Rightarrow> u64 \<Rightarrow> u64" where
  "array_data_start is_base64_encoded off header_bytes =
     (if is_base64_encoded then off + 4 * ((header_bytes + 2) div 3) else off + header_bytes)"

definition ParseAppendedArray ::
  "compact \<Rightarrow> decode_triplet \<Rightarrow> pread \<Rightarrow> string \<Rightarrow> DataType \<Rightarrow> CompressionType \<Rightarrow> EncodingType \<Rightarrow>
   DataType \<Rightarrow> u64 \<Rightarrow> FileMap result" where
  "ParseAppendedArray compact dt file name type codec enc header_type off =
     (let is_base64_encoded = (enc = BASE64);
          view = NewArrayHeaderReader dt file off is_base64_encoded
      in if codec = NONE then
           bindR (if header_type = UINT32 then ParseUncompressed32 view 0
                  else ParseUncompressed64 view 0) (\<lambda>arr.
             BuildMap_uncompressed compact name type is_base64_encoded
               (arr\<lparr>ua_data_start := array_data_start is_base64_encoded off (ua_data_start arr)\<rparr>))
         else
           bindR (if header_type = UINT32 then ParseCompressed32 view 0
                  else ParseCompressed64 view 0) (\<lambda>arr.
             BuildMap_compressed compact name type codec is_base64_encoded
               (arr\<lparr>ca_data_start := array_data_start is_base64_encoded off (ca_data_start arr)\<rparr>)))"

definition ParseVtkDataArray ::
  "compact \<Rightarrow> decode_triplet \<Rightarrow> pread \<Rightarrow> string \<Rightarrow> CompressionType \<Rightarrow> EncodingType \<Rightarrow> DataType \<Rightarrow>
   attrs \<Rightarrow> u64 \<Rightarrow> FileMap result" where
  "ParseVtkDataArray compact dt file name codec enc header_type m appended_data_pos =
     bindR (umap_at m ''type'') (\<lambda>t.
     bindR (ParseValueType t) (\<lambda>type.
     bindR (umap_at m ''format'') (\<lambda>format.
       if format = ''appended'' then
         bindR (umap_at m ''offset'') (\<lambda>s.
         bindR (atoll s) (\<lambda>off.
           ParseAppendedArray compact dt file name type codec enc header_type
             (word_of_int off + appended_data_pos)))
       else Error (RuntimeError ''Unsupported data array format''))))"

definition group_array ::
  "compact \<Rightarrow> decode_triplet \<Rightarrow> os_pread \<Rightarrow> ReadonlyOSFile \<Rightarrow> CompressionType \<Rightarrow> EncodingType \<Rightarrow> DataType \<Rightarrow>
   u64 \<Rightarrow> string \<times> attrs \<Rightarrow> (string, FileMap) umap \<Rightarrow> (string, FileMap) umap result" where
  "group_array compact dt os file codec enc header_type appended_data_pos ninfo maps =
     (case ninfo of (name, info) \<Rightarrow>
        let fname = name @ ''.parquet''
        in bindR (ParseVtkDataArray compact dt (ReadonlyOSFile_Pread os file) name codec enc
                    header_type info appended_data_pos) (\<lambda>m.
             Ok (umap_emplace fname m maps)))"

definition ParseArrayGroup ::
  "compact \<Rightarrow> decode_triplet \<Rightarrow> os_pread \<Rightarrow> ReadonlyOSFile \<Rightarrow> CompressionType \<Rightarrow> EncodingType \<Rightarrow> DataType \<Rightarrow>
   arr_info \<Rightarrow> u64 \<Rightarrow> Dir result" where
  "ParseArrayGroup compact dt os file codec enc header_type arr_info appended_data_pos =
     bindR (foldR (group_array compact dt os file codec enc header_type appended_data_pos) arr_info [])
       (\<lambda>maps. Ok (ArrayDir maps file False))"

section \<open>Files\<close>

datatype vtk_class = vtkXMLUnstructuredGridReader | vtkXMLStructuredGridReader | vtkXMLImageDataReader

definition CreateReader :: "string \<Rightarrow> vtk_class result" where
  "CreateReader mesh_type =
     (if mesh_type = ''UnstructuredGrid'' then Ok vtkXMLUnstructuredGridReader
      else if mesh_type = ''StructuredGrid'' then Ok vtkXMLStructuredGridReader
      else if mesh_type = ''ImageData'' then Ok vtkXMLImageDataReader
      else Error (RuntimeError ''Unsupported vtk mesh type''))"

text \<open>The world outside: the libraries, the operating system, and the VTK readers.\<close>

record 'e world =
  w_compact :: compact
  w_decode :: decode_triplet
  w_open :: "string \<Rightarrow> int option"
  w_fstat :: "int \<Rightarrow> stat option"
  w_pread :: os_pread
  w_element :: "'e vtk_element"
  w_reader :: "vtk_class \<Rightarrow> string \<Rightarrow> 'e vtk_reader"

text \<open>What the first half of \<open>ParseVtkFileInternal\<close> takes from the XML of the file.\<close>

record vtk_info =
  vi_codec :: CompressionType
  vi_appended_data_pos :: u64
  vi_enc :: EncodingType
  vi_header_type :: DataType
  vi_root_attrs :: attrs
  vi_point_arr_info :: arr_info
  vi_cell_arr_info :: arr_info
  vi_points_info :: arr_info
  vi_cells_info :: arr_info

definition update_error :: error where
  "update_error = RuntimeError (''Failed to parse the input vtk file. Please make sure the file exists '' @
     ''and is valid.'')"

definition ParseVtkInfo :: "'e world \<Rightarrow> string \<Rightarrow> string \<Rightarrow> bool \<Rightarrow> bool \<Rightarrow> vtk_info result" where
  "ParseVtkInfo w fname mesh_type load_points load_cells =
     bindR (CreateReader mesh_type) (\<lambda>cls.
     let reader = w_reader w cls fname; vtk = w_element w
     in if \<not> UpdateInformation reader then Error update_error
        else bindR (IdentifyCompressionType (GetCompressor reader)) (\<lambda>codec.
             bindR (deref (GetRootElement reader)) (\<lambda>root.
             bindR (ParseEncodingType vtk (FindNestedElementWithName vtk root ''AppendedData'')) (\<lambda>enc.
             bindR (CopyAttrs vtk (Some root) []) (\<lambda>root_attrs.
             bindR (ParseHeaderType root_attrs) (\<lambda>header_type.
             bindR (CopyAttrs vtk (FindNestedElementWithName vtk root mesh_type) root_attrs) (\<lambda>root_attrs.
             bindR (ExtractFieldArrayInfo vtk reader root [] []) (\<lambda>(point_arr_info, cell_arr_info).
             bindR (if load_points then ExtractPointsInfo vtk root [] else Ok []) (\<lambda>points_info.
             bindR (if load_cells then ExtractCellsInfo vtk root [] else Ok []) (\<lambda>cells_info.
               Ok \<lparr>vi_codec = codec, vi_appended_data_pos = GetAppendedDataPosition reader,
                   vi_enc = enc, vi_header_type = header_type, vi_root_attrs = root_attrs,
                   vi_point_arr_info = point_arr_info, vi_cell_arr_info = cell_arr_info,
                   vi_points_info = points_info, vi_cells_info = cells_info\<rparr>))))))))))"

text \<open>The second half builds the directories.\<close>

definition BuildSubdirs ::
  "'e world \<Rightarrow> ReadonlyOSFile \<Rightarrow> vtk_info \<Rightarrow> bool \<Rightarrow> bool \<Rightarrow> (string, Dir) umap result" where
  "BuildSubdirs w file vi load_points load_cells =
     (let subdirs = umap_emplace ''METADATA'' (MetadataDir (vi_root_attrs vi)) [];
          group = (\<lambda>name info subdirs.
            bindR (ParseArrayGroup (w_compact w) (w_decode w) (w_pread w) file (vi_codec vi) (vi_enc vi)
                     (vi_header_type vi) info (vi_appended_data_pos vi)) (\<lambda>d.
              Ok (umap_emplace name d subdirs)))
      in bindR (group ''pointdata'' (vi_point_arr_info vi) subdirs) (\<lambda>subdirs.
         bindR (if load_points then group ''points'' (vi_points_info vi) subdirs else Ok subdirs) (\<lambda>subdirs.
         bindR (group ''celldata'' (vi_cell_arr_info vi) subdirs) (\<lambda>subdirs.
           if load_cells then group ''cells'' (vi_cells_info vi) subdirs else Ok subdirs))))"

text \<open>
  When the second half throws, the \<open>unique_ptr\<close> closes the file again. The tree takes the file
  over.
\<close>

definition ParseVtkFileInternal ::
  "'e world \<Rightarrow> string \<Rightarrow> string \<Rightarrow> bool \<Rightarrow> bool \<Rightarrow> int list \<Rightarrow> Dir result \<times> int list" where
  "ParseVtkFileInternal w fname mesh_type load_points load_cells fds =
     (case ParseVtkInfo w fname mesh_type load_points load_cells of
        Error e \<Rightarrow> (Error e, fds)
      | Ok vi \<Rightarrow>
          (case NewOSFile (w_open w) (w_fstat w) fname fds of
             (Error e, fds) \<Rightarrow> (Error e, fds)
           | (Ok (file, statbuf), fds) \<Rightarrow>
               (case BuildSubdirs w file vi load_points load_cells of
                  Error e \<Rightarrow> (Error e, remove1 (osf_fd file) fds)
                | Ok subdirs \<Rightarrow> (Ok (VtkTree_new subdirs statbuf file True), fds))))"

definition EndsWith :: "string \<Rightarrow> string \<Rightarrow> bool" where
  "EndsWith str sfx \<longleftrightarrow>
     length sfx \<le> length str \<and> take (length sfx) (drop (length str - length sfx) str) = sfx"

definition ParseVtkFile :: "'e world \<Rightarrow> string \<Rightarrow> int list \<Rightarrow> Dir result \<times> int list" where
  "ParseVtkFile w fname fds =
     (if EndsWith fname ''.vtu'' then ParseVtkFileInternal w fname ''UnstructuredGrid'' True True fds
      else if EndsWith fname ''.vts'' then ParseVtkFileInternal w fname ''StructuredGrid'' True False fds
      else if EndsWith fname ''.vti'' then ParseVtkFileInternal w fname ''ImageData'' False False fds
      else (Error (RuntimeError ''Unsupported vtk file format''), fds))"

section \<open>Offsets\<close>

text \<open>
  An array is looked for where its attributes say: the decimal digits of its offset (with white
  space before them and other text after them) are read as the number, and this many bytes after
  the start of the appended data its header is parsed.
\<close>

theorem decimal_offset_read:
  assumes "map_of m ''type'' = Some t" and "ParseValueType t = Ok type"
    and "map_of m ''format'' = Some ''appended''"
    and "map_of m ''offset'' = Some (sp @ decimal n @ rest)"
    and "n < 2 ^ 63" and "\<forall>c\<in>set sp. isspace c" and "rest = [] \<or> \<not> isdigit (hd rest)"
  shows "ParseVtkDataArray compact dt file name codec enc ht m pos =
    ParseAppendedArray compact dt file name type codec enc ht (word_of_nat n + pos)"
  using assms(1-4) by (simp add: ParseVtkDataArray_def atoll_decimal [OF assms(5-7)])

theorem decimal_offset_read_witness:
  "ParseVtkDataArray (\<lambda>ts. None) (\<lambda>a b c d. (0, a, b, c)) (\<lambda>sz off. Ok None) ''p'' NONE RAW UINT32
     [(''type'', ''Int32''), (''format'', ''appended''), (''offset'', '' 4096'')] 100 =
   ParseAppendedArray (\<lambda>ts. None) (\<lambda>a b c d. (0, a, b, c)) (\<lambda>sz off. Ok None) ''p'' INT32 NONE RAW UINT32 (4096 + 100)"
proof -
  have d: "decimal 4096 = ''4096''" by (simp add: decimal.simps digit_def)
  have "ParseVtkDataArray (\<lambda>ts. None) (\<lambda>a b c d. (0, a, b, c)) (\<lambda>sz off. Ok None) ''p'' NONE RAW UINT32
       [(''type'', ''Int32''), (''format'', ''appended''), (''offset'', '' 4096'')] 100 =
     ParseAppendedArray (\<lambda>ts. None) (\<lambda>a b c d. (0, a, b, c)) (\<lambda>sz off. Ok None) ''p'' INT32 NONE RAW UINT32 (word_of_nat 4096 + 100)"
    by (rule decimal_offset_read [where t = "''Int32''" and type = INT32 and sp = "'' ''" and rest = "[]"])
      (simp_all add: d ParseValueType_def isspace_def char_code_def of_char_def)
  then show ?thesis by simp
qed

end
