(* ===== verification/Parquet_Read.thy ===== *)
theory Parquet_Read
  imports Parquet_Write
begin

text \<open>
  The generated \<open>read\<close> functions (src/gen-cpp/parquet_types.cpp) and the round trip: reading what
  \<open>write\<close> wrote, into a struct as its constructor makes it, gives the struct back and leaves the
  tokens that follow. \<open>X_case\<close> is the switch of \<open>X::read\<close>, \<open>read_X\<close> the whole function with its
  list of required fields. Structs with lists need them shorter than \<open>2 ^ 32\<close> elements
  (\<open>short_X\<close>), since their count is written in 32 bits.
\<close>

section \<open>The read functions\<close>

definition SizeStatistics_case :: "skip \<Rightarrow> nat \<Rightarrow> TType \<Rightarrow> SizeStatistics field_case option" where
  "SizeStatistics_case skip fid ftype =
    (if fid = 1 \<and> ftype = T_I64 then opt (\<lambda>s. r_i64) (\<lambda>v s. s\<lparr>SizeStatistics_unencoded_byte_array_data_bytes := v\<rparr>)
     else if fid = 2 \<and> ftype = T_LIST then opt (\<lambda>s. r_list r_i64) (\<lambda>v s. s\<lparr>SizeStatistics_repetition_level_histogram := v\<rparr>)
     else if fid = 3 \<and> ftype = T_LIST then opt (\<lambda>s. r_list r_i64) (\<lambda>v s. s\<lparr>SizeStatistics_definition_level_histogram := v\<rparr>)
     else None)"

definition read_SizeStatistics :: "skip \<Rightarrow> SizeStatistics \<Rightarrow> SizeStatistics reader" where
  "read_SizeStatistics skip = read_struct skip [] (SizeStatistics_case skip)"

definition BoundingBox_case :: "skip \<Rightarrow> nat \<Rightarrow> TType \<Rightarrow> BoundingBox field_case option" where
  "BoundingBox_case skip fid ftype =
    (if fid = 1 \<and> ftype = T_DOUBLE then req (\<lambda>s. r_double) (\<lambda>v s. s\<lparr>BoundingBox_xmin := v\<rparr>)
     else if fid = 2 \<and> ftype = T_DOUBLE then req (\<lambda>s. r_double) (\<lambda>v s. s\<lparr>BoundingBox_xmax := v\<rparr>)
     else if fid = 3 \<and> ftype = T_DOUBLE then req (\<lambda>s. r_double) (\<lambda>v s. s\<lparr>BoundingBox_ymin := v\<rparr>)
     else if fid = 4 \<and> ftype = T_DOUBLE then req (\<lambda>s. r_double) (\<lambda>v s. s\<lparr>BoundingBox_ymax := v\<rparr>)
     else if fid = 5 \<and> ftype = T_DOUBLE then opt (\<lambda>s. r_double) (\<lambda>v s. s\<lparr>BoundingBox_zmin := v\<rparr>)
     else if fid = 6 \<and> ftype = T_DOUBLE then opt (\<lambda>s. r_double) (\<lambda>v s. s\<lparr>BoundingBox_zmax := v\<rparr>)
     else if fid = 7 \<and> ftype = T_DOUBLE then opt (\<lambda>s. r_double) (\<lambda>v s. s\<lparr>BoundingBox_mmin := v\<rparr>)
     else if fid = 8 \<and> ftype = T_DOUBLE then opt (\<lambda>s. r_double) (\<lambda>v s. s\<lparr>BoundingBox_mmax := v\<rparr>)
     else None)"

definition read_BoundingBox :: "skip \<Rightarrow> BoundingBox \<Rightarrow> BoundingBox reader" where
  "read_BoundingBox skip = read_struct skip [1, 2, 3, 4] (BoundingBox_case skip)"

definition GeospatialStatistics_case :: "skip \<Rightarrow> nat \<Rightarrow> TType \<Rightarrow> GeospatialStatistics field_case option" where
  "GeospatialStatistics_case skip fid ftype =
    (if fid = 1 \<and> ftype = T_STRUCT then opt (\<lambda>s. read_BoundingBox skip (case GeospatialStatistics_bbox s of None \<Rightarrow> BoundingBox_init | Some y \<Rightarrow> y)) (\<lambda>v s. s\<lparr>GeospatialStatistics_bbox := v\<rparr>)
     else if fid = 2 \<and> ftype = T_LIST then opt (\<lambda>s. r_list r_i32) (\<lambda>v s. s\<lparr>GeospatialStatistics_geospatial_types := v\<rparr>)
     else None)"

definition read_GeospatialStatistics :: "skip \<Rightarrow> GeospatialStatistics \<Rightarrow> GeospatialStatistics reader" where
  "read_GeospatialStatistics skip = read_struct skip [] (GeospatialStatistics_case skip)"

definition Statistics_case :: "skip \<Rightarrow> nat \<Rightarrow> TType \<Rightarrow> Statistics field_case option" where
  "Statistics_case skip fid ftype =
    (if fid = 1 \<and> ftype = T_STRING then opt (\<lambda>s. r_binary) (\<lambda>v s. s\<lparr>Statistics_max := v\<rparr>)
     else if fid = 2 \<and> ftype = T_STRING then opt (\<lambda>s. r_binary) (\<lambda>v s. s\<lparr>Statistics_min := v\<rparr>)
     else if fid = 3 \<and> ftype = T_I64 then opt (\<lambda>s. r_i64) (\<lambda>v s. s\<lparr>Statistics_null_count := v\<rparr>)
     else if fid = 4 \<and> ftype = T_I64 then opt (\<lambda>s. r_i64) (\<lambda>v s. s\<lparr>Statistics_distinct_count := v\<rparr>)
     else if fid = 5 \<and> ftype = T_STRING then opt (\<lambda>s. r_binary) (\<lambda>v s. s\<lparr>Statistics_max_value := v\<rparr>)
     else if fid = 6 \<and> ftype = T_STRING then opt (\<lambda>s. r_binary) (\<lambda>v s. s\<lparr>Statistics_min_value := v\<rparr>)
     else if fid = 7 \<and> ftype = T_BOOL then opt (\<lambda>s. r_bool) (\<lambda>v s. s\<lparr>Statistics_is_max_value_exact := v\<rparr>)
     else if fid = 8 \<and> ftype = T_BOOL then opt (\<lambda>s. r_bool) (\<lambda>v s. s\<lparr>Statistics_is_min_value_exact := v\<rparr>)
     else None)"

definition read_Statistics :: "skip \<Rightarrow> Statistics \<Rightarrow> Statistics reader" where
  "read_Statistics skip = read_struct skip [] (Statistics_case skip)"

definition StringType_case :: "skip \<Rightarrow> nat \<Rightarrow> TType \<Rightarrow> StringType field_case option" where
  "StringType_case skip fid ftype = None"

definition read_StringType :: "skip \<Rightarrow> StringType \<Rightarrow> StringType reader" where
  "read_StringType skip = read_struct skip [] (StringType_case skip)"

definition UUIDType_case :: "skip \<Rightarrow> nat \<Rightarrow> TType \<Rightarrow> UUIDType field_case option" where
  "UUIDType_case skip fid ftype = None"

definition read_UUIDType :: "skip \<Rightarrow> UUIDType \<Rightarrow> UUIDType reader" where
  "read_UUIDType skip = read_struct skip [] (UUIDType_case skip)"

definition MapType_case :: "skip \<Rightarrow> nat \<Rightarrow> TType \<Rightarrow> MapType field_case option" where
  "MapType_case skip fid ftype = None"

definition read_MapType :: "skip \<Rightarrow> MapType \<Rightarrow> MapType reader" where
  "read_MapType skip = read_struct skip [] (MapType_case skip)"

definition ListType_case :: "skip \<Rightarrow> nat \<Rightarrow> TType \<Rightarrow> ListType field_case option" where
  "ListType_case skip fid ftype = None"

definition read_ListType :: "skip \<Rightarrow> ListType \<Rightarrow> ListType reader" where
  "read_ListType skip = read_struct skip [] (ListType_case skip)"

definition EnumType_case :: "skip \<Rightarrow> nat \<Rightarrow> TType \<Rightarrow> EnumType field_case option" where
  "EnumType_case skip fid ftype = None"

definition read_EnumType :: "skip \<Rightarrow> EnumType \<Rightarrow> EnumType reader" where
  "read_EnumType skip = read_struct skip [] (EnumType_case skip)"

definition DateType_case :: "skip \<Rightarrow> nat \<Rightarrow> TType \<Rightarrow> DateType field_case option" where
  "DateType_case skip fid ftype = None"

definition read_DateType :: "skip \<Rightarrow> DateType \<Rightarrow> DateType reader" where
  "read_DateType skip = read_struct skip [] (DateType_case skip)"

definition Float16Type_case :: "skip \<Rightarrow> nat \<Rightarrow> TType \<Rightarrow> Float16Type field_case option" where
  "Float16Type_case skip fid ftype = None"

definition read_Float16Type :: "skip \<Rightarrow> Float16Type \<Rightarrow> Float16Type reader" where
  "read_Float16Type skip = read_struct skip [] (Float16Type_case skip)"

definition NullType_case :: "skip \<Rightarrow> nat \<Rightarrow> TType \<Rightarrow> NullType field_case option" where
  "NullType_case skip fid ftype = None"

definition read_NullType :: "skip \<Rightarrow> NullType \<Rightarrow> NullType reader" where
  "read_NullType skip = read_struct skip [] (NullType_case skip)"

definition DecimalType_case :: "skip \<Rightarrow> nat \<Rightarrow> TType \<Rightarrow> DecimalType field_case option" where
  "DecimalType_case skip fid ftype =
    (if fid = 1 \<and> ftype = T_I32 then req (\<lambda>s. r_i32) (\<lambda>v s. s\<lparr>DecimalType_scale := v\<rparr>)
     else if fid = 2 \<and> ftype = T_I32 then req (\<lambda>s. r_i32) (\<lambda>v s. s\<lparr>DecimalType_precision := v\<rparr>)
     else None)"

definition read_DecimalType :: "skip \<Rightarrow> DecimalType \<Rightarrow> DecimalType reader" where
  "read_DecimalType skip = read_struct skip [1, 2] (DecimalType_case skip)"

definition MilliSeconds_case :: "skip \<Rightarrow> nat \<Rightarrow> TType \<Rightarrow> MilliSeconds field_case option" where
  "MilliSeconds_case skip fid ftype = None"

definition read_MilliSeconds :: "skip \<Rightarrow> MilliSeconds \<Rightarrow> MilliSeconds reader" where
  "read_MilliSeconds skip = read_struct skip [] (MilliSeconds_case skip)"

definition MicroSeconds_case :: "skip \<Rightarrow> nat \<Rightarrow> TType \<Rightarrow> MicroSeconds field_case option" where
  "MicroSeconds_case skip fid ftype = None"

definition read_MicroSeconds :: "skip \<Rightarrow> MicroSeconds \<Rightarrow> MicroSeconds reader" where
  "read_MicroSeconds skip = read_struct skip [] (MicroSeconds_case skip)"

definition NanoSeconds_case :: "skip \<Rightarrow> nat \<Rightarrow> TType \<Rightarrow> NanoSeconds field_case option" where
  "NanoSeconds_case skip fid ftype = None"

definition read_NanoSeconds :: "skip \<Rightarrow> NanoSeconds \<Rightarrow> NanoSeconds reader" where
  "read_NanoSeconds skip = read_struct skip [] (NanoSeconds_case skip)"

definition TimeUnit_case :: "skip \<Rightarrow> nat \<Rightarrow> TType \<Rightarrow> TimeUnit field_case option" where
  "TimeUnit_case skip fid ftype =
    (if fid = 1 \<and> ftype = T_STRUCT then opt (\<lambda>s. read_MilliSeconds skip (case TimeUnit_MILLIS s of None \<Rightarrow> MilliSeconds_init | Some y \<Rightarrow> y)) (\<lambda>v s. s\<lparr>TimeUnit_MILLIS := v\<rparr>)
     else if fid = 2 \<and> ftype = T_STRUCT then opt (\<lambda>s. read_MicroSeconds skip (case TimeUnit_MICROS s of None \<Rightarrow> MicroSeconds_init | Some y \<Rightarrow> y)) (\<lambda>v s. s\<lparr>TimeUnit_MICROS := v\<rparr>)
     else if fid = 3 \<and> ftype = T_STRUCT then opt (\<lambda>s. read_NanoSeconds skip (case TimeUnit_NANOS s of None \<Rightarrow> NanoSeconds_init | Some y \<Rightarrow> y)) (\<lambda>v s. s\<lparr>TimeUnit_NANOS := v\<rparr>)
     else None)"

definition read_TimeUnit :: "skip \<Rightarrow> TimeUnit \<Rightarrow> TimeUnit reader" where
  "read_TimeUnit skip = read_struct skip [] (TimeUnit_case skip)"

definition TimestampType_case :: "skip \<Rightarrow> nat \<Rightarrow> TType \<Rightarrow> TimestampType field_case option" where
  "TimestampType_case skip fid ftype =
    (if fid = 1 \<and> ftype = T_BOOL then req (\<lambda>s. r_bool) (\<lambda>v s. s\<lparr>TimestampType_isAdjustedToUTC := v\<rparr>)
     else if fid = 2 \<and> ftype = T_STRUCT then req (\<lambda>s. read_TimeUnit skip (TimestampType_unit s)) (\<lambda>v s. s\<lparr>TimestampType_unit := v\<rparr>)
     else None)"

definition read_TimestampType :: "skip \<Rightarrow> TimestampType \<Rightarrow> TimestampType reader" where
  "read_TimestampType skip = read_struct skip [1, 2] (TimestampType_case skip)"

definition TimeType_case :: "skip \<Rightarrow> nat \<Rightarrow> TType \<Rightarrow> TimeType field_case option" where
  "TimeType_case skip fid ftype =
    (if fid = 1 \<and> ftype = T_BOOL then req (\<lambda>s. r_bool) (\<lambda>v s. s\<lparr>TimeType_isAdjustedToUTC := v\<rparr>)
     else if fid = 2 \<and> ftype = T_STRUCT then req (\<lambda>s. read_TimeUnit skip (TimeType_unit s)) (\<lambda>v s. s\<lparr>TimeType_unit := v\<rparr>)
     else None)"

definition read_TimeType :: "skip \<Rightarrow> TimeType \<Rightarrow> TimeType reader" where
  "read_TimeType skip = read_struct skip [1, 2] (TimeType_case skip)"

definition IntType_case :: "skip \<Rightarrow> nat \<Rightarrow> TType \<Rightarrow> IntType field_case option" where
  "IntType_case skip fid ftype =
    (if fid = 1 \<and> ftype = T_BYTE then req (\<lambda>s. r_byte) (\<lambda>v s. s\<lparr>IntType_bitWidth := v\<rparr>)
     else if fid = 2 \<and> ftype = T_BOOL then req (\<lambda>s. r_bool) (\<lambda>v s. s\<lparr>IntType_isSigned := v\<rparr>)
     else None)"

definition read_IntType :: "skip \<Rightarrow> IntType \<Rightarrow> IntType reader" where
  "read_IntType skip = read_struct skip [1, 2] (IntType_case skip)"

definition JsonType_case :: "skip \<Rightarrow> nat \<Rightarrow> TType \<Rightarrow> JsonType field_case option" where
  "JsonType_case skip fid ftype = None"

definition read_JsonType :: "skip \<Rightarrow> JsonType \<Rightarrow> JsonType reader" where
  "read_JsonType skip = read_struct skip [] (JsonType_case skip)"

definition BsonType_case :: "skip \<Rightarrow> nat \<Rightarrow> TType \<Rightarrow> BsonType field_case option" where
  "BsonType_case skip fid ftype = None"

definition read_BsonType :: "skip \<Rightarrow> BsonType \<Rightarrow> BsonType reader" where
  "read_BsonType skip = read_struct skip [] (BsonType_case skip)"

definition VariantType_case :: "skip \<Rightarrow> nat \<Rightarrow> TType \<Rightarrow> VariantType field_case option" where
  "VariantType_case skip fid ftype =
    (if fid = 1 \<and> ftype = T_BYTE then opt (\<lambda>s. r_byte) (\<lambda>v s. s\<lparr>VariantType_specification_version := v\<rparr>)
     else None)"

definition read_VariantType :: "skip \<Rightarrow> VariantType \<Rightarrow> VariantType reader" where
  "read_VariantType skip = read_struct skip [] (VariantType_case skip)"

definition GeometryType_case :: "skip \<Rightarrow> nat \<Rightarrow> TType \<Rightarrow> GeometryType field_case option" where
  "GeometryType_case skip fid ftype =
    (if fid = 1 \<and> ftype = T_STRING then opt (\<lambda>s. r_string) (\<lambda>v s. s\<lparr>GeometryType_crs := v\<rparr>)
     else None)"

definition read_GeometryType :: "skip \<Rightarrow> GeometryType \<Rightarrow> GeometryType reader" where
  "read_GeometryType skip = read_struct skip [] (GeometryType_case skip)"

definition GeographyType_case :: "skip \<Rightarrow> nat \<Rightarrow> TType \<Rightarrow> GeographyType field_case option" where
  "GeographyType_case skip fid ftype =
    (if fid = 1 \<and> ftype = T_STRING then opt (\<lambda>s. r_string) (\<lambda>v s. s\<lparr>GeographyType_crs := v\<rparr>)
     else if fid = 2 \<and> ftype = T_I32 then opt (\<lambda>s. r_i32) (\<lambda>v s. s\<lparr>GeographyType_algorithm := v\<rparr>)
     else None)"

definition read_GeographyType :: "skip \<Rightarrow> GeographyType \<Rightarrow> GeographyType reader" where
  "read_GeographyType skip = read_struct skip [] (GeographyType_case skip)"

definition LogicalType_case :: "skip \<Rightarrow> nat \<Rightarrow> TType \<Rightarrow> LogicalType field_case option" where
  "LogicalType_case skip fid ftype =
    (if fid = 1 \<and> ftype = T_STRUCT then opt (\<lambda>s. read_StringType skip (case LogicalType_STRING s of None \<Rightarrow> StringType_init | Some y \<Rightarrow> y)) (\<lambda>v s. s\<lparr>LogicalType_STRING := v\<rparr>)
     else if fid = 2 \<and> ftype = T_STRUCT then opt (\<lambda>s. read_MapType skip (case LogicalType_MAP s of None \<Rightarrow> MapType_init | Some y \<Rightarrow> y)) (\<lambda>v s. s\<lparr>LogicalType_MAP := v\<rparr>)
     else if fid = 3 \<and> ftype = T_STRUCT then opt (\<lambda>s. read_ListType skip (case LogicalType_LIST s of None \<Rightarrow> ListType_init | Some y \<Rightarrow> y)) (\<lambda>v s. s\<lparr>LogicalType_LIST := v\<rparr>)
     else if fid = 4 \<and> ftype = T_STRUCT then opt (\<lambda>s. read_EnumType skip (case LogicalType_ENUM s of None \<Rightarrow> EnumType_init | Some y \<Rightarrow> y)) (\<lambda>v s. s\<lparr>LogicalType_ENUM := v\<rparr>)
     else if fid = 5 \<and> ftype = T_STRUCT then opt (\<lambda>s. read_DecimalType skip (case LogicalType_DECIMAL s of None \<Rightarrow> DecimalType_init | Some y \<Rightarrow> y)) (\<lambda>v s. s\<lparr>LogicalType_DECIMAL := v\<rparr>)
     else if fid = 6 \<and> ftype = T_STRUCT then opt (\<lambda>s. read_DateType skip (case LogicalType_DATE s of None \<Rightarrow> DateType_init | Some y \<Rightarrow> y)) (\<lambda>v s. s\<lparr>LogicalType_DATE := v\<rparr>)
     else if fid = 7 \<and> ftype = T_STRUCT then opt (\<lambda>s. read_TimeType skip (case LogicalType_TIME s of None \<Rightarrow> TimeType_init | Some y \<Rightarrow> y)) (\<lambda>v s. s\<lparr>LogicalType_TIME := v\<rparr>)
     else if fid = 8 \<and> ftype = T_STRUCT then opt (\<lambda>s. read_TimestampType skip (case LogicalType_TIMESTAMP s of None \<Rightarrow> TimestampType_init | Some y \<Rightarrow> y)) (\<lambda>v s. s\<lparr>LogicalType_TIMESTAMP := v\<rparr>)
     else if fid = 10 \<and> ftype = T_STRUCT then opt (\<lambda>s. read_IntType skip (case LogicalType_INTEGER s of None \<Rightarrow> IntType_init | Some y \<Rightarrow> y)) (\<lambda>v s. s\<lparr>LogicalType_INTEGER := v\<rparr>)
     else if fid = 11 \<and> ftype = T_STRUCT then opt (\<lambda>s. read_NullType skip (case LogicalType_UNKNOWN s of None \<Rightarrow> NullType_init | Some y \<Rightarrow> y)) (\<lambda>v s. s\<lparr>LogicalType_UNKNOWN := v\<rparr>)
     else if fid = 12 \<and> ftype = T_STRUCT then opt (\<lambda>s. read_JsonType skip (case LogicalType_JSON s of None \<Rightarrow> JsonType_init | Some y \<Rightarrow> y)) (\<lambda>v s. s\<lparr>LogicalType_JSON := v\<rparr>)
     else if fid = 13 \<and> ftype = T_STRUCT then opt (\<lambda>s. read_BsonType skip (case LogicalType_BSON s of None \<Rightarrow> BsonType_init | Some y \<Rightarrow> y)) (\<lambda>v s. s\<lparr>LogicalType_BSON := v\<rparr>)
     else if fid = 14 \<and> ftype = T_STRUCT then opt (\<lambda>s. read_UUIDType skip (case LogicalType_UUID s of None \<Rightarrow> UUIDType_init | Some y \<Rightarrow> y)) (\<lambda>v s. s\<lparr>LogicalType_UUID := v\<rparr>)
     else if fid = 15 \<and> ftype = T_STRUCT then opt (\<lambda>s. read_Float16Type skip (case LogicalType_FLOAT16 s of None \<Rightarrow> Float16Type_init | Some y \<Rightarrow> y)) (\<lambda>v s. s\<lparr>LogicalType_FLOAT16 := v\<rparr>)
     else if fid = 16 \<and> ftype = T_STRUCT then opt (\<lambda>s. read_VariantType skip (case LogicalType_VARIANT s of None \<Rightarrow> VariantType_init | Some y \<Rightarrow> y)) (\<lambda>v s. s\<lparr>LogicalType_VARIANT := v\<rparr>)
     else if fid = 17 \<and> ftype = T_STRUCT then opt (\<lambda>s. read_GeometryType skip (case LogicalType_GEOMETRY s of None \<Rightarrow> GeometryType_init | Some y \<Rightarrow> y)) (\<lambda>v s. s\<lparr>LogicalType_GEOMETRY := v\<rparr>)
     else if fid = 18 \<and> ftype = T_STRUCT then opt (\<lambda>s. read_GeographyType skip (case LogicalType_GEOGRAPHY s of None \<Rightarrow> GeographyType_init | Some y \<Rightarrow> y)) (\<lambda>v s. s\<lparr>LogicalType_GEOGRAPHY := v\<rparr>)
     else None)"

definition read_LogicalType :: "skip \<Rightarrow> LogicalType \<Rightarrow> LogicalType reader" where
  "read_LogicalType skip = read_struct skip [] (LogicalType_case skip)"

definition SchemaElement_case :: "skip \<Rightarrow> nat \<Rightarrow> TType \<Rightarrow> SchemaElement field_case option" where
  "SchemaElement_case skip fid ftype =
    (if fid = 1 \<and> ftype = T_I32 then opt (\<lambda>s. r_i32) (\<lambda>v s. s\<lparr>SchemaElement_type := v\<rparr>)
     else if fid = 2 \<and> ftype = T_I32 then opt (\<lambda>s. r_i32) (\<lambda>v s. s\<lparr>SchemaElement_type_length := v\<rparr>)
     else if fid = 3 \<and> ftype = T_I32 then opt (\<lambda>s. r_i32) (\<lambda>v s. s\<lparr>SchemaElement_repetition_type := v\<rparr>)
     else if fid = 4 \<and> ftype = T_STRING then req (\<lambda>s. r_string) (\<lambda>v s. s\<lparr>SchemaElement_name := v\<rparr>)
     else if fid = 5 \<and> ftype = T_I32 then opt (\<lambda>s. r_i32) (\<lambda>v s. s\<lparr>SchemaElement_num_children := v\<rparr>)
     else if fid = 6 \<and> ftype = T_I32 then opt (\<lambda>s. r_i32) (\<lambda>v s. s\<lparr>SchemaElement_converted_type := v\<rparr>)
     else if fid = 7 \<and> ftype = T_I32 then opt (\<lambda>s. r_i32) (\<lambda>v s. s\<lparr>SchemaElement_scale := v\<rparr>)
     else if fid = 8 \<and> ftype = T_I32 then opt (\<lambda>s. r_i32) (\<lambda>v s. s\<lparr>SchemaElement_precision := v\<rparr>)
     else if fid = 9 \<and> ftype = T_I32 then opt (\<lambda>s. r_i32) (\<lambda>v s. s\<lparr>SchemaElement_field_id := v\<rparr>)
     else if fid = 10 \<and> ftype = T_STRUCT then opt (\<lambda>s. read_LogicalType skip (case SchemaElement_logicalType s of None \<Rightarrow> LogicalType_init | Some y \<Rightarrow> y)) (\<lambda>v s. s\<lparr>SchemaElement_logicalType := v\<rparr>)
     else None)"

definition read_SchemaElement :: "skip \<Rightarrow> SchemaElement \<Rightarrow> SchemaElement reader" where
  "read_SchemaElement skip = read_struct skip [4] (SchemaElement_case skip)"

definition DataPageHeader_case :: "skip \<Rightarrow> nat \<Rightarrow> TType \<Rightarrow> DataPageHeader field_case option" where
  "DataPageHeader_case skip fid ftype =
    (if fid = 1 \<and> ftype = T_I32 then req (\<lambda>s. r_i32) (\<lambda>v s. s\<lparr>DataPageHeader_num_values := v\<rparr>)
     else if fid = 2 \<and> ftype = T_I32 then req (\<lambda>s. r_i32) (\<lambda>v s. s\<lparr>DataPageHeader_encoding := v\<rparr>)
     else if fid = 3 \<and> ftype = T_I32 then req (\<lambda>s. r_i32) (\<lambda>v s. s\<lparr>DataPageHeader_definition_level_encoding := v\<rparr>)
     else if fid = 4 \<and> ftype = T_I32 then req (\<lambda>s. r_i32) (\<lambda>v s. s\<lparr>DataPageHeader_repetition_level_encoding := v\<rparr>)
     else if fid = 5 \<and> ftype = T_STRUCT then opt (\<lambda>s. read_Statistics skip (case DataPageHeader_statistics s of None \<Rightarrow> Statistics_init | Some y \<Rightarrow> y)) (\<lambda>v s. s\<lparr>DataPageHeader_statistics := v\<rparr>)
     else None)"

definition read_DataPageHeader :: "skip \<Rightarrow> DataPageHeader \<Rightarrow> DataPageHeader reader" where
  "read_DataPageHeader skip = read_struct skip [1, 2, 3, 4] (DataPageHeader_case skip)"

definition IndexPageHeader_case :: "skip \<Rightarrow> nat \<Rightarrow> TType \<Rightarrow> IndexPageHeader field_case option" where
  "IndexPageHeader_case skip fid ftype = None"

definition read_IndexPageHeader :: "skip \<Rightarrow> IndexPageHeader \<Rightarrow> IndexPageHeader reader" where
  "read_IndexPageHeader skip = read_struct skip [] (IndexPageHeader_case skip)"

definition DictionaryPageHeader_case :: "skip \<Rightarrow> nat \<Rightarrow> TType \<Rightarrow> DictionaryPageHeader field_case option" where
  "DictionaryPageHeader_case skip fid ftype =
    (if fid = 1 \<and> ftype = T_I32 then req (\<lambda>s. r_i32) (\<lambda>v s. s\<lparr>DictionaryPageHeader_num_values := v\<rparr>)
     else if fid = 2 \<and> ftype = T_I32 then req (\<lambda>s. r_i32) (\<lambda>v s. s\<lparr>DictionaryPageHeader_encoding := v\<rparr>)
     else if fid = 3 \<and> ftype = T_BOOL then opt (\<lambda>s. r_bool) (\<lambda>v s. s\<lparr>DictionaryPageHeader_is_sorted := v\<rparr>)
     else None)"

definition read_DictionaryPageHeader :: "skip \<Rightarrow> DictionaryPageHeader \<Rightarrow> DictionaryPageHeader reader" where
  "read_DictionaryPageHeader skip = read_struct skip [1, 2] (DictionaryPageHeader_case skip)"

definition DataPageHeaderV2_case :: "skip \<Rightarrow> nat \<Rightarrow> TType \<Rightarrow> DataPageHeaderV2 field_case option" where
  "DataPageHeaderV2_case skip fid ftype =
    (if fid = 1 \<and> ftype = T_I32 then req (\<lambda>s. r_i32) (\<lambda>v s. s\<lparr>DataPageHeaderV2_num_values := v\<rparr>)
     else if fid = 2 \<and> ftype = T_I32 then req (\<lambda>s. r_i32) (\<lambda>v s. s\<lparr>DataPageHeaderV2_num_nulls := v\<rparr>)
     else if fid = 3 \<and> ftype = T_I32 then req (\<lambda>s. r_i32) (\<lambda>v s. s\<lparr>DataPageHeaderV2_num_rows := v\<rparr>)
     else if fid = 4 \<and> ftype = T_I32 then req (\<lambda>s. r_i32) (\<lambda>v s. s\<lparr>DataPageHeaderV2_encoding := v\<rparr>)
     else if fid = 5 \<and> ftype = T_I32 then req (\<lambda>s. r_i32) (\<lambda>v s. s\<lparr>DataPageHeaderV2_definition_levels_byte_length := v\<rparr>)
     else if fid = 6 \<and> ftype = T_I32 then req (\<lambda>s. r_i32) (\<lambda>v s. s\<lparr>DataPageHeaderV2_repetition_levels_byte_length := v\<rparr>)
     else if fid = 7 \<and> ftype = T_BOOL then opt (\<lambda>s. r_bool) (\<lambda>v s. s\<lparr>DataPageHeaderV2_is_compressed := v\<rparr>)
     else if fid = 8 \<and> ftype = T_STRUCT then opt (\<lambda>s. read_Statistics skip (case DataPageHeaderV2_statistics s of None \<Rightarrow> Statistics_init | Some y \<Rightarrow> y)) (\<lambda>v s. s\<lparr>DataPageHeaderV2_statistics := v\<rparr>)
     else None)"

definition read_DataPageHeaderV2 :: "skip \<Rightarrow> DataPageHeaderV2 \<Rightarrow> DataPageHeaderV2 reader" where
  "read_DataPageHeaderV2 skip = read_struct skip [1, 2, 3, 4, 5, 6] (DataPageHeaderV2_case skip)"

definition SplitBlockAlgorithm_case :: "skip \<Rightarrow> nat \<Rightarrow> TType \<Rightarrow> SplitBlockAlgorithm field_case option" where
  "SplitBlockAlgorithm_case skip fid ftype = None"

definition read_SplitBlockAlgorithm :: "skip \<Rightarrow> SplitBlockAlgorithm \<Rightarrow> SplitBlockAlgorithm reader" where
  "read_SplitBlockAlgorithm skip = read_struct skip [] (SplitBlockAlgorithm_case skip)"

definition BloomFilterAlgorithm_case :: "skip \<Rightarrow> nat \<Rightarrow> TType \<Rightarrow> BloomFilterAlgorithm field_case option" where
  "BloomFilterAlgorithm_case skip fid ftype =
    (if fid = 1 \<and> ftype = T_STRUCT then opt (\<lambda>s. read_SplitBlockAlgorithm skip (case BloomFilterAlgorithm_BLOCK s of None \<Rightarrow> SplitBlockAlgorithm_init | Some y \<Rightarrow> y)) (\<lambda>v s. s\<lparr>BloomFilterAlgorithm_BLOCK := v\<rparr>)
     else None)"

definition read_BloomFilterAlgorithm :: "skip \<Rightarrow> BloomFilterAlgorithm \<Rightarrow> BloomFilterAlgorithm reader" where
  "read_BloomFilterAlgorithm skip = read_struct skip [] (BloomFilterAlgorithm_case skip)"

definition XxHash_case :: "skip \<Rightarrow> nat \<Rightarrow> TType \<Rightarrow> XxHash field_case option" where
  "XxHash_case skip fid ftype = None"

definition read_XxHash :: "skip \<Rightarrow> XxHash \<Rightarrow> XxHash reader" where
  "read_XxHash skip = read_struct skip [] (XxHash_case skip)"

definition BloomFilterHash_case :: "skip \<Rightarrow> nat \<Rightarrow> TType \<Rightarrow> BloomFilterHash field_case option" where
  "BloomFilterHash_case skip fid ftype =
    (if fid = 1 \<and> ftype = T_STRUCT then opt (\<lambda>s. read_XxHash skip (case BloomFilterHash_XXHASH s of None \<Rightarrow> XxHash_init | Some y \<Rightarrow> y)) (\<lambda>v s. s\<lparr>BloomFilterHash_XXHASH := v\<rparr>)
     else None)"

definition read_BloomFilterHash :: "skip \<Rightarrow> BloomFilterHash \<Rightarrow> BloomFilterHash reader" where
  "read_BloomFilterHash skip = read_struct skip [] (BloomFilterHash_case skip)"

definition Uncompressed_case :: "skip \<Rightarrow> nat \<Rightarrow> TType \<Rightarrow> Uncompressed field_case option" where
  "Uncompressed_case skip fid ftype = None"

definition read_Uncompressed :: "skip \<Rightarrow> Uncompressed \<Rightarrow> Uncompressed reader" where
  "read_Uncompressed skip = read_struct skip [] (Uncompressed_case skip)"

definition BloomFilterCompression_case :: "skip \<Rightarrow> nat \<Rightarrow> TType \<Rightarrow> BloomFilterCompression field_case option" where
  "BloomFilterCompression_case skip fid ftype =
    (if fid = 1 \<and> ftype = T_STRUCT then opt (\<lambda>s. read_Uncompressed skip (case BloomFilterCompression_UNCOMPRESSED s of None \<Rightarrow> Uncompressed_init | Some y \<Rightarrow> y)) (\<lambda>v s. s\<lparr>BloomFilterCompression_UNCOMPRESSED := v\<rparr>)
     else None)"

definition read_BloomFilterCompression :: "skip \<Rightarrow> BloomFilterCompression \<Rightarrow> BloomFilterCompression reader" where
  "read_BloomFilterCompression skip = read_struct skip [] (BloomFilterCompression_case skip)"

definition BloomFilterHeader_case :: "skip \<Rightarrow> nat \<Rightarrow> TType \<Rightarrow> BloomFilterHeader field_case option" where
  "BloomFilterHeader_case skip fid ftype =
    (if fid = 1 \<and> ftype = T_I32 then req (\<lambda>s. r_i32) (\<lambda>v s. s\<lparr>BloomFilterHeader_numBytes := v\<rparr>)
     else if fid = 2 \<and> ftype = T_STRUCT then req (\<lambda>s. read_BloomFilterAlgorithm skip (BloomFilterHeader_algorithm s)) (\<lambda>v s. s\<lparr>BloomFilterHeader_algorithm := v\<rparr>)
     else if fid = 3 \<and> ftype = T_STRUCT then req (\<lambda>s. read_BloomFilterHash skip (BloomFilterHeader_hash s)) (\<lambda>v s. s\<lparr>BloomFilterHeader_hash := v\<rparr>)
     else if fid = 4 \<and> ftype = T_STRUCT then req (\<lambda>s. read_BloomFilterCompression skip (BloomFilterHeader_compression s)) (\<lambda>v s. s\<lparr>BloomFilterHeader_compression := v\<rparr>)
     else None)"

definition read_BloomFilterHeader :: "skip \<Rightarrow> BloomFilterHeader \<Rightarrow> BloomFilterHeader reader" where
  "read_BloomFilterHeader skip = read_struct skip [1, 2, 3, 4] (BloomFilterHeader_case skip)"

definition PageHeader_case :: "skip \<Rightarrow> nat \<Rightarrow> TType \<Rightarrow> PageHeader field_case option" where
  "PageHeader_case skip fid ftype =
    (if fid = 1 \<and> ftype = T_I32 then req (\<lambda>s. r_i32) (\<lambda>v s. s\<lparr>PageHeader_type := v\<rparr>)
     else if fid = 2 \<and> ftype = T_I32 then req (\<lambda>s. r_i32) (\<lambda>v s. s\<lparr>PageHeader_uncompressed_page_size := v\<rparr>)
     else if fid = 3 \<and> ftype = T_I32 then req (\<lambda>s. r_i32) (\<lambda>v s. s\<lparr>PageHeader_compressed_page_size := v\<rparr>)
     else if fid = 4 \<and> ftype = T_I32 then opt (\<lambda>s. r_i32) (\<lambda>v s. s\<lparr>PageHeader_crc := v\<rparr>)
     else if fid = 5 \<and> ftype = T_STRUCT then opt (\<lambda>s. read_DataPageHeader skip (case PageHeader_data_page_header s of None \<Rightarrow> DataPageHeader_init | Some y \<Rightarrow> y)) (\<lambda>v s. s\<lparr>PageHeader_data_page_header := v\<rparr>)
     else if fid = 6 \<and> ftype = T_STRUCT then opt (\<lambda>s. read_IndexPageHeader skip (case PageHeader_index_page_header s of None \<Rightarrow> IndexPageHeader_init | Some y \<Rightarrow> y)) (\<lambda>v s. s\<lparr>PageHeader_index_page_header := v\<rparr>)
     else if fid = 7 \<and> ftype = T_STRUCT then opt (\<lambda>s. read_DictionaryPageHeader skip (case PageHeader_dictionary_page_header s of None \<Rightarrow> DictionaryPageHeader_init | Some y \<Rightarrow> y)) (\<lambda>v s. s\<lparr>PageHeader_dictionary_page_header := v\<rparr>)
     else if fid = 8 \<and> ftype = T_STRUCT then opt (\<lambda>s. read_DataPageHeaderV2 skip (case PageHeader_data_page_header_v2 s of None \<Rightarrow> DataPageHeaderV2_init | Some y \<Rightarrow> y)) (\<lambda>v s. s\<lparr>PageHeader_data_page_header_v2 := v\<rparr>)
     else None)"

definition read_PageHeader :: "skip \<Rightarrow> PageHeader \<Rightarrow> PageHeader reader" where
  "read_PageHeader skip = read_struct skip [1, 2, 3] (PageHeader_case skip)"

definition KeyValue_case :: "skip \<Rightarrow> nat \<Rightarrow> TType \<Rightarrow> KeyValue field_case option" where
  "KeyValue_case skip fid ftype =
    (if fid = 1 \<and> ftype = T_STRING then req (\<lambda>s. r_string) (\<lambda>v s. s\<lparr>KeyValue_key := v\<rparr>)
     else if fid = 2 \<and> ftype = T_STRING then opt (\<lambda>s. r_string) (\<lambda>v s. s\<lparr>KeyValue_value := v\<rparr>)
     else None)"

definition read_KeyValue :: "skip \<Rightarrow> KeyValue \<Rightarrow> KeyValue reader" where
  "read_KeyValue skip = read_struct skip [1] (KeyValue_case skip)"

definition SortingColumn_case :: "skip \<Rightarrow> nat \<Rightarrow> TType \<Rightarrow> SortingColumn field_case option" where
  "SortingColumn_case skip fid ftype =
    (if fid = 1 \<and> ftype = T_I32 then req (\<lambda>s. r_i32) (\<lambda>v s. s\<lparr>SortingColumn_column_idx := v\<rparr>)
     else if fid = 2 \<and> ftype = T_BOOL then req (\<lambda>s. r_bool) (\<lambda>v s. s\<lparr>SortingColumn_descending := v\<rparr>)
     else if fid = 3 \<and> ftype = T_BOOL then req (\<lambda>s. r_bool) (\<lambda>v s. s\<lparr>SortingColumn_nulls_first := v\<rparr>)
     else None)"

definition read_SortingColumn :: "skip \<Rightarrow> SortingColumn \<Rightarrow> SortingColumn reader" where
  "read_SortingColumn skip = read_struct skip [1, 2, 3] (SortingColumn_case skip)"

definition PageEncodingStats_case :: "skip \<Rightarrow> nat \<Rightarrow> TType \<Rightarrow> PageEncodingStats field_case option" where
  "PageEncodingStats_case skip fid ftype =
    (if fid = 1 \<and> ftype = T_I32 then req (\<lambda>s. r_i32) (\<lambda>v s. s\<lparr>PageEncodingStats_page_type := v\<rparr>)
     else if fid = 2 \<and> ftype = T_I32 then req (\<lambda>s. r_i32) (\<lambda>v s. s\<lparr>PageEncodingStats_encoding := v\<rparr>)
     else if fid = 3 \<and> ftype = T_I32 then req (\<lambda>s. r_i32) (\<lambda>v s. s\<lparr>PageEncodingStats_count := v\<rparr>)
     else None)"

definition read_PageEncodingStats :: "skip \<Rightarrow> PageEncodingStats \<Rightarrow> PageEncodingStats reader" where
  "read_PageEncodingStats skip = read_struct skip [1, 2, 3] (PageEncodingStats_case skip)"

definition ColumnMetaData_case :: "skip \<Rightarrow> nat \<Rightarrow> TType \<Rightarrow> ColumnMetaData field_case option" where
  "ColumnMetaData_case skip fid ftype =
    (if fid = 1 \<and> ftype = T_I32 then req (\<lambda>s. r_i32) (\<lambda>v s. s\<lparr>ColumnMetaData_type := v\<rparr>)
     else if fid = 2 \<and> ftype = T_LIST then req (\<lambda>s. r_list r_i32) (\<lambda>v s. s\<lparr>ColumnMetaData_encodings := v\<rparr>)
     else if fid = 3 \<and> ftype = T_LIST then req (\<lambda>s. r_list r_string) (\<lambda>v s. s\<lparr>ColumnMetaData_path_in_schema := v\<rparr>)
     else if fid = 4 \<and> ftype = T_I32 then req (\<lambda>s. r_i32) (\<lambda>v s. s\<lparr>ColumnMetaData_codec := v\<rparr>)
     else if fid = 5 \<and> ftype = T_I64 then req (\<lambda>s. r_i64) (\<lambda>v s. s\<lparr>ColumnMetaData_num_values := v\<rparr>)
     else if fid = 6 \<and> ftype = T_I64 then req (\<lambda>s. r_i64) (\<lambda>v s. s\<lparr>ColumnMetaData_total_uncompressed_size := v\<rparr>)
     else if fid = 7 \<and> ftype = T_I64 then req (\<lambda>s. r_i64) (\<lambda>v s. s\<lparr>ColumnMetaData_total_compressed_size := v\<rparr>)
     else if fid = 8 \<and> ftype = T_LIST then opt (\<lambda>s. r_list (read_KeyValue skip KeyValue_init)) (\<lambda>v s. s\<lparr>ColumnMetaData_key_value_metadata := v\<rparr>)
     else if fid = 9 \<and> ftype = T_I64 then req (\<lambda>s. r_i64) (\<lambda>v s. s\<lparr>ColumnMetaData_data_page_offset := v\<rparr>)
     else if fid = 10 \<and> ftype = T_I64 then opt (\<lambda>s. r_i64) (\<lambda>v s. s\<lparr>ColumnMetaData_index_page_offset := v\<rparr>)
     else if fid = 11 \<and> ftype = T_I64 then opt (\<lambda>s. r_i64) (\<lambda>v s. s\<lparr>ColumnMetaData_dictionary_page_offset := v\<rparr>)
     else if fid = 12 \<and> ftype = T_STRUCT then opt (\<lambda>s. read_Statistics skip (case ColumnMetaData_statistics s of None \<Rightarrow> Statistics_init | Some y \<Rightarrow> y)) (\<lambda>v s. s\<lparr>ColumnMetaData_statistics := v\<rparr>)
     else if fid = 13 \<and> ftype = T_LIST then opt (\<lambda>s. r_list (read_PageEncodingStats skip PageEncodingStats_init)) (\<lambda>v s. s\<lparr>ColumnMetaData_encoding_stats := v\<rparr>)
     else if fid = 14 \<and> ftype = T_I64 then opt (\<lambda>s. r_i64) (\<lambda>v s. s\<lparr>ColumnMetaData_bloom_filter_offset := v\<rparr>)
     else if fid = 15 \<and> ftype = T_I32 then opt (\<lambda>s. r_i32) (\<lambda>v s. s\<lparr>ColumnMetaData_bloom_filter_length := v\<rparr>)
     else if fid = 16 \<and> ftype = T_STRUCT then opt (\<lambda>s. read_SizeStatistics skip (case ColumnMetaData_size_statistics s of None \<Rightarrow> SizeStatistics_init | Some y \<Rightarrow> y)) (\<lambda>v s. s\<lparr>ColumnMetaData_size_statistics := v\<rparr>)
     else if fid = 17 \<and> ftype = T_STRUCT then opt (\<lambda>s. read_GeospatialStatistics skip (case ColumnMetaData_geospatial_statistics s of None \<Rightarrow> GeospatialStatistics_init | Some y \<Rightarrow> y)) (\<lambda>v s. s\<lparr>ColumnMetaData_geospatial_statistics := v\<rparr>)
     else None)"

definition read_ColumnMetaData :: "skip \<Rightarrow> ColumnMetaData \<Rightarrow> ColumnMetaData reader" where
  "read_ColumnMetaData skip = read_struct skip [1, 2, 3, 4, 5, 6, 7, 9] (ColumnMetaData_case skip)"

definition EncryptionWithFooterKey_case :: "skip \<Rightarrow> nat \<Rightarrow> TType \<Rightarrow> EncryptionWithFooterKey field_case option" where
  "EncryptionWithFooterKey_case skip fid ftype = None"

definition read_EncryptionWithFooterKey :: "skip \<Rightarrow> EncryptionWithFooterKey \<Rightarrow> EncryptionWithFooterKey reader" where
  "read_EncryptionWithFooterKey skip = read_struct skip [] (EncryptionWithFooterKey_case skip)"

definition EncryptionWithColumnKey_case :: "skip \<Rightarrow> nat \<Rightarrow> TType \<Rightarrow> EncryptionWithColumnKey field_case option" where
  "EncryptionWithColumnKey_case skip fid ftype =
    (if fid = 1 \<and> ftype = T_LIST then req (\<lambda>s. r_list r_string) (\<lambda>v s. s\<lparr>EncryptionWithColumnKey_path_in_schema := v\<rparr>)
     else if fid = 2 \<and> ftype = T_STRING then opt (\<lambda>s. r_binary) (\<lambda>v s. s\<lparr>EncryptionWithColumnKey_key_metadata := v\<rparr>)
     else None)"

definition read_EncryptionWithColumnKey :: "skip \<Rightarrow> EncryptionWithColumnKey \<Rightarrow> EncryptionWithColumnKey reader" where
  "read_EncryptionWithColumnKey skip = read_struct skip [1] (EncryptionWithColumnKey_case skip)"

definition ColumnCryptoMetaData_case :: "skip \<Rightarrow> nat \<Rightarrow> TType \<Rightarrow> ColumnCryptoMetaData field_case option" where
  "ColumnCryptoMetaData_case skip fid ftype =
    (if fid = 1 \<and> ftype = T_STRUCT then opt (\<lambda>s. read_EncryptionWithFooterKey skip (case ColumnCryptoMetaData_ENCRYPTION_WITH_FOOTER_KEY s of None \<Rightarrow> EncryptionWithFooterKey_init | Some y \<Rightarrow> y)) (\<lambda>v s. s\<lparr>ColumnCryptoMetaData_ENCRYPTION_WITH_FOOTER_KEY := v\<rparr>)
     else if fid = 2 \<and> ftype = T_STRUCT then opt (\<lambda>s. read_EncryptionWithColumnKey skip (case ColumnCryptoMetaData_ENCRYPTION_WITH_COLUMN_KEY s of None \<Rightarrow> EncryptionWithColumnKey_init | Some y \<Rightarrow> y)) (\<lambda>v s. s\<lparr>ColumnCryptoMetaData_ENCRYPTION_WITH_COLUMN_KEY := v\<rparr>)
     else None)"

definition read_ColumnCryptoMetaData :: "skip \<Rightarrow> ColumnCryptoMetaData \<Rightarrow> ColumnCryptoMetaData reader" where
  "read_ColumnCryptoMetaData skip = read_struct skip [] (ColumnCryptoMetaData_case skip)"

definition ColumnChunk_case :: "skip \<Rightarrow> nat \<Rightarrow> TType \<Rightarrow> ColumnChunk field_case option" where
  "ColumnChunk_case skip fid ftype =
    (if fid = 1 \<and> ftype = T_STRING then opt (\<lambda>s. r_string) (\<lambda>v s. s\<lparr>ColumnChunk_file_path := v\<rparr>)
     else if fid = 2 \<and> ftype = T_I64 then req (\<lambda>s. r_i64) (\<lambda>v s. s\<lparr>ColumnChunk_file_offset := v\<rparr>)
     else if fid = 3 \<and> ftype = T_STRUCT then opt (\<lambda>s. read_ColumnMetaData skip (case ColumnChunk_meta_data s of None \<Rightarrow> ColumnMetaData_init | Some y \<Rightarrow> y)) (\<lambda>v s. s\<lparr>ColumnChunk_meta_data := v\<rparr>)
     else if fid = 4 \<and> ftype = T_I64 then opt (\<lambda>s. r_i64) (\<lambda>v s. s\<lparr>ColumnChunk_offset_index_offset := v\<rparr>)
     else if fid = 5 \<and> ftype = T_I32 then opt (\<lambda>s. r_i32) (\<lambda>v s. s\<lparr>ColumnChunk_offset_index_length := v\<rparr>)
     else if fid = 6 \<and> ftype = T_I64 then opt (\<lambda>s. r_i64) (\<lambda>v s. s\<lparr>ColumnChunk_column_index_offset := v\<rparr>)
     else if fid = 7 \<and> ftype = T_I32 then opt (\<lambda>s. r_i32) (\<lambda>v s. s\<lparr>ColumnChunk_column_index_length := v\<rparr>)
     else if fid = 8 \<and> ftype = T_STRUCT then opt (\<lambda>s. read_ColumnCryptoMetaData skip (case ColumnChunk_crypto_metadata s of None \<Rightarrow> ColumnCryptoMetaData_init | Some y \<Rightarrow> y)) (\<lambda>v s. s\<lparr>ColumnChunk_crypto_metadata := v\<rparr>)
     else if fid = 9 \<and> ftype = T_STRING then opt (\<lambda>s. r_binary) (\<lambda>v s. s\<lparr>ColumnChunk_encrypted_column_metadata := v\<rparr>)
     else None)"

definition read_ColumnChunk :: "skip \<Rightarrow> ColumnChunk \<Rightarrow> ColumnChunk reader" where
  "read_ColumnChunk skip = read_struct skip [2] (ColumnChunk_case skip)"

definition RowGroup_case :: "skip \<Rightarrow> nat \<Rightarrow> TType \<Rightarrow> RowGroup field_case option" where
  "RowGroup_case skip fid ftype =
    (if fid = 1 \<and> ftype = T_LIST then req (\<lambda>s. r_list (read_ColumnChunk skip ColumnChunk_init)) (\<lambda>v s. s\<lparr>RowGroup_columns := v\<rparr>)
     else if fid = 2 \<and> ftype = T_I64 then req (\<lambda>s. r_i64) (\<lambda>v s. s\<lparr>RowGroup_total_byte_size := v\<rparr>)
     else if fid = 3 \<and> ftype = T_I64 then req (\<lambda>s. r_i64) (\<lambda>v s. s\<lparr>RowGroup_num_rows := v\<rparr>)
     else if fid = 4 \<and> ftype = T_LIST then opt (\<lambda>s. r_list (read_SortingColumn skip SortingColumn_init)) (\<lambda>v s. s\<lparr>RowGroup_sorting_columns := v\<rparr>)
     else if fid = 5 \<and> ftype = T_I64 then opt (\<lambda>s. r_i64) (\<lambda>v s. s\<lparr>RowGroup_file_offset := v\<rparr>)
     else if fid = 6 \<and> ftype = T_I64 then opt (\<lambda>s. r_i64) (\<lambda>v s. s\<lparr>RowGroup_total_compressed_size := v\<rparr>)
     else if fid = 7 \<and> ftype = T_I16 then opt (\<lambda>s. r_i16) (\<lambda>v s. s\<lparr>RowGroup_ordinal := v\<rparr>)
     else None)"

definition read_RowGroup :: "skip \<Rightarrow> RowGroup \<Rightarrow> RowGroup reader" where
  "read_RowGroup skip = read_struct skip [1, 2, 3] (RowGroup_case skip)"

definition TypeDefinedOrder_case :: "skip \<Rightarrow> nat \<Rightarrow> TType \<Rightarrow> TypeDefinedOrder field_case option" where
  "TypeDefinedOrder_case skip fid ftype = None"

definition read_TypeDefinedOrder :: "skip \<Rightarrow> TypeDefinedOrder \<Rightarrow> TypeDefinedOrder reader" where
  "read_TypeDefinedOrder skip = read_struct skip [] (TypeDefinedOrder_case skip)"

definition ColumnOrder_case :: "skip \<Rightarrow> nat \<Rightarrow> TType \<Rightarrow> ColumnOrder field_case option" where
  "ColumnOrder_case skip fid ftype =
    (if fid = 1 \<and> ftype = T_STRUCT then opt (\<lambda>s. read_TypeDefinedOrder skip (case ColumnOrder_TYPE_ORDER s of None \<Rightarrow> TypeDefinedOrder_init | Some y \<Rightarrow> y)) (\<lambda>v s. s\<lparr>ColumnOrder_TYPE_ORDER := v\<rparr>)
     else None)"

definition read_ColumnOrder :: "skip \<Rightarrow> ColumnOrder \<Rightarrow> ColumnOrder reader" where
  "read_ColumnOrder skip = read_struct skip [] (ColumnOrder_case skip)"

definition PageLocation_case :: "skip \<Rightarrow> nat \<Rightarrow> TType \<Rightarrow> PageLocation field_case option" where
  "PageLocation_case skip fid ftype =
    (if fid = 1 \<and> ftype = T_I64 then req (\<lambda>s. r_i64) (\<lambda>v s. s\<lparr>PageLocation_offset := v\<rparr>)
     else if fid = 2 \<and> ftype = T_I32 then req (\<lambda>s. r_i32) (\<lambda>v s. s\<lparr>PageLocation_compressed_page_size := v\<rparr>)
     else if fid = 3 \<and> ftype = T_I64 then req (\<lambda>s. r_i64) (\<lambda>v s. s\<lparr>PageLocation_first_row_index := v\<rparr>)
     else None)"

definition read_PageLocation :: "skip \<Rightarrow> PageLocation \<Rightarrow> PageLocation reader" where
  "read_PageLocation skip = read_struct skip [1, 2, 3] (PageLocation_case skip)"

definition OffsetIndex_case :: "skip \<Rightarrow> nat \<Rightarrow> TType \<Rightarrow> OffsetIndex field_case option" where
  "OffsetIndex_case skip fid ftype =
    (if fid = 1 \<and> ftype = T_LIST then req (\<lambda>s. r_list (read_PageLocation skip PageLocation_init)) (\<lambda>v s. s\<lparr>OffsetIndex_page_locations := v\<rparr>)
     else if fid = 2 \<and> ftype = T_LIST then opt (\<lambda>s. r_list r_i64) (\<lambda>v s. s\<lparr>OffsetIndex_unencoded_byte_array_data_bytes := v\<rparr>)
     else None)"

definition read_OffsetIndex :: "skip \<Rightarrow> OffsetIndex \<Rightarrow> OffsetIndex reader" where
  "read_OffsetIndex skip = read_struct skip [1] (OffsetIndex_case skip)"

definition ColumnIndex_case :: "skip \<Rightarrow> nat \<Rightarrow> TType \<Rightarrow> ColumnIndex field_case option" where
  "ColumnIndex_case skip fid ftype =
    (if fid = 1 \<and> ftype = T_LIST then req (\<lambda>s. r_list r_bool) (\<lambda>v s. s\<lparr>ColumnIndex_null_pages := v\<rparr>)
     else if fid = 2 \<and> ftype = T_LIST then req (\<lambda>s. r_list r_binary) (\<lambda>v s. s\<lparr>ColumnIndex_min_values := v\<rparr>)
     else if fid = 3 \<and> ftype = T_LIST then req (\<lambda>s. r_list r_binary) (\<lambda>v s. s\<lparr>ColumnIndex_max_values := v\<rparr>)
     else if fid = 4 \<and> ftype = T_I32 then req (\<lambda>s. r_i32) (\<lambda>v s. s\<lparr>ColumnIndex_boundary_order := v\<rparr>)
     else if fid = 5 \<and> ftype = T_LIST then opt (\<lambda>s. r_list r_i64) (\<lambda>v s. s\<lparr>ColumnIndex_null_counts := v\<rparr>)
     else if fid = 6 \<and> ftype = T_LIST then opt (\<lambda>s. r_list r_i64) (\<lambda>v s. s\<lparr>ColumnIndex_repetition_level_histograms := v\<rparr>)
     else if fid = 7 \<and> ftype = T_LIST then opt (\<lambda>s. r_list r_i64) (\<lambda>v s. s\<lparr>ColumnIndex_definition_level_histograms := v\<rparr>)
     else None)"

definition read_ColumnIndex :: "skip \<Rightarrow> ColumnIndex \<Rightarrow> ColumnIndex reader" where
  "read_ColumnIndex skip = read_struct skip [1, 2, 3, 4] (ColumnIndex_case skip)"

definition AesGcmV1_case :: "skip \<Rightarrow> nat \<Rightarrow> TType \<Rightarrow> AesGcmV1 field_case option" where
  "AesGcmV1_case skip fid ftype =
    (if fid = 1 \<and> ftype = T_STRING then opt (\<lambda>s. r_binary) (\<lambda>v s. s\<lparr>AesGcmV1_aad_prefix := v\<rparr>)
     else if fid = 2 \<and> ftype = T_STRING then opt (\<lambda>s. r_binary) (\<lambda>v s. s\<lparr>AesGcmV1_aad_file_unique := v\<rparr>)
     else if fid = 3 \<and> ftype = T_BOOL then opt (\<lambda>s. r_bool) (\<lambda>v s. s\<lparr>AesGcmV1_supply_aad_prefix := v\<rparr>)
     else None)"

definition read_AesGcmV1 :: "skip \<Rightarrow> AesGcmV1 \<Rightarrow> AesGcmV1 reader" where
  "read_AesGcmV1 skip = read_struct skip [] (AesGcmV1_case skip)"

definition AesGcmCtrV1_case :: "skip \<Rightarrow> nat \<Rightarrow> TType \<Rightarrow> AesGcmCtrV1 field_case option" where
  "AesGcmCtrV1_case skip fid ftype =
    (if fid = 1 \<and> ftype = T_STRING then opt (\<lambda>s. r_binary) (\<lambda>v s. s\<lparr>AesGcmCtrV1_aad_prefix := v\<rparr>)
     else if fid = 2 \<and> ftype = T_STRING then opt (\<lambda>s. r_binary) (\<lambda>v s. s\<lparr>AesGcmCtrV1_aad_file_unique := v\<rparr>)
     else if fid = 3 \<and> ftype = T_BOOL then opt (\<lambda>s. r_bool) (\<lambda>v s. s\<lparr>AesGcmCtrV1_supply_aad_prefix := v\<rparr>)
     else None)"

definition read_AesGcmCtrV1 :: "skip \<Rightarrow> AesGcmCtrV1 \<Rightarrow> AesGcmCtrV1 reader" where
  "read_AesGcmCtrV1 skip = read_struct skip [] (AesGcmCtrV1_case skip)"

definition EncryptionAlgorithm_case :: "skip \<Rightarrow> nat \<Rightarrow> TType \<Rightarrow> EncryptionAlgorithm field_case option" where
  "EncryptionAlgorithm_case skip fid ftype =
    (if fid = 1 \<and> ftype = T_STRUCT then opt (\<lambda>s. read_AesGcmV1 skip (case EncryptionAlgorithm_AES_GCM_V1 s of None \<Rightarrow> AesGcmV1_init | Some y \<Rightarrow> y)) (\<lambda>v s. s\<lparr>EncryptionAlgorithm_AES_GCM_V1 := v\<rparr>)
     else if fid = 2 \<and> ftype = T_STRUCT then opt (\<lambda>s. read_AesGcmCtrV1 skip (case EncryptionAlgorithm_AES_GCM_CTR_V1 s of None \<Rightarrow> AesGcmCtrV1_init | Some y \<Rightarrow> y)) (\<lambda>v s. s\<lparr>EncryptionAlgorithm_AES_GCM_CTR_V1 := v\<rparr>)
     else None)"

definition read_EncryptionAlgorithm :: "skip \<Rightarrow> EncryptionAlgorithm \<Rightarrow> EncryptionAlgorithm reader" where
  "read_EncryptionAlgorithm skip = read_struct skip [] (EncryptionAlgorithm_case skip)"

definition FileMetaData_case :: "skip \<Rightarrow> nat \<Rightarrow> TType \<Rightarrow> FileMetaData field_case option" where
  "FileMetaData_case skip fid ftype =
    (if fid = 1 \<and> ftype = T_I32 then req (\<lambda>s. r_i32) (\<lambda>v s. s\<lparr>FileMetaData_version := v\<rparr>)
     else if fid = 2 \<and> ftype = T_LIST then req (\<lambda>s. r_list (read_SchemaElement skip SchemaElement_init)) (\<lambda>v s. s\<lparr>FileMetaData_schema := v\<rparr>)
     else if fid = 3 \<and> ftype = T_I64 then req (\<lambda>s. r_i64) (\<lambda>v s. s\<lparr>FileMetaData_num_rows := v\<rparr>)
     else if fid = 4 \<and> ftype = T_LIST then req (\<lambda>s. r_list (read_RowGroup skip RowGroup_init)) (\<lambda>v s. s\<lparr>FileMetaData_row_groups := v\<rparr>)
     else if fid = 5 \<and> ftype = T_LIST then opt (\<lambda>s. r_list (read_KeyValue skip KeyValue_init)) (\<lambda>v s. s\<lparr>FileMetaData_key_value_metadata := v\<rparr>)
     else if fid = 6 \<and> ftype = T_STRING then opt (\<lambda>s. r_string) (\<lambda>v s. s\<lparr>FileMetaData_created_by := v\<rparr>)
     else if fid = 7 \<and> ftype = T_LIST then opt (\<lambda>s. r_list (read_ColumnOrder skip ColumnOrder_init)) (\<lambda>v s. s\<lparr>FileMetaData_column_orders := v\<rparr>)
     else if fid = 8 \<and> ftype = T_STRUCT then opt (\<lambda>s. read_EncryptionAlgorithm skip (case FileMetaData_encryption_algorithm s of None \<Rightarrow> EncryptionAlgorithm_init | Some y \<Rightarrow> y)) (\<lambda>v s. s\<lparr>FileMetaData_encryption_algorithm := v\<rparr>)
     else if fid = 9 \<and> ftype = T_STRING then opt (\<lambda>s. r_binary) (\<lambda>v s. s\<lparr>FileMetaData_footer_signing_key_metadata := v\<rparr>)
     else None)"

definition read_FileMetaData :: "skip \<Rightarrow> FileMetaData \<Rightarrow> FileMetaData reader" where
  "read_FileMetaData skip = read_struct skip [1, 2, 3, 4] (FileMetaData_case skip)"

definition FileCryptoMetaData_case :: "skip \<Rightarrow> nat \<Rightarrow> TType \<Rightarrow> FileCryptoMetaData field_case option" where
  "FileCryptoMetaData_case skip fid ftype =
    (if fid = 1 \<and> ftype = T_STRUCT then req (\<lambda>s. read_EncryptionAlgorithm skip (FileCryptoMetaData_encryption_algorithm s)) (\<lambda>v s. s\<lparr>FileCryptoMetaData_encryption_algorithm := v\<rparr>)
     else if fid = 2 \<and> ftype = T_STRING then opt (\<lambda>s. r_binary) (\<lambda>v s. s\<lparr>FileCryptoMetaData_key_metadata := v\<rparr>)
     else None)"

definition read_FileCryptoMetaData :: "skip \<Rightarrow> FileCryptoMetaData \<Rightarrow> FileCryptoMetaData reader" where
  "read_FileCryptoMetaData skip = read_struct skip [1] (FileCryptoMetaData_case skip)"

section \<open>Lists that fit their count\<close>

definition short_SizeStatistics :: "SizeStatistics \<Rightarrow> bool" where
  "short_SizeStatistics x \<longleftrightarrow>
     pred_option short_list (SizeStatistics_repetition_level_histogram x) \<and>
     pred_option short_list (SizeStatistics_definition_level_histogram x)"

definition short_GeospatialStatistics :: "GeospatialStatistics \<Rightarrow> bool" where
  "short_GeospatialStatistics x \<longleftrightarrow>
     pred_option short_list (GeospatialStatistics_geospatial_types x)"

definition short_ColumnMetaData :: "ColumnMetaData \<Rightarrow> bool" where
  "short_ColumnMetaData x \<longleftrightarrow>
     short_list (ColumnMetaData_encodings x) \<and>
     short_list (ColumnMetaData_path_in_schema x) \<and>
     pred_option short_list (ColumnMetaData_key_value_metadata x) \<and>
     pred_option short_list (ColumnMetaData_encoding_stats x) \<and>
     pred_option short_SizeStatistics (ColumnMetaData_size_statistics x) \<and>
     pred_option short_GeospatialStatistics (ColumnMetaData_geospatial_statistics x)"

definition short_EncryptionWithColumnKey :: "EncryptionWithColumnKey \<Rightarrow> bool" where
  "short_EncryptionWithColumnKey x \<longleftrightarrow>
     short_list (EncryptionWithColumnKey_path_in_schema x)"

definition short_ColumnCryptoMetaData :: "ColumnCryptoMetaData \<Rightarrow> bool" where
  "short_ColumnCryptoMetaData x \<longleftrightarrow>
     pred_option short_EncryptionWithColumnKey (ColumnCryptoMetaData_ENCRYPTION_WITH_COLUMN_KEY x)"

definition short_ColumnChunk :: "ColumnChunk \<Rightarrow> bool" where
  "short_ColumnChunk x \<longleftrightarrow>
     pred_option short_ColumnMetaData (ColumnChunk_meta_data x) \<and>
     pred_option short_ColumnCryptoMetaData (ColumnChunk_crypto_metadata x)"

definition short_RowGroup :: "RowGroup \<Rightarrow> bool" where
  "short_RowGroup x \<longleftrightarrow>
     short_list (RowGroup_columns x) \<and> list_all short_ColumnChunk (RowGroup_columns x) \<and>
     pred_option short_list (RowGroup_sorting_columns x)"

definition short_OffsetIndex :: "OffsetIndex \<Rightarrow> bool" where
  "short_OffsetIndex x \<longleftrightarrow>
     short_list (OffsetIndex_page_locations x) \<and>
     pred_option short_list (OffsetIndex_unencoded_byte_array_data_bytes x)"

definition short_ColumnIndex :: "ColumnIndex \<Rightarrow> bool" where
  "short_ColumnIndex x \<longleftrightarrow>
     short_list (ColumnIndex_null_pages x) \<and>
     short_list (ColumnIndex_min_values x) \<and>
     short_list (ColumnIndex_max_values x) \<and>
     pred_option short_list (ColumnIndex_null_counts x) \<and>
     pred_option short_list (ColumnIndex_repetition_level_histograms x) \<and>
     pred_option short_list (ColumnIndex_definition_level_histograms x)"

definition short_FileMetaData :: "FileMetaData \<Rightarrow> bool" where
  "short_FileMetaData x \<longleftrightarrow>
     short_list (FileMetaData_schema x) \<and>
     short_list (FileMetaData_row_groups x) \<and> list_all short_RowGroup (FileMetaData_row_groups x) \<and>
     pred_option short_list (FileMetaData_key_value_metadata x) \<and>
     pred_option short_list (FileMetaData_column_orders x)"

section \<open>Round trips\<close>

lemma rt_SizeStatistics [thrift_rt]:
  "short_SizeStatistics x \<Longrightarrow> read_SizeStatistics skip SizeStatistics_init (write_SizeStatistics x @ rest) = Ok (x, rest)"
  by (simp add: thrift_rt write_SizeStatistics_def read_SizeStatistics_def SizeStatistics_case_def SizeStatistics_init_def w_struct_def read_struct_def short_SizeStatistics_def list_all_iff)

lemma rt_BoundingBox [thrift_rt]:
  "read_BoundingBox skip BoundingBox_init (write_BoundingBox x @ rest) = Ok (x, rest)"
  by (simp add: thrift_rt write_BoundingBox_def read_BoundingBox_def BoundingBox_case_def BoundingBox_init_def w_struct_def read_struct_def)

lemma rt_GeospatialStatistics [thrift_rt]:
  "short_GeospatialStatistics x \<Longrightarrow> read_GeospatialStatistics skip GeospatialStatistics_init (write_GeospatialStatistics x @ rest) = Ok (x, rest)"
  by (simp add: thrift_rt write_GeospatialStatistics_def read_GeospatialStatistics_def GeospatialStatistics_case_def GeospatialStatistics_init_def w_struct_def read_struct_def short_GeospatialStatistics_def list_all_iff)

lemma rt_Statistics [thrift_rt]:
  "read_Statistics skip Statistics_init (write_Statistics x @ rest) = Ok (x, rest)"
  by (simp add: thrift_rt write_Statistics_def read_Statistics_def Statistics_case_def Statistics_init_def w_struct_def read_struct_def)

lemma rt_StringType [thrift_rt]:
  "read_StringType skip StringType_init (write_StringType x @ rest) = Ok (x, rest)"
  by (cases x) (simp add: thrift_rt write_StringType_def read_StringType_def StringType_case_def StringType_init_def w_struct_def read_struct_def)

lemma rt_UUIDType [thrift_rt]:
  "read_UUIDType skip UUIDType_init (write_UUIDType x @ rest) = Ok (x, rest)"
  by (cases x) (simp add: thrift_rt write_UUIDType_def read_UUIDType_def UUIDType_case_def UUIDType_init_def w_struct_def read_struct_def)

lemma rt_MapType [thrift_rt]:
  "read_MapType skip MapType_init (write_MapType x @ rest) = Ok (x, rest)"
  by (cases x) (simp add: thrift_rt write_MapType_def read_MapType_def MapType_case_def MapType_init_def w_struct_def read_struct_def)

lemma rt_ListType [thrift_rt]:
  "read_ListType skip ListType_init (write_ListType x @ rest) = Ok (x, rest)"
  by (cases x) (simp add: thrift_rt write_ListType_def read_ListType_def ListType_case_def ListType_init_def w_struct_def read_struct_def)

lemma rt_EnumType [thrift_rt]:
  "read_EnumType skip EnumType_init (write_EnumType x @ rest) = Ok (x, rest)"
  by (cases x) (simp add: thrift_rt write_EnumType_def read_EnumType_def EnumType_case_def EnumType_init_def w_struct_def read_struct_def)

lemma rt_DateType [thrift_rt]:
  "read_DateType skip DateType_init (write_DateType x @ rest) = Ok (x, rest)"
  by (cases x) (simp add: thrift_rt write_DateType_def read_DateType_def DateType_case_def DateType_init_def w_struct_def read_struct_def)

lemma rt_Float16Type [thrift_rt]:
  "read_Float16Type skip Float16Type_init (write_Float16Type x @ rest) = Ok (x, rest)"
  by (cases x) (simp add: thrift_rt write_Float16Type_def read_Float16Type_def Float16Type_case_def Float16Type_init_def w_struct_def read_struct_def)

lemma rt_NullType [thrift_rt]:
  "read_NullType skip NullType_init (write_NullType x @ rest) = Ok (x, rest)"
  by (cases x) (simp add: thrift_rt write_NullType_def read_NullType_def NullType_case_def NullType_init_def w_struct_def read_struct_def)

lemma rt_DecimalType [thrift_rt]:
  "read_DecimalType skip DecimalType_init (write_DecimalType x @ rest) = Ok (x, rest)"
  by (simp add: thrift_rt write_DecimalType_def read_DecimalType_def DecimalType_case_def DecimalType_init_def w_struct_def read_struct_def)

lemma rt_MilliSeconds [thrift_rt]:
  "read_MilliSeconds skip MilliSeconds_init (write_MilliSeconds x @ rest) = Ok (x, rest)"
  by (cases x) (simp add: thrift_rt write_MilliSeconds_def read_MilliSeconds_def MilliSeconds_case_def MilliSeconds_init_def w_struct_def read_struct_def)

lemma rt_MicroSeconds [thrift_rt]:
  "read_MicroSeconds skip MicroSeconds_init (write_MicroSeconds x @ rest) = Ok (x, rest)"
  by (cases x) (simp add: thrift_rt write_MicroSeconds_def read_MicroSeconds_def MicroSeconds_case_def MicroSeconds_init_def w_struct_def read_struct_def)

lemma rt_NanoSeconds [thrift_rt]:
  "read_NanoSeconds skip NanoSeconds_init (write_NanoSeconds x @ rest) = Ok (x, rest)"
  by (cases x) (simp add: thrift_rt write_NanoSeconds_def read_NanoSeconds_def NanoSeconds_case_def NanoSeconds_init_def w_struct_def read_struct_def)

lemma rt_TimeUnit [thrift_rt]:
  "read_TimeUnit skip TimeUnit_init (write_TimeUnit x @ rest) = Ok (x, rest)"
  by (simp add: thrift_rt write_TimeUnit_def read_TimeUnit_def TimeUnit_case_def TimeUnit_init_def w_struct_def read_struct_def)

lemma rt_TimestampType [thrift_rt]:
  "read_TimestampType skip TimestampType_init (write_TimestampType x @ rest) = Ok (x, rest)"
  by (simp add: thrift_rt write_TimestampType_def read_TimestampType_def TimestampType_case_def TimestampType_init_def w_struct_def read_struct_def)

lemma rt_TimeType [thrift_rt]:
  "read_TimeType skip TimeType_init (write_TimeType x @ rest) = Ok (x, rest)"
  by (simp add: thrift_rt write_TimeType_def read_TimeType_def TimeType_case_def TimeType_init_def w_struct_def read_struct_def)

lemma rt_IntType [thrift_rt]:
  "read_IntType skip IntType_init (write_IntType x @ rest) = Ok (x, rest)"
  by (simp add: thrift_rt write_IntType_def read_IntType_def IntType_case_def IntType_init_def w_struct_def read_struct_def)

lemma rt_JsonType [thrift_rt]:
  "read_JsonType skip JsonType_init (write_JsonType x @ rest) = Ok (x, rest)"
  by (cases x) (simp add: thrift_rt write_JsonType_def read_JsonType_def JsonType_case_def JsonType_init_def w_struct_def read_struct_def)

lemma rt_BsonType [thrift_rt]:
  "read_BsonType skip BsonType_init (write_BsonType x @ rest) = Ok (x, rest)"
  by (cases x) (simp add: thrift_rt write_BsonType_def read_BsonType_def BsonType_case_def BsonType_init_def w_struct_def read_struct_def)

lemma rt_VariantType [thrift_rt]:
  "read_VariantType skip VariantType_init (write_VariantType x @ rest) = Ok (x, rest)"
  by (simp add: thrift_rt write_VariantType_def read_VariantType_def VariantType_case_def VariantType_init_def w_struct_def read_struct_def)

lemma rt_GeometryType [thrift_rt]:
  "read_GeometryType skip GeometryType_init (write_GeometryType x @ rest) = Ok (x, rest)"
  by (simp add: thrift_rt write_GeometryType_def read_GeometryType_def GeometryType_case_def GeometryType_init_def w_struct_def read_struct_def)

lemma rt_GeographyType [thrift_rt]:
  "read_GeographyType skip GeographyType_init (write_GeographyType x @ rest) = Ok (x, rest)"
  by (simp add: thrift_rt write_GeographyType_def read_GeographyType_def GeographyType_case_def GeographyType_init_def w_struct_def read_struct_def)

lemma rt_LogicalType [thrift_rt]:
  "read_LogicalType skip LogicalType_init (write_LogicalType x @ rest) = Ok (x, rest)"
  by (simp add: thrift_rt write_LogicalType_def read_LogicalType_def LogicalType_case_def LogicalType_init_def w_struct_def read_struct_def)

lemma rt_SchemaElement [thrift_rt]:
  "read_SchemaElement skip SchemaElement_init (write_SchemaElement x @ rest) = Ok (x, rest)"
  by (simp add: thrift_rt write_SchemaElement_def read_SchemaElement_def SchemaElement_case_def SchemaElement_init_def w_struct_def read_struct_def)

lemma rt_DataPageHeader [thrift_rt]:
  "read_DataPageHeader skip DataPageHeader_init (write_DataPageHeader x @ rest) = Ok (x, rest)"
  by (simp add: thrift_rt write_DataPageHeader_def read_DataPageHeader_def DataPageHeader_case_def DataPageHeader_init_def w_struct_def read_struct_def)

lemma rt_IndexPageHeader [thrift_rt]:
  "read_IndexPageHeader skip IndexPageHeader_init (write_IndexPageHeader x @ rest) = Ok (x, rest)"
  by (cases x) (simp add: thrift_rt write_IndexPageHeader_def read_IndexPageHeader_def IndexPageHeader_case_def IndexPageHeader_init_def w_struct_def read_struct_def)

lemma rt_DictionaryPageHeader [thrift_rt]:
  "read_DictionaryPageHeader skip DictionaryPageHeader_init (write_DictionaryPageHeader x @ rest) = Ok (x, rest)"
  by (simp add: thrift_rt write_DictionaryPageHeader_def read_DictionaryPageHeader_def DictionaryPageHeader_case_def DictionaryPageHeader_init_def w_struct_def read_struct_def)

text \<open>
  The flag \<open>is_compressed\<close> of a page header is set when the object is made, so a header that was
  written without it is read with the flag set. \<open>filled_X\<close> is what reading makes of it.
\<close>

definition filled_DataPageHeaderV2 :: "DataPageHeaderV2 \<Rightarrow> DataPageHeaderV2" where
  "filled_DataPageHeaderV2 x =
     (case DataPageHeaderV2_is_compressed x of
        None \<Rightarrow> x\<lparr>DataPageHeaderV2_is_compressed := Some True\<rparr>
      | Some c \<Rightarrow> x)"

definition filled_PageHeader :: "PageHeader \<Rightarrow> PageHeader" where
  "filled_PageHeader x =
     x\<lparr>PageHeader_data_page_header_v2 := map_option filled_DataPageHeaderV2 (PageHeader_data_page_header_v2 x)\<rparr>"

lemma rt_DataPageHeaderV2 [thrift_rt]:
  "read_DataPageHeaderV2 skip DataPageHeaderV2_init (write_DataPageHeaderV2 x @ rest) =
     Ok (filled_DataPageHeaderV2 x, rest)"
  by (cases "DataPageHeaderV2_is_compressed x")
    (simp_all add: thrift_rt read_fields_opt_reads [where w = w_bool and g = "\<lambda>b. b"] write_DataPageHeaderV2_def
      read_DataPageHeaderV2_def DataPageHeaderV2_case_def DataPageHeaderV2_init_def w_struct_def read_struct_def
      filled_DataPageHeaderV2_def)

lemma rt_SplitBlockAlgorithm [thrift_rt]:
  "read_SplitBlockAlgorithm skip SplitBlockAlgorithm_init (write_SplitBlockAlgorithm x @ rest) = Ok (x, rest)"
  by (cases x) (simp add: thrift_rt write_SplitBlockAlgorithm_def read_SplitBlockAlgorithm_def SplitBlockAlgorithm_case_def SplitBlockAlgorithm_init_def w_struct_def read_struct_def)

lemma rt_BloomFilterAlgorithm [thrift_rt]:
  "read_BloomFilterAlgorithm skip BloomFilterAlgorithm_init (write_BloomFilterAlgorithm x @ rest) = Ok (x, rest)"
  by (simp add: thrift_rt write_BloomFilterAlgorithm_def read_BloomFilterAlgorithm_def BloomFilterAlgorithm_case_def BloomFilterAlgorithm_init_def w_struct_def read_struct_def)

lemma rt_XxHash [thrift_rt]:
  "read_XxHash skip XxHash_init (write_XxHash x @ rest) = Ok (x, rest)"
  by (cases x) (simp add: thrift_rt write_XxHash_def read_XxHash_def XxHash_case_def XxHash_init_def w_struct_def read_struct_def)

lemma rt_BloomFilterHash [thrift_rt]:
  "read_BloomFilterHash skip BloomFilterHash_init (write_BloomFilterHash x @ rest) = Ok (x, rest)"
  by (simp add: thrift_rt write_BloomFilterHash_def read_BloomFilterHash_def BloomFilterHash_case_def BloomFilterHash_init_def w_struct_def read_struct_def)

lemma rt_Uncompressed [thrift_rt]:
  "read_Uncompressed skip Uncompressed_init (write_Uncompressed x @ rest) = Ok (x, rest)"
  by (cases x) (simp add: thrift_rt write_Uncompressed_def read_Uncompressed_def Uncompressed_case_def Uncompressed_init_def w_struct_def read_struct_def)

lemma rt_BloomFilterCompression [thrift_rt]:
  "read_BloomFilterCompression skip BloomFilterCompression_init (write_BloomFilterCompression x @ rest) = Ok (x, rest)"
  by (simp add: thrift_rt write_BloomFilterCompression_def read_BloomFilterCompression_def BloomFilterCompression_case_def BloomFilterCompression_init_def w_struct_def read_struct_def)

lemma rt_BloomFilterHeader [thrift_rt]:
  "read_BloomFilterHeader skip BloomFilterHeader_init (write_BloomFilterHeader x @ rest) = Ok (x, rest)"
  by (simp add: thrift_rt write_BloomFilterHeader_def read_BloomFilterHeader_def BloomFilterHeader_case_def BloomFilterHeader_init_def w_struct_def read_struct_def)

lemma rt_PageHeader [thrift_rt]:
  "read_PageHeader skip PageHeader_init (write_PageHeader x @ rest) = Ok (filled_PageHeader x, rest)"
  by (cases "PageHeader_data_page_header_v2 x")
    (simp_all add: thrift_rt read_fields_opt_reads [where w = write_DataPageHeaderV2 and g = filled_DataPageHeaderV2]
      write_PageHeader_def read_PageHeader_def PageHeader_case_def PageHeader_init_def w_struct_def read_struct_def
      filled_PageHeader_def)

text \<open>Headers that have the flag.\<close>

definition flagged_PageHeader :: "PageHeader \<Rightarrow> bool" where
  "flagged_PageHeader x \<longleftrightarrow>
     pred_option (\<lambda>h. DataPageHeaderV2_is_compressed h \<noteq> None) (PageHeader_data_page_header_v2 x)"

lemma filled_flagged: "filled_PageHeader x = x \<longleftrightarrow> flagged_PageHeader x"
proof (cases "PageHeader_data_page_header_v2 x")
  case (Some h)
  then have "filled_PageHeader x = x \<longleftrightarrow> filled_DataPageHeaderV2 h = h"
    by (cases x) (simp add: filled_PageHeader_def)
  also have "\<dots> \<longleftrightarrow> DataPageHeaderV2_is_compressed h \<noteq> None"
    by (cases h) (simp add: filled_DataPageHeaderV2_def split: option.split)
  finally show ?thesis using Some by (simp add: flagged_PageHeader_def)
next
  case None
  then show ?thesis by (cases x) (simp add: filled_PageHeader_def flagged_PageHeader_def)
qed

lemma rt_KeyValue [thrift_rt]:
  "read_KeyValue skip KeyValue_init (write_KeyValue x @ rest) = Ok (x, rest)"
  by (simp add: thrift_rt write_KeyValue_def read_KeyValue_def KeyValue_case_def KeyValue_init_def w_struct_def read_struct_def)

lemma rt_SortingColumn [thrift_rt]:
  "read_SortingColumn skip SortingColumn_init (write_SortingColumn x @ rest) = Ok (x, rest)"
  by (simp add: thrift_rt write_SortingColumn_def read_SortingColumn_def SortingColumn_case_def SortingColumn_init_def w_struct_def read_struct_def)

lemma rt_PageEncodingStats [thrift_rt]:
  "read_PageEncodingStats skip PageEncodingStats_init (write_PageEncodingStats x @ rest) = Ok (x, rest)"
  by (simp add: thrift_rt write_PageEncodingStats_def read_PageEncodingStats_def PageEncodingStats_case_def PageEncodingStats_init_def w_struct_def read_struct_def)

lemma rt_ColumnMetaData [thrift_rt]:
  "short_ColumnMetaData x \<Longrightarrow> read_ColumnMetaData skip ColumnMetaData_init (write_ColumnMetaData x @ rest) = Ok (x, rest)"
  by (simp add: thrift_rt write_ColumnMetaData_def read_ColumnMetaData_def ColumnMetaData_case_def ColumnMetaData_init_def w_struct_def read_struct_def short_ColumnMetaData_def list_all_iff read_fields_opt_if [where P = short_GeospatialStatistics] read_fields_opt_if [where P = short_SizeStatistics])

lemma rt_EncryptionWithFooterKey [thrift_rt]:
  "read_EncryptionWithFooterKey skip EncryptionWithFooterKey_init (write_EncryptionWithFooterKey x @ rest) = Ok (x, rest)"
  by (cases x) (simp add: thrift_rt write_EncryptionWithFooterKey_def read_EncryptionWithFooterKey_def EncryptionWithFooterKey_case_def EncryptionWithFooterKey_init_def w_struct_def read_struct_def)

lemma rt_EncryptionWithColumnKey [thrift_rt]:
  "short_EncryptionWithColumnKey x \<Longrightarrow> read_EncryptionWithColumnKey skip EncryptionWithColumnKey_init (write_EncryptionWithColumnKey x @ rest) = Ok (x, rest)"
  by (simp add: thrift_rt write_EncryptionWithColumnKey_def read_EncryptionWithColumnKey_def EncryptionWithColumnKey_case_def EncryptionWithColumnKey_init_def w_struct_def read_struct_def short_EncryptionWithColumnKey_def list_all_iff)

lemma rt_ColumnCryptoMetaData [thrift_rt]:
  "short_ColumnCryptoMetaData x \<Longrightarrow> read_ColumnCryptoMetaData skip ColumnCryptoMetaData_init (write_ColumnCryptoMetaData x @ rest) = Ok (x, rest)"
  by (simp add: thrift_rt write_ColumnCryptoMetaData_def read_ColumnCryptoMetaData_def ColumnCryptoMetaData_case_def ColumnCryptoMetaData_init_def w_struct_def read_struct_def short_ColumnCryptoMetaData_def list_all_iff read_fields_opt_if [where P = short_EncryptionWithColumnKey])

lemma rt_ColumnChunk [thrift_rt]:
  "short_ColumnChunk x \<Longrightarrow> read_ColumnChunk skip ColumnChunk_init (write_ColumnChunk x @ rest) = Ok (x, rest)"
  by (simp add: thrift_rt write_ColumnChunk_def read_ColumnChunk_def ColumnChunk_case_def ColumnChunk_init_def w_struct_def read_struct_def short_ColumnChunk_def list_all_iff read_fields_opt_if [where P = short_ColumnCryptoMetaData] read_fields_opt_if [where P = short_ColumnMetaData])

lemma rt_RowGroup [thrift_rt]:
  "short_RowGroup x \<Longrightarrow> read_RowGroup skip RowGroup_init (write_RowGroup x @ rest) = Ok (x, rest)"
  by (simp add: thrift_rt write_RowGroup_def read_RowGroup_def RowGroup_case_def RowGroup_init_def w_struct_def read_struct_def short_RowGroup_def list_all_iff)

lemma rt_TypeDefinedOrder [thrift_rt]:
  "read_TypeDefinedOrder skip TypeDefinedOrder_init (write_TypeDefinedOrder x @ rest) = Ok (x, rest)"
  by (cases x) (simp add: thrift_rt write_TypeDefinedOrder_def read_TypeDefinedOrder_def TypeDefinedOrder_case_def TypeDefinedOrder_init_def w_struct_def read_struct_def)

lemma rt_ColumnOrder [thrift_rt]:
  "read_ColumnOrder skip ColumnOrder_init (write_ColumnOrder x @ rest) = Ok (x, rest)"
  by (simp add: thrift_rt write_ColumnOrder_def read_ColumnOrder_def ColumnOrder_case_def ColumnOrder_init_def w_struct_def read_struct_def)

lemma rt_PageLocation [thrift_rt]:
  "read_PageLocation skip PageLocation_init (write_PageLocation x @ rest) = Ok (x, rest)"
  by (simp add: thrift_rt write_PageLocation_def read_PageLocation_def PageLocation_case_def PageLocation_init_def w_struct_def read_struct_def)

lemma rt_OffsetIndex [thrift_rt]:
  "short_OffsetIndex x \<Longrightarrow> read_OffsetIndex skip OffsetIndex_init (write_OffsetIndex x @ rest) = Ok (x, rest)"
  by (simp add: thrift_rt write_OffsetIndex_def read_OffsetIndex_def OffsetIndex_case_def OffsetIndex_init_def w_struct_def read_struct_def short_OffsetIndex_def list_all_iff)

lemma rt_ColumnIndex [thrift_rt]:
  "short_ColumnIndex x \<Longrightarrow> read_ColumnIndex skip ColumnIndex_init (write_ColumnIndex x @ rest) = Ok (x, rest)"
  by (simp add: thrift_rt write_ColumnIndex_def read_ColumnIndex_def ColumnIndex_case_def ColumnIndex_init_def w_struct_def read_struct_def short_ColumnIndex_def list_all_iff)

lemma rt_AesGcmV1 [thrift_rt]:
  "read_AesGcmV1 skip AesGcmV1_init (write_AesGcmV1 x @ rest) = Ok (x, rest)"
  by (simp add: thrift_rt write_AesGcmV1_def read_AesGcmV1_def AesGcmV1_case_def AesGcmV1_init_def w_struct_def read_struct_def)

lemma rt_AesGcmCtrV1 [thrift_rt]:
  "read_AesGcmCtrV1 skip AesGcmCtrV1_init (write_AesGcmCtrV1 x @ rest) = Ok (x, rest)"
  by (simp add: thrift_rt write_AesGcmCtrV1_def read_AesGcmCtrV1_def AesGcmCtrV1_case_def AesGcmCtrV1_init_def w_struct_def read_struct_def)

lemma rt_EncryptionAlgorithm [thrift_rt]:
  "read_EncryptionAlgorithm skip EncryptionAlgorithm_init (write_EncryptionAlgorithm x @ rest) = Ok (x, rest)"
  by (simp add: thrift_rt write_EncryptionAlgorithm_def read_EncryptionAlgorithm_def EncryptionAlgorithm_case_def EncryptionAlgorithm_init_def w_struct_def read_struct_def)

lemma rt_FileMetaData [thrift_rt]:
  "short_FileMetaData x \<Longrightarrow> read_FileMetaData skip FileMetaData_init (write_FileMetaData x @ rest) = Ok (x, rest)"
  by (simp add: thrift_rt write_FileMetaData_def read_FileMetaData_def FileMetaData_case_def FileMetaData_init_def w_struct_def read_struct_def short_FileMetaData_def list_all_iff)

lemma rt_FileCryptoMetaData [thrift_rt]:
  "read_FileCryptoMetaData skip FileCryptoMetaData_init (write_FileCryptoMetaData x @ rest) = Ok (x, rest)"
  by (simp add: thrift_rt write_FileCryptoMetaData_def read_FileCryptoMetaData_def FileCryptoMetaData_case_def FileCryptoMetaData_init_def w_struct_def read_struct_def)

text \<open>The two objects that a Parquet file holds.\<close>

interpretation footer: metadata_object write_FileMetaData "read_FileMetaData skip FileMetaData_init"
    short_FileMetaData for skip
  by unfold_locales (rule rt_FileMetaData)

interpretation page: metadata_object write_PageHeader "read_PageHeader skip PageHeader_init" flagged_PageHeader
    for skip
  by unfold_locales (simp add: rt_PageHeader filled_flagged)

section \<open>Properties\<close>

text \<open>
  C36: What is written of the metadata of a file is read back as it was, whatever follows, and
  nothing of what follows is consumed. The same holds for the header of a page, except that a header
  of a second-format data page that was written without the flag \<open>is_compressed\<close> is read with the
  flag set, its default; it comes back as it was exactly if it has the flag. So no written metadata is
  the beginning of any other, nor is a page header with the flag.
\<close>

theorem metadata_round_trip:
  assumes "short_FileMetaData md" "short_FileMetaData md'"
  shows "read_FileMetaData skip FileMetaData_init (write_FileMetaData md @ rest) = Ok (md, rest) \<and>
    read_PageHeader skip PageHeader_init (write_PageHeader ph @ rest) = Ok (filled_PageHeader ph, rest) \<and>
    (filled_PageHeader ph = ph \<longleftrightarrow> flagged_PageHeader ph) \<and>
    (write_FileMetaData md @ rest = write_FileMetaData md' @ rest' \<longleftrightarrow> md = md' \<and> rest = rest') \<and>
    (flagged_PageHeader ph \<and> flagged_PageHeader ph' \<longrightarrow>
      (write_PageHeader ph @ rest = write_PageHeader ph' @ rest' \<longleftrightarrow> ph = ph' \<and> rest = rest'))"
  using footer.round_trip [OF assms(1)] rt_PageHeader filled_flagged footer.prefix_free [OF assms] page.prefix_free
  by blast

theorem metadata_round_trip_witness:
  "read_FileMetaData (\<lambda>ty ts. Error ProtocolError) FileMetaData_init
     (write_FileMetaData (FileMetaData_init\<lparr>FileMetaData_version := 2, FileMetaData_num_rows := 7\<rparr>) @ [VBool True]) =
   Ok (FileMetaData_init\<lparr>FileMetaData_version := 2, FileMetaData_num_rows := 7\<rparr>, [VBool True]) \<and>
   (write_PageHeader PageHeader_init @ [VBool True] = write_PageHeader PageHeader_init @ [VBool False]) = False"
  using metadata_round_trip [of "FileMetaData_init\<lparr>FileMetaData_version := 2, FileMetaData_num_rows := 7\<rparr>"
      FileMetaData_init "\<lambda>ty ts. Error ProtocolError" "[VBool True]" PageHeader_init "[VBool False]" PageHeader_init]
  by (simp add: short_FileMetaData_def FileMetaData_init_def short_list_def flagged_PageHeader_def PageHeader_init_def)

text \<open>
  C37: Metadata of a newer version of the format can be read: a field with a number that the reader does
  not know is passed over, if the library's \<open>skip\<close> passes over its value, and the known fields are
  read as before.
\<close>

theorem newer_metadata_readable:
  assumes "short_FileMetaData md" and "9 < fid"
    and "\<And>rest. skip ty (w x @ FieldEnd # rest) = Ok (FieldEnd # rest)"
  shows "read_FileMetaData skip FileMetaData_init
      (butlast (butlast (write_FileMetaData md)) @ w_field nm ty fid w x @ [FieldStop, StructEnd] @ rest) = Ok (md, rest)"
proof -
  have "FileMetaData_case skip fid ty = None" using assms(2) by (simp add: FileMetaData_case_def)
  note unknown = read_fields_unknown [where fld = "FileMetaData_case skip" and skip = skip and w = w and x = x and nm = nm, OF this assms(3)]
  show ?thesis using assms(1)
    by (simp add: thrift_rt unknown write_FileMetaData_def read_FileMetaData_def FileMetaData_case_def FileMetaData_init_def
        w_struct_def read_struct_def short_FileMetaData_def list_all_iff butlast_append)
qed

theorem newer_metadata_readable_witness:
  "read_FileMetaData (\<lambda>ty ts. Ok (tl ts)) FileMetaData_init
     (butlast (butlast (write_FileMetaData FileMetaData_init)) @
      w_field ''new'' T_I32 20 w_i32 5 @ [FieldStop, StructEnd] @ [VBool True]) = Ok (FileMetaData_init, [VBool True])"
  by (rule newer_metadata_readable) (simp_all add: short_FileMetaData_def FileMetaData_init_def short_list_def w_i32_def)

text \<open>
  C38: Metadata without a required field is rejected: without the version, the first field of the
  footer, the read function throws.
\<close>

theorem required_field_missing:
  assumes "short_FileMetaData md"
  shows "read_FileMetaData skip FileMetaData_init
      (hd (write_FileMetaData md) # drop 4 (write_FileMetaData md) @ rest) = Error ProtocolError"
  using assms
  by (simp add: thrift_rt write_FileMetaData_def read_FileMetaData_def FileMetaData_case_def FileMetaData_init_def
        w_struct_def read_struct_def short_FileMetaData_def list_all_iff w_field_def [of "''version''"] w_i32_def [of "FileMetaData_version md"])

theorem required_field_missing_witness:
  "read_FileMetaData (\<lambda>ty ts. Error ProtocolError) FileMetaData_init
     (hd (write_FileMetaData FileMetaData_init) # drop 4 (write_FileMetaData FileMetaData_init) @ []) =
   Error ProtocolError"
  by (rule required_field_missing) (simp add: short_FileMetaData_def FileMetaData_init_def short_list_def)

end
