(* ===== verification/Parquet_File.thy ===== *)
theory Parquet_File
  imports Parquet_Map Parquet_Read
begin

text \<open>
  What the maps of theory \<open>Parquet_Map\<close> are read as: the bytes of a Parquet file over array
  data, and a reader of that format, written from the format's description, which recovers the
  metadata, the pages and the data.
\<close>

section \<open>The bytes of the file\<close>

fun pages_content :: "(block \<Rightarrow> byte list) \<Rightarrow> byte list \<Rightarrow> nat \<Rightarrow> block list \<Rightarrow> byte list" where
  "pages_content h data off [] = []"
| "pages_content h data off (b # bs) =
     h b @ bytes_at off (unat (fst b)) data @ pages_content h data (off + unat (fst b)) bs"

definition parquet_content :: "(block \<Rightarrow> byte list) \<Rightarrow> byte list \<Rightarrow> block list \<Rightarrow> byte list \<Rightarrow> byte list" where
  "parquet_content h foot bs data =
     PAR1 @ pages_content h data 0 bs @ foot @ le_bytes 4 (length foot) @ PAR1"

lemma length_PAR1 [simp]: "length PAR1 = 4"
  by (simp add: PAR1_def)

lemma pages_content_regions:
  "off + data_size bs < 2 ^ 64 \<Longrightarrow> regions_content data (page_regions h off bs) = pages_content h data off bs"
proof (induction bs arbitrary: off)
  case (Cons b bs)
  then have "unat (word_of_nat off :: u64) = off" by (intro unat_of_nat_u64) simp
  with Cons show ?case by (simp add: add.assoc)
qed simp

lemma length_pages_content:
  "off + data_size bs \<le> length data \<Longrightarrow> length (pages_content h data off bs) = chunk_compressed_size h bs"
  by (induction bs arbitrary: off) auto

lemma page_regions_inside:
  "off + data_size bs \<le> length data \<Longrightarrow> length data < 2 ^ 64 \<Longrightarrow>
   list_all (region_inside data) (page_regions h off bs)"
proof (induction bs arbitrary: off)
  case (Cons b bs)
  then have "unat (word_of_nat off :: u64) = off" by (intro unat_of_nat_u64) simp
  with Cons show ?case by simp
qed simp

text \<open>
  When a layout is sound: the data is there, all sizes are below the limits of the format and of
  the address space.
\<close>

definition layout_ok :: "(block \<Rightarrow> byte list) \<Rightarrow> byte list \<Rightarrow> block list \<Rightarrow> byte list \<Rightarrow> bool" where
  "layout_ok h foot bs data \<longleftrightarrow>
     data_size bs \<le> length data \<and> length data < 2 ^ 63 \<and> length bs < 2 ^ 58 \<and>
     length foot < 2 ^ 32 \<and> chunk_compressed_size h bs < 2 ^ 63"

lemma unat_of_nat_u32: "n < 2 ^ 32 \<Longrightarrow> unat (word_of_nat n :: u32) = n"
  by (simp add: unat_of_nat take_bit_nat_eq_self)

lemma parquet_regions_ok:
  assumes "layout_ok h foot bs data"
  shows "regions_ok data (parquet_regions h foot bs)"
  using assms page_regions_inside [of 0 bs data h]
  by (simp add: regions_ok_def layout_ok_def parquet_regions_def page_regions_size length_page_regions)

lemma parquet_regions_content:
  assumes "layout_ok h foot bs data"
  shows "regions_content data (parquet_regions h foot bs) = parquet_content h foot bs data"
  using assms pages_content_regions [of 0 bs data h]
  by (simp add: layout_ok_def parquet_regions_def parquet_content_def unat_of_nat_u32)

lemma length_parquet_content:
  "data_size bs \<le> length data \<Longrightarrow>
   length (parquet_content h foot bs data) = chunk_compressed_size h bs + length foot + 12"
  by (simp add: parquet_content_def length_pages_content)

section \<open>A Parquet reader\<close>

text \<open>
  A decoder takes the tokens of one value off the front of the bytes and gives the rest.
\<close>

type_synonym decoder = "byte list \<Rightarrow> (tok list \<times> byte list) option"

definition decodes :: "decoder \<Rightarrow> (tok list \<Rightarrow> byte list) \<Rightarrow> tok list \<Rightarrow> bool" where
  "decodes dec enc ts \<longleftrightarrow> (\<forall>rest. dec (enc ts @ rest) = Some (ts, rest))"

text \<open>
  The footer: magic bytes at both ends, the length of the footer before the last four bytes.
\<close>

definition read_footer :: "decoder \<Rightarrow> skip \<Rightarrow> byte list \<Rightarrow> FileMetaData option" where
  "read_footer dec skip file =
     (let n = length file; len = le_nat (bytes_at (n - 8) 4 file)
      in if n < 12 \<or> take 4 file \<noteq> PAR1 \<or> bytes_at (n - 4) 4 file \<noteq> PAR1 \<or> n < len + 12 then None
         else case dec (bytes_at (n - 8 - len) len file) of
                Some (ts, []) \<Rightarrow>
                  (case read_FileMetaData skip FileMetaData_init ts of
                     Ok (md, []) \<Rightarrow> Some md | _ \<Rightarrow> None)
              | _ \<Rightarrow> None)"

text \<open>Pages one after the other, to the end of the bytes; \<open>n\<close> bounds their number.\<close>

fun read_pages :: "decoder \<Rightarrow> skip \<Rightarrow> nat \<Rightarrow> byte list \<Rightarrow> (PageHeader \<times> byte list) list option" where
  "read_pages dec skip n [] = Some []"
| "read_pages dec skip 0 (x # xs) = None"
| "read_pages dec skip (Suc n) (x # xs) =
     (case dec (x # xs) of
        None \<Rightarrow> None
      | Some (ts, rest) \<Rightarrow>
          (case read_PageHeader skip PageHeader_init ts of
             Ok (ph, []) \<Rightarrow>
               (let sz = unat (PageHeader_compressed_page_size ph)
                in if length rest < sz then None
                   else map_option (\<lambda>ps. (ph, take sz rest) # ps)
                          (read_pages dec skip n (drop sz rest)))
           | _ \<Rightarrow> None))"

text \<open>The only column of the only row group.\<close>

definition the_column :: "FileMetaData \<Rightarrow> ColumnMetaData option" where
  "the_column md =
     (case FileMetaData_row_groups md of
        [rg] \<Rightarrow> (case RowGroup_columns rg of [c] \<Rightarrow> ColumnChunk_meta_data c | _ \<Rightarrow> None)
      | _ \<Rightarrow> None)"

definition read_parquet ::
  "decoder \<Rightarrow> skip \<Rightarrow> byte list \<Rightarrow> (FileMetaData \<times> (PageHeader \<times> byte list) list) option" where
  "read_parquet dec skip file =
     (case read_footer dec skip file of
        None \<Rightarrow> None
      | Some md \<Rightarrow>
          (case the_column md of
             None \<Rightarrow> None
           | Some c \<Rightarrow>
               map_option (Pair md) (read_pages dec skip (length file)
                 (bytes_at (unat (ColumnMetaData_data_page_offset c))
                    (unat (ColumnMetaData_total_compressed_size c)) file))))"

section \<open>The reader recovers what was written\<close>

text \<open>The pages of the blocks: each header with its share of the data.\<close>

fun pages_of :: "nat \<Rightarrow> bool \<Rightarrow> byte list \<Rightarrow> nat \<Rightarrow> block list \<Rightarrow> (PageHeader \<times> byte list) list" where
  "pages_of v cmp data off [] = []"
| "pages_of v cmp data off (b # bs) =
     (data_page_v2 v (fst b) (snd b) cmp, bytes_at off (unat (fst b)) data) #
     pages_of v cmp data (off + unat (fst b)) bs"

text \<open>The pages are a partition of the data.\<close>

lemma pages_of_data:
  "concat (map snd (pages_of v cmp data off bs)) = bytes_at off (data_size bs) data"
  by (induction bs arbitrary: off) (simp_all add: bytes_at_add)

lemma data_page_size [simp]:
  "PageHeader_compressed_page_size (data_page_v2 v c u cmp) = c"
  "PageHeader_uncompressed_page_size (data_page_v2 v c u cmp) = u"
  by (simp_all add: data_page_v2_def Let_def)

lemma data_page_flagged [simp]: "flagged_PageHeader (data_page_v2 v c u cmp)"
  by (simp add: flagged_PageHeader_def data_page_v2_def DataPageHeaderV2_init_def Let_def del: not_None_eq)

lemma read_pages_nonempty:
  "bs \<noteq> [] \<Longrightarrow> read_pages dec skip (Suc n) bs =
     (case dec bs of
        None \<Rightarrow> None
      | Some (ts, rest) \<Rightarrow>
          (case read_PageHeader skip PageHeader_init ts of
             Ok (ph, []) \<Rightarrow>
               (let sz = unat (PageHeader_compressed_page_size ph)
                in if length rest < sz then None
                   else map_option (\<lambda>ps. (ph, take sz rest) # ps)
                          (read_pages dec skip n (drop sz rest)))
           | _ \<Rightarrow> None))"
  by (cases bs) simp_all

lemma read_pages_content:
  assumes "\<forall>b\<in>set bs. decodes dec enc (write_PageHeader (data_page_v2 v (fst b) (snd b) cmp))"
    and "h = page_header enc v cmp" and "\<forall>b\<in>set bs. h b \<noteq> []"
    and "off + data_size bs \<le> length data" and "length bs \<le> n"
  shows "read_pages dec skip n (pages_content h data off bs) = Some (pages_of v cmp data off bs)"
  using assms
proof (induction bs arbitrary: off n)
  case (Cons b bs)
  then obtain m where m: "n = Suc m" "length bs \<le> m" by (cases n) auto
  let ?rest = "bytes_at off (unat (fst b)) data @ pages_content h data (off + unat (fst b)) bs"
  have "dec (h b @ ?rest) = Some (write_PageHeader (data_page_v2 v (fst b) (snd b) cmp), ?rest)"
    using Cons.prems(1,2) by (simp add: decodes_def page_header_def)
  moreover have "length (bytes_at off (unat (fst b)) data) = unat (fst b)"
    using Cons.prems(4) by simp
  moreover have "h b @ ?rest \<noteq> []" using Cons.prems(3) by simp
  moreover have "read_pages dec skip m (pages_content h data (off + unat (fst b)) bs) =
      Some (pages_of v cmp data (off + unat (fst b)) bs)"
    using Cons.prems m by (intro Cons.IH) auto
  ultimately show ?case
    by (simp add: m(1) read_pages_nonempty page.read_alone Let_def del: length_bytes_at)
qed simp

lemma footer_position:
  assumes "length foot < 2 ^ 32" and fl: "file = PAR1 @ body @ foot @ le_bytes 4 (length foot) @ PAR1"
  shows "bytes_at (length file - 4) 4 file = PAR1"
    and "le_nat (bytes_at (length file - 8) 4 file) = length foot"
    and "bytes_at (length file - 8 - length foot) (length foot) file = foot"
proof -
  have len: "length file = length body + length foot + 12" by (simp add: fl)
  show "bytes_at (length file - 4) 4 file = PAR1"
    unfolding len by (simp add: fl bytes_at_def)
  have "bytes_at (length file - 8) 4 file = le_bytes 4 (length foot)"
    unfolding len by (simp add: fl bytes_at_def)
  then show "le_nat (bytes_at (length file - 8) 4 file) = length foot"
    using assms(1) by (simp add: le_nat_le_bytes)
  show "bytes_at (length file - 8 - length foot) (length foot) file = foot"
    unfolding len by (simp add: fl bytes_at_def)
qed

lemma read_footer_content:
  assumes foot: "foot = enc (write_FileMetaData md)" "length foot < 2 ^ 32"
    and dec: "decodes dec enc (write_FileMetaData md)" and short: "short_FileMetaData md"
  shows "read_footer dec skip (PAR1 @ body @ foot @ le_bytes 4 (length foot) @ PAR1) = Some md"
proof -
  have "dec foot = Some (write_FileMetaData md, [])"
    using dec foot(1) by (auto simp: decodes_def dest: spec [of _ "[]"])
  moreover have "read_FileMetaData skip FileMetaData_init (write_FileMetaData md) = Ok (md, [])"
    using short by (rule footer.read_alone)
  ultimately show ?thesis
    using footer_position [OF foot(2) refl, of body]
    by (simp add: read_footer_def Let_def)
qed

lemma footer_short: "short_FileMetaData (footer_meta_data h v name t conv codec bs)"
  by (simp add: short_FileMetaData_def footer_meta_data_def file_meta_data_def column_schema_def
      short_RowGroup_def short_ColumnChunk_def short_ColumnMetaData_def column_meta_data_def
      FileMetaData_init_def RowGroup_init_def ColumnChunk_init_def ColumnMetaData_init_def
      short_list_def Let_def)

lemma footer_column:
  "the_column (footer_meta_data h v name t conv codec bs) =
     Some (column_meta_data name t codec (word_of_nat (chunk_compressed_size h bs))
       (word_of_nat (chunk_uncompressed_size h bs)) (word_of_nat (value_count v bs)))"
  by (simp add: the_column_def footer_meta_data_def file_meta_data_def Let_def
      FileMetaData_init_def RowGroup_init_def ColumnChunk_init_def)

lemma length_blocks_le: "\<forall>b\<in>set bs. h b \<noteq> [] \<Longrightarrow> length bs \<le> chunk_compressed_size h bs"
proof (induction bs)
  case (Cons b bs)
  then have "length bs \<le> chunk_compressed_size h bs" and "1 \<le> length (h b)"
    by (simp_all add: Suc_le_eq)
  then show ?case by (simp del: One_nat_def)
qed simp

lemma read_parquet_content:
  assumes ok: "layout_ok h foot bs data" and h: "h = page_header enc v cmp"
    and foot: "foot = enc (write_FileMetaData md)" "md = footer_meta_data h v name t conv codec bs"
    and dec: "\<forall>b\<in>set bs. decodes dec enc (write_PageHeader (data_page_v2 v (fst b) (snd b) cmp))"
      "decodes dec enc (write_FileMetaData md)"
    and ne: "\<forall>b\<in>set bs. h b \<noteq> []"
  shows "read_parquet dec skip (parquet_content h foot bs data) =
           Some (md, pages_of v cmp data 0 bs)"
proof -
  let ?file = "parquet_content h foot bs data"
  have lim: "data_size bs \<le> length data" "chunk_compressed_size h bs < 2 ^ 63" "length foot < 2 ^ 32"
    using ok by (simp_all add: layout_ok_def)
  have md: "read_footer dec skip ?file = Some md"
    unfolding parquet_content_def
    using foot dec(2) lim(3) footer_short by (intro read_footer_content) auto
  have col: "the_column md = Some (column_meta_data name t codec (word_of_nat (chunk_compressed_size h bs))
       (word_of_nat (chunk_uncompressed_size h bs)) (word_of_nat (value_count v bs)))"
    unfolding foot(2) by (rule footer_column)
  have sz: "unat (word_of_nat (chunk_compressed_size h bs) :: u64) = chunk_compressed_size h bs"
    using lim(2) by (intro unat_of_nat_u64) simp
  have len: "length (pages_content h data 0 bs) = chunk_compressed_size h bs"
    using lim(1) by (simp add: length_pages_content)
  then have "bytes_at 4 (chunk_compressed_size h bs) ?file = pages_content h data 0 bs"
    by (simp add: parquet_content_def bytes_at_def)
  moreover have "length bs \<le> chunk_compressed_size h bs"
    using ne by (rule length_blocks_le)
  then have "read_pages dec skip (length ?file) (pages_content h data 0 bs) = Some (pages_of v cmp data 0 bs)"
    using dec(1) h ne lim(1) by (intro read_pages_content) (auto simp: length_parquet_content)
  ultimately show ?thesis
    by (simp add: read_parquet_def md col column_meta_data_def ColumnMetaData_init_def sz)
qed

text \<open>The pages, one by one.\<close>

fun cut :: "nat list \<Rightarrow> 'a list \<Rightarrow> 'a list list" where
  "cut [] xs = []"
| "cut (n # ns) xs = take n xs # cut ns (drop n xs)"

lemma pages_of_cut:
  "map snd (pages_of v cmp data off bs) = cut (map (\<lambda>b. unat (fst b)) bs) (drop off data)"
  by (induction bs arbitrary: off) (simp_all add: bytes_at_def add.commute)

lemma pages_of_sizes:
  "map (\<lambda>p. unat (PageHeader_compressed_page_size (fst p))) (pages_of v cmp data off bs) =
     map (\<lambda>b. unat (fst b)) bs"
  "map (\<lambda>p. unat (PageHeader_uncompressed_page_size (fst p))) (pages_of v cmp data off bs) =
     map (\<lambda>b. unat (snd b)) bs"
  by (induction bs arbitrary: off) simp_all

end
