(* ===== verification/Vtk_Array.thy ===== *)
theory Vtk_Array
  imports Parser Parquet_File
begin

text \<open>
  One data array from end to end: stored in the appended data section of a VTK file, raw or
  base64-encoded, compressed or not, with 32-bit or 64-bit header fields, it becomes a map whose
  virtual file is a Parquet file of the array's data.
\<close>

section \<open>How VTK stores an array\<close>

text \<open>
  A header and the data after it. Raw bytes follow each other; in base64, header and data are
  encoded one after the other, each padded to whole groups of four characters.
\<close>

definition group_chars :: "nat \<Rightarrow> nat" where
  "group_chars n = 4 * ((n + 2) div 3)"

definition b64_stored :: "decode_triplet \<Rightarrow> byte list \<Rightarrow> u64 \<Rightarrow> byte list \<Rightarrow> bool" where
  "b64_stored dt content off bs \<longleftrightarrow>
     (let cs = bytes_at (unat off) (group_chars (length bs)) content
      in b64_stream_at dt off content cs \<and> length cs = group_chars (length bs) \<and> b64_decode dt cs = bs)"

definition stored :: "decode_triplet \<Rightarrow> bool \<Rightarrow> byte list \<Rightarrow> u64 \<Rightarrow> byte list \<Rightarrow> byte list \<Rightarrow> bool" where
  "stored dt base64 content off hdr data \<longleftrightarrow>
     length content < 2 ^ 63 \<and>
     (if base64
      then b64_stored dt content off hdr \<and>
           b64_stored dt content (off + word_of_nat (group_chars (length hdr))) data
      else unat off + length hdr + length data \<le> length content \<and>
           bytes_at (unat off) (length hdr + length data) content = hdr @ data)"

lemma raf_prefix:
  assumes "random_access_file P c" and "bytes_at 0 (length bs) c = bs"
  shows "random_access_file P bs"
proof unfold_locales
  fix off sz :: u64
  assume le: "unat off + unat sz \<le> length bs"
  have "length bs \<le> length c"
    using arg_cong [OF assms(2), of length] by simp
  moreover have "bytes_at (unat off) (unat sz) bs = bytes_at (unat off) (unat sz) c"
    using le bytes_at_bytes_at [of "unat off" "unat sz" "length bs" 0 c] assms(2) by simp
  ultimately show "P sz off = Ok (Some (bytes_at (unat off) (unat sz) bs))"
    using random_access_file.pread_within [OF assms(1)] le by simp
qed

lemma stored_parts:
  assumes "stored dt False content off hdr data"
  shows "bytes_at 0 (length hdr) (drop (unat off) content) = hdr"
    and "bytes_at 0 (length data) (drop (unat off + length hdr) content) = data"
    and "unat off + length hdr + length data \<le> length content"
proof -
  have eq: "bytes_at (unat off) (length hdr) content @ bytes_at (unat off + length hdr) (length data) content
      = hdr @ data"
    and le: "unat off + length hdr + length data \<le> length content"
    using assms by (simp_all add: stored_def bytes_at_add)
  then have "length (bytes_at (unat off) (length hdr) content) = length hdr" by simp
  then have "bytes_at (unat off) (length hdr) content = hdr"
    "bytes_at (unat off + length hdr) (length data) content = data"
    using eq append_eq_append_conv [of "bytes_at (unat off) (length hdr) content" hdr] by auto
  with le show "bytes_at 0 (length hdr) (drop (unat off) content) = hdr"
    "bytes_at 0 (length data) (drop (unat off + length hdr) content) = data"
    "unat off + length hdr + length data \<le> length content"
    by (simp_all add: bytes_at_drop)
qed

lemma raw_view:
  assumes "random_access_file base content" and "unat off + k \<le> length content"
    and "length content < 2 ^ 63" and "bytes_at 0 (length bs) (drop (unat off + k) content) = bs"
  shows "random_access_file
     (OffsettedRandomAccessFile_Pread \<lparr>oraf_base = base, oraf_base_offset = off + word_of_nat k\<rparr>) bs"
proof -
  have "unat (word_of_nat k :: u64) = k" using assms(2,3) by (intro unat_of_nat_u64) simp
  then have o: "unat (off + word_of_nat k) = unat off + k"
    using assms(2,3) by (subst unat_add_u64) simp_all
  show ?thesis
  proof (rule raf_prefix)
    show "random_access_file (OffsettedRandomAccessFile_Pread
        \<lparr>oraf_base = base, oraf_base_offset = off + word_of_nat k\<rparr>) (drop (unat (off + word_of_nat k)) content)"
      using assms(2,3) o by (intro offsetted_raf [OF assms(1)]) simp_all
    show "bytes_at 0 (length bs) (drop (unat (off + word_of_nat k)) content) = bs"
      unfolding o by (rule assms(4))
  qed
qed

lemma b64_view:
  assumes "random_access_file base content" and "b64_stored dt content off bs"
  shows "random_access_file (Base64Reader_Pread dt \<lparr>b64_base = base, b64_start = off\<rparr>) bs"
  using Base64Reader_raf [of "\<lparr>b64_base = base, b64_start = off\<rparr>" content dt
      "bytes_at (unat off) (group_chars (length bs)) content"] assms
  by (simp add: b64_stored_def Let_def)

text \<open>The header reader and the data view of a map read the stored header and data.\<close>

lemma stored_header_view:
  assumes "stored dt base64 content off hdr data" and raf: "random_access_file base content"
  shows "random_access_file (NewArrayHeaderReader dt base off base64) hdr"
proof (cases base64)
  case True
  with assms(1) have "b64_stored dt content off hdr" by (simp add: stored_def)
  then show ?thesis
    using b64_view [OF raf] True by (simp add: NewArrayHeaderReader_def)
next
  case False
  with assms(1) have st: "stored dt False content off hdr data" by simp
  have "length content < 2 ^ 63" using st by (simp add: stored_def)
  then show ?thesis
    using raw_view [OF raf, of off 0 hdr] stored_parts [OF st] False
    by (simp add: NewArrayHeaderReader_def)
qed

lemma array_data_start_stored:
  assumes "length hdr < 2 ^ 62"
  shows "array_data_start base64 off (word_of_nat (length hdr)) =
    off + word_of_nat (if base64 then group_chars (length hdr) else length hdr)"
proof -
  have "unat (word_of_nat (length hdr) + 2 :: u64) = length hdr + 2"
    using assms unat_of_nat_u64 [of "length hdr + 2"] by (simp add: add.commute)
  then have "unat ((word_of_nat (length hdr) + 2 :: u64) div 3) = (length hdr + 2) div 3"
    by (simp add: unat_div)
  moreover have "unat (word_of_nat ((length hdr + 2) div 3) :: u64) = (length hdr + 2) div 3"
    using assms by (intro unat_of_nat_u64) simp
  ultimately have "(word_of_nat (length hdr) + 2 :: u64) div 3 = word_of_nat ((length hdr + 2) div 3)"
    by (simp add: word_unat_eq_iff)
  then show ?thesis by (simp add: array_data_start_def group_chars_def)
qed

lemma stored_data_view:
  assumes st: "stored dt base64 content off hdr data" and raf: "random_access_file base content"
    and m: "fm_pending_base64_decoding m = base64"
      "fm_data_start m = off + word_of_nat (if base64 then group_chars (length hdr) else length hdr)"
  shows "random_access_file (data_view dt m base) data"
proof (cases base64)
  case True
  with st have "b64_stored dt content (off + word_of_nat (group_chars (length hdr))) data"
    by (simp add: stored_def)
  then show ?thesis
    using b64_view [OF raf] True m by (simp add: data_view_def)
next
  case False
  with st have st: "stored dt False content off hdr data" by simp
  have "length content < 2 ^ 63" using st by (simp add: stored_def)
  then show ?thesis
    using raw_view [OF raf, of off "length hdr" data] stored_parts [OF st] False m
    by (simp add: data_view_def)
qed

lemma stored_bounds:
  assumes "stored dt base64 content off hdr data"
  shows "length hdr < 2 ^ 63" and "length data < 2 ^ 63"
proof -
  have c: "length content < 2 ^ 63" using assms by (simp add: stored_def)
  have b64: "length bs < 2 ^ 63" if "b64_stored dt content o' bs" for bs o'
  proof -
    let ?cs = "bytes_at (unat o') (group_chars (length bs)) content"
    have "b64_whole dt ?cs" "b64_decode dt ?cs = bs" "unat o' + length ?cs \<le> length content"
      using that by (simp_all add: b64_stored_def b64_stream_at_def Let_def)
    with length_b64_decode_le [of dt ?cs] c show ?thesis by simp
  qed
  show "length hdr < 2 ^ 63" "length data < 2 ^ 63"
    using assms c b64 by (cases base64; auto simp: stored_def)+
qed

section \<open>Uncompressed arrays\<close>

text \<open>The width of a header field in bytes.\<close>

definition field_width :: "DataType \<Rightarrow> nat" where
  "field_width header_type = (if header_type = UINT32 then 4 else 8)"

definition small_headers :: "(block \<Rightarrow> byte list) \<Rightarrow> bool" where
  "small_headers h \<longleftrightarrow> (\<forall>b. length (h b) < 2 ^ 16)"

lemma small_header:
  assumes "small_headers h"
  shows "length (h b) < 2 ^ 16" and "length (h b) < 2 ^ 32"
proof -
  show "length (h b) < 2 ^ 16" using assms unfolding small_headers_def by (rule spec)
  then show "length (h b) < 2 ^ 32" by simp
qed

lemma parse_uncompressed_header:
  assumes "random_access_file view (le_bytes (field_width ht) n)" and "n < 256 ^ field_width ht"
  shows "(if ht = UINT32 then ParseUncompressed32 view 0 else ParseUncompressed64 view 0) =
    Ok \<lparr>ua_total_bytes = word_of_nat n, ua_data_start = word_of_nat (field_width ht)\<rparr>"
  using ParseUncompressed32_reads [of view "le_bytes 4 n" 0 n]
    ParseUncompressed64_reads [of view "le_bytes 8 n" 0 n] assms
    bytes_at_all [of "le_bytes 4 n"] bytes_at_all [of "le_bytes 8 n"]
  by (auto simp: field_width_def split: if_split_asm)

lemma data_size_replicate [simp]: "data_size (replicate n b) = n * unat (fst b)"
  by (induction n) simp_all

lemma uncompressed_blocks_size:
  assumes "0 < unat t" and "unat t < 2 ^ 46"
  shows "data_size (uncompressed_blocks t) = unat t"
    and "length (uncompressed_blocks t) \<le> 2 ^ 31"
proof -
  let ?l = "(unat t - 1) mod 32768 + 1"
  have u: "unat (ucast (last_blk_sz t) :: u32) = ?l"
    using uncompressed_block_count(2) [OF assms]
    by (simp add: unsigned_ucast_eq take_bit_nat_eq_self)
  have "unat (ucast blk_sz :: u32) = 32768" by (simp add: blk_sz_def)
  then show "data_size (uncompressed_blocks t) = unat t"
    using u uncompressed_block_count(1) [OF assms] assms(1) by (simp add: uncompressed_blocks_def)
  show "length (uncompressed_blocks t) \<le> 2 ^ 31"
    using uncompressed_block_count(1) [OF assms] assms by (simp add: uncompressed_blocks_def)
qed

lemma small_chunk:
  "small_headers h \<Longrightarrow> chunk_compressed_size h bs \<le> 2 ^ 16 * length bs + data_size bs"
proof (induction bs)
  case (Cons b bs)
  with small_header(1) [OF Cons.prems, of b] show ?case by simp
qed simp

lemma layout_small:
  assumes "small_headers h" and "length bs \<le> 2 ^ 31" and "data_size bs \<le> length data"
    and "length data < 2 ^ 62" and "length foot < 2 ^ 32"
  shows "layout_ok h foot bs data"
  using small_chunk [OF assms(1), of bs] assms(2-) by (simp add: layout_ok_def)

text \<open>
  The regions of the map and the view of its data, for an array of \<open>data\<close> stored at \<open>off\<close>.
\<close>

definition array_map ::
  "decode_triplet \<Rightarrow> pread \<Rightarrow> FileMap \<Rightarrow> (block \<Rightarrow> byte list) \<Rightarrow> byte list \<Rightarrow> block list \<Rightarrow> byte list \<Rightarrow> bool"
where
  "array_map dt base m h foot bs data \<longleftrightarrow>
     maps_regions m (parquet_regions h foot bs) \<and>
     random_access_file (data_view dt m base) data \<and>
     layout_ok h foot bs data"

lemma ParseAppendedArray_uncompressed:
  assumes raf: "random_access_file base content"
    and st: "stored dt (enc_type = BASE64) content off (le_bytes (field_width ht) (length data)) data"
    and sz: "0 < length data" "length data < 2 ^ 46" "length data < 256 ^ field_width ht"
    and type: "GetValueSize type = Ok v" "ToParquetType type = Ok t"
      "ToParquetConvertedType type = Ok conv"
    and bs: "bs = uncompressed_blocks (word_of_nat (length data))"
    and h: "h = page_header enc v False" "small_headers h"
    and foot: "foot = enc (write_FileMetaData
                 (footer_meta_data h v name t conv CompressionCodec_UNCOMPRESSED bs))"
      "length foot < 2 ^ 32"
  shows "\<exists>m. ParseAppendedArray (\<lambda>ts. Some (enc ts)) dt base name type NONE enc_type ht off = Ok m \<and>
             array_map dt base m h foot bs data"
proof -
  let ?hdr = "le_bytes (field_width ht) (length data)"
  let ?view = "NewArrayHeaderReader dt base off (enc_type = BASE64)"
  have w: "length ?hdr = field_width ht" "length ?hdr < 2 ^ 62" by (simp_all add: field_width_def)
  have n: "unat (word_of_nat (length data) :: u64) = length data"
    using sz(2) by (intro unat_of_nat_u64) simp
  have hdr: "(if ht = UINT32 then ParseUncompressed32 ?view 0 else ParseUncompressed64 ?view 0) =
      Ok \<lparr>ua_total_bytes = word_of_nat (length data), ua_data_start = word_of_nat (length ?hdr)\<rparr>"
    unfolding w(1) by (rule parse_uncompressed_header [OF stored_header_view [OF st raf] sz(3)])
  define start where "start = array_data_start (enc_type = BASE64) off (word_of_nat (length ?hdr))"
  let ?arr = "\<lparr>ua_total_bytes = word_of_nat (length data) :: u64, ua_data_start = start\<rparr>"
  have "\<exists>m. BuildMap_uncompressed (\<lambda>ts. Some (enc ts)) name type (enc_type = BASE64) ?arr = Ok m \<and>
      maps_regions m (parquet_regions h foot (uncompressed_blocks (ua_total_bytes ?arr))) \<and>
      fm_pending_base64_decoding m = (enc_type = BASE64) \<and> fm_data_start m = ua_data_start ?arr"
  proof (rule BuildMap_uncompressed_regions [where enc = enc, OF type _ _ h(1)])
    show "list_all (\<lambda>b. length (h b) < 2 ^ 32) (uncompressed_blocks (ua_total_bytes ?arr))"
      "length (h (ucast blk_sz, ucast blk_sz)) < 2 ^ 32"
      using small_header(2) [OF h(2)] by (simp_all add: list_all_iff)
  qed (use sz n foot bs in simp_all)
  then obtain m where
    m: "BuildMap_uncompressed (\<lambda>ts. Some (enc ts)) name type (enc_type = BASE64) ?arr = Ok m"
      "maps_regions m (parquet_regions h foot bs)"
      "fm_pending_base64_decoding m = (enc_type = BASE64)" "fm_data_start m = start"
    using bs by auto
  have "random_access_file (data_view dt m base) data"
    using m(3,4) array_data_start_stored [OF w(2)] unfolding start_def
    by (intro stored_data_view [OF st raf]) simp_all
  moreover have "layout_ok h foot bs data"
    using uncompressed_blocks_size [of "word_of_nat (length data)"] n sz bs foot(2)
    by (intro layout_small [OF h(2)]) simp_all
  moreover have "ParseAppendedArray (\<lambda>ts. Some (enc ts)) dt base name type NONE enc_type ht off = Ok m"
    using hdr m(1) by (simp add: ParseAppendedArray_def Let_def start_def)
  ultimately show ?thesis using m(2) by (auto simp: array_map_def)
qed

section \<open>Compressed arrays\<close>

text \<open>The compressed and uncompressed sizes of the blocks: full blocks, and the last one.\<close>

definition vtk_blocks :: "nat \<Rightarrow> nat \<Rightarrow> nat list \<Rightarrow> block list" where
  "vtk_blocks blk lastblk szs =
     map2 (\<lambda>c u. (word_of_nat c, word_of_nat u)) szs (replicate (length szs - 1) blk @ [lastblk])"

definition parsed_compressed :: "nat \<Rightarrow> nat \<Rightarrow> nat list \<Rightarrow> u64 \<Rightarrow> CompressedArray" where
  "parsed_compressed blk lastblk szs start =
     \<lparr>ca_num_blks = word_of_nat (length szs), ca_blk_sz = word_of_nat blk,
      ca_last_blk_sz = word_of_nat lastblk, ca_compressed_blk_sz = map word_of_nat szs,
      ca_data_start = start\<rparr>"

lemma parsed_compressed_start [simp]:
  "ca_data_start (parsed_compressed blk lastblk szs start) = start"
  "parsed_compressed blk lastblk szs start\<lparr>ca_data_start := start'\<rparr> = parsed_compressed blk lastblk szs start'"
  by (simp_all add: parsed_compressed_def)

text \<open>Sizes that are in the range of the format and of \<open>int\<close>.\<close>

definition block_sizes_ok :: "nat \<Rightarrow> nat \<Rightarrow> nat list \<Rightarrow> bool" where
  "block_sizes_ok blk lastblk szs \<longleftrightarrow>
     szs \<noteq> [] \<and> length szs < 2 ^ 30 \<and> blk < 2 ^ 31 \<and> lastblk < 2 ^ 31 \<and> (\<forall>x\<in>set szs. x < 2 ^ 31)"

lemma parse_compressed_header:
  assumes raf: "random_access_file view (compressed_header (field_width ht) blk lastblk szs)"
    and sz: "length szs < 2 ^ 30" "blk < 2 ^ 31" "lastblk < 2 ^ 31" "\<forall>x\<in>set szs. x < 2 ^ 31"
  shows "(if ht = UINT32 then ParseCompressed32 view 0 else ParseCompressed64 view 0) =
    Ok (parsed_compressed blk lastblk szs
          (word_of_nat (length (compressed_header (field_width ht) blk lastblk szs))))"
proof -
  have lt: "x < 2 ^ 31 \<Longrightarrow> x < 2 ^ 32" "x < 2 ^ 31 \<Longrightarrow> x < 2 ^ 64" for x :: nat by simp_all
  have all: "\<forall>x\<in>set szs. x < 2 ^ 32" "\<forall>x\<in>set szs. x < 2 ^ 64"
    using sz(4) lt by blast+
  show ?thesis
  proof (cases "ht = UINT32")
    case True
    have "bytes_at (unat 0) (3 * 4 + 4 * length szs) (compressed_header 4 blk lastblk szs) =
        compressed_header 4 blk lastblk szs"
      using bytes_at_all [of "compressed_header 4 blk lastblk szs"]
      by (simp only: length_compressed_header unat_0)
    from ParseCompressed32_reads [of view, OF _ this] raf True sz all show ?thesis
      by (simp add: field_width_def parsed_compressed_def length_compressed_header)
  next
    case False
    have "bytes_at (unat 0) (3 * 8 + 8 * length szs) (compressed_header 8 blk lastblk szs) =
        compressed_header 8 blk lastblk szs"
      using bytes_at_all [of "compressed_header 8 blk lastblk szs"]
      by (simp only: length_compressed_header unat_0)
    from ParseCompressed64_reads [of view, OF _ this] raf False sz all show ?thesis
      by (simp add: field_width_def parsed_compressed_def length_compressed_header)
  qed
qed

lemma ucast_of_nat_u32: "n < 2 ^ 32 \<Longrightarrow> (ucast (word_of_nat n :: u64) :: u32) = word_of_nat n"
  by (simp add: unsigned_of_nat take_bit_nat_eq_self)

lemma compressed_blocks_vtk:
  assumes "block_sizes_ok blk lastblk szs"
  shows "compressed_blocks (parsed_compressed blk lastblk szs start) = vtk_blocks blk lastblk szs"
proof -
  have sz: "szs \<noteq> []" "length szs < 2 ^ 30" "blk < 2 ^ 31" "lastblk < 2 ^ 31" "\<forall>x\<in>set szs. x < 2 ^ 31"
    using assms by (simp_all add: block_sizes_ok_def)
  have n: "unat (word_of_nat (length szs) :: u64) = length szs"
    using sz(2) by (intro unat_of_nat_u64) simp
  have u: "(ucast (word_of_nat (szs ! i) :: u64) :: u32) = word_of_nat (szs ! i)" if "i < length szs" for i
  proof (rule ucast_of_nat_u32)
    have "szs ! i < 2 ^ 31" using sz(5) nth_mem [OF that] by blast
    then show "szs ! i < 2 ^ 32" by simp
  qed
  show ?thesis
  proof (rule nth_equalityI)
    fix i
    assume "i < length (compressed_blocks (parsed_compressed blk lastblk szs start))"
    then have i: "i < length szs" by (simp add: compressed_blocks_def parsed_compressed_def n)
    then show "compressed_blocks (parsed_compressed blk lastblk szs start) ! i = vtk_blocks blk lastblk szs ! i"
      using sz(1,3,4) u [OF i]
      by (auto simp: compressed_blocks_def parsed_compressed_def n vtk_blocks_def nth_append
          ucast_of_nat_u32)
  qed (use sz(1) in \<open>simp add: compressed_blocks_def parsed_compressed_def n vtk_blocks_def Suc_leI\<close>)
qed

lemma data_size_vtk:
  assumes "block_sizes_ok blk lastblk szs"
  shows "data_size (vtk_blocks blk lastblk szs) = sum_list szs"
proof -
  have "data_size (map2 (\<lambda>c u. (word_of_nat c, word_of_nat u)) xs us) = sum_list xs"
    if "length us = length xs" "\<forall>x\<in>set xs. x < 2 ^ 31" for xs us :: "nat list"
    using that by (induction xs us rule: list_induct2') (auto simp: unat_of_nat_u32)
  moreover have "szs \<noteq> []" "\<forall>x\<in>set szs. x < 2 ^ 31" using assms by (simp_all add: block_sizes_ok_def)
  ultimately show ?thesis by (simp add: vtk_blocks_def Suc_leI)
qed

lemma sum_list_bound: "\<forall>x\<in>set xs. x < b \<Longrightarrow> sum_list xs \<le> length xs * (b :: nat)"
  by (induction xs) (auto simp: add_mono)

lemma vtk_blocks_fit:
  assumes "block_sizes_ok blk lastblk szs" and "small_headers h"
  shows "list_all (block_fits h) (vtk_blocks blk lastblk szs)"
proof -
  have "unat (fst b) < 2 ^ 31 \<and> unat (snd b) < 2 ^ 31" if mem: "b \<in> set (vtk_blocks blk lastblk szs)" for b
  proof -
    have small: "unat (word_of_nat c :: u32) < 2 ^ 31" if "c < 2 ^ 31" for c
      using that unat_of_nat_u32 [of c] by simp
    obtain c u where b: "b = (word_of_nat c, word_of_nat u)"
      and "(c, u) \<in> set (zip szs (replicate (length szs - 1) blk @ [lastblk]))"
      using mem unfolding vtk_blocks_def by auto
    then have "c \<in> set szs" "u = blk \<or> u = lastblk"
      by (auto elim!: in_set_zipE split: if_split_asm)
    then have "c < 2 ^ 31" "u < 2 ^ 31" using assms(1) by (auto simp: block_sizes_ok_def)
    then show ?thesis using small unfolding b by simp
  qed
  then have "block_fits h b" if "b \<in> set (vtk_blocks blk lastblk szs)" for b
    using small_header(1) [OF assms(2), of b] that by (fastforce simp: block_fits_def)
  then show ?thesis by (simp add: list_all_iff)
qed

lemma ParseAppendedArray_compressed:
  assumes raf: "random_access_file base content"
    and st: "stored dt (enc_type = BASE64) content off
               (compressed_header (field_width ht) blk lastblk szs) data"
    and sz: "block_sizes_ok blk lastblk szs" "sum_list szs \<le> length data" "length data < 2 ^ 62"
    and codec: "codec \<noteq> NONE" "ToParquetCodec codec = Ok pcodec"
    and type: "GetValueSize type = Ok v" "ToParquetType type = Ok t"
      "ToParquetConvertedType type = Ok conv"
    and bs: "bs = vtk_blocks blk lastblk szs"
    and h: "h = page_header enc v True" "small_headers h"
    and foot: "foot = enc (write_FileMetaData (footer_meta_data h v name t conv pcodec bs))"
      "length foot < 2 ^ 32"
  shows "\<exists>m. ParseAppendedArray (\<lambda>ts. Some (enc ts)) dt base name type codec enc_type ht off = Ok m \<and>
             array_map dt base m h foot bs data"
proof -
  let ?hdr = "compressed_header (field_width ht) blk lastblk szs"
  let ?view = "NewArrayHeaderReader dt base off (enc_type = BASE64)"
  have n: "szs \<noteq> []" "length szs < 2 ^ 30" using sz(1) by (simp_all add: block_sizes_ok_def)
  then have w: "length ?hdr < 2 ^ 62" by (simp add: length_compressed_header field_width_def)
  have un: "unat (word_of_nat (length szs) :: u64) = length szs"
    using n(2) by (intro unat_of_nat_u64) simp
  have hdr: "(if ht = UINT32 then ParseCompressed32 ?view 0 else ParseCompressed64 ?view 0) =
      Ok (parsed_compressed blk lastblk szs (word_of_nat (length ?hdr)))"
    using sz(1) by (intro parse_compressed_header [OF stored_header_view [OF st raf]])
      (simp_all add: block_sizes_ok_def)
  define start where "start = array_data_start (enc_type = BASE64) off (word_of_nat (length ?hdr))"
  let ?arr = "parsed_compressed blk lastblk szs start"
  have arr: "compressed_array_ok ?arr" "compressed_blocks ?arr = bs"
    using n un compressed_blocks_vtk [OF sz(1)] bs
    by (simp_all add: compressed_array_ok_def parsed_compressed_def)
  have "\<exists>m. BuildMap_compressed (\<lambda>ts. Some (enc ts)) name type codec (enc_type = BASE64) ?arr = Ok m \<and>
      maps_regions m (parquet_regions h foot (compressed_blocks ?arr)) \<and>
      fm_pending_base64_decoding m = (enc_type = BASE64) \<and> fm_data_start m = ca_data_start ?arr"
    by (rule BuildMap_compressed_regions [where enc = enc, OF type codec(2) arr(1) h(1)])
      (use arr(2) vtk_blocks_fit [OF sz(1) h(2)] bs foot in simp_all)
  then obtain m where
    m: "BuildMap_compressed (\<lambda>ts. Some (enc ts)) name type codec (enc_type = BASE64) ?arr = Ok m"
      "maps_regions m (parquet_regions h foot bs)"
      "fm_pending_base64_decoding m = (enc_type = BASE64)" "fm_data_start m = start"
    using arr(2) by auto
  have "random_access_file (data_view dt m base) data"
    using m(3,4) array_data_start_stored [OF w] unfolding start_def
    by (intro stored_data_view [OF st raf]) simp_all
  moreover have "layout_ok h foot bs data"
    using data_size_vtk [OF sz(1)] sz n(2) bs foot(2)
    by (intro layout_small [OF h(2)]) (simp_all add: vtk_blocks_def)
  moreover have "ParseAppendedArray (\<lambda>ts. Some (enc ts)) dt base name type codec enc_type ht off = Ok m"
    using hdr m(1) codec(1) by (simp add: ParseAppendedArray_def Let_def start_def)
  ultimately show ?thesis using m(2) by (auto simp: array_map_def)
qed

section \<open>The virtual file of an array\<close>

lemma array_map_holds:
  assumes "array_map dt (ReadonlyOSFile_Pread os base) m h foot bs data"
  shows "file_holds os dt (AVirtualFile \<lparr>vf_map = m, vf_base = base, vf_own_base = own\<rparr>)
           (parquet_content h foot bs data)"
  using assms parquet_regions_ok [of h foot bs data] parquet_regions_content [of h foot bs data]
    mapped_file_holds [of m "parquet_regions h foot bs" data dt os base own]
  by (simp add: array_map_def)

lemma array_map_size:
  assumes "array_map dt base m h foot bs data"
  shows "file_size m = Ok (word_of_nat (length (parquet_content h foot bs data)))"
proof -
  have ok: "regions_ok data (parquet_regions h foot bs)"
    using assms parquet_regions_ok by (simp add: array_map_def)
  then have "regions_size (parquet_regions h foot bs) = length (parquet_content h foot bs data)"
    using assms length_regions_content [of data "parquet_regions h foot bs"]
      parquet_regions_content [of h foot bs data]
    by (simp add: array_map_def regions_ok_def)
  moreover have "maps_regions m (parquet_regions h foot bs)" using assms by (simp add: array_map_def)
  ultimately show ?thesis using file_size_map [OF _ ok] by metis
qed

text \<open>The Parquet file that stands for an array.\<close>

definition array_type :: "DataType \<Rightarrow> nat \<Rightarrow> Type \<Rightarrow> ConvertedType option \<Rightarrow> bool" where
  "array_type type v t conv \<longleftrightarrow>
     GetValueSize type = Ok v \<and> ToParquetType type = Ok t \<and> ToParquetConvertedType type = Ok conv"

definition array_footer ::
  "(tok list \<Rightarrow> byte list) \<Rightarrow> nat \<Rightarrow> bool \<Rightarrow> string \<Rightarrow> Type \<Rightarrow> ConvertedType option \<Rightarrow> CompressionCodec \<Rightarrow>
   block list \<Rightarrow> FileMetaData" where
  "array_footer enc v cmp name t conv pcodec bs =
     footer_meta_data (page_header enc v cmp) v name t conv pcodec bs"

definition array_parquet ::
  "(tok list \<Rightarrow> byte list) \<Rightarrow> nat \<Rightarrow> bool \<Rightarrow> string \<Rightarrow> Type \<Rightarrow> ConvertedType option \<Rightarrow> CompressionCodec \<Rightarrow>
   block list \<Rightarrow> byte list \<Rightarrow> byte list" where
  "array_parquet enc v cmp name t conv pcodec bs data =
     parquet_content (page_header enc v cmp)
       (enc (write_FileMetaData (array_footer enc v cmp name t conv pcodec bs))) bs data"

text \<open>
  What the Thrift library must do for this array: encode within the limits of the format, and,
  where the file is read back, in a way that can be decoded.
\<close>

definition thrift_fits ::
  "(tok list \<Rightarrow> byte list) \<Rightarrow> nat \<Rightarrow> bool \<Rightarrow> string \<Rightarrow> Type \<Rightarrow> ConvertedType option \<Rightarrow> CompressionCodec \<Rightarrow>
   block list \<Rightarrow> bool" where
  "thrift_fits enc v cmp name t conv pcodec bs \<longleftrightarrow>
     small_headers (page_header enc v cmp) \<and>
     length (enc (write_FileMetaData (array_footer enc v cmp name t conv pcodec bs))) < 2 ^ 32"

definition thrift_decodes ::
  "decoder \<Rightarrow> (tok list \<Rightarrow> byte list) \<Rightarrow> nat \<Rightarrow> bool \<Rightarrow> FileMetaData \<Rightarrow> block list \<Rightarrow> bool" where
  "thrift_decodes dec enc v cmp md bs \<longleftrightarrow>
     decodes dec enc (write_FileMetaData md) \<and>
     (\<forall>b\<in>set bs. decodes dec enc (write_PageHeader (data_page_v2 v (fst b) (snd b) cmp)) \<and>
        page_header enc v cmp b \<noteq> [])"

lemma array_parquet_reads:
  assumes "array_map dt base m (page_header enc v cmp)
      (enc (write_FileMetaData (array_footer enc v cmp name t conv pcodec bs))) bs data"
  shows "FileMap_Pread dt m base sz pos =
      Some (Ok (Some (bytes_at (unat pos) (unat sz) (array_parquet enc v cmp name t conv pcodec bs data))))"
    and "file_size m = Ok (word_of_nat (length (array_parquet enc v cmp name t conv pcodec bs data)))"
proof -
  let ?h = "page_header enc v cmp"
  let ?foot = "enc (write_FileMetaData (array_footer enc v cmp name t conv pcodec bs))"
  have m: "maps_regions m (parquet_regions ?h ?foot bs)" "random_access_file (data_view dt m base) data"
    "layout_ok ?h ?foot bs data"
    using assms by (simp_all add: array_map_def)
  from FileMap_Pread_content [OF m(1) parquet_regions_ok [OF m(3)] m(2)]
  show "FileMap_Pread dt m base sz pos =
      Some (Ok (Some (bytes_at (unat pos) (unat sz) (array_parquet enc v cmp name t conv pcodec bs data))))"
    unfolding parquet_regions_content [OF m(3)] array_parquet_def .
  show "file_size m = Ok (word_of_nat (length (array_parquet enc v cmp name t conv pcodec bs data)))"
    using array_map_size [OF assms] by (simp add: array_parquet_def)
qed

lemma array_map_file:
  "array_map dt base m (page_header enc v cmp)
      (enc (write_FileMetaData (array_footer enc v cmp name t conv pcodec bs))) bs data \<Longrightarrow>
   (\<forall>sz pos. FileMap_Pread dt m base sz pos =
      Some (Ok (Some (bytes_at (unat pos) (unat sz) (array_parquet enc v cmp name t conv pcodec bs data))))) \<and>
   file_size m = Ok (word_of_nat (length (array_parquet enc v cmp name t conv pcodec bs data)))"
  using array_parquet_reads by simp

lemma array_parquet_read_back:
  assumes "layout_ok (page_header enc v cmp)
      (enc (write_FileMetaData (array_footer enc v cmp name t conv pcodec bs))) bs data"
    and "thrift_decodes dec enc v cmp (array_footer enc v cmp name t conv pcodec bs) bs"
  shows "read_parquet dec skip (array_parquet enc v cmp name t conv pcodec bs data) =
           Some (array_footer enc v cmp name t conv pcodec bs, pages_of v cmp data 0 bs)"
  using assms unfolding array_parquet_def
  by (intro read_parquet_content [where enc = enc and h = "page_header enc v cmp"])
    (auto simp: thrift_decodes_def array_footer_def)

lemma uncompressed_array_map:
  assumes "random_access_file base content"
    and "stored dt (enc_type = BASE64) content off (le_bytes (field_width ht) (length data)) data"
    and "0 < length data" "length data < 2 ^ 46" "length data < 256 ^ field_width ht"
    and "array_type type v t conv"
    and "bs = uncompressed_blocks (word_of_nat (length data))"
    and "thrift_fits enc v False name t conv CompressionCodec_UNCOMPRESSED bs"
  shows "\<exists>m. ParseAppendedArray (\<lambda>ts. Some (enc ts)) dt base name type NONE enc_type ht off = Ok m \<and>
     array_map dt base m (page_header enc v False)
       (enc (write_FileMetaData (array_footer enc v False name t conv CompressionCodec_UNCOMPRESSED bs))) bs data"
  using assms unfolding array_type_def thrift_fits_def
  by (intro ParseAppendedArray_uncompressed [where content = content]) (simp_all add: array_footer_def)

lemma compressed_array_map:
  assumes "random_access_file base content"
    and "stored dt (enc_type = BASE64) content off
           (compressed_header (field_width ht) blk lastblk szs) data"
    and "block_sizes_ok blk lastblk szs" "sum_list szs = length data"
    and "codec \<noteq> NONE" "ToParquetCodec codec = Ok pcodec" and "array_type type v t conv"
    and "bs = vtk_blocks blk lastblk szs"
    and "thrift_fits enc v True name t conv pcodec bs"
  shows "\<exists>m. ParseAppendedArray (\<lambda>ts. Some (enc ts)) dt base name type codec enc_type ht off = Ok m \<and>
     array_map dt base m (page_header enc v True)
       (enc (write_FileMetaData (array_footer enc v True name t conv pcodec bs))) bs data"
proof -
  have "length szs < 2 ^ 30" "sum_list szs \<le> length szs * 2 ^ 31"
    using assms(3) sum_list_bound [of szs "2 ^ 31"] by (simp_all add: block_sizes_ok_def)
  with assms(4) have "length data < 2 ^ 62" by simp
  with assms show ?thesis unfolding array_type_def thrift_fits_def
    by (intro ParseAppendedArray_compressed [where content = content and blk = blk and
          lastblk = lastblk and szs = szs]) (simp_all add: array_footer_def)
qed

text \<open>The pages partition the data, and their values are counted in the footer.\<close>

lemma sint_small_u32: "unat (u :: u32) < 2 ^ 31 \<Longrightarrow> sint u = int (unat u)"
proof -
  assume "unat u < 2 ^ 31"
  then have "int (unat u) < int (2 ^ 31)" by (simp only: of_nat_less_iff)
  then have "uint u < 2 ^ 31" by (simp only: uint_nat of_nat_power of_nat_numeral)
  then have "signed_take_bit 31 (uint u) = uint u"
    by (intro signed_take_bit_int_eq_self) (auto intro: order_trans [OF _ uint_ge_0])
  then show ?thesis by (simp add: sint_uint)
qed

lemma page_num_values:
  assumes "unat u < 2 ^ 31"
  shows "unat (DataPageHeaderV2_num_values (the (PageHeader_data_page_header_v2 (data_page_v2 v c u cmp)))) =
    unat u div v"
proof -
  have "sint u sdiv int v = int (unat u div v)"
    using sint_small_u32 [OF assms] by (simp add: signed_divide_int_def sgn_if zdiv_int)
  moreover have "unat u div v < 2 ^ 32" using order_le_less_trans [OF div_le_dividend assms] by (rule order_less_trans) simp
  ultimately show ?thesis
    by (simp add: data_page_v2_def Let_def unat_of_nat_u32)
qed

lemma page_values_total:
  assumes "\<forall>b\<in>set bs. unat (snd b) < 2 ^ 31"
  shows "(\<Sum>p\<leftarrow>pages_of v cmp data off bs.
            unat (DataPageHeaderV2_num_values (the (PageHeader_data_page_header_v2 (fst p))))) =
         value_count v bs"
  using assms by (induction bs arbitrary: off) (simp_all add: page_num_values)

lemma uncompressed_block_cases:
  assumes "b \<in> set (uncompressed_blocks t)"
  shows "b = (ucast blk_sz, ucast blk_sz) \<or> b = (ucast (last_blk_sz t), ucast (last_blk_sz t))"
  using assms by (auto simp: uncompressed_blocks_def dest: in_set_replicate [THEN iffD1])

lemma uncompressed_blocks_small:
  assumes "0 < unat t" "unat t < 2 ^ 46" and "b \<in> set (uncompressed_blocks t)"
  shows "unat (snd b) < 2 ^ 31"
proof -
  have "(unat t - 1) mod 32768 < 32768" by simp
  then have "unat (ucast (last_blk_sz t) :: u32) < 2 ^ 31"
    using uncompressed_block_count(2) [OF assms(1,2)] by (simp add: unsigned_ucast_eq take_bit_nat_eq_self)
  moreover have "unat (ucast blk_sz :: u32) < 2 ^ 31" by (simp add: blk_sz_def)
  ultimately show ?thesis using uncompressed_block_cases [OF assms(3)] by auto
qed

lemma value_count_le:
  "\<forall>b\<in>set bs. unat (snd b) \<le> unat (fst b) \<Longrightarrow> value_count v bs \<le> data_size bs"
proof (induction bs)
  case (Cons b bs)
  then have "unat (snd b) div v \<le> unat (fst b)"
    using order_trans [OF div_le_dividend [of "unat (snd b)" v]] by simp
  with Cons show ?case by (simp add: add_mono)
qed simp

lemma uncompressed_blocks_same: "b \<in> set (uncompressed_blocks t) \<Longrightarrow> snd b = fst b"
  using uncompressed_block_cases by fastforce

lemma array_footer_rows:
  "FileMetaData_num_rows (array_footer enc v cmp name t conv pcodec bs) = word_of_nat (value_count v bs)"
  by (simp add: array_footer_def footer_meta_data_def file_meta_data_def Let_def FileMetaData_init_def)

lemma uncompressed_array_facts:
  assumes "0 < length data" "length data < 2 ^ 46"
    and "bs = uncompressed_blocks (word_of_nat (length data))"
  shows "data_size bs = length data" and "length bs \<le> 2 ^ 31"
    and "\<forall>b\<in>set bs. unat (snd b) < 2 ^ 31"
    and "value_count v bs \<le> length data"
proof -
  have n: "unat (word_of_nat (length data) :: u64) = length data"
    using assms(2) by (intro unat_of_nat_u64) simp
  show size: "data_size bs = length data" "length bs \<le> 2 ^ 31"
    using uncompressed_blocks_size [of "word_of_nat (length data)"] assms n by simp_all
  show "\<forall>b\<in>set bs. unat (snd b) < 2 ^ 31"
    using uncompressed_blocks_small [of "word_of_nat (length data)"] assms n by simp
  have "\<forall>b\<in>set bs. unat (snd b) \<le> unat (fst b)"
    using uncompressed_blocks_same assms(3) by simp
  then show "value_count v bs \<le> length data"
    using value_count_le [of bs v] size(1) by simp
qed

lemma vtk_blocks_sizes:
  assumes "block_sizes_ok blk lastblk szs"
  shows "map (\<lambda>b. unat (fst b)) (vtk_blocks blk lastblk szs) = szs"
    and "map (\<lambda>b. unat (snd b)) (vtk_blocks blk lastblk szs) = replicate (length szs - 1) blk @ [lastblk]"
proof -
  have ok: "szs \<noteq> []" "\<forall>x\<in>set szs. x < 2 ^ 31"
    "\<forall>x\<in>set (replicate (length szs - 1) blk @ [lastblk]). x < 2 ^ 31"
    using assms by (auto simp: block_sizes_ok_def)
  have "map (\<lambda>b. unat (fst b)) (map2 (\<lambda>c u. (word_of_nat c :: u32, word_of_nat u :: u32)) xs us) = xs \<and>
      map (\<lambda>b. unat (snd b)) (map2 (\<lambda>c u. (word_of_nat c :: u32, word_of_nat u :: u32)) xs us) = us"
    if "length us = length xs" "\<forall>x\<in>set xs. x < 2 ^ 31" "\<forall>x\<in>set us. x < 2 ^ 31" for xs us
    using that by (induction xs us rule: list_induct2') (auto simp: unat_of_nat_u32)
  from this [OF _ ok(2,3)] ok(1)
  show "map (\<lambda>b. unat (fst b)) (vtk_blocks blk lastblk szs) = szs"
    "map (\<lambda>b. unat (snd b)) (vtk_blocks blk lastblk szs) = replicate (length szs - 1) blk @ [lastblk]"
    unfolding vtk_blocks_def by (simp_all add: Suc_leI)
qed

lemma compressed_layout:
  assumes "block_sizes_ok blk lastblk szs" "sum_list szs = length data"
    and "bs = vtk_blocks blk lastblk szs" and "thrift_fits enc v True name t conv pcodec bs"
  shows "layout_ok (page_header enc v True)
      (enc (write_FileMetaData (array_footer enc v True name t conv pcodec bs))) bs data"
proof -
  have szs: "szs \<noteq> []" "length szs < 2 ^ 30" using assms(1) by (simp_all add: block_sizes_ok_def)
  have "length data \<le> length szs * 2 ^ 31"
    using assms(1,2) sum_list_bound [of szs "2 ^ 31"] by (simp add: block_sizes_ok_def)
  with szs(2) have "length data < 2 ^ 62" by simp
  moreover have "length bs = length szs" using szs(1) by (simp add: assms(3) vtk_blocks_def Suc_leI)
  ultimately show ?thesis
    using assms data_size_vtk [OF assms(1)] szs(2)
    by (intro layout_small) (simp_all add: thrift_fits_def)
qed

lemma uncompressed_layout:
  assumes "0 < length data" "length data < 2 ^ 46"
    and "bs = uncompressed_blocks (word_of_nat (length data))"
    and "thrift_fits enc v False name t conv pcodec bs"
  shows "layout_ok (page_header enc v False)
      (enc (write_FileMetaData (array_footer enc v False name t conv pcodec bs))) bs data"
  using assms(2,4) uncompressed_array_facts [OF assms(1-3)]
  by (intro layout_small) (simp_all add: thrift_fits_def)

end
