(* ===== verification/Vtk_Tree.thy ===== *)
theory Vtk_Tree
  imports Parser
begin

text \<open>
  What every successful run of the parser guarantees of its tree, whatever the VTK file and the
  libraries hold: it is well formed, so that the file system built on it never throws, it has
  the documented directories, and it owns exactly the descriptor that the run opened.
\<close>

section \<open>Maps\<close>

definition num_offsets :: "MapBuilder \<Rightarrow> nat" where
  "num_offsets b = length (mb_offsets b)"

lemma num_offsets_simps [simp]:
  "num_offsets (MapBuilder_new p d) = 0"
  "num_offsets (AddDirect bs b) = Suc (num_offsets b)"
  "num_offsets (AddMappedRegion off sz b) = Suc (num_offsets b)"
  by (simp_all add: num_offsets_def MapBuilder_new_def AddDirect_def AddMappedRegion_def Let_def)

lemma AppendPage_offsets:
  "AppendPage compact v off c u cmp ser b = Ok (hs, ser', b') \<Longrightarrow> num_offsets b' = num_offsets b + 2"
  by (auto simp: AppendPage_def elim!: bindR_OkE)

lemma AppendFooter_offsets:
  "AppendFooter compact name type codec c u n ser b = Ok (fs, ser', b') \<Longrightarrow>
   num_offsets b' = num_offsets b + 1"
  by (auto simp: AppendFooter_def elim!: bindR_OkE)

text \<open>A successful \<open>for (int i = ...)\<close> stays in the range of \<open>int\<close>.\<close>

lemma for_int_success:
  assumes "for_int body i k s = Ok s'" and step: "\<And>j s s'. body j s = Ok s' \<Longrightarrow> f s' = f s + (d :: nat)"
  shows "f s' = f s + d * k \<and> (k = 0 \<or> i + k < 2 ^ 31)"
  using assms(1)
proof (induction k arbitrary: i s)
  case (Suc k)
  then obtain s1 where s1: "body i s = Ok s1" "Suc i < 2 ^ 31" "for_int body (Suc i) k s1 = Ok s'"
    by (auto elim!: bindR_OkE split: if_split_asm)
  with Suc.IH [OF s1(3)] step [OF s1(1)] show ?case by auto
qed simp

lemma build_finish_ok:
  assumes "build_finish compact name type codec s = Ok m" and "num_offsets (b_builder s) < 2 ^ 60"
  shows "map_ok m"
proof -
  from assms(1) obtain fs ser b where
    b: "AppendFooter compact name type codec (b_total_compressed_size s)
          (b_total_uncompressed_size s) (b_total_count s) (b_ser s) (b_builder s) = Ok (fs, ser, b)"
    and m: "m = Finish (AddDirect PAR1 (AddDirect (le_bytes 4 (unat fs)) b))"
    by (auto simp: build_finish_def elim!: bindR_OkE)
  define n where "n = num_offsets b + 2"
  have "n < 2 ^ 61" using AppendFooter_offsets [OF b] assms(2) by (simp add: n_def)
  then have "unat (word_of_nat (Suc n) - 1 :: u64) = n"
    using unat_of_nat_u64 [of n] by simp
  moreover have "length (fm_offsets m) = Suc n" "fm_n m = word_of_nat (Suc n) - 1"
    by (simp_all add: m Finish_def FileMap_new_def n_def num_offsets_def AddDirect_def Let_def)
  ultimately show ?thesis by (simp add: map_ok_def file_size_def)
qed

lemma build_start_offsets [simp]: "num_offsets (b_builder (build_start p d)) = 1"
  by (simp add: build_start_def)

lemma compressed_block_offsets:
  "compressed_block compact v csz usz s = Ok s' \<Longrightarrow>
   num_offsets (b_builder s') = num_offsets (b_builder s) + 2"
  by (auto simp: compressed_block_def Let_def elim!: bindR_OkE dest: AppendPage_offsets)

lemma compressed_body_offsets:
  "compressed_body compact v arr i s = Ok s' \<Longrightarrow>
   num_offsets (b_builder s') = num_offsets (b_builder s) + 2"
  by (auto simp: compressed_body_def elim!: bindR_OkE dest: compressed_block_offsets)

lemma uncompressed_block_offsets:
  "uncompressed_block compact v sz s = Ok s' \<Longrightarrow>
   num_offsets (b_builder s') = num_offsets (b_builder s) + 2"
  by (auto simp: uncompressed_block_def elim!: bindR_OkE dest: AppendPage_offsets)

lemma uncompressed_body_offsets:
  "uncompressed_body compact v i s = Ok s' \<Longrightarrow>
   num_offsets (b_builder s') = num_offsets (b_builder s) + 2"
  by (auto simp: uncompressed_body_def elim!: bindR_OkE dest: uncompressed_block_offsets)

lemma BuildMap_compressed_ok:
  assumes "BuildMap_compressed compact name type codec p arr = Ok m"
  shows "map_ok m"
proof -
  from assms obtain v s csz s' where
    loop: "for_int (compressed_body compact v arr) 0 (unat (ca_num_blks arr - 1))
             (build_start p (ca_data_start arr)) = Ok s"
    and blk: "compressed_block compact v csz (ca_last_blk_sz arr) s = Ok s'"
    and fin: "build_finish compact name type codec s' = Ok m"
    by (auto simp: BuildMap_compressed_def elim!: bindR_OkE)
  have "num_offsets (b_builder s') < 2 ^ 60"
    using for_int_success [OF loop, of "\<lambda>s. num_offsets (b_builder s)" 2] compressed_body_offsets
      compressed_block_offsets [OF blk] by auto
  with fin show ?thesis by (rule build_finish_ok)
qed

lemma BuildMap_uncompressed_ok:
  assumes "BuildMap_uncompressed compact name type p arr = Ok m"
  shows "map_ok m"
proof -
  from assms obtain v s s' where
    loop: "for_int (uncompressed_body compact v) 0 (unat (num_blks (ua_total_bytes arr) - 1))
             (build_start p (ua_data_start arr)) = Ok s"
    and blk: "uncompressed_block compact v (last_blk_sz (ua_total_bytes arr)) s = Ok s'"
    and fin: "build_finish compact name type NONE s' = Ok m"
    by (auto simp: BuildMap_uncompressed_def elim!: bindR_OkE)
  have "num_offsets (b_builder s') < 2 ^ 60"
    using for_int_success [OF loop, of "\<lambda>s. num_offsets (b_builder s)" 2] uncompressed_body_offsets
      uncompressed_block_offsets [OF blk] by auto
  with fin show ?thesis by (rule build_finish_ok)
qed

lemma ParseAppendedArray_ok:
  "ParseAppendedArray compact dt file name type codec enc ht off = Ok m \<Longrightarrow> map_ok m"
  by (auto simp: ParseAppendedArray_def Let_def split: if_split_asm elim!: bindR_OkE
      dest: BuildMap_compressed_ok BuildMap_uncompressed_ok)

lemma ParseVtkDataArray_ok:
  "ParseVtkDataArray compact dt file name codec enc ht m pos = Ok fm \<Longrightarrow> map_ok fm"
  by (auto simp: ParseVtkDataArray_def split: if_split_asm elim!: bindR_OkE dest: ParseAppendedArray_ok)

section \<open>Directories\<close>

text \<open>What a step of a fold keeps, the fold keeps.\<close>

lemma foldR_invariant:
  assumes "foldR f xs s = Ok s'" and "P s" and "\<And>x s s'. x \<in> set xs \<Longrightarrow> f x s = Ok s' \<Longrightarrow> P s \<Longrightarrow> P s'"
  shows "P s'"
  using assms
proof (induction xs arbitrary: s)
  case (Cons x xs)
  then obtain s1 where s1: "f x s = Ok s1" "foldR f xs s1 = Ok s'"
    by (auto elim!: bindR_OkE)
  show ?case
    by (rule Cons.IH [OF s1(2)]) (use Cons.prems(2,3) s1(1) in auto)
qed simp

lemma umap_emplace_all:
  "list_all P m \<Longrightarrow> P (k, v) \<Longrightarrow> list_all P (umap_emplace k v m)"
  by (simp add: umap_emplace_def split: option.split)

lemma group_array_step:
  "group_array compact dt os file codec enc ht pos (name, info) maps = Ok maps' \<longleftrightarrow>
   (\<exists>m. ParseVtkDataArray compact dt (ReadonlyOSFile_Pread os file) name codec enc ht info pos = Ok m \<and>
        maps' = umap_emplace (name @ ''.parquet'') m maps)"
  by (auto simp: group_array_def Let_def bindR_eq_Ok)

lemma ParseArrayGroup_maps:
  assumes "ParseArrayGroup compact dt os file codec enc ht info pos = Ok d"
  obtains maps where "foldR (group_array compact dt os file codec enc ht pos) info [] = Ok maps"
    and "d = ArrayDir maps file False"
  using assms by (auto simp: ParseArrayGroup_def elim!: bindR_OkE)

lemma ParseArrayGroup_ok:
  assumes "ParseArrayGroup compact dt os file codec enc ht info pos = Ok d"
  shows "dir_ok d \<and> Dir_delete d = []"
proof -
  from assms obtain maps where
    maps: "foldR (group_array compact dt os file codec enc ht pos) info [] = Ok maps"
    and d: "d = ArrayDir maps file False"
    by (rule ParseArrayGroup_maps)
  have "umap_ok maps \<and> list_all (\<lambda>(n, m). map_ok m) maps"
    by (rule foldR_invariant [where P = "\<lambda>maps. umap_ok maps \<and> list_all (\<lambda>(n, m). map_ok m) maps", OF maps])
      (auto simp: group_array_step umap_emplace_all intro: umap_ok_emplace dest!: ParseVtkDataArray_ok)
  then show ?thesis by (simp add: d)
qed

text \<open>The names of the arrays: those of the XML with the extension.\<close>

lemma foldR_group_keys:
  "foldR (group_array compact dt os file codec enc ht pos) info maps = Ok maps' \<Longrightarrow>
   fst ` set maps' = (\<lambda>n. n @ ''.parquet'') ` fst ` set info \<union> fst ` set maps"
proof (induction info arbitrary: maps)
  case (Cons x info)
  then obtain maps1 where s1: "group_array compact dt os file codec enc ht pos x maps = Ok maps1"
    "foldR (group_array compact dt os file codec enc ht pos) info maps1 = Ok maps'"
    by (auto elim!: bindR_OkE)
  obtain name attrs where x: "x = (name, attrs)" by (cases x)
  with s1(1) obtain m where "maps1 = umap_emplace (name @ ''.parquet'') m maps"
    by (auto simp: group_array_step)
  then have "fst ` set maps1 = insert (name @ ''.parquet'') (fst ` set maps)"
    by (simp add: umap_emplace_keys)
  with Cons.IH [OF s1(2)] x show ?case by simp
qed simp

lemma ParseArrayGroup_names:
  assumes "ParseArrayGroup compact dt os file codec enc ht info pos = Ok d"
  shows "set (ki_keys (Dir_NewIter d)) = (\<lambda>n. n @ ''.parquet'') ` fst ` set info"
proof -
  from assms obtain maps where
    "foldR (group_array compact dt os file codec enc ht pos) info [] = Ok maps" "d = ArrayDir maps file False"
    by (rule ParseArrayGroup_maps)
  from foldR_group_keys [OF this(1)] this(2) show ?thesis by (simp add: KeyIter_new_def)
qed

definition subdirs_ok :: "(string, Dir) umap \<Rightarrow> bool" where
  "subdirs_ok subdirs \<longleftrightarrow>
     umap_ok subdirs \<and> list_all (\<lambda>(n, d). dir_ok d \<and> Dir_delete d = []) subdirs"

lemma CopyAttrs_ok:
  assumes "CopyAttrs vtk src des = Ok des'" and "umap_ok des"
  shows "umap_ok des'"
proof -
  from assms(1) obtain e where "foldR (\<lambda>i des. bindR (deref (GetAttributeValue vtk e i)) (\<lambda>v.
      bindR (deref (GetAttributeName vtk e i)) (\<lambda>k. Ok (AList.update k v des))))
      (map int [0..<nat (GetNumberOfAttributes vtk e)]) des = Ok des'"
    by (auto simp: CopyAttrs_def for_upto_def elim!: bindR_OkE)
  then show ?thesis
    by (rule foldR_invariant [where P = umap_ok])
      (use assms(2) umap_ok_update in \<open>fastforce elim!: bindR_OkE\<close>)+
qed

lemma ParseVtkInfo_root_attrs:
  "ParseVtkInfo w fname mesh_type lp lc = Ok vi \<Longrightarrow> umap_ok (vi_root_attrs vi)"
  by (auto simp: ParseVtkInfo_def Let_def elim!: bindR_OkE split: if_split_asm prod.split_asm)
    (metis CopyAttrs_ok umap_ok_Nil)+

lemma subdirs_ok_emplace:
  "subdirs_ok subdirs \<Longrightarrow> dir_ok d \<and> Dir_delete d = [] \<Longrightarrow> subdirs_ok (umap_emplace name d subdirs)"
  by (simp add: subdirs_ok_def umap_ok_emplace umap_emplace_all)

lemma BuildSubdirs_ok:
  assumes "BuildSubdirs w file vi lp lc = Ok subdirs" and "umap_ok (vi_root_attrs vi)"
  shows "subdirs_ok subdirs"
  using assms unfolding BuildSubdirs_def Let_def
  by (auto elim!: bindR_OkE split: if_split_asm
      intro!: subdirs_ok_emplace dest!: ParseArrayGroup_ok simp: subdirs_ok_def [of "[]"])

lemma BuildSubdirs_keys:
  assumes "BuildSubdirs w file vi lp lc = Ok subdirs"
  shows "fst ` set subdirs = {''METADATA'', ''pointdata'', ''celldata''} \<union>
           (if lp then {''points''} else {}) \<union> (if lc then {''cells''} else {})"
  using assms unfolding BuildSubdirs_def Let_def
  by (auto elim!: bindR_OkE split: if_split_asm simp: umap_emplace_keys del: equalityI subsetI)
    (simp_all add: insert_commute)

section \<open>Trees\<close>

lemma sanitized_tree_delete:
  "list_all (\<lambda>(n, d). dir_ok d \<and> Dir_delete d = []) subdirs \<Longrightarrow>
   Dir_delete (VtkTree subdirs st base True) = [osf_fd base]"
  by (auto simp: list_all_iff ReadonlyOSFile_delete_def)

lemma ParseVtkFileInternal_ok:
  assumes "ParseVtkFileInternal w fname mesh_type lp lc fds = (Ok tree, fds')"
  shows "\<exists>subdirs st fd. tree = VtkTree_new subdirs st \<lparr>osf_fd = fd\<rparr> True \<and>
    dir_ok tree \<and> w_open w fname = Some fd \<and> w_fstat w fd = Some st \<and>
    fds' = fd # fds \<and> Dir_delete tree = [fd] \<and>
    fst ` set subdirs = {''METADATA'', ''pointdata'', ''celldata''} \<union>
      (if lp then {''points''} else {}) \<union> (if lc then {''cells''} else {})"
proof -
  from assms obtain vi fd st subdirs where
    vi: "ParseVtkInfo w fname mesh_type lp lc = Ok vi"
    and os: "w_open w fname = Some fd" "w_fstat w fd = Some st" "fds' = fd # fds"
    and sub: "BuildSubdirs w \<lparr>osf_fd = fd\<rparr> vi lp lc = Ok subdirs"
    and tree: "tree = VtkTree_new subdirs st \<lparr>osf_fd = fd\<rparr> True"
    by (auto simp: ParseVtkFileInternal_def NewOSFile_def
        split: result.split_asm option.split_asm prod.split_asm)
  have ok: "subdirs_ok subdirs"
    using BuildSubdirs_ok [OF sub ParseVtkInfo_root_attrs [OF vi]] .
  then have "dir_ok tree" "Dir_delete tree = [fd]"
    by (auto simp: tree VtkTree_new_def subdirs_ok_def list_all_iff ReadonlyOSFile_delete_def)
  with os tree BuildSubdirs_keys [OF sub] show ?thesis by blast
qed

lemma ParseVtkFileInternal_fails:
  assumes "ParseVtkFileInternal w fname mesh_type lp lc fds = (Error e, fds')"
  shows "fds' = fds \<or> e = fstat_error \<and> (\<exists>fd. w_open w fname = Some fd \<and> w_fstat w fd = None \<and> fds' = fd # fds)"
  using assms
  by (auto simp: ParseVtkFileInternal_def NewOSFile_def
      split: result.split_asm option.split_asm prod.split_asm)

lemma ParseVtkFile_fails:
  assumes "ParseVtkFile w fname fds = (Error e, fds')"
  shows "fds' = fds \<or>
    e = fstat_error \<and> (\<exists>fd. w_open w fname = Some fd \<and> w_fstat w fd = None \<and> fds' = fd # fds)"
  using assms unfolding ParseVtkFile_def
  by (auto split: if_split_asm dest!: ParseVtkFileInternal_fails)

lemma ParseVtkFile_internal:
  assumes "ParseVtkFile w fname fds = (Ok tree, fds')"
  shows "\<exists>mesh. ParseVtkFileInternal w fname mesh
     (EndsWith fname ''.vtu'' \<or> EndsWith fname ''.vts'') (EndsWith fname ''.vtu'') fds = (Ok tree, fds')"
proof -
  consider (vtu) "EndsWith fname ''.vtu''" | (vts) "\<not> EndsWith fname ''.vtu''" "EndsWith fname ''.vts''"
    | (vti) "\<not> EndsWith fname ''.vtu''" "\<not> EndsWith fname ''.vts''" "EndsWith fname ''.vti''"
    | (none) "\<not> EndsWith fname ''.vtu''" "\<not> EndsWith fname ''.vts''" "\<not> EndsWith fname ''.vti''"
    by blast
  then show ?thesis
  proof cases
    case vtu
    then have "ParseVtkFileInternal w fname ''UnstructuredGrid'' True True fds = (Ok tree, fds')"
      using assms by (simp only: ParseVtkFile_def if_True)
    with vtu show ?thesis by (intro exI) simp
  next
    case vts
    then have "ParseVtkFileInternal w fname ''StructuredGrid'' True False fds = (Ok tree, fds')"
      using assms by (simp only: ParseVtkFile_def if_True if_False)
    with vts show ?thesis by (intro exI) simp
  next
    case vti
    then have "ParseVtkFileInternal w fname ''ImageData'' False False fds = (Ok tree, fds')"
      using assms by (simp only: ParseVtkFile_def if_True if_False)
    with vti show ?thesis by (intro exI) simp
  next
    case none
    with assms show ?thesis by (simp add: ParseVtkFile_def)
  qed
qed

lemma ParseVtkFile_dir_ok:
  assumes "ParseVtkFile w fname fds = (Ok tree, fds')"
  obtains subdirs st fd where "tree = VtkTree_new subdirs st \<lparr>osf_fd = fd\<rparr> True" and "dir_ok tree"
proof -
  from ParseVtkFile_internal [OF assms] obtain mesh where
    "ParseVtkFileInternal w fname mesh
       (EndsWith fname ''.vtu'' \<or> EndsWith fname ''.vts'') (EndsWith fname ''.vtu'') fds = (Ok tree, fds')" ..
  from ParseVtkFileInternal_ok [OF this] show ?thesis by (elim exE conjE) (rule that)
qed

end
