(* ===== verification/Fuse.thy ===== *)
theory Fuse
  imports Parser
begin

text \<open>
  The FUSE operations (src/c.cc): path resolution and the handlers for \<open>getattr\<close>, \<open>readdir\<close>,
  \<open>open\<close>, \<open>read\<close>, \<open>flush\<close> and \<open>release\<close>, the objects that open files own on the heap, and
  the session in which the kernel calls the handlers. The abstract file system that they
  implement is a walk over the components of the path.
\<close>

section \<open>Results\<close>

definition EPERM :: int where "EPERM = 1"
definition ENOENT :: int where "ENOENT = 2"
definition EIO :: int where "EIO = 5"
definition ENOTDIR :: int where "ENOTDIR = 20"
definition EISDIR :: int where "EISDIR = 21"
definition EINVAL :: int where "EINVAL = 22"

lemmas errnos = EPERM_def ENOENT_def EIO_def ENOTDIR_def EISDIR_def EINVAL_def

datatype LookupRes = DIR | FILE | NOTFOUND

section \<open>Path resolution\<close>

text \<open>A \<open>Dir*\<close> is \<open>None\<close> where it is null; to call a method on it is then undefined.\<close>

definition Lookup :: "Dir option \<Rightarrow> string \<Rightarrow> LookupRes result" where
  "Lookup dir name =
     bindR (deref dir) (\<lambda>d.
     bindR (Dir_Stat d name) (\<lambda>found.
       Ok (case found of Some st \<Rightarrow> (if fs_is_dir st then DIR else FILE) | None \<Rightarrow> NOTFOUND)))"

abbreviation slash :: char where "slash \<equiv> CHR ''/''"

lemma dropWhile_slash_shorter:
  "dropWhile (\<lambda>c. c = slash) (dropWhile (\<lambda>c. c \<noteq> slash) p) \<noteq> [] \<Longrightarrow>
     length (dropWhile (\<lambda>c. c = slash) (dropWhile (\<lambda>c. c \<noteq> slash) p)) < length p"
  by (cases p) (auto intro!: le_imp_less_Suc order_trans [OF length_dropWhile_le length_dropWhile_le]
      length_dropWhile_le)

text \<open>
  The loop of \<open>ResolvePath\<close>, at the parent directory and with the rest of the path. It returns
  the result code, the parent and the name.
\<close>

function ResolvePath_loop :: "Dir option \<Rightarrow> string \<Rightarrow> (int \<times> Dir option \<times> string) result" where
  "ResolvePath_loop parent p =
     (let name = takeWhile (\<lambda>c. c \<noteq> slash) p;
          p1 = dropWhile (\<lambda>c. c \<noteq> slash) p;
          p2 = dropWhile (\<lambda>c. c = slash) p1
      in if p2 = [] then Ok (0, parent, name)
         else bindR (Lookup parent name) (\<lambda>r.
           if r = DIR then
             bindR (deref parent) (\<lambda>d. bindR (Dir_GetDir d name) (\<lambda>parent'.
               ResolvePath_loop parent' p2))
           else if r = FILE then Ok (- ENOTDIR, parent, name)
           else Ok (- ENOENT, parent, name)))"
  by pat_completeness auto

termination
  by (relation "measure (\<lambda>(parent, p). length p)") (auto simp: dropWhile_slash_shorter)

declare ResolvePath_loop.simps [simp del]

definition ResolvePath ::
  "Dir option \<Rightarrow> string option \<Rightarrow> Dir option \<Rightarrow> string \<Rightarrow> (int \<times> Dir option \<times> string) result"
where
  "ResolvePath root path parent name =
     (case path of
        None \<Rightarrow> Ok (- EINVAL, parent, name)
      | Some s \<Rightarrow>
          if s = [] \<or> hd s \<noteq> slash then Ok (- EINVAL, parent, name)
          else let p = dropWhile (\<lambda>c. c = slash) s
               in if p = [] then Ok (0, parent, name) else ResolvePath_loop root p)"

section \<open>getattr\<close>

unbundle bit_operations_syntax

definition MakeDirMode :: "u32 \<Rightarrow> u32" where
  "MakeDirMode mode =
     (let new_mode = S_IFDIR;
          new_mode = (if mode AND S_IRUSR \<noteq> 0 then new_mode OR (S_IRUSR OR S_IXUSR) else new_mode);
          new_mode = (if mode AND S_IRGRP \<noteq> 0 then new_mode OR (S_IRGRP OR S_IXGRP) else new_mode);
          new_mode = (if mode AND S_IROTH \<noteq> 0 then new_mode OR (S_IROTH OR S_IXOTH) else new_mode)
      in new_mode)"

definition Getattr_entry :: "Dir option \<Rightarrow> string \<Rightarrow> stat \<Rightarrow> (int \<times> stat) result" where
  "Getattr_entry parent name statbuf =
     (if name = [] then Ok (0, statbuf\<lparr>st_mode := MakeDirMode (st_mode statbuf)\<rparr>)
      else bindR (deref parent) (\<lambda>d.
           bindR (Dir_Stat d name) (\<lambda>found.
             case found of
               None \<Rightarrow> Ok (- ENOENT, statbuf)
             | Some st \<Rightarrow>
                 if fs_is_dir st then
                   Ok (0, statbuf\<lparr>st_mode := MakeDirMode (st_mode statbuf)\<rparr>)
                 else
                   Ok (0, statbuf\<lparr>st_size := fs_file_size st,
                                  st_mode := st_mode statbuf OR S_IFREG\<rparr>))))"

text \<open>\<open>base_statbuf()\<close> is a method of \<open>VtkTree\<close> alone.\<close>

definition base_statbuf :: "Dir option \<Rightarrow> stat result" where
  "base_statbuf tree =
     bindR (deref tree) (\<lambda>d. case d of VtkTree subdirs st base own \<Rightarrow> Ok st
                                     | _ \<Rightarrow> Error Undefined)"

definition Getattr :: "Dir option \<Rightarrow> string option \<Rightarrow> stat \<Rightarrow> (int \<times> stat) result" where
  "Getattr tree path statbuf =
     bindR (ResolvePath tree path tree []) (\<lambda>(r, parent, name).
       if r = 0 then bindR (base_statbuf tree) (\<lambda>st. Getattr_entry parent name st)
       else Ok (r, statbuf))"

section \<open>readdir\<close>

text \<open>The callback of FUSE takes the reply buffer to the buffer with one more name.\<close>

function Readdir_loop :: "('b \<Rightarrow> string \<Rightarrow> 'b) \<Rightarrow> KeyIter \<Rightarrow> 'b \<Rightarrow> 'b result" where
  "Readdir_loop filler it buf =
     (if Valid it then
        bindR (Value it) (\<lambda>n. bindR (Next it) (\<lambda>it'. Readdir_loop filler it' (filler buf n)))
      else Ok buf)"
  by pat_completeness auto
termination
  by (relation "measure (\<lambda>(filler, it, buf). length (ki_keys it) - ki_it it)")
    (auto simp: Next_def split: if_split_asm)

declare Readdir_loop.simps [simp del]

definition Readdir_dir :: "('b \<Rightarrow> string \<Rightarrow> 'b) \<Rightarrow> Dir option \<Rightarrow> 'b \<Rightarrow> (int \<times> 'b) result" where
  "Readdir_dir filler dir buf =
     bindR (deref dir) (\<lambda>d.
     bindR (Readdir_loop filler (SeekToFirst (Dir_NewIter d)) buf) (\<lambda>buf'. Ok (0, buf')))"

definition Readdir_entry ::
  "('b \<Rightarrow> string \<Rightarrow> 'b) \<Rightarrow> Dir option \<Rightarrow> string \<Rightarrow> 'b \<Rightarrow> (int \<times> 'b) result" where
  "Readdir_entry filler parent name buf =
     (if name = [] then Readdir_dir filler parent buf
      else bindR (Lookup parent name) (\<lambda>r.
        if r = DIR then
          bindR (deref parent) (\<lambda>d. bindR (Dir_GetDir d name) (\<lambda>d'. Readdir_dir filler d' buf))
        else if r = FILE then Ok (- ENOTDIR, buf)
        else Ok (- ENOENT, buf)))"

definition Readdir ::
  "('b \<Rightarrow> string \<Rightarrow> 'b) \<Rightarrow> Dir option \<Rightarrow> string option \<Rightarrow> 'b \<Rightarrow> (int \<times> 'b) result" where
  "Readdir filler tree path buf =
     bindR (ResolvePath tree path tree []) (\<lambda>(r, parent, name).
       if r = 0 then Readdir_entry filler parent name buf else Ok (r, buf))"

section \<open>open, read and release\<close>

text \<open>
  \<open>fi->fh\<close> holds the address of a \<open>RandomAccessFile\<close>. \<open>new_file\<close> is the address that \<open>new\<close>
  gives to the object inside \<open>Open\<close> (never null), the heap says which objects are alive, and
  \<open>NULL\<close> is address 0.
\<close>

type_synonym heap = "u64 \<Rightarrow> RandomAccessFile option"

record fuse_file_info =
  fi_flags :: u32
  fi_fh :: u64

definition Open_entry ::
  "u64 \<Rightarrow> Dir option \<Rightarrow> string \<Rightarrow> heap \<Rightarrow> fuse_file_info \<Rightarrow> (int \<times> heap \<times> fuse_file_info) result"
where
  "Open_entry new_file parent name h fi =
     (if name = [] then Ok (- EISDIR, h, fi)
      else bindR (Lookup parent name) (\<lambda>r.
        if r = DIR then Ok (- EISDIR, h, fi)
        else if r = FILE then
          bindR (deref parent) (\<lambda>d. bindR (Dir_Open d name) (\<lambda>f.
            case f of
              None \<Rightarrow> Ok (0, h, fi\<lparr>fi_fh := 0\<rparr>)
            | Some file \<Rightarrow> Ok (0, h(new_file \<mapsto> file), fi\<lparr>fi_fh := new_file\<rparr>)))
        else Ok (- ENOENT, h, fi)))"

definition Open ::
  "u64 \<Rightarrow> Dir option \<Rightarrow> string option \<Rightarrow> heap \<Rightarrow> fuse_file_info \<Rightarrow> (int \<times> heap \<times> fuse_file_info) result"
where
  "Open new_file tree path h fi =
     bindR (ResolvePath tree path tree []) (\<lambda>(r, parent, name).
       if r = 0 then Open_entry new_file parent name h fi else Ok (r, h, fi))"

text \<open>
  \<open>Pread\<close> gives a 64-bit count, -1 for an error; \<open>int nr\<close> keeps its low 32 bits. \<open>Read\<close> gives
  its result and the bytes that were stored in the buffer.
\<close>

definition to_int :: "int \<Rightarrow> int" where
  "to_int n = sint (word_of_int n :: 32 word)"

definition Read ::
  "os_pread \<Rightarrow> decode_triplet \<Rightarrow> heap \<Rightarrow> u64 \<Rightarrow> u64 \<Rightarrow> fuse_file_info \<Rightarrow> (int \<times> byte list) result option"
where
  "Read os dt h sz off fi =
     (case h (fi_fh fi) of
        None \<Rightarrow> Some (Error Undefined)
      | Some f \<Rightarrow>
          map_option (\<lambda>r. bindR r (\<lambda>out.
            let n = (case out of None \<Rightarrow> -1 | Some bs \<Rightarrow> int (length bs));
                nr = to_int n;
                buf = (case out of None \<Rightarrow> [] | Some bs \<Rightarrow> bs)
            in Ok (if nr = -1 then - EIO else nr, buf)))
          (RandomAccessFile_Pread os dt f sz off))"

text \<open>\<open>delete\<close> of the null pointer does nothing, of a dead object is undefined.\<close>

definition Release :: "heap \<Rightarrow> fuse_file_info \<Rightarrow> (int \<times> heap) result" where
  "Release h fi =
     (if fi_fh fi = 0 then Ok (0, h)
      else case h (fi_fh fi) of
             None \<Rightarrow> Error Undefined
           | Some f \<Rightarrow> Ok (0, h(fi_fh fi := None)))"

section \<open>The handlers\<close>

text \<open>
  The handlers run with the tree that \<open>vtk_init_tree_int\<close> left in
  \<open>fuse_get_context()->private_data\<close> and with the objects that are alive.
\<close>

record Session =
  private_data :: "Dir option"
  open_files :: heap

definition O_ACCMODE :: u32 where "O_ACCMODE = 3"
definition O_RDONLY :: u32 where "O_RDONLY = 0"

definition vtk_getattr :: "Session \<Rightarrow> string option \<Rightarrow> stat \<Rightarrow> (int \<times> stat) result" where
  "vtk_getattr s path statbuf = Getattr (private_data s) path statbuf"

definition vtk_readdir ::
  "('b \<Rightarrow> string \<Rightarrow> 'b) \<Rightarrow> Session \<Rightarrow> string option \<Rightarrow> 'b \<Rightarrow> (int \<times> 'b) result" where
  "vtk_readdir filler s path buf = Readdir filler (private_data s) path buf"

definition vtk_open ::
  "u64 \<Rightarrow> Session \<Rightarrow> string option \<Rightarrow> fuse_file_info \<Rightarrow> (int \<times> Session \<times> fuse_file_info) result" where
  "vtk_open new_file s path fi =
     (if fi_flags fi AND O_ACCMODE \<noteq> O_RDONLY then Ok (- EPERM, s, fi)
      else bindR (Open new_file (private_data s) path (open_files s) fi) (\<lambda>(r, h, fi').
             Ok (r, s\<lparr>open_files := h\<rparr>, fi')))"

definition vtk_read ::
  "os_pread \<Rightarrow> decode_triplet \<Rightarrow> Session \<Rightarrow> u64 \<Rightarrow> u64 \<Rightarrow> fuse_file_info \<Rightarrow> (int \<times> byte list) result option"
where
  "vtk_read os dt s sz off fi = Read os dt (open_files s) sz off fi"

definition vtk_flush :: "string option \<Rightarrow> fuse_file_info \<Rightarrow> int" where
  "vtk_flush path fi = 0"

definition vtk_release :: "Session \<Rightarrow> fuse_file_info \<Rightarrow> (int \<times> Session) result" where
  "vtk_release s fi =
     bindR (Release (open_files s) fi) (\<lambda>(r, h). Ok (r, s\<lparr>open_files := h\<rparr>))"

text \<open>
  \<open>vtk_init_tree_int\<close> turns an exception of the parser into a null tree and asks FUSE, where it
  runs under FUSE, to exit. The result is the tree and whether \<open>fuse_exit\<close> was called, with the
  descriptors that are open afterwards.
\<close>

definition vtk_init_tree_int ::
  "'e world \<Rightarrow> bool \<Rightarrow> string \<Rightarrow> int list \<Rightarrow> (Dir option \<times> bool) result \<times> int list" where
  "vtk_init_tree_int w has_fuse fname fds =
     (case ParseVtkFile w fname fds of
        (Ok tree, fds) \<Rightarrow> (Ok (Some tree, False), fds)
      | (Error e, fds) \<Rightarrow>
          if e = Undefined then (Error Undefined, fds) else (Ok (None, has_fuse), fds))"

text \<open>The entry points that the benchmark uses on a tree of its own.\<close>

definition TEST_open :: "u64 \<Rightarrow> Dir option \<Rightarrow> string option \<Rightarrow> heap \<Rightarrow> fuse_file_info \<Rightarrow> (u64 \<times> heap) result" where
  "TEST_open new_file tree path h fi =
     bindR (Open new_file tree path h fi) (\<lambda>(r, h', fi'). Ok (if r = 0 then fi_fh fi' else 0, h'))"

definition TEST_read ::
  "os_pread \<Rightarrow> decode_triplet \<Rightarrow> u64 \<Rightarrow> heap \<Rightarrow> u64 \<Rightarrow> u64 \<Rightarrow> fuse_file_info \<Rightarrow> (int \<times> byte list) result option"
where
  "TEST_read os dt fh h sz off fi = Read os dt h sz off (fi\<lparr>fi_fh := fh\<rparr>)"

definition TEST_close :: "u64 \<Rightarrow> heap \<Rightarrow> fuse_file_info \<Rightarrow> heap result" where
  "TEST_close fh h fi = bindR (Release h (fi\<lparr>fi_fh := fh\<rparr>)) (\<lambda>(r, h'). Ok h')"

text \<open>Deleting the tree; the descriptors that are closed.\<close>

definition vtk_destroy_tree :: "Dir option \<Rightarrow> int list" where
  "vtk_destroy_tree tree = (case tree of None \<Rightarrow> [] | Some d \<Rightarrow> Dir_delete d)"

section \<open>The abstract file system\<close>

fun split_slash :: "string \<Rightarrow> string list" where
  "split_slash [] = [[]]"
| "split_slash (c # cs) =
     (if c = slash then [] # split_slash cs
      else case split_slash cs of [] \<Rightarrow> [[c]] | w # ws \<Rightarrow> (c # w) # ws)"

text \<open>The components of a path: what stands between the separators, without the empty ones.\<close>

definition components :: "string \<Rightarrow> string list" where
  "components p = filter (\<lambda>w. w \<noteq> []) (split_slash p)"

text \<open>A walk from an entry along components.\<close>

fun resolve :: "Entry \<Rightarrow> string list \<Rightarrow> int + Entry" where
  "resolve e [] = Inr e"
| "resolve (EFile f n) (c # cs) = Inl ENOTDIR"
| "resolve (EDir d) (c # cs) =
     (case entry d c of None \<Rightarrow> Inl ENOENT | Some e \<Rightarrow> resolve e cs)"

definition path_entry :: "Dir \<Rightarrow> string \<Rightarrow> int + Entry" where
  "path_entry tree path =
     (if path = [] \<or> hd path \<noteq> slash then Inl EINVAL else resolve (EDir tree) (components path))"

lemma resolve_append:
  "resolve e (cs @ ds) = (case resolve e cs of Inl r \<Rightarrow> Inl r | Inr e' \<Rightarrow> resolve e' ds)"
  by (induction e cs rule: resolve.induct) (auto split: option.split)

lemma resolve_ok: "resolve e cs = Inr e' \<Longrightarrow> entry_ok e \<Longrightarrow> entry_ok e'"
  by (induction e cs rule: resolve.induct) (auto split: option.split_asm dest: entry_ok)

lemma split_slash_word:
  "split_slash p =
     takeWhile (\<lambda>c. c \<noteq> slash) p #
     (case dropWhile (\<lambda>c. c \<noteq> slash) p of [] \<Rightarrow> [] | c # r \<Rightarrow> split_slash r)"
  by (induction p) auto

lemma components_Nil [simp]: "components [] = []"
  by (simp add: components_def)

lemma components_separator [simp]: "components (slash # p) = components p"
  by (simp add: components_def)

lemma components_skip [simp]: "components (dropWhile (\<lambda>c. c = slash) p) = components p"
  by (induction p) auto

lemma components_word:
  assumes "p \<noteq> []" and "hd p \<noteq> slash"
  shows "components p =
    takeWhile (\<lambda>c. c \<noteq> slash) p #
    components (dropWhile (\<lambda>c. c = slash) (dropWhile (\<lambda>c. c \<noteq> slash) p))"
proof -
  let ?rest = "dropWhile (\<lambda>c. c \<noteq> slash) p"
  have "takeWhile (\<lambda>c. c \<noteq> slash) p \<noteq> []"
    using assms by (cases p) auto
  then have "components p =
      takeWhile (\<lambda>c. c \<noteq> slash) p # filter (\<lambda>w. w \<noteq> []) (case ?rest of [] \<Rightarrow> [] | c # r \<Rightarrow> split_slash r)"
    by (subst components_def, subst split_slash_word) simp
  moreover have "filter (\<lambda>w. w \<noteq> []) (case ?rest of [] \<Rightarrow> [] | c # r \<Rightarrow> split_slash r) = components ?rest"
  proof (cases ?rest)
    case (Cons c r)
    then have "c = slash" using hd_dropWhile [of "\<lambda>c. c \<noteq> slash" p] by simp
    with Cons show ?thesis by (simp add: components_def)
  next
    case Nil
    then show ?thesis by (simp only: list.case filter.simps components_Nil)
  qed
  ultimately show ?thesis by simp
qed

lemma hd_skip: "dropWhile (\<lambda>c. c = slash) p \<noteq> [] \<Longrightarrow> hd (dropWhile (\<lambda>c. c = slash) p) \<noteq> slash"
  using hd_dropWhile [of "\<lambda>c. c = slash" p] by simp

section \<open>Path resolution is the walk\<close>

lemma Lookup_entry:
  "dir_ok d \<Longrightarrow> Lookup (Some d) name =
     Ok (case entry d name of None \<Rightarrow> NOTFOUND | Some (EDir d') \<Rightarrow> DIR | Some (EFile f n) \<Rightarrow> FILE)"
  by (auto simp: Lookup_def Dir_Stat_entry split: option.split Entry.split)

fun walk_code :: "int + Entry \<Rightarrow> int" where
  "walk_code (Inl e) = - e"
| "walk_code (Inr (EDir d)) = 0"
| "walk_code (Inr (EFile f n)) = - ENOTDIR"

lemma ResolvePath_loop_last:
  "dropWhile (\<lambda>c. c = slash) (dropWhile (\<lambda>c. c \<noteq> slash) p) = [] \<Longrightarrow>
   ResolvePath_loop parent p = Ok (0, parent, takeWhile (\<lambda>c. c \<noteq> slash) p)"
  by (subst ResolvePath_loop.simps) (simp only: Let_def if_True refl)

lemma ResolvePath_loop_step:
  assumes "dir_ok d"
    and more: "dropWhile (\<lambda>c. c = slash) (dropWhile (\<lambda>c. c \<noteq> slash) p) = p2" "p2 \<noteq> []"
    and word: "takeWhile (\<lambda>c. c \<noteq> slash) p = name"
  shows "ResolvePath_loop (Some d) p =
    (case entry d name of
       None \<Rightarrow> Ok (- ENOENT, Some d, name)
     | Some (EFile f n) \<Rightarrow> Ok (- ENOTDIR, Some d, name)
     | Some (EDir d') \<Rightarrow> ResolvePath_loop (Some d') p2)"
  unfolding ResolvePath_loop.simps [of _ p] Let_def more(1) word
  by (cases "entry d name"; (cases "the (entry d name)")?)
    (simp_all add: more(2) Lookup_entry [OF assms(1)] Dir_GetDir_entry)

lemma ResolvePath_loop_walk:
  assumes "dir_ok d" and "p \<noteq> []" and "hd p \<noteq> slash"
  shows "\<exists>parent name.
    ResolvePath_loop (Some d) p =
      Ok (walk_code (resolve (EDir d) (butlast (components p))), parent, name) \<and>
    (\<forall>d'. resolve (EDir d) (butlast (components p)) = Inr (EDir d') \<longrightarrow>
       parent = Some d' \<and> name = last (components p))"
  using assms
proof (induction "length p" arbitrary: d p rule: less_induct)
  case less
  define p2 where "p2 = dropWhile (\<lambda>c. c = slash) (dropWhile (\<lambda>c. c \<noteq> slash) p)"
  define w where "w = takeWhile (\<lambda>c. c \<noteq> slash) p"
  have comps: "components p = w # components p2"
    using less.prems(2,3) unfolding p2_def w_def by (rule components_word)
  show ?case
  proof (cases "p2 = []")
    case True
    have "ResolvePath_loop (Some d) p = Ok (0, Some d, w)"
      unfolding w_def by (rule ResolvePath_loop_last) (rule True [unfolded p2_def])
    moreover have "components p = [w]" using comps True by simp
    ultimately show ?thesis by simp
  next
    case False
    then have hd: "hd p2 \<noteq> slash" unfolding p2_def by (rule hd_skip)
    with False have ne: "components p2 \<noteq> []" using components_word [of p2] by simp
    have short: "length p2 < length p"
      using False unfolding p2_def by (rule dropWhile_slash_shorter)
    note step = ResolvePath_loop_step [OF less.prems(1) p2_def [symmetric] False w_def [symmetric]]
    have walk: "resolve (EDir d) (butlast (components p)) =
        (case entry d w of None \<Rightarrow> Inl ENOENT | Some e \<Rightarrow> resolve e (butlast (components p2)))"
      using comps ne by simp
    show ?thesis
    proof (cases "entry d w")
      case None
      then show ?thesis by (simp add: step walk)
    next
      case (Some e)
      show ?thesis
      proof (cases e)
        case (EFile f n)
        with Some show ?thesis by (cases "butlast (components p2)") (simp_all add: step walk)
      next
        case (EDir d')
        with Some have "dir_ok d'" using entry_ok [OF less.prems(1)] by fastforce
        from less.hyps [OF short this False hd] show ?thesis
          unfolding step walk using Some EDir ne comps by simp
      qed
    qed
  qed
qed

lemma resolve_last:
  "cs \<noteq> [] \<Longrightarrow> resolve (EDir d) cs =
     (case resolve (EDir d) (butlast cs) of
        Inl e \<Rightarrow> Inl e
      | Inr (EFile f n) \<Rightarrow> Inl ENOTDIR
      | Inr (EDir d') \<Rightarrow> (case entry d' (last cs) of None \<Rightarrow> Inl ENOENT | Some e \<Rightarrow> Inr e))"
  using resolve_append [of "EDir d" "butlast cs" "[last cs]"]
  by (auto split: sum.split Entry.split option.split)

lemma resolve_error: "resolve e cs = Inl r \<Longrightarrow> r = ENOENT \<or> r = ENOTDIR"
  by (induction e cs rule: resolve.induct) (auto split: option.split_asm)

lemma components_nonempty: "w \<in> set (components p) \<Longrightarrow> w \<noteq> []"
  by (simp add: components_def)

text \<open>
  The three ways in which \<open>ResolvePath\<close> ends: with an error, at the root, or at a name in a
  directory.
\<close>

text \<open>Below the root: the walk to the last directory fails, or the last name is looked up in it.\<close>

lemma ResolvePath_below_root:
  assumes "dir_ok tree" and "p \<noteq> []" and "hd p \<noteq> slash"
  obtains (error) e parent name where "resolve (EDir tree) (components p) = Inl e" "e \<noteq> 0"
      "ResolvePath_loop (Some tree) p = Ok (- e, parent, name)"
    | (name) d name where "name \<noteq> []" "dir_ok d" "ResolvePath_loop (Some tree) p = Ok (0, Some d, name)"
      "resolve (EDir tree) (components p) = (case entry d name of None \<Rightarrow> Inl ENOENT | Some e \<Rightarrow> Inr e)"
proof -
  have cs: "components p \<noteq> []" using assms(2,3) components_word [of p] by simp
  note last = resolve_last [OF cs, of tree]
  from ResolvePath_loop_walk [OF assms] obtain parent nm where
    loop: "ResolvePath_loop (Some tree) p =
       Ok (walk_code (resolve (EDir tree) (butlast (components p))), parent, nm)"
    and res: "\<And>d'. resolve (EDir tree) (butlast (components p)) = Inr (EDir d') \<Longrightarrow>
       parent = Some d' \<and> nm = last (components p)" by blast
  consider (err) e where "resolve (EDir tree) (butlast (components p)) = Inl e"
    | (fl) f n where "resolve (EDir tree) (butlast (components p)) = Inr (EFile f n)"
    | (dir) d where "resolve (EDir tree) (butlast (components p)) = Inr (EDir d)"
    by (cases "resolve (EDir tree) (butlast (components p))") (auto, metis Entry.exhaust)
  then show ?thesis
  proof cases
    case err
    with resolve_error [OF err] show ?thesis using loop last by (intro error [of e]) (auto simp: errnos)
  next
    case fl
    then show ?thesis using loop last by (intro error [of ENOTDIR]) (auto simp: errnos)
  next
    case dir
    have "dir_ok d" using resolve_ok [OF dir] assms(1) by simp
    moreover have "nm \<noteq> []" "parent = Some d" "nm = last (components p)"
      using res [OF dir] components_nonempty [OF last_in_set [OF cs]] by auto
    ultimately show ?thesis using loop last dir by (intro name [of nm d]) auto
  qed
qed

lemma ResolvePath_cases:
  assumes "dir_ok tree"
  obtains (error) e parent name where "path_entry tree s = Inl e" "e \<noteq> 0"
      "ResolvePath (Some tree) (Some s) (Some tree) [] = Ok (- e, parent, name)"
    | (root) "path_entry tree s = Inr (EDir tree)"
      "ResolvePath (Some tree) (Some s) (Some tree) [] = Ok (0, Some tree, [])"
    | (name) d name where "name \<noteq> []" "dir_ok d"
      "ResolvePath (Some tree) (Some s) (Some tree) [] = Ok (0, Some d, name)"
      "path_entry tree s = (case entry d name of None \<Rightarrow> Inl ENOENT | Some e \<Rightarrow> Inr e)"
proof (cases "s = [] \<or> hd s \<noteq> slash")
  case True
  then show ?thesis
    by (intro error [of EINVAL "Some tree" "[]"]) (auto simp: path_entry_def ResolvePath_def errnos)
next
  case False
  define p where "p = dropWhile (\<lambda>c. c = slash) s"
  have comps: "components s = components p" by (simp add: p_def)
  have path: "path_entry tree s = resolve (EDir tree) (components p)"
    using False by (simp add: path_entry_def comps)
  have code: "ResolvePath (Some tree) (Some s) (Some tree) [] =
      (if p = [] then Ok (0, Some tree, []) else ResolvePath_loop (Some tree) p)"
    using False by (simp add: ResolvePath_def p_def Let_def)
  show ?thesis
  proof (cases "p = []")
    case True
    then show ?thesis using code path by (intro root) simp_all
  next
    case ne: False
    then have hd: "hd p \<noteq> slash" unfolding p_def by (rule hd_skip)
    show ?thesis
      using assms ne hd
    proof (cases rule: ResolvePath_below_root)
      case (error e parent nm)
      with code path ne show ?thesis by (intro that(1) [of e parent nm]) simp_all
    next
      case (name d nm)
      with code path ne show ?thesis by (intro that(3) [of nm d]) simp_all
    qed
  qed
qed

section \<open>The handlers implement the abstract file system\<close>

fun entry_attr :: "stat \<Rightarrow> Entry \<Rightarrow> stat" where
  "entry_attr st (EDir d) = st\<lparr>st_mode := MakeDirMode (st_mode st)\<rparr>"
| "entry_attr st (EFile f n) = st\<lparr>st_size := n, st_mode := st_mode st OR S_IFREG\<rparr>"

lemma entry_attr_stat:
  "entry_attr st e =
     (if fs_is_dir (entry_stat e) then st\<lparr>st_mode := MakeDirMode (st_mode st)\<rparr>
      else st\<lparr>st_size := fs_file_size (entry_stat e), st_mode := st_mode st OR S_IFREG\<rparr>)"
  by (cases e) simp_all

lemma Getattr_implements:
  assumes "dir_ok (VtkTree subdirs st base own)"
  defines "tree \<equiv> VtkTree subdirs st base own"
  shows "case path_entry tree s of
      Inl e \<Rightarrow> \<exists>sb'. Getattr (Some tree) (Some s) sb = Ok (- e, sb')
    | Inr e \<Rightarrow> Getattr (Some tree) (Some s) sb = Ok (0, entry_attr st e)"
  using assms(1) unfolding tree_def [symmetric]
proof (cases rule: ResolvePath_cases [where s = s])
  case error
  then show ?thesis by (simp add: Getattr_def)
next
  case root
  then show ?thesis by (simp add: Getattr_def base_statbuf_def tree_def Getattr_entry_def)
next
  case (name d nm)
  then show ?thesis
    by (auto simp: Getattr_def base_statbuf_def tree_def Getattr_entry_def Dir_Stat_entry
        entry_attr_stat split: option.split)
qed

lemma Readdir_loop_fold:
  "ki_it it \<le> length (ki_keys it) \<Longrightarrow>
   Readdir_loop filler it buf = Ok (foldl filler buf (drop (ki_it it) (ki_keys it)))"
proof (induction filler it buf rule: Readdir_loop.induct)
  case (1 filler it buf)
  show ?case
  proof (cases "Valid it")
    case True
    with 1(2) have i: "ki_it it < length (ki_keys it)" by (simp add: Valid_def)
    with 1(1) [OF True, of "ki_keys it ! ki_it it" "it\<lparr>ki_it := Suc (ki_it it)\<rparr>"] True
    show ?thesis by (subst Readdir_loop.simps) (simp add: Value_def Next_def Cons_nth_drop_Suc [symmetric])
  next
    case False
    then show ?thesis by (subst Readdir_loop.simps) (simp add: Valid_def)
  qed
qed

definition dir_names :: "Dir \<Rightarrow> string list" where
  "dir_names d = ki_keys (Dir_NewIter d)"

lemma Readdir_dir_names: "Readdir_dir filler (Some d) buf = Ok (0, foldl filler buf (dir_names d))"
  by (simp add: Readdir_dir_def Readdir_loop_fold SeekToFirst_def dir_names_def)

lemma Readdir_implements:
  assumes "dir_ok tree"
  shows "Readdir filler (Some tree) (Some s) buf =
    Ok (case path_entry tree s of
          Inl e \<Rightarrow> (- e, buf)
        | Inr (EFile f n) \<Rightarrow> (- ENOTDIR, buf)
        | Inr (EDir d) \<Rightarrow> (0, foldl filler buf (dir_names d)))"
  using assms
proof (cases rule: ResolvePath_cases [where s = s])
  case error
  then show ?thesis by (simp add: Readdir_def)
next
  case root
  then show ?thesis by (simp add: Readdir_def Readdir_entry_def Readdir_dir_names)
next
  case (name d nm)
  then show ?thesis
    by (auto simp: Readdir_def Readdir_entry_def Lookup_entry Readdir_dir_names Dir_GetDir_entry
        split: option.split Entry.split)
qed

lemma Open_implements:
  assumes "dir_ok tree"
  shows "Open p (Some tree) (Some s) h fi =
    Ok (case path_entry tree s of
          Inl e \<Rightarrow> (- e, h, fi)
        | Inr (EDir d) \<Rightarrow> (- EISDIR, h, fi)
        | Inr (EFile f n) \<Rightarrow> (0, h(p \<mapsto> f), fi\<lparr>fi_fh := p\<rparr>))"
  using assms
proof (cases rule: ResolvePath_cases [where s = s])
  case error
  then show ?thesis by (simp add: Open_def)
next
  case root
  then show ?thesis by (simp add: Open_def Open_entry_def)
next
  case (name d nm)
  then show ?thesis
    by (auto simp: Open_def Open_entry_def Lookup_entry Dir_Open_entry
        split: option.split Entry.split)
qed

lemma path_entry_error: "path_entry tree path = Inl e \<Longrightarrow> 0 < e"
  by (auto simp: path_entry_def errnos split: if_split_asm dest: resolve_error)

section \<open>Permissions\<close>

text \<open>
  Every permission is a read permission that the VTK file grants, or the right to search a
  directory where it grants a read.
\<close>

lemma MakeDirMode_class:
  "MakeDirMode m =
     S_IFDIR OR (if m AND S_IRUSR \<noteq> 0 then S_IRUSR OR S_IXUSR else 0)
             OR (if m AND S_IRGRP \<noteq> 0 then S_IRGRP OR S_IXGRP else 0)
             OR (if m AND S_IROTH \<noteq> 0 then S_IROTH OR S_IXOTH else 0)"
  by (simp add: MakeDirMode_def Let_def or.assoc)

text \<open>The masks 0222 of the write permissions, 0111 of the execute permissions and 0170000 of the
  file type.\<close>

definition write_bits :: u32 where "write_bits = 0x92"
definition execute_bits :: u32 where "execute_bits = 0x49"
definition type_bits :: u32 where "type_bits = 0xF000"

lemmas masks = write_bits_def execute_bits_def type_bits_def

lemma sanitized_mode: "st_mode (SanitizedStat st) = st_mode st AND 0x124"
  by (simp add: SanitizedStat_def mode_bits)

lemma MakeDirMode_no_write: "MakeDirMode m AND write_bits = 0"
  by (simp add: MakeDirMode_class mode_bits masks)

lemma MakeDirMode_type: "MakeDirMode m AND type_bits = S_IFDIR"
  by (simp add: MakeDirMode_class mode_bits masks)

lemma MakeDirMode_read:
  "MakeDirMode m AND S_IRUSR \<noteq> 0 \<longleftrightarrow> m AND S_IRUSR \<noteq> 0"
  "MakeDirMode m AND S_IRGRP \<noteq> 0 \<longleftrightarrow> m AND S_IRGRP \<noteq> 0"
  "MakeDirMode m AND S_IROTH \<noteq> 0 \<longleftrightarrow> m AND S_IROTH \<noteq> 0"
  by (simp_all add: MakeDirMode_class mode_bits)

lemma MakeDirMode_search:
  "MakeDirMode m AND S_IXUSR \<noteq> 0 \<longleftrightarrow> m AND S_IRUSR \<noteq> 0"
  "MakeDirMode m AND S_IXGRP \<noteq> 0 \<longleftrightarrow> m AND S_IRGRP \<noteq> 0"
  "MakeDirMode m AND S_IXOTH \<noteq> 0 \<longleftrightarrow> m AND S_IROTH \<noteq> 0"
  by (simp_all add: MakeDirMode_class mode_bits)

lemma sanitized_read:
  "st_mode (SanitizedStat st) AND S_IRUSR = st_mode st AND S_IRUSR"
  "st_mode (SanitizedStat st) AND S_IRGRP = st_mode st AND S_IRGRP"
  "st_mode (SanitizedStat st) AND S_IROTH = st_mode st AND S_IROTH"
  by (simp_all add: sanitized_mode mode_bits and.assoc)

lemma masked_or: "(m AND a OR b) AND c = (m AND (a AND c)) OR (b AND (c :: u32))"
  by (simp add: word_ao_dist and.assoc)

lemma file_mode_bits:
  "(st_mode (SanitizedStat st) OR S_IFREG) AND write_bits = 0"
  "(st_mode (SanitizedStat st) OR S_IFREG) AND execute_bits = 0"
  "(st_mode (SanitizedStat st) OR S_IFREG) AND type_bits = S_IFREG"
  by (simp_all add: sanitized_mode mode_bits masks masked_or)

section \<open>Sessions\<close>

text \<open>
  The calls of the kernel, each with what it got back. \<open>Opened\<close> carries the address of the new
  object. A call on an address that is not an open file is undefined and has no step.
\<close>

datatype event =
    Attr string int stat
  | Listed string int "string list"
  | Opened string u32 u64 int
  | Bytes u64 u64 u64 int "byte list"
  | Flushed u64
  | Released u64

inductive session_step :: "os_pread \<Rightarrow> decode_triplet \<Rightarrow> Session \<Rightarrow> event \<Rightarrow> Session \<Rightarrow> bool"
  for os :: os_pread and dt :: decode_triplet
where
  step_getattr: "vtk_getattr s (Some path) sb = Ok (r, sb') \<Longrightarrow> session_step os dt s (Attr path r sb') s"
| step_readdir: "vtk_readdir (\<lambda>b n. b @ [n]) s (Some path) [] = Ok (r, ns) \<Longrightarrow>
    session_step os dt s (Listed path r ns) s"
| step_open: "p \<noteq> 0 \<Longrightarrow> open_files s p = None \<Longrightarrow>
    vtk_open p s (Some path) \<lparr>fi_flags = flags, fi_fh = 0\<rparr> = Ok (r, s', fi) \<Longrightarrow>
    session_step os dt s (Opened path flags p r) s'"
| step_read: "vtk_read os dt s sz off \<lparr>fi_flags = flags, fi_fh = p\<rparr> = Some (Ok (r, bs)) \<Longrightarrow>
    session_step os dt s (Bytes p sz off r bs) s"
| step_flush: "vtk_flush path \<lparr>fi_flags = flags, fi_fh = p\<rparr> = 0 \<Longrightarrow>
    session_step os dt s (Flushed p) s"
| step_release: "open_files s p \<noteq> None \<Longrightarrow> p \<noteq> 0 \<Longrightarrow>
    vtk_release s \<lparr>fi_flags = flags, fi_fh = p\<rparr> = Ok (r, s') \<Longrightarrow>
    session_step os dt s (Released p) s'"

inductive session_run :: "os_pread \<Rightarrow> decode_triplet \<Rightarrow> Session \<Rightarrow> event list \<Rightarrow> Session \<Rightarrow> bool"
  for os :: os_pread and dt :: decode_triplet and s0 :: Session
where
  run_start: "session_run os dt s0 [] s0"
| run_step: "session_run os dt s0 es s \<Longrightarrow> session_step os dt s e s' \<Longrightarrow> session_run os dt s0 (es @ [e]) s'"

inductive_cases session_step_cases: "session_step os dt s e s'"
inductive_simps step_read_iff: "session_step os dt s (Bytes p sz off r bs) s'"

text \<open>What the kernel can know about its open files: the path that each address was opened with.\<close>

fun opened_path :: "event \<Rightarrow> (u64 \<Rightarrow> string option) \<Rightarrow> u64 \<Rightarrow> string option" where
  "opened_path (Opened path flags p r) tab = (if r = 0 then tab(p \<mapsto> path) else tab)"
| "opened_path (Released p) tab = tab(p := None)"
| "opened_path _ tab = tab"

definition open_paths :: "event list \<Rightarrow> u64 \<Rightarrow> string option" where
  "open_paths es = fold opened_path es (\<lambda>p. None)"

lemma open_paths_simps [simp]:
  "open_paths [] = (\<lambda>p. None)"
  "open_paths (es @ [e]) = opened_path e (open_paths es)"
  by (simp_all add: open_paths_def)

text \<open>The file that a path stands for.\<close>

definition path_file :: "Dir \<Rightarrow> string \<Rightarrow> RandomAccessFile option" where
  "path_file tree path = (case path_entry tree path of Inr (EFile f n) \<Rightarrow> Some f | _ \<Rightarrow> None)"

lemma vtk_open_flags: "vtk_open p s path fi = Ok (r, s', fi') \<Longrightarrow> fi_flags fi AND O_ACCMODE \<noteq> O_RDONLY \<Longrightarrow>
   r = - EPERM \<and> s' = s"
  by (simp add: vtk_open_def)

lemma vtk_open_result:
  assumes "private_data s = Some tree" and "dir_ok tree"
    and "vtk_open p s (Some path) fi = Ok (r, s', fi')"
  shows "private_data s' = Some tree"
    and "r \<noteq> 0 \<Longrightarrow> s' = s"
    and "r = 0 \<Longrightarrow> \<exists>f. path_file tree path = Some f \<and> s' = s\<lparr>open_files := (open_files s)(p \<mapsto> f)\<rparr>"
  using assms path_entry_error [of tree path]
  by (auto simp: vtk_open_def Open_implements path_file_def errnos split: if_split_asm sum.split_asm Entry.split_asm)

lemma vtk_release_result:
  assumes "open_files s p = Some f" and "p \<noteq> 0"
    and "vtk_release s \<lparr>fi_flags = flags, fi_fh = p\<rparr> = Ok (r, s')"
  shows "r = 0" and "s' = s\<lparr>open_files := (open_files s)(p := None)\<rparr>"
  using assms by (auto simp: vtk_release_def Release_def)

definition session_ok :: "Dir \<Rightarrow> Session \<Rightarrow> event list \<Rightarrow> bool" where
  "session_ok tree s es \<longleftrightarrow>
     private_data s = Some tree \<and>
     (\<forall>p. open_files s p = Option.bind (open_paths es p) (path_file tree)) \<and>
     (\<forall>p path. open_paths es p = Some path \<longrightarrow> path_file tree path \<noteq> None)"

lemma session_ok_start:
  "session_ok tree \<lparr>private_data = Some tree, open_files = (\<lambda>p. None)\<rparr> []"
  by (simp add: session_ok_def)

lemma session_ok_step:
  assumes ok: "session_ok tree s es" and "dir_ok tree" and "session_step os dt s e s'"
  shows "session_ok tree s' (es @ [e])"
  using assms(3)
proof cases
  case (step_open p path flags r fi)
  have tree: "private_data s = Some tree" using ok by (simp add: session_ok_def)
  note open_result = vtk_open_result [OF tree assms(2) step_open(4)]
  show ?thesis
  proof (cases "r = 0")
    case True
    with open_result(3) obtain f where "path_file tree path = Some f"
      "s' = s\<lparr>open_files := (open_files s)(p \<mapsto> f)\<rparr>" by blast
    with ok True show ?thesis by (auto simp: session_ok_def step_open(1))
  next
    case False
    with ok open_result(2) show ?thesis by (simp add: session_ok_def step_open(1))
  qed
next
  case (step_release p flags r)
  then obtain f where "open_files s p = Some f" by blast
  from vtk_release_result(2) [OF this step_release(3,4)] ok show ?thesis
    by (auto simp: session_ok_def step_release(1))
qed (use ok in \<open>simp_all add: session_ok_def\<close>)

text \<open>In every run the open files are those that the kernel opened and has not released.\<close>

lemma session_ok_run:
  assumes "session_run os dt \<lparr>private_data = Some tree, open_files = (\<lambda>p. None)\<rparr> es s" and "dir_ok tree"
  shows "session_ok tree s es"
  using assms(1) by induction (auto intro: session_ok_start session_ok_step [OF _ assms(2)])

lemma to_int_small: "0 \<le> n \<Longrightarrow> n < 2 ^ 31 \<Longrightarrow> to_int n = n"
  by (simp add: to_int_def sint_sbintrunc' signed_take_bit_int_eq_self)

lemma vtk_read_holds:
  assumes "open_files s (fi_fh fi) = Some f" and "file_holds os dt f content" and "unat sz < 2 ^ 31"
  shows "vtk_read os dt s sz off fi =
    Some (Ok (int (length (bytes_at (unat off) (unat sz) content)), bytes_at (unat off) (unat sz) content))"
proof -
  have "length (bytes_at (unat off) (unat sz) content) < 2 ^ 31"
    using assms(3) by (auto simp: bytes_at_def)
  then have "to_int (int (length (bytes_at (unat off) (unat sz) content))) =
      int (length (bytes_at (unat off) (unat sz) content))"
    by (intro to_int_small) (simp_all del: length_bytes_at)
  then show ?thesis using assms(1,2)
    by (simp add: vtk_read_def Read_def file_holds_def Let_def del: length_bytes_at)
qed

lemma session_read:
  assumes "session_run os dt \<lparr>private_data = Some tree, open_files = (\<lambda>p. None)\<rparr> es s" and "dir_ok tree"
    and "open_paths es (fi_fh fi) = Some path" and "path_file tree path = Some f"
    and "file_holds os dt f content" and "unat sz < 2 ^ 31"
  shows "vtk_read os dt s sz off fi =
    Some (Ok (int (length (bytes_at (unat off) (unat sz) content)), bytes_at (unat off) (unat sz) content))"
  using session_ok_run [OF assms(1,2)] assms(3-)
  by (intro vtk_read_holds) (auto simp: session_ok_def)

section \<open>Paths\<close>

lemma split_slash_plain: "slash \<notin> set w \<Longrightarrow> split_slash w = [w]"
  by (induction w) auto

lemma split_slash_append: "slash \<notin> set w \<Longrightarrow> split_slash (w @ slash # p) = w # split_slash p"
  by (induction w) auto

lemma components_plain: "w \<noteq> [] \<Longrightarrow> slash \<notin> set w \<Longrightarrow> components w = [w]"
  by (simp add: components_def split_slash_plain)

lemma components_append: "w \<noteq> [] \<Longrightarrow> slash \<notin> set w \<Longrightarrow> components (w @ slash # p) = w # components p"
  by (simp add: components_def split_slash_append)

lemma components_eq_Nil: "components p = [] \<longleftrightarrow> set p \<subseteq> {slash}"
  by (induction p) (auto simp: components_def split: list.split)

text \<open>A path to a file of an array directory.\<close>

lemma array_path_entry:
  assumes "map_of subdirs dn = Some (ArrayDir arr_maps base own)" and "map_of arr_maps fn = Some m"
    and "dn \<noteq> []" "slash \<notin> set dn" "fn \<noteq> []" "slash \<notin> set fn"
  shows "path_entry (VtkTree subdirs st fb fo) (slash # dn @ slash # fn) =
    Inr (EFile (AVirtualFile \<lparr>vf_map = m, vf_base = base, vf_own_base = False\<rparr>) (map_size m))"
  using assms by (simp add: path_entry_def components_append components_plain)

lemma ResolvePath_null: "ResolvePath root None parent name = Ok (- EINVAL, parent, name)"
  by (simp add: ResolvePath_def)

text \<open>On a well-formed tree no handler throws or does anything undefined.\<close>

lemma Getattr_returns:
  assumes "dir_ok (VtkTree subdirs st base own)"
  shows "\<exists>r. Getattr (Some (VtkTree subdirs st base own)) path sb = Ok r"
proof (cases path)
  case None
  then show ?thesis by (simp add: Getattr_def ResolvePath_null errnos)
next
  case (Some s)
  then show ?thesis using Getattr_implements [OF assms, of s sb] by (auto split: sum.split_asm)
qed

lemma Readdir_returns: "dir_ok tree \<Longrightarrow> \<exists>r. Readdir filler (Some tree) path buf = Ok r"
  by (cases path) (auto simp: Readdir_def [of _ _ None] ResolvePath_null errnos Readdir_implements)

lemma Open_returns: "dir_ok tree \<Longrightarrow> \<exists>r. Open p (Some tree) path h fi = Ok r"
proof (cases path)
  case None
  then show ?thesis by (simp add: Open_def ResolvePath_null errnos)
next
  case (Some s)
  assume "dir_ok tree"
  then show ?thesis unfolding Some Open_implements [OF \<open>dir_ok tree\<close>] by blast
qed

lemma vtk_open_returns:
  "private_data s = Some tree \<Longrightarrow> dir_ok tree \<Longrightarrow> \<exists>r. vtk_open p s path fi = Ok r"
  using Open_returns [of tree p path "open_files s" fi] by (auto simp: vtk_open_def)

text \<open>Empty components do not count.\<close>

lemma split_slash_separator: "split_slash (a @ slash # b) = split_slash a @ split_slash b"
proof (induction a)
  case (Cons c a)
  then show ?case by (cases "split_slash a") (auto simp: split_slash_word [of a])
qed simp

lemma components_separated: "components (a @ slash # b) = components a @ components b"
  by (simp add: components_def split_slash_separator)

lemma path_entry_components:
  "components a = components b \<Longrightarrow> path_entry tree (slash # a) = path_entry tree (slash # b)"
  by (simp add: path_entry_def)

text \<open>A file that is opened and read.\<close>

lemma open_then_read:
  assumes "private_data s = Some tree" and "dir_ok tree" and "fi_flags fi AND O_ACCMODE = O_RDONLY"
    and "path_entry tree path = Inr (EFile f n)" and "file_holds os dt f content"
  shows "\<exists>s' fi'. vtk_open p s (Some path) fi = Ok (0, s', fi') \<and>
    (\<forall>sz off. unat sz < 2 ^ 31 \<longrightarrow> vtk_read os dt s' sz off fi' =
       Some (Ok (int (length (bytes_at (unat off) (unat sz) content)), bytes_at (unat off) (unat sz) content)))"
proof -
  have "vtk_open p s (Some path) fi =
      Ok (0, s\<lparr>open_files := (open_files s)(p \<mapsto> f)\<rparr>, fi\<lparr>fi_fh := p\<rparr>)"
    using assms by (simp add: vtk_open_def Open_implements)
  then show ?thesis using vtk_read_holds [OF _ assms(5)] by (simp del: length_bytes_at)
qed

lemma getattr_file:
  assumes "private_data s = Some (VtkTree subdirs st base own)" and "dir_ok (VtkTree subdirs st base own)"
    and "path_entry (VtkTree subdirs st base own) path = Inr (EFile f n)"
  shows "vtk_getattr s (Some path) sb = Ok (0, st\<lparr>st_size := n, st_mode := st_mode st OR S_IFREG\<rparr>)"
  using Getattr_implements [OF assms(2), of path sb] assms by (simp add: vtk_getattr_def)

lemma metadata_path_entry:
  assumes "map_of subdirs dn = Some (MetadataDir m)" and "map_of m k = Some v"
    and "dn \<noteq> []" "slash \<notin> set dn" "k \<noteq> []" "slash \<notin> set k"
  shows "path_entry (VtkTree subdirs st fb fo) (slash # dn @ slash # k) =
    Inr (EFile (AStringBufFile \<lparr>sbf_strbuf = string_bytes v\<rparr>) (word_of_nat (length v)))"
  using assms by (simp add: path_entry_def components_append components_plain)

lemma length_string_bytes [simp]: "length (string_bytes v) = length v"
  by (simp add: string_bytes_def)

lemma to_int_large:
  assumes "2 ^ 31 \<le> n" and "n < 2 ^ 32"
  shows "to_int n = n - 2 ^ 32"
proof -
  have "(n - 2 ^ 32) mod 2 ^ 32 = n mod 2 ^ 32" by simp
  then have "signed_take_bit 31 n = signed_take_bit 31 (n - 2 ^ 32)"
    by (intro signed_take_bit_eq_iff_take_bit_eq [THEN iffD2]) (simp add: take_bit_eq_mod)
  also have "\<dots> = n - 2 ^ 32"
    using assms by (intro signed_take_bit_int_eq_self) auto
  finally show ?thesis by (simp add: to_int_def sint_sbintrunc')
qed

end
