(* ===== verification/Samples.thy ===== *)
theory Samples
  imports Vtk_Array Vtk_Tree Fuse
begin

text \<open>
  Small concrete data at which the properties are applied: a VTK file with one array, stored raw
  or in base64, an operating system that reads it, and encoders of the two Thrift structs.
\<close>

definition sample_os :: "byte list \<Rightarrow> os_pread" where
  "sample_os content = (\<lambda>fd sz off. Some (bytes_at (unat off) (unat sz) content))"

definition sample_file :: ReadonlyOSFile where
  "sample_file = \<lparr>osf_fd = 3\<rparr>"

text \<open>Groups of four characters with \<open>=\<close> (61) for padding; the other characters stand for themselves.\<close>

definition sample_dt :: decode_triplet where
  "sample_dt a b c d = (if c = 61 then 1 else if d = 61 then 2 else 3, a, b, c)"

definition sample_data :: "byte list" where
  "sample_data = [1, 2, 3, 4]"

definition sample_raw :: "byte list" where
  "sample_raw = [4, 0, 0, 0, 1, 2, 3, 4]"

definition sample_base64 :: "byte list" where
  "sample_base64 = [4, 0, 0, 0,  0, 61, 61, 61,  1, 2, 3, 0,  4, 61, 61, 61]"

definition sample_enc :: "tok list \<Rightarrow> byte list" where
  "sample_enc ts = [word_of_nat (length ts)]"

lemma sample_os_regular: "os_regular_file (sample_os content) fd content"
  by (simp add: os_regular_file_def sample_os_def)

lemma sample_os_file: "random_access_file (ReadonlyOSFile_Pread (sample_os content) file) content"
  using os_regular_eof_file [OF sample_os_regular [of content "osf_fd file"]]
  by (rule eof_file_random_access)

lemma le_bytes_4: "le_bytes 4 4 = [4, 0, 0, 0]"
  by (simp add: le_bytes_numeral)

lemma sample_raw_stored: "stored sample_dt False sample_raw 0 (le_bytes 4 4) sample_data"
  by (simp add: stored_def sample_raw_def sample_data_def bytes_at_def le_bytes_4)

lemma sample_base64_stored: "stored sample_dt True sample_base64 0 (le_bytes 4 4) sample_data"
  by (simp add: stored_def b64_stored_def b64_stream_at_def sample_base64_def sample_data_def Let_def
      bytes_at_def group_chars_def sample_dt_def le_bytes_4)

lemma sample_thrift_fits: "thrift_fits sample_enc v cmp name t conv pcodec bs"
  by (simp add: thrift_fits_def small_headers_def page_header_def sample_enc_def)

lemma sample_type: "array_type INT32 4 Type_INT32 (Some ConvertedType_INT_32)"
  by (simp add: array_type_def)

text \<open>The same data as two compressed blocks of two bytes, with 32-bit header fields.\<close>

definition sample_zlib :: "byte list" where
  "sample_zlib = [2,0,0,0, 8,0,0,0, 4,0,0,0, 2,0,0,0, 2,0,0,0, 1,2,3,4]"

lemma length_sample_data [simp]: "length sample_data = 4"
  by (simp add: sample_data_def)

lemma sample_zlib_stored:
  "stored sample_dt False sample_zlib 0 (compressed_header 4 8 4 [2, 2]) sample_data"
  by (simp add: stored_def sample_zlib_def sample_data_def bytes_at_def compressed_header_def
      le_bytes_numeral)

text \<open>An encoder and a decoder that tell the one page header of the sample from its footer.\<close>

definition sample_header :: "bool \<Rightarrow> tok list" where
  "sample_header cmp = write_PageHeader (data_page_v2 4 4 4 cmp)"

definition header_enc :: "bool \<Rightarrow> tok list \<Rightarrow> byte list" where
  "header_enc cmp ts = [if ts = sample_header cmp then 1 else 2]"

definition sample_footer :: "bool \<Rightarrow> CompressionCodec \<Rightarrow> tok list" where
  "sample_footer cmp codec = write_FileMetaData (array_footer (header_enc cmp) 4 cmp ''p'' Type_INT32
     (Some ConvertedType_INT_32) codec [(4, 4)])"

fun header_dec :: "bool \<Rightarrow> CompressionCodec \<Rightarrow> decoder" where
  "header_dec cmp codec [] = None"
| "header_dec cmp codec (x # rest) =
     Some (if x = 1 then sample_header cmp else sample_footer cmp codec, rest)"

lemma sample_blocks: "uncompressed_blocks 4 = [(4, 4)]"
  by (simp add: uncompressed_blocks_def num_blks_def last_blk_sz_def blk_sz_def)

lemma sample_vtk_blocks: "vtk_blocks 8 4 [4] = [(4, 4)]"
  by (simp add: vtk_blocks_def)

lemma header_fits: "thrift_fits (header_enc cmp) v cmp' name t conv pcodec bs"
  by (simp add: thrift_fits_def small_headers_def page_header_def header_enc_def)

lemma sample_footer_header: "sample_footer cmp codec \<noteq> sample_header cmp"
  by (simp add: sample_footer_def sample_header_def write_FileMetaData_def write_PageHeader_def w_struct_def)

lemma header_decodes:
  "thrift_decodes (header_dec cmp codec) (header_enc cmp) 4 cmp
     (array_footer (header_enc cmp) 4 cmp ''p'' Type_INT32 (Some ConvertedType_INT_32) codec [(4, 4)])
     [(4, 4)]"
  using sample_footer_header
  by (auto simp: thrift_decodes_def decodes_def header_enc_def page_header_def
      simp flip: sample_header_def sample_footer_def)

text \<open>A VTK reader over elements that are just names: one array of the points, raw and uncompressed.\<close>

definition sample_attributes :: "string \<Rightarrow> (string \<times> string) list" where
  "sample_attributes e =
     (if e = ''VTKFile'' then [(''header_type'', ''UInt32'')]
      else if e = ''DataArray'' then [(''type'', ''Int32''), (''format'', ''appended''), (''offset'', ''0'')]
      else [])"

definition sample_element :: "string vtk_element" where
  "sample_element =
     \<lparr>GetNumberOfAttributes = (\<lambda>e. int (length (sample_attributes e))),
      GetAttributeName = (\<lambda>e i. Some (fst (sample_attributes e ! nat i))),
      GetAttributeValue = (\<lambda>e i. Some (snd (sample_attributes e ! nat i))),
      GetAttribute = (\<lambda>e k. map_of (sample_attributes e) k),
      GetNumberOfNestedElements = (\<lambda>e. 0),
      GetNestedElement = (\<lambda>e i. Some ''DataArray''),
      LookupElementWithName = (\<lambda>e n. Some n),
      FindNestedElementWithName = (\<lambda>e n. if n = ''AppendedData'' then None else Some n)\<rparr>"

definition named_reader :: "string \<Rightarrow> vtk_class \<Rightarrow> string \<Rightarrow> string vtk_reader" where
  "named_reader name cls fname =
     \<lparr>UpdateInformation = True, GetCompressor = None, GetAppendedDataPosition = 0,
      GetRootElement = Some ''VTKFile'',
      GetNumberOfPointArrays = 1, GetPointArrayName = (\<lambda>i. Some name),
      GetNumberOfCellArrays = 0, GetCellArrayName = (\<lambda>i. None)\<rparr>"

definition sample_stat :: stat where
  "sample_stat = zero_stat\<lparr>st_mode := 0x81A4\<rparr>"

definition named_world :: "string \<Rightarrow> string world" where
  "named_world name =
     \<lparr>w_compact = (\<lambda>ts. Some (sample_enc ts)), w_decode = sample_dt,
      w_open = (\<lambda>f. Some 3), w_fstat = (\<lambda>fd. Some sample_stat), w_pread = sample_os sample_raw,
      w_element = sample_element, w_reader = named_reader name\<rparr>"

abbreviation sample_world :: "string world" where
  "sample_world \<equiv> named_world ''p''"

lemma sample_array_map:
  "\<exists>m. ParseAppendedArray (\<lambda>ts. Some (sample_enc ts)) sample_dt
        (ReadonlyOSFile_Pread (sample_os sample_raw) sample_file) name INT32 NONE RAW UINT32 0 = Ok m \<and>
      array_map sample_dt (ReadonlyOSFile_Pread (sample_os sample_raw) sample_file) m
        (page_header sample_enc 4 False)
        (sample_enc (write_FileMetaData (array_footer sample_enc 4 False name Type_INT32
           (Some ConvertedType_INT_32) CompressionCodec_UNCOMPRESSED (uncompressed_blocks 4))))
        (uncompressed_blocks 4) sample_data"
  by (rule uncompressed_array_map [OF sample_os_file])
    (simp_all add: sample_raw_stored sample_type sample_thrift_fits field_width_def)

lemma named_info:
  "ParseVtkInfo (named_world name) ''a.vti'' ''ImageData'' False False =
     Ok \<lparr>vi_codec = NONE, vi_appended_data_pos = 0, vi_enc = RAW, vi_header_type = UINT32,
         vi_root_attrs = [(''header_type'', ''UInt32'')],
         vi_point_arr_info = [(name, [(''type'', ''Int32''), (''format'', ''appended''), (''offset'', ''0'')])],
         vi_cell_arr_info = [], vi_points_info = [], vi_cells_info = []\<rparr>"
  by (simp add: ParseVtkInfo_def named_world_def CreateReader_def named_reader_def sample_element_def
      IdentifyCompressionType_def ParseEncodingType_def CopyAttrs_def for_upto_def sample_attributes_def
      ParseHeaderType_def ExtractFieldArrayInfo_def copy_fields_def copy_into_def umap_at_def
      eval_nat_numeral Let_def)

lemmas sample_info = named_info [of "''p''"]

lemma sample_atoll: "atoll ''0'' = Ok 0"
  by (simp add: atoll_def number_at_start_def isspace_def isdigit_def digits_value_def char_code_def of_char_def Let_def)

lemma named_parse: "\<exists>tree. ParseVtkFile (named_world name) ''a.vti'' [] = (Ok tree, [3])"
proof -
  obtain m where m: "ParseAppendedArray (\<lambda>ts. Some (sample_enc ts)) sample_dt
      (ReadonlyOSFile_Pread (sample_os sample_raw) \<lparr>osf_fd = 3\<rparr>) name INT32 NONE RAW UINT32 0 = Ok m"
    using sample_array_map by (auto simp: sample_file_def)
  show ?thesis
    by (simp add: ParseVtkFile_def EndsWith_def ParseVtkFileInternal_def named_info)
      (simp add: named_world_def NewOSFile_def BuildSubdirs_def ParseArrayGroup_def group_array_def
        ParseVtkDataArray_def ParseValueType_def umap_at_def sample_atoll m Let_def)
qed

lemmas sample_parse = named_parse [of "''p''"]

text \<open>Trees: one of a string and an array, and the sessions on it.\<close>

definition sample_map :: FileMap where
  "sample_map = Finish (AddDirect [1, 2, 3] (MapBuilder_new False 0))"

definition sample_subdirs :: "(string, Dir) umap" where
  "sample_subdirs =
     [(''METADATA'', MetadataDir [(''type'', ''ImageData'')]),
      (''pointdata'', ArrayDir [(''p.parquet'', sample_map)] sample_file False)]"

definition sample_tree :: Dir where
  "sample_tree = VtkTree_new sample_subdirs sample_stat sample_file True"

lemma sample_map_ok: "file_size sample_map = Ok 3"
  by (simp add: sample_map_def Finish_def FileMap_new_def AddDirect_def MapBuilder_new_def file_size_def)

lemma sample_tree_ok: "dir_ok sample_tree"
  using sample_map_ok by (simp add: sample_tree_def VtkTree_new_def sample_subdirs_def umap_ok_def map_ok_def)

definition sample_session :: Session where
  "sample_session = \<lparr>private_data = Some sample_tree, open_files = (\<lambda>p. None)\<rparr>"

text \<open>A run in which the string of the tree has been opened.\<close>

lemma sample_string_path:
  "path_entry sample_tree ''/METADATA/type'' =
     Inr (EFile (AStringBufFile \<lparr>sbf_strbuf = string_bytes ''ImageData''\<rparr>) 9)"
  by (simp add: path_entry_def components_def sample_tree_def VtkTree_new_def sample_subdirs_def)

lemma sample_run:
  "\<exists>s. session_run (sample_os sample_raw) sample_dt sample_session [Opened ''/METADATA/type'' 0 4096 0] s"
proof -
  define s' where "s' = sample_session\<lparr>open_files := (open_files sample_session)
      (4096 \<mapsto> AStringBufFile \<lparr>sbf_strbuf = string_bytes ''ImageData''\<rparr>)\<rparr>"
  have "vtk_open 4096 sample_session (Some ''/METADATA/type'') \<lparr>fi_flags = 0, fi_fh = 0\<rparr> =
      Ok (0, s', \<lparr>fi_flags = 0, fi_fh = 4096\<rparr>)"
    using Open_implements [OF sample_tree_ok, of 4096 "''/METADATA/type''"] sample_string_path
    by (simp add: vtk_open_def sample_session_def s'_def O_RDONLY_def)
  then have "session_step (sample_os sample_raw) sample_dt sample_session
      (Opened ''/METADATA/type'' 0 4096 0) s'"
    by (intro step_open) (simp_all add: sample_session_def)
  from run_step [OF run_start this] show ?thesis by auto
qed

end
