(* ===== verification/Bench.thy ===== *)
theory Bench
  imports Samples
begin

text \<open>
  The benchmark (src/bench.c): its two loops read a file in buffers of a given size until a read
  comes back short, \<open>run_bypass\<close> through the entry points of src/fuse_bypass.h, \<open>run_posix\<close> through
  the operating system. The printed report is the number of bytes that were read.
\<close>

section \<open>The tree of the benchmark\<close>

text \<open>
  Where \<open>vtk_init_tree_int\<close> returns a null tree, \<open>TEST_init_tree\<close> ends the process (\<open>None\<close>).
\<close>

definition TEST_init_tree :: "'e world \<Rightarrow> string \<Rightarrow> int list \<Rightarrow> Dir option result \<times> int list" where
  "TEST_init_tree w fname fds =
     (case ParseVtkFile w fname fds of
        (Ok tree, fds) \<Rightarrow> (Ok (Some tree), fds)
      | (Error e, fds) \<Rightarrow> (if e = Undefined then (Error Undefined, fds) else (Ok None, fds)))"

definition TEST_destroy_tree :: "Dir option \<Rightarrow> int list" where
  "TEST_destroy_tree tree = (case tree of None \<Rightarrow> [] | Some d \<Rightarrow> Dir_delete d)"

section \<open>The loops\<close>

text \<open>
  \<open>nr < bufsz\<close> compares an \<open>int\<close> that is not negative with a \<open>size_t\<close>. A loop that goes on forever
  is \<open>None\<close>; \<open>Ok None\<close> is the return after a failed read. \<open>off\<close> is a signed 64-bit number.
\<close>

definition after_read ::
  "u64 \<Rightarrow> (int \<Rightarrow> int option result option) \<Rightarrow> int \<Rightarrow> int \<Rightarrow> int option result option" where
  "after_read bufsz again off nr =
     (if nr < 0 then Some (Ok None)
      else if 2 ^ 63 \<le> off + nr then Some (Error Undefined)
      else if word_of_int nr < bufsz then Some (Ok (Some (off + nr)))
      else again (off + nr))"

partial_function (option) run_bypass_loop ::
  "os_pread \<Rightarrow> decode_triplet \<Rightarrow> heap \<Rightarrow> fuse_file_info \<Rightarrow> u64 \<Rightarrow> u64 \<Rightarrow> int \<Rightarrow> int option result option"
where
  "run_bypass_loop os dt h fi fh bufsz off =
     (case TEST_read os dt fh h bufsz (word_of_int off) fi of
        None \<Rightarrow> None
      | Some (Error e) \<Rightarrow> Some (Error e)
      | Some (Ok (nr, bs)) \<Rightarrow>
          if nr < 0 then Some (Ok None)
          else if 2 ^ 63 \<le> off + nr then Some (Error Undefined)
          else if word_of_int nr < bufsz then Some (Ok (Some (off + nr)))
          else run_bypass_loop os dt h fi fh bufsz (off + nr))"

text \<open>
  The result is the number of bytes that the report shows, \<open>None\<close> where there is none, and the heap.
\<close>

definition run_bypass ::
  "os_pread \<Rightarrow> decode_triplet \<Rightarrow> u64 \<Rightarrow> Dir option \<Rightarrow> string option \<Rightarrow> heap \<Rightarrow> fuse_file_info \<Rightarrow> u64 \<Rightarrow>
   (int option \<times> heap) result option"
where
  "run_bypass os dt new_file tree path h fi bufsz =
     (case TEST_open new_file tree path h fi of
        Error e \<Rightarrow> Some (Error e)
      | Ok (fh, h') \<Rightarrow>
          if fh = 0 then Some (Ok (None, h'))
          else (case run_bypass_loop os dt h' fi fh bufsz 0 of
                  None \<Rightarrow> None
                | Some (Error e) \<Rightarrow> Some (Error e)
                | Some (Ok None) \<Rightarrow> Some (Ok (None, h'))
                | Some (Ok (Some off)) \<Rightarrow>
                    Some (bindR (TEST_close fh h' fi) (\<lambda>h''. Ok (Some off, h'')))))"

partial_function (option) run_posix_loop :: "os_pread \<Rightarrow> int \<Rightarrow> u64 \<Rightarrow> int \<Rightarrow> int option result option"
where
  "run_posix_loop os fd bufsz off =
     (let nr = to_int (case os fd bufsz (word_of_int off) of None \<Rightarrow> -1 | Some bs \<Rightarrow> int (length bs))
      in if nr < 0 then Some (Ok None)
         else if 2 ^ 63 \<le> off + nr then Some (Error Undefined)
         else if word_of_int nr < bufsz then Some (Ok (Some (off + nr)))
         else run_posix_loop os fd bufsz (off + nr))"

text \<open>Here the second result is the list of open descriptors.\<close>

definition run_posix ::
  "(string \<Rightarrow> int option) \<Rightarrow> os_pread \<Rightarrow> string \<Rightarrow> u64 \<Rightarrow> int list \<Rightarrow> (int option \<times> int list) result option"
where
  "run_posix os_open os fname bufsz fds =
     (case os_open fname of
        None \<Rightarrow> Some (Ok (None, fds))
      | Some fd \<Rightarrow>
          (case run_posix_loop os fd bufsz 0 of
             None \<Rightarrow> None
           | Some (Error e) \<Rightarrow> Some (Error e)
           | Some (Ok None) \<Rightarrow> Some (Ok (None, fd # fds))
           | Some (Ok (Some off)) \<Rightarrow> Some (Ok (Some off, remove1 fd (fd # fds)))))"

section \<open>Reading to the end\<close>

text \<open>
  Both loops read a file that holds \<open>content\<close> in steps of this shape; from any position in the
  file they reach its end.
\<close>

lemma reading_loop_counts:
  assumes step: "\<And>off. off \<le> length content \<Longrightarrow>
      loop (int off) = after_read bufsz loop (int off) (int (length (bytes_at off (unat bufsz) content)))"
    and "0 < unat bufsz" "unat bufsz < 2 ^ 31" "length content < 2 ^ 63"
  shows "off \<le> length content \<Longrightarrow> loop (int off) = Some (Ok (Some (int (length content))))"
proof (induction "length content - off" arbitrary: off rule: less_induct)
  case less
  define n where "n = length (bytes_at off (unat bufsz) content)"
  have n: "n = min (unat bufsz) (length content - off)"
    by (simp add: n_def bytes_at_def)
  have w: "unat (word_of_nat n :: u64) = n"
    using n assms(3) by (intro unat_of_nat_u64) simp
  have next_step: "loop (int off) = after_read bufsz loop (int off) (int n)"
    using step [OF less.prems] by (simp only: n_def)
  show ?case
  proof (cases "n < unat bufsz")
    case True
    with n less.prems have "int off + int n = int (length content)" by simp
    with True w assms(4) show ?thesis by (simp add: next_step after_read_def word_less_nat_alt)
  next
    case False
    with n assms(2) less.prems have full: "n = unat bufsz" "off + n \<le> length content"
      by (simp_all add: min_def split: if_split_asm)
    with less.hyps [of "off + n"] assms(2) have "loop (int (off + n)) = Some (Ok (Some (int (length content))))"
      by simp
    moreover have "int off + int n < 2 ^ 63" using full(2) assms(4) by simp
    ultimately show ?thesis using full w by (simp add: next_step after_read_def word_less_nat_alt)
  qed
qed

lemma TEST_read_holds:
  assumes "h fh = Some f" and "file_holds os dt f content" and "unat sz < 2 ^ 31"
  shows "TEST_read os dt fh h sz off fi =
    Some (Ok (int (length (bytes_at (unat off) (unat sz) content)), bytes_at (unat off) (unat sz) content))"
  using vtk_read_holds [of "\<lparr>private_data = None, open_files = h\<rparr>" "fi\<lparr>fi_fh := fh\<rparr>" f os dt content sz off] assms
  by (simp add: TEST_read_def vtk_read_def del: length_bytes_at)

lemma run_bypass_loop_holds:
  assumes "h fh = Some f" and "file_holds os dt f content"
    and "0 < unat bufsz" "unat bufsz < 2 ^ 31" "length content < 2 ^ 63"
  shows "run_bypass_loop os dt h fi fh bufsz 0 = Some (Ok (Some (int (length content))))"
proof -
  have "run_bypass_loop os dt h fi fh bufsz (int off) =
      after_read bufsz (run_bypass_loop os dt h fi fh bufsz) (int off)
        (int (length (bytes_at off (unat bufsz) content)))" if "off \<le> length content" for off
  proof -
    have "unat (word_of_nat off :: u64) = off"
      using that assms(5) by (intro unat_of_nat_u64) simp
    then show ?thesis
      by (subst run_bypass_loop.simps)
        (simp add: TEST_read_holds [where h = h and fh = fh, OF assms(1,2,4)] after_read_def del: length_bytes_at)
  qed
  from reading_loop_counts [OF this assms(3-5), of 0] show ?thesis by simp
qed

lemma run_posix_loop_regular:
  assumes "os_regular_file os fd content"
    and "0 < unat bufsz" "unat bufsz < 2 ^ 31" "length content < 2 ^ 63"
  shows "run_posix_loop os fd bufsz 0 = Some (Ok (Some (int (length content))))"
proof -
  have "run_posix_loop os fd bufsz (int off) =
      after_read bufsz (run_posix_loop os fd bufsz) (int off)
        (int (length (bytes_at off (unat bufsz) content)))" if "off \<le> length content" for off
  proof -
    have "unat (word_of_nat off :: u64) = off"
      using that assms(4) by (intro unat_of_nat_u64) simp
    moreover have "to_int (int (length (bytes_at off (unat bufsz) content))) =
        int (length (bytes_at off (unat bufsz) content))"
      using assms(3) by (intro to_int_small) (auto simp: bytes_at_def)
    ultimately show ?thesis using assms(1)
      by (subst run_posix_loop.simps) (simp add: os_regular_file_def after_read_def Let_def del: length_bytes_at)
  qed
  from reading_loop_counts [OF this assms(2-4), of 0] show ?thesis by simp
qed

lemma run_bypass_reads_whole_file:
  assumes "dir_ok tree" and "path_entry tree path = Inr (EFile f n)" and "file_holds os dt f content"
    and "length content < 2 ^ 63" and "0 < unat bufsz" "unat bufsz < 2 ^ 31"
    and "new_file \<noteq> 0" and "h new_file = None"
  shows "run_bypass os dt new_file (Some tree) (Some path) h fi bufsz =
    Some (Ok (Some (int (length content)), h))"
proof -
  have opened: "TEST_open new_file (Some tree) (Some path) h fi = Ok (new_file, h(new_file \<mapsto> f))"
    using assms(2) by (simp add: TEST_open_def Open_implements [OF assms(1)])
  have loop: "run_bypass_loop os dt (h(new_file \<mapsto> f)) fi new_file bufsz 0 =
      Some (Ok (Some (int (length content))))"
    by (rule run_bypass_loop_holds [OF _ assms(3,5,6,4)]) simp
  have "h(new_file := None) = h" using assms(8) by (simp add: fun_upd_idem)
  then show ?thesis using assms(7)
    by (simp add: run_bypass_def opened loop TEST_close_def Release_def)
qed

section \<open>Properties\<close>

text \<open>The loop up to a read that fails: the reads before it fill the buffer.\<close>

lemma run_bypass_loop_fails:
  assumes "h fh = Some f" and "k = 0 \<or> unat bufsz < 2 ^ 31" and "k * unat bufsz < 2 ^ 63"
    and full: "\<And>i. i < k \<Longrightarrow> \<exists>bs. RandomAccessFile_Pread os dt f bufsz (word_of_nat (i * unat bufsz)) =
        Some (Ok (Some bs)) \<and> length bs = unat bufsz"
    and fails: "RandomAccessFile_Pread os dt f bufsz (word_of_nat (k * unat bufsz)) = Some (Ok None)"
  shows "i \<le> k \<Longrightarrow> run_bypass_loop os dt h fi fh bufsz (int (i * unat bufsz)) = Some (Ok None)"
proof (induction "k - i" arbitrary: i)
  case 0
  then have "i = k" by simp
  moreover have "to_int (-1) = -1" by (simp add: to_int_def)
  ultimately show ?case
    using assms(1) fails by (subst run_bypass_loop.simps) (simp add: TEST_read_def Read_def Let_def errnos)
next
  case (Suc m)
  then have less: "i < k" by simp
  from full [OF less] obtain bs where bs: "RandomAccessFile_Pread os dt f bufsz (word_of_nat (i * unat bufsz)) =
      Some (Ok (Some bs))" "length bs = unat bufsz" by blast
  have "unat bufsz < 2 ^ 31" using assms(2) less by simp
  then have "int (unat bufsz) < int (2 ^ 31)" by (simp only: of_nat_less_iff)
  then have small: "to_int (int (unat bufsz)) = int (unat bufsz)"
    by (intro to_int_small) (simp_all only: of_nat_power of_nat_numeral of_nat_0_le_iff)
  have "0 \<le> uint bufsz" by simp
  then have "uint bufsz \<noteq> - 1" by linarith
  then have read: "TEST_read os dt fh h bufsz (word_of_int (int (i * unat bufsz))) fi =
      Some (Ok (int (unat bufsz), bs))"
    using assms(1) bs small by (simp add: TEST_read_def Read_def Let_def errnos)
  have "Suc i * unat bufsz \<le> k * unat bufsz" using less by (intro mult_le_mono1) simp
  then have "i * unat bufsz + unat bufsz < 2 ^ 63" using assms(3) by simp
  then have "int (i * unat bufsz + unat bufsz) < int (2 ^ 63)" by (simp only: of_nat_less_iff)
  then have "int (i * unat bufsz) + int (unat bufsz) < 2 ^ 63"
    by (simp only: of_nat_add of_nat_power of_nat_numeral)
  moreover have "run_bypass_loop os dt h fi fh bufsz (int (Suc i * unat bufsz)) = Some (Ok None)"
    using Suc less by (intro Suc.hyps) auto
  then have "run_bypass_loop os dt h fi fh bufsz (int (i * unat bufsz) + int (unat bufsz)) = Some (Ok None)"
    by (simp add: add.commute)
  ultimately show ?case by (subst run_bypass_loop.simps, subst read) simp
qed

text \<open>
  C34: Where a read fails, be it the first one or one after any number \<open>k\<close> of reads that filled the
  buffer, the benchmark gives no report and returns without closing the file: the object stays on
  the heap, and nothing has its address any more. (For a second read to take place, the buffer has to
  have less than \<open>2 ^ 31\<close> bytes; the position is below \<open>2 ^ 63\<close>.)
\<close>

theorem run_bypass_error_leaks:
  assumes "dir_ok tree" and "path_entry tree path = Inr (EFile f n)" and "new_file \<noteq> 0"
    and "k = 0 \<or> unat bufsz < 2 ^ 31" and "k * unat bufsz < 2 ^ 63"
    and "\<And>i. i < k \<Longrightarrow> \<exists>bs. RandomAccessFile_Pread os dt f bufsz (word_of_nat (i * unat bufsz)) =
        Some (Ok (Some bs)) \<and> length bs = unat bufsz"
    and "RandomAccessFile_Pread os dt f bufsz (word_of_nat (k * unat bufsz)) = Some (Ok None)"
  shows "run_bypass os dt new_file (Some tree) (Some path) h fi bufsz = Some (Ok (None, h(new_file \<mapsto> f)))"
proof -
  have opened: "TEST_open new_file (Some tree) (Some path) h fi = Ok (new_file, h(new_file \<mapsto> f))"
    using assms(2) by (simp add: TEST_open_def Open_implements [OF assms(1)])
  have "run_bypass_loop os dt (h(new_file \<mapsto> f)) fi new_file bufsz (int (0 * unat bufsz)) = Some (Ok None)"
    by (rule run_bypass_loop_fails [OF _ assms(4-7)]) simp_all
  then show ?thesis using assms(3) by (simp add: run_bypass_def opened)
qed

text \<open>A file with four bytes of a VTK file of which only the first two can be read.\<close>

definition unread_map :: FileMap where
  "unread_map = Finish (AddMappedRegion 0 4 (MapBuilder_new False 0))"

definition unread_os :: os_pread where
  "unread_os fd sz off = (if unat off + unat sz \<le> 2 then Some (bytes_at (unat off) (unat sz) [7, 7]) else None)"

definition unread_tree :: Dir where
  "unread_tree = VtkTree [(''cells'', ArrayDir [(''p'', unread_map)] sample_file False)] sample_stat sample_file True"

lemma unread_map_size: "file_size unread_map = Ok 4"
  by (simp add: unread_map_def Finish_def FileMap_new_def AddMappedRegion_def MapBuilder_new_def file_size_def)

lemma unread_map_read:
  "FileMap_Pread dt unread_map (ReadonlyOSFile_Pread unread_os sample_file) 2 0 = Some (Ok (Some [7, 7]))"
  "FileMap_Pread dt unread_map (ReadonlyOSFile_Pread unread_os sample_file) 2 2 = Some (Ok None)"
  by (simp_all add: unread_map_def Finish_def FileMap_new_def AddMappedRegion_def MapBuilder_new_def
      FileMap_Pread_def upper_bound_def FileMap_Pread_loop.simps FileMap_Read_def ReadonlyOSFile_Pread_def
      unread_os_def bytes_at_def)

lemma unread_file:
  fixes dt :: decode_triplet
  defines "f \<equiv> AVirtualFile \<lparr>vf_map = unread_map, vf_base = sample_file, vf_own_base = False\<rparr>"
  shows "RandomAccessFile_Pread unread_os dt f 2 0 = Some (Ok (Some [7, 7]))"
    and "RandomAccessFile_Pread unread_os dt f 2 2 = Some (Ok None)"
  using unread_map_read [of dt] by (simp_all add: f_def VirtualFile_Pread_def)

theorem run_bypass_error_leaks_witness:
  "\<exists>f. run_bypass unread_os sample_dt 4096 (Some unread_tree) (Some ''/cells/p'') (\<lambda>p. None)
     \<lparr>fi_flags = 0, fi_fh = 0\<rparr> 2 = Some (Ok (None, [4096 \<mapsto> f]))"
proof -
  have entry: "path_entry unread_tree ''/cells/p'' =
      Inr (EFile (AVirtualFile \<lparr>vf_map = unread_map, vf_base = sample_file, vf_own_base = False\<rparr>) 4)"
    by (simp add: path_entry_def components_def unread_tree_def unread_map_size map_size_def)
  have ok: "dir_ok unread_tree"
    by (simp add: unread_tree_def umap_ok_def map_ok_def unread_map_size)
  from run_bypass_error_leaks [OF ok entry, of 4096 1 2 unread_os sample_dt "\<lambda>p. None"]
  show ?thesis using unread_file [of sample_dt] by auto
qed

lemma run_bypass_loop_stuck:
  assumes "\<exists>bs. TEST_read os dt fh h bufsz (word_of_int off) fi = Some (Ok (0, bs))" and "bufsz = 0"
    and "off < 2 ^ 63"
  shows "run_bypass_loop os dt h fi fh bufsz off = None"
proof (rule ccontr)
  assume "run_bypass_loop os dt h fi fh bufsz off \<noteq> None"
  then obtain r where r: "run_bypass_loop os dt h fi fh bufsz off = Some r" by auto
  let ?P = "\<lambda>os' dt' h' fi' fh' bufsz' off' (r :: int option result).
    \<not> (os' = os \<and> dt' = dt \<and> h' = h \<and> fi' = fi \<and> fh' = fh \<and> bufsz' = bufsz \<and> off' = off)"
  have "?P os dt h fi fh bufsz off r"
  proof (rule run_bypass_loop.raw_induct [where P = ?P, OF _ r])
    fix loop os' dt' h' fi' fh' bufsz' off' r'
    assume IH: "\<And>os' dt' h' fi' fh' bufsz' off' r'.
        loop os' dt' h' fi' fh' bufsz' off' = Some r' \<Longrightarrow> ?P os' dt' h' fi' fh' bufsz' off' r'"
      and eq: "(case TEST_read os' dt' fh' h' bufsz' (word_of_int off') fi' of
          None \<Rightarrow> None
        | Some (Error e) \<Rightarrow> Some (Error e)
        | Some (Ok (nr, bs)) \<Rightarrow>
            if nr < 0 then Some (Ok None)
            else if 2 ^ 63 \<le> off' + nr then Some (Error Undefined)
            else if word_of_int nr < bufsz' then Some (Ok (Some (off' + nr)))
            else loop os' dt' h' fi' fh' bufsz' (off' + nr)) = Some r'"
    show "?P os' dt' h' fi' fh' bufsz' off' r'"
    proof
      assume same: "os' = os \<and> dt' = dt \<and> h' = h \<and> fi' = fi \<and> fh' = fh \<and> bufsz' = bufsz \<and> off' = off"
      then have "loop os dt h fi fh bufsz off = Some r'" using eq assms by auto
      with IH show False by blast
    qed
  qed
  then show False by simp
qed

text \<open>
  C35: With a buffer of size zero (what \<open>-b 0\<close>, or an argument that is not a number, gives) the
  benchmark never returns: no read is shorter than the buffer.
\<close>

theorem run_bypass_empty_buffer_hangs:
  assumes "dir_ok tree" and "path_entry tree path = Inr (EFile f n)" and "new_file \<noteq> 0"
    and "file_holds os dt f content"
  shows "run_bypass os dt new_file (Some tree) (Some path) h fi 0 = None"
proof -
  have opened: "TEST_open new_file (Some tree) (Some path) h fi = Ok (new_file, h(new_file \<mapsto> f))"
    using assms(2) by (simp add: TEST_open_def Open_implements [OF assms(1)])
  have "TEST_read os dt new_file (h(new_file \<mapsto> f)) 0 (word_of_int 0) fi =
      Some (Ok (int (length (bytes_at 0 0 content)), bytes_at 0 0 content))"
    using TEST_read_holds [of "h(new_file \<mapsto> f)" new_file f os dt content 0 0 fi] assms(4) by simp
  then have loop: "run_bypass_loop os dt (h(new_file \<mapsto> f)) fi new_file 0 0 = None"
    by (intro run_bypass_loop_stuck) simp_all
  show ?thesis using assms(3) by (simp add: run_bypass_def opened loop)
qed

theorem run_bypass_empty_buffer_hangs_witness:
  "run_bypass (sample_os sample_raw) sample_dt 4096 (Some sample_tree) (Some ''/METADATA/type'') (\<lambda>p. None)
     \<lparr>fi_flags = 0, fi_fh = 0\<rparr> 0 = None"
  by (rule run_bypass_empty_buffer_hangs [OF sample_tree_ok sample_string_path _ string_file_holds]) simp

text \<open>
  Through FUSE the benchmark sees the same: reading a regular file with \<open>pread\<close> it returns,
  reports the length of the file, and closes the descriptor.
\<close>

theorem run_posix_reads_whole_file:
  assumes "os_open fname = Some fd" and "os_regular_file os fd content"
    and "length content < 2 ^ 63" and "0 < unat bufsz" "unat bufsz < 2 ^ 31"
  shows "run_posix os_open os fname bufsz fds = Some (Ok (Some (int (length content)), fds))"
  using assms(1) by (simp add: run_posix_def run_posix_loop_regular [OF assms(2,4,5,3)])

theorem run_posix_reads_whole_file_witness:
  "run_posix (\<lambda>f. Some 3) (\<lambda>fd sz off. Some (bytes_at (unat off) (unat sz) [1, 2, 3, 4, 5])) ''f'' 2 [0, 1] =
     Some (Ok (Some 5, [0, 1]))"
  using run_posix_reads_whole_file [of "\<lambda>f. Some 3" "''f''" 3
      "\<lambda>fd sz off. Some (bytes_at (unat off) (unat sz) [1, 2, 3, 4, 5])" "[1, 2, 3, 4, 5]" 2 "[0, 1]"]
  by (simp add: os_regular_file_def)

end
