(* ===== verification/Limits.thy ===== *)
theory Limits
  imports Bench
begin

text \<open>
  Arrays at the limits: arrays without bytes, the cut into pages, values of one byte, and blocks
  that are full to the last byte.
\<close>

section \<open>Empty arrays\<close>

lemma for_int_runs_out:
  assumes "\<And>i s. \<exists>s'. body i s = Ok s'"
  shows "i < 2 ^ 31 \<Longrightarrow> 2 ^ 31 \<le> i + k \<Longrightarrow> for_int body i k s = Error Undefined"
proof (induction k arbitrary: i s)
  case (Suc k)
  obtain s' where "body i s = Ok s'" using assms by blast
  then show ?case using Suc by auto
qed simp

lemma uncompressed_body_returns: "\<exists>s'. uncompressed_body (\<lambda>ts. Some (enc ts)) v i s = Ok s'"
  by (simp add: uncompressed_body_def uncompressed_block_def AppendPage_def SerializeToBuffer_eq)

lemma compressed_body_empty: "compressed_body compact v arr i s = Error Undefined"
  if "ca_compressed_blk_sz arr = []"
  using that by (simp add: compressed_body_def vec_at_def)

lemma BuildMap_uncompressed_empty:
  assumes "ua_total_bytes arr = 0" and "GetValueSize type = Ok v"
  shows "BuildMap_uncompressed (\<lambda>ts. Some (enc ts)) name type p arr = Error Undefined"
proof -
  have "unat (num_blks (ua_total_bytes arr) - 1) = 2 ^ 64 - 1"
    by (simp add: assms(1) num_blks_def blk_sz_def unsigned_minus_1_eq_mask mask_eq_exp_minus_1)
  then show ?thesis
    using for_int_runs_out [OF uncompressed_body_returns, of 0 "2 ^ 64 - 1"] assms(2)
    by (simp add: BuildMap_uncompressed_def)
qed

lemma BuildMap_compressed_empty:
  assumes "ca_num_blks arr = 0" and "ca_compressed_blk_sz arr = []" and "GetValueSize type = Ok v"
  shows "BuildMap_compressed compact name type codec p arr = Error Undefined"
proof -
  have "unat (ca_num_blks arr - 1) = Suc (2 ^ 64 - 2)"
    by (simp add: assms(1) unsigned_minus_1_eq_mask mask_eq_exp_minus_1)
  then show ?thesis
    using assms(3) compressed_body_empty [OF assms(2)]
    by (simp only: BuildMap_compressed_def for_int.simps) simp
qed


text \<open>
  C30: An array without any bytes has no virtual file: the number of its last block wraps around
  to \<open>2 ^ 64 - 1\<close>, and the loop over the blocks runs its \<open>int\<close> counter past the end of its range, or,
  for an array that is compressed, reads a table of block sizes that is empty.
\<close>

theorem empty_array_undefined:
  assumes "random_access_file base content"
    and "stored dt (enc_type = BASE64) content off
           (if codec = NONE then le_bytes (field_width ht) 0 else compressed_header (field_width ht) blk lastblk []) []"
    and "GetValueSize type = Ok v" and "blk < 2 ^ 31" "lastblk < 2 ^ 31"
  shows "ParseAppendedArray (\<lambda>ts. Some (enc ts)) dt base name type codec enc_type ht off = Error Undefined"
proof (cases "codec = NONE")
  case True
  with assms(2) have st: "stored dt (enc_type = BASE64) content off (le_bytes (field_width ht) 0) []" by simp
  have "(0 :: nat) < 256 ^ field_width ht" by simp
  note hdr = parse_uncompressed_header [OF stored_header_view [OF st assms(1)] this]
  show ?thesis using hdr True assms(3)
    by (simp add: ParseAppendedArray_def Let_def BuildMap_uncompressed_empty)
next
  case False
  with assms(2) have st: "stored dt (enc_type = BASE64) content off
      (compressed_header (field_width ht) blk lastblk []) []" by simp
  note hdr = parse_compressed_header [OF stored_header_view [OF st assms(1)] _ assms(4,5)]
  show ?thesis using hdr False
      BuildMap_compressed_empty [OF _ _ assms(3), of "parsed_compressed blk lastblk [] start" for start]
    by (simp add: ParseAppendedArray_def Let_def) (simp add: parsed_compressed_def)
qed

theorem empty_array_undefined_witness:
  "ParseAppendedArray (\<lambda>ts. Some (sample_enc ts)) sample_dt
     (ReadonlyOSFile_Pread (sample_os [0, 0, 0, 0, 0, 0, 0, 0]) sample_file) ''p'' INT32 NONE RAW UINT64 0 = Error Undefined \<and>
   ParseAppendedArray (\<lambda>ts. Some (sample_enc ts)) sample_dt
     (ReadonlyOSFile_Pread (sample_os [0, 0, 0, 0, 0, 0, 0, 0, 0, 0, 0, 0]) sample_file) ''p'' INT32 ZLIB RAW UINT32 0 = Error Undefined"
proof
  show "ParseAppendedArray (\<lambda>ts. Some (sample_enc ts)) sample_dt
     (ReadonlyOSFile_Pread (sample_os [0, 0, 0, 0, 0, 0, 0, 0]) sample_file) ''p'' INT32 NONE RAW UINT64 0 = Error Undefined"
    by (rule empty_array_undefined [OF sample_os_file, where v = 4 and blk = 0 and lastblk = 0])
      (simp_all add: stored_def field_width_def bytes_at_def le_bytes_numeral)
  show "ParseAppendedArray (\<lambda>ts. Some (sample_enc ts)) sample_dt
     (ReadonlyOSFile_Pread (sample_os [0, 0, 0, 0, 0, 0, 0, 0, 0, 0, 0, 0]) sample_file) ''p'' INT32 ZLIB RAW UINT32 0 = Error Undefined"
    by (rule empty_array_undefined [OF sample_os_file, where v = 4 and blk = 0 and lastblk = 0])
      (simp_all add: stored_def field_width_def bytes_at_def compressed_header_def le_bytes_numeral)
qed

section \<open>Pages\<close>

lemma uncompressed_block_sizes:
  assumes "0 < unat t" and "unat t < 2 ^ 46"
  shows "map (\<lambda>b. unat (fst b)) (uncompressed_blocks t) =
    replicate ((unat t - 1) div 32768) 32768 @ [(unat t - 1) mod 32768 + 1]"
proof -
  have "unat (ucast (last_blk_sz t) :: u32) = (unat t - 1) mod 32768 + 1"
    using uncompressed_block_count(2) [OF assms]
    by (simp add: unsigned_ucast_eq take_bit_nat_eq_self)
  moreover have "unat (ucast blk_sz :: u32) = 32768" by (simp add: blk_sz_def)
  ultimately show ?thesis
    using uncompressed_block_count(1) [OF assms] by (simp add: uncompressed_blocks_def)
qed


lemma pages_of_lengths:
  "off + data_size bs \<le> length data \<Longrightarrow>
   map (\<lambda>p. length (snd p)) (pages_of v cmp data off bs) = map (\<lambda>b. unat (fst b)) bs"
  by (induction bs arbitrary: off) simp_all

text \<open>
  The pages of an uncompressed array are 32768 bytes long each, except for the last one, which
  takes what is left, at least one byte: no page is empty, and no byte is left over.
\<close>

theorem uncompressed_pages_partition:
  assumes "0 < length data" "length data < 2 ^ 46"
    and "bs = uncompressed_blocks (word_of_nat (length data))"
    and "thrift_fits enc v False name t conv pcodec bs"
    and "thrift_decodes dec enc v False (array_footer enc v False name t conv pcodec bs) bs"
  shows "\<exists>md pages. read_parquet dec skip (array_parquet enc v False name t conv pcodec bs data) =
             Some (md, pages) \<and>
           map (\<lambda>p. unat (PageHeader_compressed_page_size (fst p))) pages =
             replicate ((length data - 1) div 32768) 32768 @ [(length data - 1) mod 32768 + 1] \<and>
           map (\<lambda>p. length (snd p)) pages = map (\<lambda>p. unat (PageHeader_compressed_page_size (fst p))) pages"
proof -
  have n: "unat (word_of_nat (length data) :: u64) = length data"
    using assms(2) by (intro unat_of_nat_u64) simp
  have szs: "map (\<lambda>b. unat (fst b)) bs =
      replicate ((length data - 1) div 32768) 32768 @ [(length data - 1) mod 32768 + 1]"
    using uncompressed_block_sizes [of "word_of_nat (length data)"] assms(1-3) n by simp
  let ?pages = "pages_of v False data 0 bs"
  have "map (\<lambda>p. length (snd p)) ?pages = map (\<lambda>p. unat (PageHeader_compressed_page_size (fst p))) ?pages"
    unfolding pages_of_sizes(1)
    using pages_of_lengths uncompressed_array_facts(1) [OF assms(1-3)] by simp
  then show ?thesis
    using array_parquet_read_back [OF uncompressed_layout [OF assms(1-4)] assms(5)] szs
      pages_of_sizes(1) [of v False data 0 bs] by metis
qed

theorem uncompressed_pages_partition_witness:
  "\<exists>md pages. read_parquet (header_dec False CompressionCodec_UNCOMPRESSED) (\<lambda>ty ts. Error ProtocolError)
       (array_parquet (header_enc False) 4 False ''p'' Type_INT32 (Some ConvertedType_INT_32)
          CompressionCodec_UNCOMPRESSED (uncompressed_blocks 4) sample_data) = Some (md, pages) \<and>
     map (\<lambda>p. unat (PageHeader_compressed_page_size (fst p))) pages = [4] \<and>
     map (\<lambda>p. length (snd p)) pages = [4]"
  using uncompressed_pages_partition [of sample_data "uncompressed_blocks 4" "header_enc False" 4 "''p''" Type_INT32
      "Some ConvertedType_INT_32" CompressionCodec_UNCOMPRESSED "header_dec False CompressionCodec_UNCOMPRESSED"
      "\<lambda>ty ts. Error ProtocolError"]
  by (auto simp: header_fits header_decodes sample_blocks)

section \<open>Values of one byte\<close>

text \<open>The width of a value in the encoding \<open>PLAIN\<close>, from the description of the format.\<close>

fun plain_width :: "Type \<Rightarrow> nat" where
  "plain_width Type_INT32 = 4"
| "plain_width Type_INT64 = 8"
| "plain_width Type_INT96 = 12"
| "plain_width Type_FLOAT = 4"
| "plain_width Type_DOUBLE = 8"
| "plain_width _ = 0"

text \<open>
  C28: The values that a page header counts fill the page, in the encoding and the physical type that
  the metadata names, for every type of array except \<open>Int8\<close> and \<open>UInt8\<close>: these are declared \<open>INT32\<close>, four
  bytes for each value, while the page has one byte for each.
\<close>

theorem page_values_fill_page:
  assumes "array_type type v t conv" and "0 < unat usz" "unat usz < 2 ^ 31" and "v dvd unat usz"
  shows "plain_width t * unat (DataPageHeaderV2_num_values
           (the (PageHeader_data_page_header_v2 (data_page_v2 v csz usz cmp)))) = unat usz \<longleftrightarrow>
         type \<noteq> INT8 \<and> type \<noteq> UINT8"
proof -
  have "plain_width t = v \<and> 0 < v \<longleftrightarrow> type \<noteq> INT8 \<and> type \<noteq> UINT8"
    using assms(1) by (cases type) (auto simp: array_type_def)
  moreover have "plain_width t = 4 * v" if "type = INT8 \<or> type = UINT8"
    using that assms(1) by (auto simp: array_type_def)
  ultimately show ?thesis
    using page_num_values [OF assms(3), of v csz cmp] assms(2,4) by auto
qed

theorem page_values_fill_page_witness:
  "4 * unat (DataPageHeaderV2_num_values
      (the (PageHeader_data_page_header_v2 (data_page_v2 1 6 6 False)))) \<noteq> unat (6 :: u32) \<and>
   4 * unat (DataPageHeaderV2_num_values
      (the (PageHeader_data_page_header_v2 (data_page_v2 4 8 8 False)))) = unat (8 :: u32)"
  using page_values_fill_page [of INT8 1 Type_INT32 "Some ConvertedType_INT_8" 6 6 False]
    page_values_fill_page [of INT32 4 Type_INT32 "Some ConvertedType_INT_32" 8 8 False]
  by (simp add: array_type_def)

section \<open>Full last blocks\<close>

definition full_header :: "tok list" where
  "full_header = write_PageHeader (data_page_v2 4 4 0 True)"

definition full_enc :: "tok list \<Rightarrow> byte list" where
  "full_enc ts = [if ts = full_header then 1 else 2]"

definition full_footer :: FileMetaData where
  "full_footer = array_footer full_enc 4 True ''p'' Type_INT32 (Some ConvertedType_INT_32)
     CompressionCodec_GZIP [(4, 0)]"

fun full_dec :: decoder where
  "full_dec [] = None"
| "full_dec (x # rest) = Some (if x = 1 then full_header else write_FileMetaData full_footer, rest)"

lemma full_block: "vtk_blocks 8 0 [4] = [(4, 0)]"
  by (simp add: vtk_blocks_def)

lemma full_fits: "thrift_fits full_enc v cmp name t conv pcodec bs"
  by (simp add: thrift_fits_def small_headers_def page_header_def full_enc_def)

lemma full_decodes: "thrift_decodes full_dec full_enc 4 True full_footer [(4, 0)]"
proof -
  have "write_FileMetaData full_footer \<noteq> full_header"
    by (simp add: full_header_def write_FileMetaData_def write_PageHeader_def w_struct_def)
  then show ?thesis
    by (auto simp: thrift_decodes_def decodes_def full_enc_def page_header_def simp flip: full_header_def)
qed



end
