(* ===== verification/Vtk_File.thy ===== *)
theory Vtk_File
  imports Limits
begin

text \<open>
  A VTK file from end to end: what the sections of its XML become in the tree, and what a read of
  one of its arrays through the handlers returns.
\<close>

section \<open>The arrays of a directory\<close>

lemma extension_inject: "n @ ''.parquet'' = n' @ ''.parquet'' \<longleftrightarrow> n = n'"
  by simp

text \<open>Emplacing under other names keeps what a name has.\<close>

lemma foldR_group_keeps:
  "foldR (group_array compact dt os file codec enc ht pos) info maps = Ok maps' \<Longrightarrow>
   map_of maps f = Some m \<Longrightarrow> map_of maps' f = Some m"
proof (induction info arbitrary: maps)
  case (Cons x info)
  then obtain maps1 where s1: "group_array compact dt os file codec enc ht pos x maps = Ok maps1"
    "foldR (group_array compact dt os file codec enc ht pos) info maps1 = Ok maps'"
    by (auto elim!: bindR_OkE)
  obtain name attrs where x: "x = (name, attrs)" by (cases x)
  with s1(1) Cons.prems(2) have "map_of maps1 f = Some m"
    by (auto simp: group_array_step umap_emplace_lookup)
  with Cons.IH s1(2) show ?case by blast
qed simp

lemma foldR_group_lookup:
  assumes "foldR (group_array compact dt os file codec enc ht pos) info maps = Ok maps'"
    and "umap_ok info" and "(name, attrs) \<in> set info" and "name @ ''.parquet'' \<notin> fst ` set maps"
  shows "\<exists>m. ParseVtkDataArray compact dt (ReadonlyOSFile_Pread os file) name codec enc ht attrs pos = Ok m \<and>
     map_of maps' (name @ ''.parquet'') = Some m"
  using assms
proof (induction info arbitrary: maps)
  case (Cons x info)
  then obtain maps1 where s1: "group_array compact dt os file codec enc ht pos x maps = Ok maps1"
    "foldR (group_array compact dt os file codec enc ht pos) info maps1 = Ok maps'"
    by (auto elim!: bindR_OkE)
  obtain n a where x: "x = (n, a)" by (cases x)
  with s1(1) obtain m where
    m: "ParseVtkDataArray compact dt (ReadonlyOSFile_Pread os file) n codec enc ht a pos = Ok m"
    and maps1: "maps1 = umap_emplace (n @ ''.parquet'') m maps"
    by (auto simp: group_array_step)
  show ?case
  proof (cases "(name, attrs) = x")
    case True
    then have "map_of maps1 (name @ ''.parquet'') = Some m"
      using Cons.prems(4) x by (simp add: maps1 umap_emplace_lookup map_of_eq_None_iff)
    with foldR_group_keeps [OF s1(2)] m x True show ?thesis by auto
  next
    case False
    with Cons.prems(2,3) x have "name \<noteq> n" "(name, attrs) \<in> set info" "umap_ok info"
      by (force simp: umap_ok_def)+
    with Cons.IH [OF s1(2)] Cons.prems(4) show ?thesis
      by (simp add: maps1 umap_emplace_keys)
  qed
qed simp

lemma ParseArrayGroup_lookup:
  assumes "ParseArrayGroup compact dt os file codec enc ht info pos = Ok d"
    and "umap_ok info" and "map_of info name = Some attrs"
  shows "\<exists>maps m. d = ArrayDir maps file False \<and> map_of maps (name @ ''.parquet'') = Some m \<and>
     ParseVtkDataArray compact dt (ReadonlyOSFile_Pread os file) name codec enc ht attrs pos = Ok m"
proof -
  from assms(1) obtain maps where
    maps: "foldR (group_array compact dt os file codec enc ht pos) info [] = Ok maps"
    and d: "d = ArrayDir maps file False"
    by (rule ParseArrayGroup_maps)
  from foldR_group_lookup [OF maps assms(2) map_of_SomeD [OF assms(3)]] d show ?thesis by auto
qed

text \<open>The directory that holds the arrays of a section of the file.\<close>

definition section_info :: "vtk_info \<Rightarrow> bool \<Rightarrow> bool \<Rightarrow> (string \<times> arr_info) list" where
  "section_info vi load_points load_cells =
     [(''pointdata'', vi_point_arr_info vi), (''celldata'', vi_cell_arr_info vi)] @
     (if load_points then [(''points'', vi_points_info vi)] else []) @
     (if load_cells then [(''cells'', vi_cells_info vi)] else [])"

lemma BuildSubdirs_lookup:
  assumes "BuildSubdirs w file vi lp lc = Ok subdirs"
  shows "map_of subdirs ''METADATA'' = Some (MetadataDir (vi_root_attrs vi))"
    and "(dn, info) \<in> set (section_info vi lp lc) \<Longrightarrow>
      \<exists>d. map_of subdirs dn = Some d \<and>
        ParseArrayGroup (w_compact w) (w_decode w) (w_pread w) file (vi_codec vi) (vi_enc vi)
          (vi_header_type vi) info (vi_appended_data_pos vi) = Ok d"
  using assms unfolding BuildSubdirs_def Let_def section_info_def
  by (auto elim!: bindR_OkE split: if_split_asm simp: umap_emplace_lookup)


lemma copy_into_ok: "copy_into vtk name src info = Ok info' \<Longrightarrow> umap_ok info \<Longrightarrow> umap_ok info'"
  by (auto simp: copy_into_def umap_ok_update elim!: bindR_OkE)

lemma ExtractNamedInfo_ok:
  assumes "ExtractNamedInfo nm vtk root info = Ok info'" and "umap_ok info"
  shows "umap_ok info'"
proof -
  from assms(1) obtain parent where "foldR (\<lambda>i info. bindR (deref (GetNestedElement vtk parent i))
      (\<lambda>arr. copy_into vtk (GetAttribute vtk arr ''Name'') (Some arr) info))
      (map int [0..<nat (GetNumberOfNestedElements vtk parent)]) info = Ok info'"
    by (auto simp: ExtractNamedInfo_def for_upto_def elim!: bindR_OkE)
  then show ?thesis
    by (rule foldR_invariant [where P = umap_ok]) (use assms(2) in \<open>auto elim!: bindR_OkE dest: copy_into_ok\<close>)
qed

lemma copy_fields_ok:
  assumes "copy_fields vtk parent n array_name info = Ok info'" and "umap_ok info"
  shows "umap_ok info'"
  using assms(1) unfolding copy_fields_def for_upto_def
  by (rule foldR_invariant [where P = umap_ok]) (use assms(2) in \<open>auto elim!: bindR_OkE dest: copy_into_ok\<close>)

text \<open>What a successful first half has read.\<close>

lemma ParseVtkInfo_parts:
  assumes "ParseVtkInfo w fname mesh_type lp lc = Ok vi"
  obtains cls root attrs where "CreateReader mesh_type = Ok cls"
    and "GetRootElement (w_reader w cls fname) = Some root"
    and "CopyAttrs (w_element w) (Some root) [] = Ok attrs"
    and "CopyAttrs (w_element w) (FindNestedElementWithName (w_element w) root mesh_type) attrs =
      Ok (vi_root_attrs vi)"
    and "ExtractFieldArrayInfo (w_element w) (w_reader w cls fname) root [] [] =
      Ok (vi_point_arr_info vi, vi_cell_arr_info vi)"
    and "lp \<Longrightarrow> ExtractPointsInfo (w_element w) root [] = Ok (vi_points_info vi)"
    and "lc \<Longrightarrow> ExtractCellsInfo (w_element w) root [] = Ok (vi_cells_info vi)"
  using assms
  by (auto simp: ParseVtkInfo_def Let_def deref_eq_Ok elim!: bindR_OkE split: if_split_asm prod.split_asm)

lemma ParseVtkInfo_sections:
  assumes "ParseVtkInfo w fname mesh_type lp lc = Ok vi" and "(dn, info) \<in> set (section_info vi lp lc)"
  shows "umap_ok info"
proof -
  from assms(1) obtain cls root attrs where
    f: "ExtractFieldArrayInfo (w_element w) (w_reader w cls fname) root [] [] =
      Ok (vi_point_arr_info vi, vi_cell_arr_info vi)"
    and p: "lp \<Longrightarrow> ExtractPointsInfo (w_element w) root [] = Ok (vi_points_info vi)"
    and c: "lc \<Longrightarrow> ExtractCellsInfo (w_element w) root [] = Ok (vi_cells_info vi)"
    by (rule ParseVtkInfo_parts) (rule that)
  have "umap_ok (vi_point_arr_info vi)" "umap_ok (vi_cell_arr_info vi)"
    using f by (auto simp: ExtractFieldArrayInfo_def elim!: bindR_OkE dest: copy_fields_ok [OF _ umap_ok_Nil])
  moreover have "lp \<Longrightarrow> umap_ok (vi_points_info vi)" "lc \<Longrightarrow> umap_ok (vi_cells_info vi)"
    using p c by (auto simp: ExtractPointsInfo_def ExtractCellsInfo_def dest: ExtractNamedInfo_ok [OF _ umap_ok_Nil])
  ultimately show ?thesis using assms(2) by (auto simp: section_info_def split: if_split_asm)
qed

text \<open>From a successful run to the map of one array.\<close>

lemma ParseVtkFileInternal_array:
  assumes "ParseVtkFileInternal w fname mesh lp lc fds = (Ok tree, fds')"
    and "ParseVtkInfo w fname mesh lp lc = Ok vi"
    and "(dn, info) \<in> set (section_info vi lp lc)" and "map_of info name = Some attrs"
  obtains subdirs st fd maps m where "tree = VtkTree_new subdirs st \<lparr>osf_fd = fd\<rparr> True"
    and "w_open w fname = Some fd" and "w_fstat w fd = Some st"
    and "map_of subdirs dn = Some (ArrayDir maps \<lparr>osf_fd = fd\<rparr> False)"
    and "map_of maps (name @ ''.parquet'') = Some m"
    and "ParseVtkDataArray (w_compact w) (w_decode w) (ReadonlyOSFile_Pread (w_pread w) \<lparr>osf_fd = fd\<rparr>) name
           (vi_codec vi) (vi_enc vi) (vi_header_type vi) attrs (vi_appended_data_pos vi) = Ok m"
proof -
  from assms(1,2) obtain fd st subdirs where
    os: "w_open w fname = Some fd" "w_fstat w fd = Some st"
    and sub: "BuildSubdirs w \<lparr>osf_fd = fd\<rparr> vi lp lc = Ok subdirs"
    and tree: "tree = VtkTree_new subdirs st \<lparr>osf_fd = fd\<rparr> True"
    by (auto simp: ParseVtkFileInternal_def NewOSFile_def
        split: result.split_asm option.split_asm prod.split_asm)
  from BuildSubdirs_lookup(2) [OF sub assms(3)] obtain d where d: "map_of subdirs dn = Some d"
    "ParseArrayGroup (w_compact w) (w_decode w) (w_pread w) \<lparr>osf_fd = fd\<rparr> (vi_codec vi) (vi_enc vi)
       (vi_header_type vi) info (vi_appended_data_pos vi) = Ok d" by blast
  from ParseArrayGroup_lookup [OF d(2) ParseVtkInfo_sections [OF assms(2,3)] assms(4)] d(1) os tree that
  show ?thesis by blast
qed


section \<open>Metadata\<close>

text \<open>The attributes of an element, in their order; later ones replace earlier ones of the same name.\<close>

definition element_attrs :: "'e vtk_element \<Rightarrow> 'e \<Rightarrow> (string \<times> string) list" where
  "element_attrs vtk e =
     map (\<lambda>i. (the (GetAttributeName vtk e (int i)), the (GetAttributeValue vtk e (int i))))
       [0..<nat (GetNumberOfAttributes vtk e)]"

lemma foldR_update_lookup:
  "foldR (\<lambda>i des. bindR (deref (val i)) (\<lambda>v. bindR (deref (nam i)) (\<lambda>k. Ok (AList.update k v des)))) xs des =
     Ok des' \<Longrightarrow>
   map_of des' = map_of des ++ map_of (rev (map (\<lambda>i. (the (nam i), the (val i))) xs))"
proof (induction xs arbitrary: des)
  case (Cons x xs)
  then obtain v k where vk: "val x = Some v" "nam x = Some k"
    and rest: "foldR (\<lambda>i des. bindR (deref (val i)) (\<lambda>v. bindR (deref (nam i)) (\<lambda>k. Ok (AList.update k v des)))) xs
      (AList.update k v des) = Ok des'"
    by (auto simp: deref_eq_Ok elim!: bindR_OkE)
  show ?case using Cons.IH [OF rest] vk by (auto simp: update_conv' fun_eq_iff map_add_def split: option.split)
qed simp

lemma CopyAttrs_lookup:
  assumes "CopyAttrs vtk (Some e) des = Ok des'"
  shows "map_of des' = map_of des ++ map_of (rev (element_attrs vtk e))"
  using assms foldR_update_lookup [of "GetAttributeValue vtk e" "GetAttributeName vtk e"]
  by (simp add: CopyAttrs_def for_upto_def element_attrs_def map_comp_map comp_def)


section \<open>Arrays from end to end\<close>

text \<open>
  How an array may be stored, in one of the two ways, with the Parquet file that stands for it.
\<close>

inductive stored_array ::
  "(tok list \<Rightarrow> byte list) \<Rightarrow> decode_triplet \<Rightarrow> CompressionType \<Rightarrow> EncodingType \<Rightarrow> DataType \<Rightarrow> string \<Rightarrow>
   DataType \<Rightarrow> byte list \<Rightarrow> u64 \<Rightarrow> byte list \<Rightarrow> byte list \<Rightarrow> bool"
where
  stored_uncompressed:
    "stored dt (enc_type = BASE64) content off (le_bytes (field_width ht) (length data)) data \<Longrightarrow>
     0 < length data \<Longrightarrow> length data < 2 ^ 46 \<Longrightarrow> length data < 256 ^ field_width ht \<Longrightarrow>
     array_type type v t conv \<Longrightarrow> bs = uncompressed_blocks (word_of_nat (length data)) \<Longrightarrow>
     thrift_fits enc v False name t conv CompressionCodec_UNCOMPRESSED bs \<Longrightarrow>
     stored_array enc dt NONE enc_type ht name type content off data
       (array_parquet enc v False name t conv CompressionCodec_UNCOMPRESSED bs data)"
| stored_compressed:
    "stored dt (enc_type = BASE64) content off (compressed_header (field_width ht) blk lastblk szs) data \<Longrightarrow>
     block_sizes_ok blk lastblk szs \<Longrightarrow> sum_list szs = length data \<Longrightarrow>
     codec \<noteq> NONE \<Longrightarrow> ToParquetCodec codec = Ok pcodec \<Longrightarrow> array_type type v t conv \<Longrightarrow>
     bs = vtk_blocks blk lastblk szs \<Longrightarrow> thrift_fits enc v True name t conv pcodec bs \<Longrightarrow>
     stored_array enc dt codec enc_type ht name type content off data
       (array_parquet enc v True name t conv pcodec bs data)"

lemma stored_array_map:
  assumes "stored_array enc dt codec enc_type ht name type content off data file"
    and "random_access_file base content"
  shows "\<exists>m h foot bs.
    ParseAppendedArray (\<lambda>ts. Some (enc ts)) dt base name type codec enc_type ht off = Ok m \<and>
    array_map dt base m h foot bs data \<and> file = parquet_content h foot bs data"
  using assms(1)
proof cases
  case (stored_uncompressed v t conv bs)
  from uncompressed_array_map [OF assms(2) stored_uncompressed(3-)] show ?thesis
    unfolding stored_uncompressed(1,2) array_parquet_def by blast
next
  case (stored_compressed blk lastblk szs pcodec v t conv bs)
  from compressed_array_map [OF assms(2) stored_compressed(2-)] show ?thesis
    unfolding stored_compressed(1) array_parquet_def by blast
qed

text \<open>The kinds of VTK files and what is read of them.\<close>

definition vtk_kind :: "string \<Rightarrow> (string \<times> bool \<times> bool) option" where
  "vtk_kind fname =
     (if EndsWith fname ''.vtu'' then Some (''UnstructuredGrid'', True, True)
      else if EndsWith fname ''.vts'' then Some (''StructuredGrid'', True, False)
      else if EndsWith fname ''.vti'' then Some (''ImageData'', False, False)
      else None)"

lemma ParseVtkFile_kind:
  "ParseVtkFile w fname fds =
     (case vtk_kind fname of
        None \<Rightarrow> (Error (RuntimeError ''Unsupported vtk file format''), fds)
      | Some (mesh, lp, lc) \<Rightarrow> ParseVtkFileInternal w fname mesh lp lc fds)"
  by (simp only: ParseVtkFile_def vtk_kind_def if_distrib option.case prod.case cong: if_cong)
    (simp split: if_split)

lemma init_internal:
  assumes "vtk_init_tree_int w has_fuse fname fds = (Ok (Some tree, quits), fds')"
    and "vtk_kind fname = Some (mesh, lp, lc)"
  shows "ParseVtkFileInternal w fname mesh lp lc fds = (Ok tree, fds')"
  using assms
  by (auto simp: vtk_init_tree_int_def ParseVtkFile_kind split: prod.split_asm result.split_asm if_split_asm)

lemma section_names:
  "(dn, info) \<in> set (section_info vi lp lc) \<Longrightarrow> dn \<noteq> [] \<and> slash \<notin> set dn"
  by (auto simp: section_info_def split: if_split_asm)

text \<open>
  C1: From a VTK file to the bytes of a virtual file. After a successful start on a file that can be
  read, each array of each section that has a name without a slash and is stored in one of the ways
  that VTK has (\<open>stored_array\<close>: raw or base64, 32-bit or 64-bit header, not empty, uncompressed with
  less than \<open>2 ^ 46\<close> bytes or compressed in blocks as \<open>block_sizes_ok\<close> says) is a file
  \<open>/section/name.parquet\<close>: \<open>getattr\<close> reports its size, \<open>open\<close> succeeds, and every read of less than
  \<open>2 ^ 31\<close> bytes returns exactly the bytes that the Parquet file of the array's data has at this place.
\<close>

theorem vtk_file_array_end_to_end:
  assumes "vtk_init_tree_int w has_fuse fname fds = (Ok (Some tree, quits), fds')"
    and "vtk_kind fname = Some (mesh, lp, lc)" and "ParseVtkInfo w fname mesh lp lc = Ok vi"
    and "(dn, info) \<in> set (section_info vi lp lc)" and "map_of info name = Some attrs"
    and "map_of attrs ''type'' = Some ty" "ParseValueType ty = Ok type"
    and "map_of attrs ''offset'' = Some digits" "atoll digits = Ok off"
    and "slash \<notin> set name" and "w_compact w = (\<lambda>ts. Some (enc ts))"
    and "w_open w fname = Some fd" "os_regular_file (w_pread w) fd content"
    and "stored_array enc (w_decode w) (vi_codec vi) (vi_enc vi) (vi_header_type vi) name type content
           (word_of_int off + vi_appended_data_pos vi) data file"
    and "fi_flags fi AND O_ACCMODE = O_RDONLY"
  defines "s \<equiv> \<lparr>private_data = Some tree, open_files = (\<lambda>p. None)\<rparr>"
    and "path \<equiv> slash # dn @ slash # name @ ''.parquet''"
  shows "(\<exists>sb'. vtk_getattr s (Some path) sb = Ok (0, sb') \<and> st_size sb' = word_of_nat (length file)) \<and>
    (\<exists>s' fi'. vtk_open p s (Some path) fi = Ok (0, s', fi') \<and>
      (\<forall>sz pos. unat sz < 2 ^ 31 \<longrightarrow> vtk_read (w_pread w) (w_decode w) s' sz pos fi' =
         Some (Ok (int (length (bytes_at (unat pos) (unat sz) file)), bytes_at (unat pos) (unat sz) file))))"
proof -
  note run = init_internal [OF assms(1,2)]
  obtain subdirs st fd' maps m where tree: "tree = VtkTree_new subdirs st \<lparr>osf_fd = fd'\<rparr> True"
    and fd': "w_open w fname = Some fd'"
    and dir: "map_of subdirs dn = Some (ArrayDir maps \<lparr>osf_fd = fd'\<rparr> False)"
    and m: "map_of maps (name @ ''.parquet'') = Some m"
    and arr: "ParseVtkDataArray (w_compact w) (w_decode w) (ReadonlyOSFile_Pread (w_pread w) \<lparr>osf_fd = fd'\<rparr>) name
           (vi_codec vi) (vi_enc vi) (vi_header_type vi) attrs (vi_appended_data_pos vi) = Ok m"
    by (rule ParseVtkFileInternal_array [OF run assms(3-5)]) (rule that)
  have raf: "random_access_file (ReadonlyOSFile_Pread (w_pread w) \<lparr>osf_fd = fd'\<rparr>) content"
    using assms(12,13) fd' by (intro os_regular_random_access) simp
  from stored_array_map [OF assms(14) raf] obtain m' h foot bs where
    m': "ParseAppendedArray (w_compact w) (w_decode w) (ReadonlyOSFile_Pread (w_pread w) \<lparr>osf_fd = fd'\<rparr>) name
      type (vi_codec vi) (vi_enc vi) (vi_header_type vi) (word_of_int off + vi_appended_data_pos vi) = Ok m'"
    and map: "array_map (w_decode w) (ReadonlyOSFile_Pread (w_pread w) \<lparr>osf_fd = fd'\<rparr>) m' h foot bs data"
    and parquet: "file = parquet_content h foot bs data"
    unfolding assms(11) by blast
  have "m' = m"
    using arr m' assms(6-9) by (auto simp: ParseVtkDataArray_def split: if_split_asm elim!: bindR_OkE)
  note map = map [unfolded this]
  have ok: "dir_ok tree" using ParseVtkFileInternal_ok [OF run] by blast
  have priv: "private_data s = Some (VtkTree subdirs (SanitizedStat st) \<lparr>osf_fd = fd'\<rparr> True)"
    by (simp add: s_def tree VtkTree_new_def)
  have entry: "path_entry (VtkTree subdirs (SanitizedStat st) \<lparr>osf_fd = fd'\<rparr> True) path =
      Inr (EFile (AVirtualFile \<lparr>vf_map = m, vf_base = \<lparr>osf_fd = fd'\<rparr>, vf_own_base = False\<rparr>) (map_size m))"
    unfolding path_def using section_names [OF assms(4)] assms(10)
    by (intro array_path_entry [OF dir m]) simp_all
  have ok': "dir_ok (VtkTree subdirs (SanitizedStat st) \<lparr>osf_fd = fd'\<rparr> True)"
    using ok by (simp add: tree VtkTree_new_def)
  show ?thesis
    using getattr_file [OF priv ok' entry, of sb] array_map_size [OF map]
      open_then_read [OF priv ok' assms(15) entry array_map_holds [OF map], of p]
    by (simp add: map_size_def parquet del: length_bytes_at)
qed

lemma named_init:
  "\<exists>tree. vtk_init_tree_int (named_world name) True ''a.vti'' [] = (Ok (Some tree, False), [3])"
proof -
  obtain tree where "ParseVtkFile (named_world name) ''a.vti'' [] = (Ok tree, [3])"
    using named_parse by blast
  then show ?thesis by (simp add: vtk_init_tree_int_def)
qed

lemmas sample_init = named_init [of "''p''"]

lemma sample_kind: "vtk_kind ''a.vti'' = Some (''ImageData'', False, False)"
  by (simp add: vtk_kind_def EndsWith_def)

lemma sample_stored_array:
  "stored_array sample_enc sample_dt NONE RAW UINT32 ''p'' INT32 sample_raw 0 sample_data
     (array_parquet sample_enc 4 False ''p'' Type_INT32 (Some ConvertedType_INT_32)
        CompressionCodec_UNCOMPRESSED (uncompressed_blocks 4) sample_data)"
  by (rule stored_uncompressed)
    (simp_all add: sample_raw_stored sample_type sample_thrift_fits field_width_def)

theorem vtk_file_array_end_to_end_witness:
  "\<exists>tree s' fi'. vtk_init_tree_int sample_world True ''a.vti'' [] = (Ok (Some tree, False), [3]) \<and>
     vtk_open 4096 \<lparr>private_data = Some tree, open_files = (\<lambda>p. None)\<rparr> (Some ''/pointdata/p.parquet'')
       \<lparr>fi_flags = 0, fi_fh = 0\<rparr> = Ok (0, s', fi') \<and>
     vtk_read (sample_os sample_raw) sample_dt s' 4 0 fi' = Some (Ok (4, map of_char ''PAR1''))"
proof -
  let ?file = "array_parquet sample_enc 4 False ''p'' Type_INT32 (Some ConvertedType_INT_32)
        CompressionCodec_UNCOMPRESSED (uncompressed_blocks 4) sample_data"
  let ?info = "[(''p'', [(''type'', ''Int32''), (''format'', ''appended''), (''offset'', ''0'')])]"
  obtain tree where init: "vtk_init_tree_int sample_world True ''a.vti'' [] = (Ok (Some tree, False), [3])"
    using sample_init by blast
  note run = vtk_file_array_end_to_end [OF init sample_kind sample_info, of "''pointdata''" ?info "''p''"
      "[(''type'', ''Int32''), (''format'', ''appended''), (''offset'', ''0'')]" "''Int32''" INT32 "''0''" 0
      sample_enc 3 sample_raw sample_data ?file "\<lparr>fi_flags = 0, fi_fh = 0\<rparr>" zero_stat 4096]
  have "take 4 ?file = map of_char ''PAR1''"
    by (simp add: array_parquet_def parquet_content_def PAR1_def)
  then have read: "bytes_at (unat (0 :: u64)) (unat (4 :: u64)) ?file = map of_char ''PAR1''"
    by (simp add: bytes_at_def)
  have "\<exists>s' fi'. vtk_open 4096 \<lparr>private_data = Some tree, open_files = (\<lambda>p. None)\<rparr>
       (Some ''/pointdata/p.parquet'') \<lparr>fi_flags = 0, fi_fh = 0\<rparr> = Ok (0, s', fi') \<and>
      (\<forall>sz pos. unat sz < 2 ^ 31 \<longrightarrow> vtk_read (sample_os sample_raw) sample_dt s' sz pos fi' =
         Some (Ok (int (length (bytes_at (unat pos) (unat sz) ?file)), bytes_at (unat pos) (unat sz) ?file)))"
    using run sample_stored_array sample_os_regular
    by (simp add: section_info_def sample_atoll ParseValueType_def O_RDONLY_def named_world_def sample_type
        del: length_bytes_at)
  then obtain s' fi' where opened: "vtk_open 4096 \<lparr>private_data = Some tree, open_files = (\<lambda>p. None)\<rparr>
       (Some ''/pointdata/p.parquet'') \<lparr>fi_flags = 0, fi_fh = 0\<rparr> = Ok (0, s', fi')"
    and reads: "\<And>sz pos. unat sz < 2 ^ 31 \<Longrightarrow> vtk_read (sample_os sample_raw) sample_dt s' sz pos fi' =
         Some (Ok (int (length (bytes_at (unat pos) (unat sz) ?file)), bytes_at (unat pos) (unat sz) ?file))"
    by blast
  have "vtk_read (sample_os sample_raw) sample_dt s' 4 0 fi' = Some (Ok (4, map of_char ''PAR1''))"
    using reads [of 4 0, unfolded read] by simp
  with init opened show ?thesis by blast
qed

section \<open>Metadata and listings from end to end\<close>

lemma ParseVtkFileInternal_subdirs:
  assumes "ParseVtkFileInternal w fname mesh lp lc fds = (Ok tree, fds')"
    and "ParseVtkInfo w fname mesh lp lc = Ok vi"
  obtains subdirs st fd where "tree = VtkTree subdirs (SanitizedStat st) \<lparr>osf_fd = fd\<rparr> True" and "dir_ok tree"
    and "w_open w fname = Some fd"
    and "BuildSubdirs w \<lparr>osf_fd = fd\<rparr> vi lp lc = Ok subdirs"
proof -
  from assms(1,2) obtain fd st subdirs where "w_open w fname = Some fd"
    and "BuildSubdirs w \<lparr>osf_fd = fd\<rparr> vi lp lc = Ok subdirs"
    and "tree = VtkTree_new subdirs st \<lparr>osf_fd = fd\<rparr> True"
    by (auto simp: ParseVtkFileInternal_def NewOSFile_def
        split: result.split_asm option.split_asm prod.split_asm)
  moreover have "dir_ok tree" using ParseVtkFileInternal_ok [OF assms(1)] by blast
  ultimately show ?thesis using that by (simp add: VtkTree_new_def)
qed

text \<open>The attributes that the directory METADATA shows, those of the mesh element over those of the root.\<close>

lemma root_attrs_lookup:
  assumes "ParseVtkInfo w fname mesh lp lc = Ok vi" and "CreateReader mesh = Ok cls"
    and "GetRootElement (w_reader w cls fname) = Some root"
    and "FindNestedElementWithName (w_element w) root mesh = Some e"
  shows "map_of (vi_root_attrs vi) = map_of (rev (element_attrs (w_element w) root @ element_attrs (w_element w) e))"
proof -
  from assms(1) obtain attrs where
    "CopyAttrs (w_element w) (Some root) [] = Ok attrs"
    "CopyAttrs (w_element w) (Some e) attrs = Ok (vi_root_attrs vi)"
    by (rule ParseVtkInfo_parts) (use assms(2-4) that in auto)
  from CopyAttrs_lookup [OF this(1)] CopyAttrs_lookup [OF this(2)] show ?thesis by simp
qed

lemma metadata_entry:
  assumes "vtk_init_tree_int w has_fuse fname fds = (Ok (Some tree, quits), fds')"
    and "vtk_kind fname = Some (mesh, lp, lc)" and "ParseVtkInfo w fname mesh lp lc = Ok vi"
    and "map_of (vi_root_attrs vi) k = Some v" and "k \<noteq> []" "slash \<notin> set k"
  shows "dir_ok tree" and "path_entry tree (slash # ''METADATA'' @ slash # k) =
      Inr (EFile (AStringBufFile \<lparr>sbf_strbuf = string_bytes v\<rparr>) (word_of_nat (length v)))"
proof -
  from ParseVtkFileInternal_subdirs [OF init_internal [OF assms(1,2)] assms(3)] obtain subdirs st fd where
    tree: "tree = VtkTree subdirs (SanitizedStat st) \<lparr>osf_fd = fd\<rparr> True" and ok: "dir_ok tree"
    and sub: "BuildSubdirs w \<lparr>osf_fd = fd\<rparr> vi lp lc = Ok subdirs" by blast
  show "dir_ok tree" by (fact ok)
  show "path_entry tree (slash # ''METADATA'' @ slash # k) =
      Inr (EFile (AStringBufFile \<lparr>sbf_strbuf = string_bytes v\<rparr>) (word_of_nat (length v)))"
    unfolding tree
    by (rule metadata_path_entry [OF BuildSubdirs_lookup(1) [OF sub] assms(4) _ _ assms(5,6)]) simp_all
qed

text \<open>
  C17: Every attribute of the root element and of the mesh element is a file below \<open>/METADATA\<close> that
  holds its value, byte for byte. Where both elements have the attribute, the value of the mesh
  element is shown, and of repeated attributes the last one.
\<close>

theorem metadata_end_to_end:
  assumes "vtk_init_tree_int w has_fuse fname fds = (Ok (Some tree, quits), fds')"
    and "vtk_kind fname = Some (mesh, lp, lc)" and "ParseVtkInfo w fname mesh lp lc = Ok vi"
    and "CreateReader mesh = Ok cls" and "GetRootElement (w_reader w cls fname) = Some root"
    and "FindNestedElementWithName (w_element w) root mesh = Some e"
    and "map_of (rev (element_attrs (w_element w) root @ element_attrs (w_element w) e)) k = Some v"
    and "k \<noteq> []" "slash \<notin> set k" and "fi_flags fi AND O_ACCMODE = O_RDONLY"
  defines "s \<equiv> \<lparr>private_data = Some tree, open_files = (\<lambda>p. None)\<rparr>"
    and "path \<equiv> slash # ''METADATA'' @ slash # k"
  shows "(\<exists>sb'. vtk_getattr s (Some path) sb = Ok (0, sb') \<and> st_size sb' = word_of_nat (length v)) \<and>
    (\<exists>s' fi'. vtk_open p s (Some path) fi = Ok (0, s', fi') \<and>
      (\<forall>sz pos. unat sz < 2 ^ 31 \<longrightarrow> vtk_read os dt s' sz pos fi' =
         Some (Ok (int (length (bytes_at (unat pos) (unat sz) (string_bytes v))),
                   bytes_at (unat pos) (unat sz) (string_bytes v)))))"
proof -
  have k: "map_of (vi_root_attrs vi) k = Some v"
    using root_attrs_lookup [OF assms(3-6)] assms(7) by simp
  have priv: "private_data s = Some tree" by (simp add: s_def)
  note entry = metadata_entry [OF assms(1-3) k assms(8,9), folded path_def]
  obtain subdirs st fd where tree: "tree = VtkTree subdirs (SanitizedStat st) \<lparr>osf_fd = fd\<rparr> True"
    using ParseVtkFileInternal_subdirs [OF init_internal [OF assms(1,2)] assms(3)] by blast
  show ?thesis
    using getattr_file [OF priv [unfolded tree] entry [unfolded tree], of sb]
      open_then_read [OF priv entry(1) assms(10) entry(2) string_file_holds, of p os dt]
    by simp
qed

lemma foldl_snoc: "foldl (\<lambda>buf n. buf @ [n]) a xs = a @ xs"
  by (induction xs arbitrary: a) simp_all

lemma distinct_dir_names: "dir_ok d \<Longrightarrow> distinct (dir_names d)"
  by (cases d) (simp_all add: dir_names_def KeyIter_new_def umap_ok_def)

lemma readdir_section:
  assumes "vtk_init_tree_int w has_fuse fname fds = (Ok (Some tree, quits), fds')"
    and "vtk_kind fname = Some (mesh, lp, lc)" and "ParseVtkInfo w fname mesh lp lc = Ok vi"
    and "(dn, info) \<in> set (section_info vi lp lc)"
  shows "\<exists>names. vtk_readdir (\<lambda>buf n. buf @ [n]) \<lparr>private_data = Some tree, open_files = h\<rparr>
      (Some (slash # dn)) [] = Ok (0, names) \<and> distinct names \<and>
    set names = (\<lambda>n. n @ ''.parquet'') ` fst ` set info"
proof -
  from ParseVtkFileInternal_subdirs [OF init_internal [OF assms(1,2)] assms(3)] obtain subdirs st fd where
    tree: "tree = VtkTree subdirs (SanitizedStat st) \<lparr>osf_fd = fd\<rparr> True" and ok: "dir_ok tree"
    and sub: "BuildSubdirs w \<lparr>osf_fd = fd\<rparr> vi lp lc = Ok subdirs" by blast
  from BuildSubdirs_lookup(2) [OF sub assms(4)] obtain d where d: "map_of subdirs dn = Some d"
    "ParseArrayGroup (w_compact w) (w_decode w) (w_pread w) \<lparr>osf_fd = fd\<rparr> (vi_codec vi) (vi_enc vi)
       (vi_header_type vi) info (vi_appended_data_pos vi) = Ok d" by blast
  have "path_entry tree (slash # dn) = Inr (EDir d)"
    using section_names [OF assms(4)] d(1) by (simp add: path_entry_def components_plain tree)
  then have "vtk_readdir (\<lambda>buf n. buf @ [n]) \<lparr>private_data = Some tree, open_files = h\<rparr>
      (Some (slash # dn)) [] = Ok (0, dir_names d)"
    by (simp add: vtk_readdir_def Readdir_implements [OF ok] foldl_snoc)
  moreover have "distinct (dir_names d)"
    using ParseArrayGroup_ok [OF d(2)] by (intro distinct_dir_names) simp
  ultimately show ?thesis using ParseArrayGroup_names [OF d(2)] by (simp add: dir_names_def)
qed


text \<open>
  C18: The listing of a section of the file is complete and free of duplicates: \<open>readdir\<close> on
  \<open>/section\<close> succeeds and gives each array of the section once, under its name with the
  extension \<open>.parquet\<close>.
\<close>

theorem section_listing:
  assumes "vtk_init_tree_int w has_fuse fname fds = (Ok (Some tree, quits), fds')"
    and "vtk_kind fname = Some (mesh, lp, lc)" and "ParseVtkInfo w fname mesh lp lc = Ok vi"
    and "(dn, info) \<in> set (section_info vi lp lc)"
  shows "\<exists>names. vtk_readdir (\<lambda>buf n. buf @ [n]) \<lparr>private_data = Some tree, open_files = h\<rparr>
      (Some (slash # dn)) [] = Ok (0, names) \<and> distinct names \<and>
    set names = (\<lambda>n. n @ ''.parquet'') ` fst ` set info"
  using assms by (rule readdir_section)

theorem section_listing_witness:
  "\<exists>tree. vtk_init_tree_int sample_world True ''a.vti'' [] = (Ok (Some tree, False), [3]) \<and>
     vtk_readdir (\<lambda>buf n. buf @ [n]) \<lparr>private_data = Some tree, open_files = (\<lambda>p. None)\<rparr>
       (Some ''/pointdata'') [] = Ok (0, [''p.parquet''])"
proof -
  obtain tree where init: "vtk_init_tree_int sample_world True ''a.vti'' [] = (Ok (Some tree, False), [3])"
    using sample_init by blast
  from section_listing [OF init sample_kind sample_info, of "''pointdata''"
      "[(''p'', [(''type'', ''Int32''), (''format'', ''appended''), (''offset'', ''0'')])]" "\<lambda>p. None"]
  obtain names where run: "vtk_readdir (\<lambda>buf n. buf @ [n]) \<lparr>private_data = Some tree, open_files = (\<lambda>p. None)\<rparr>
       (Some ''/pointdata'') [] = Ok (0, names)" and "distinct names" "set names = {''p.parquet''}"
    by (auto simp: section_info_def)
  then have "names = [''p.parquet'']"
    by (cases names rule: list.exhaust [case_product list.exhaust [of "tl names"]]) auto
  with init run show ?thesis by auto
qed

theorem metadata_end_to_end_witness:
  "\<exists>tree s' fi'. vtk_init_tree_int sample_world True ''a.vti'' [] = (Ok (Some tree, False), [3]) \<and>
     vtk_open 4096 \<lparr>private_data = Some tree, open_files = (\<lambda>p. None)\<rparr> (Some ''/METADATA/header_type'')
       \<lparr>fi_flags = 0, fi_fh = 0\<rparr> = Ok (0, s', fi') \<and>
     vtk_read (sample_os sample_raw) sample_dt s' 100 4 fi' = Some (Ok (2, string_bytes ''32''))"
proof -
  obtain tree where init: "vtk_init_tree_int sample_world True ''a.vti'' [] = (Ok (Some tree, False), [3])"
    using sample_init by blast
  have cls: "CreateReader ''ImageData'' = Ok vtkXMLImageDataReader" by (simp add: CreateReader_def)
  note run = metadata_end_to_end [OF init sample_kind sample_info cls, of "''VTKFile''" "''ImageData''" "''header_type''"
      "''UInt32''" "\<lparr>fi_flags = 0, fi_fh = 0\<rparr>" zero_stat 4096 "sample_os sample_raw" sample_dt]
  have "\<exists>s' fi'. vtk_open 4096 \<lparr>private_data = Some tree, open_files = (\<lambda>p. None)\<rparr>
       (Some ''/METADATA/header_type'') \<lparr>fi_flags = 0, fi_fh = 0\<rparr> = Ok (0, s', fi') \<and>
      (\<forall>sz pos. unat sz < 2 ^ 31 \<longrightarrow> vtk_read (sample_os sample_raw) sample_dt s' sz pos fi' =
         Some (Ok (int (length (bytes_at (unat pos) (unat sz) (string_bytes ''UInt32''))),
           bytes_at (unat pos) (unat sz) (string_bytes ''UInt32''))))"
    using run by (simp add: named_world_def named_reader_def sample_element_def element_attrs_def
        sample_attributes_def O_RDONLY_def del: length_bytes_at)
  then obtain s' fi' where opened: "vtk_open 4096 \<lparr>private_data = Some tree, open_files = (\<lambda>p. None)\<rparr>
       (Some ''/METADATA/header_type'') \<lparr>fi_flags = 0, fi_fh = 0\<rparr> = Ok (0, s', fi')"
    and reads: "\<And>sz pos. unat sz < 2 ^ 31 \<Longrightarrow> vtk_read (sample_os sample_raw) sample_dt s' sz pos fi' =
         Some (Ok (int (length (bytes_at (unat pos) (unat sz) (string_bytes ''UInt32''))),
           bytes_at (unat pos) (unat sz) (string_bytes ''UInt32'')))"
    by blast
  have "vtk_read (sample_os sample_raw) sample_dt s' 100 4 fi' = Some (Ok (2, string_bytes ''32''))"
    using reads [of 100 4] by (simp add: bytes_at_def string_bytes_def)
  with init opened show ?thesis by blast
qed

text \<open>
  A path \<open>name.parquet\<close> below a section, where the name has a slash: leading slashes are passed over;
  what is left is the name of another array, or it is taken apart or looked up in vain.
\<close>

lemma slash_path_entry:
  assumes "map_of subdirs dn = Some (ArrayDir maps base own)" and "dn \<noteq> []" "slash \<notin> set dn"
    and keys: "fst ` set maps = (\<lambda>n. n @ ''.parquet'') ` names"
    and other: "slash \<in> set other \<or> other \<notin> names" "other = [] \<or> hd other \<noteq> slash"
  shows "path_entry (VtkTree subdirs st fb fo) (slash # dn @ slash # other @ ''.parquet'') \<in> {Inl ENOENT, Inl ENOTDIR}"
proof (cases "slash \<in> set other")
  case True
  define a b where "a = takeWhile (\<lambda>c. c \<noteq> slash) other" and "b = tl (dropWhile (\<lambda>c. c \<noteq> slash) other)"
  have "hd (dropWhile (\<lambda>c. c \<noteq> slash) other) = slash" and "dropWhile (\<lambda>c. c \<noteq> slash) other \<noteq> []"
    using True hd_dropWhile [of "\<lambda>c. c \<noteq> slash" other] by auto
  then have split: "other = a @ slash # b"
    unfolding a_def b_def by (metis hd_Cons_tl takeWhile_dropWhile_id)
  have a: "a \<noteq> []" "slash \<notin> set a"
    using True other(2) by (cases other; auto simp: a_def dest: set_takeWhileD)+
  obtain c cs where rest: "components (b @ ''.parquet'') = c # cs"
    using components_eq_Nil [of "b @ ''.parquet''"] by (cases "components (b @ ''.parquet'')") auto
  have "components (dn @ slash # other @ ''.parquet'') = dn # a # c # cs"
    using assms(2,3) a rest by (simp add: components_append split)
  then show ?thesis
    unfolding path_entry_def using assms(1) by (simp split: option.split)
next
  case False
  then have "other @ ''.parquet'' \<notin> fst ` set maps"
    using other(1) keys by auto
  then have "map_of maps (other @ ''.parquet'') = None" by (simp add: map_of_eq_None_iff)
  then show ?thesis
    using assms(1-3) False by (simp add: path_entry_def components_append components_plain)
qed

text \<open>
  C19: An array whose name contains a slash, at whatever place, is listed but cannot be reached. The
  path that leads to its listed name is taken apart at the slashes, and leading ones are passed
  over. If what is left is the name of another array of the section, \<open>open\<close> does with the path exactly
  what it does with the path of that array; in every other case it fails with \<open>ENOENT\<close> or \<open>ENOTDIR\<close>
  and changes nothing.
\<close>

theorem slash_name_unreachable:
  assumes "vtk_init_tree_int w has_fuse fname fds = (Ok (Some tree, quits), fds')"
    and "vtk_kind fname = Some (mesh, lp, lc)" and "ParseVtkInfo w fname mesh lp lc = Ok vi"
    and "(dn, info) \<in> set (section_info vi lp lc)" and "map_of info name = Some attrs"
    and "slash \<in> set name" and "fi_flags fi AND O_ACCMODE = O_RDONLY"
  defines "s \<equiv> \<lparr>private_data = Some tree, open_files = (\<lambda>p. None)\<rparr>"
    and "other \<equiv> dropWhile (\<lambda>c. c = slash) name"
  shows "\<exists>names. vtk_readdir (\<lambda>buf n. buf @ [n]) s (Some (slash # dn)) [] = Ok (0, names) \<and>
    name @ ''.parquet'' \<in> set names \<and>
    (if slash \<notin> set other \<and> other \<in> fst ` set info
     then other \<noteq> name \<and>
       vtk_open p s (Some (slash # dn @ slash # name @ ''.parquet'')) fi =
       vtk_open p s (Some (slash # dn @ slash # other @ ''.parquet'')) fi
     else vtk_open p s (Some (slash # dn @ slash # name @ ''.parquet'')) fi
       \<in> {Ok (- ENOENT, s, fi), Ok (- ENOTDIR, s, fi)})"
proof -
  from ParseVtkFileInternal_subdirs [OF init_internal [OF assms(1,2)] assms(3)] obtain subdirs st fd where
    tree: "tree = VtkTree subdirs (SanitizedStat st) \<lparr>osf_fd = fd\<rparr> True" and ok: "dir_ok tree"
    and sub: "BuildSubdirs w \<lparr>osf_fd = fd\<rparr> vi lp lc = Ok subdirs" by blast
  from BuildSubdirs_lookup(2) [OF sub assms(4)] obtain d where d: "map_of subdirs dn = Some d"
    "ParseArrayGroup (w_compact w) (w_decode w) (w_pread w) \<lparr>osf_fd = fd\<rparr> (vi_codec vi) (vi_enc vi)
       (vi_header_type vi) info (vi_appended_data_pos vi) = Ok d" by blast
  from ParseArrayGroup_lookup [OF d(2) ParseVtkInfo_sections [OF assms(3,4)] assms(5)]
  obtain maps where maps: "d = ArrayDir maps \<lparr>osf_fd = fd\<rparr> False" by blast
  have keys: "fst ` set maps = (\<lambda>n. n @ ''.parquet'') ` fst ` set info"
    using ParseArrayGroup_names [OF d(2)] by (simp add: maps KeyIter_new_def)
  have "components (other @ ''.parquet'') = components (name @ ''.parquet'')"
    unfolding other_def by (induction name) auto
  then have "components (dn @ slash # name @ ''.parquet'') = components (dn @ slash # other @ ''.parquet'')"
    using section_names [OF assms(4)] by (simp add: components_append)
  note same = path_entry_components [OF this, of tree]
  have leading: "other = [] \<or> hd other \<noteq> slash"
    unfolding other_def using hd_dropWhile [of "\<lambda>c. c = slash" name] by blast
  have same_open: "vtk_open p s (Some (slash # dn @ slash # name @ ''.parquet'')) fi =
      vtk_open p s (Some (slash # dn @ slash # other @ ''.parquet'')) fi"
    using ok by (simp add: vtk_open_def Open_implements s_def same)
  have failing: "vtk_open p s (Some (slash # dn @ slash # other @ ''.parquet'')) fi
      \<in> {Ok (- ENOENT, s, fi), Ok (- ENOTDIR, s, fi)}" if "slash \<in> set other \<or> other \<notin> fst ` set info"
    using slash_path_entry [OF d(1) [unfolded maps] _ _ keys that leading, of "SanitizedStat st" "\<lparr>osf_fd = fd\<rparr>" True]
      section_names [OF assms(4)] assms(7) ok
    by (auto simp: vtk_open_def Open_implements s_def tree)
  have "other \<noteq> name" if "slash \<notin> set other" using that assms(6) by auto
  moreover obtain names where "vtk_readdir (\<lambda>buf n. buf @ [n]) s (Some (slash # dn)) [] = Ok (0, names)"
    and "set names = (\<lambda>n. n @ ''.parquet'') ` fst ` set info"
    using readdir_section [OF assms(1-4), of "\<lambda>p. None"] unfolding s_def by blast
  moreover have "name \<in> fst ` set info" using umap_key [OF assms(5)] .
  ultimately show ?thesis using same_open failing by (intro exI [of _ names]) auto
qed

theorem slash_name_unreachable_witness:
  "\<exists>tree names. vtk_init_tree_int (named_world ''a/b'') True ''a.vti'' [] = (Ok (Some tree, False), [3]) \<and>
     vtk_readdir (\<lambda>buf n. buf @ [n]) \<lparr>private_data = Some tree, open_files = (\<lambda>p. None)\<rparr>
       (Some ''/pointdata'') [] = Ok (0, names) \<and> ''a/b.parquet'' \<in> set names \<and>
     vtk_open 4096 \<lparr>private_data = Some tree, open_files = (\<lambda>p. None)\<rparr> (Some ''/pointdata/a/b.parquet'')
       \<lparr>fi_flags = 0, fi_fh = 0\<rparr>
       \<in> {Ok (- ENOENT, \<lparr>private_data = Some tree, open_files = (\<lambda>p. None)\<rparr>, \<lparr>fi_flags = 0, fi_fh = 0\<rparr>),
           Ok (- ENOTDIR, \<lparr>private_data = Some tree, open_files = (\<lambda>p. None)\<rparr>, \<lparr>fi_flags = 0, fi_fh = 0\<rparr>)}"
proof -
  obtain tree where init: "vtk_init_tree_int (named_world ''a/b'') True ''a.vti'' [] = (Ok (Some tree, False), [3])"
    using named_init by blast
  have section_entry: "(''pointdata'', [(''a/b'', [(''type'', ''Int32''), (''format'', ''appended''), (''offset'', ''0'')])])
      \<in> set (section_info \<lparr>vi_codec = NONE, vi_appended_data_pos = 0, vi_enc = RAW, vi_header_type = UINT32,
         vi_root_attrs = [(''header_type'', ''UInt32'')],
         vi_point_arr_info = [(''a/b'', [(''type'', ''Int32''), (''format'', ''appended''), (''offset'', ''0'')])],
         vi_cell_arr_info = [], vi_points_info = [], vi_cells_info = []\<rparr> False False)"
    by (simp add: section_info_def)
  have flags: "fi_flags \<lparr>fi_flags = 0, fi_fh = 0\<rparr> AND O_ACCMODE = O_RDONLY" by (simp add: O_RDONLY_def)
  from slash_name_unreachable [OF init sample_kind named_info section_entry _ _ flags, where p = 4096 and name = "''a/b''"]
  show ?thesis using init by auto
qed

end
