(* ===== verification/Fuse_Main.thy ===== *)
theory Fuse_Main
  imports Vtk_File
begin

text \<open>
  The main program (src/fuse_main.c): it takes the name of the VTK file from the options, hands the
  table of the handlers to libfuse and returns what libfuse returns. The two functions of libfuse are
  parameters; of \<open>fuse_main\<close> the program relies on the documented life cycle: \<open>init\<close> runs once, its
  result is the \<open>private_data\<close> of all further calls, requests go to the handlers of the table, none
  are taken after \<open>fuse_exit\<close>, and \<open>destroy\<close> gets the \<open>private_data\<close> at the end.
\<close>

section \<open>The program\<close>

record fs_conf =
  underlying_file :: "string option"

record fuse_operations =
  op_getattr :: "Session \<Rightarrow> string option \<Rightarrow> stat \<Rightarrow> (int \<times> stat) result"
  op_open :: "u64 \<Rightarrow> Session \<Rightarrow> string option \<Rightarrow> fuse_file_info \<Rightarrow> (int \<times> Session \<times> fuse_file_info) result"
  op_read :: "Session \<Rightarrow> u64 \<Rightarrow> u64 \<Rightarrow> fuse_file_info \<Rightarrow> (int \<times> byte list) result option"
  op_flush :: "string option \<Rightarrow> fuse_file_info \<Rightarrow> int"
  op_release :: "Session \<Rightarrow> fuse_file_info \<Rightarrow> (int \<times> Session) result"
  op_readdir :: "(string list \<Rightarrow> string \<Rightarrow> string list) \<Rightarrow> Session \<Rightarrow> string option \<Rightarrow> string list \<Rightarrow>
    (int \<times> string list) result"
  op_init :: "int list \<Rightarrow> (Dir option \<times> bool) result \<times> int list"
  op_destroy :: "Dir option \<Rightarrow> int list"

text \<open>A null pointer for the name of the file is undefined; \<open>main\<close> rules it out.\<close>

definition fs_init_tree ::
  "'e world \<Rightarrow> bool \<Rightarrow> fs_conf \<Rightarrow> int list \<Rightarrow> (Dir option \<times> bool) result \<times> int list" where
  "fs_init_tree w has_fuse g_conf fds =
     (case underlying_file g_conf of
        None \<Rightarrow> (Error Undefined, fds)
      | Some fname \<Rightarrow> vtk_init_tree_int w has_fuse fname fds)"

definition fs_oper :: "'e world \<Rightarrow> bool \<Rightarrow> fs_conf \<Rightarrow> fuse_operations" where
  "fs_oper w has_fuse g_conf =
     \<lparr>op_getattr = vtk_getattr,
      op_open = vtk_open,
      op_read = vtk_read (w_pread w) (w_decode w),
      op_flush = vtk_flush,
      op_release = vtk_release,
      op_readdir = vtk_readdir,
      op_init = fs_init_tree w has_fuse g_conf,
      op_destroy = vtk_destroy_tree\<rparr>"

text \<open>The result is the exit status and the descriptors that are open at the end.\<close>

type_synonym fuse_opt_parse = "string list \<Rightarrow> fs_conf \<Rightarrow> fs_conf \<times> string list"
type_synonym fuse_main = "string list \<Rightarrow> fuse_operations \<Rightarrow> int list \<Rightarrow> int \<times> int list"

definition fs_main ::
  "fuse_opt_parse \<Rightarrow> fuse_main \<Rightarrow> 'e world \<Rightarrow> bool \<Rightarrow> string list \<Rightarrow> int list \<Rightarrow> int \<times> int list" where
  "fs_main opt_parse fuse w has_fuse argv fds =
     (case opt_parse argv \<lparr>underlying_file = None\<rparr> of
        (g_conf, args) \<Rightarrow>
          if underlying_file g_conf = None then (1, fds)
          else fuse args (fs_oper w has_fuse g_conf) fds)"

section \<open>The calls of the library\<close>

text \<open>A request that libfuse takes from the kernel and hands to the table.\<close>

inductive library_call :: "fuse_operations \<Rightarrow> Session \<Rightarrow> event \<Rightarrow> Session \<Rightarrow> bool"
  for ops :: fuse_operations
where
  call_getattr: "op_getattr ops s (Some path) sb = Ok (r, sb') \<Longrightarrow> library_call ops s (Attr path r sb') s"
| call_readdir: "op_readdir ops (\<lambda>b n. b @ [n]) s (Some path) [] = Ok (r, ns) \<Longrightarrow>
    library_call ops s (Listed path r ns) s"
| call_open: "p \<noteq> 0 \<Longrightarrow> open_files s p = None \<Longrightarrow>
    op_open ops p s (Some path) \<lparr>fi_flags = flags, fi_fh = 0\<rparr> = Ok (r, s', fi) \<Longrightarrow>
    library_call ops s (Opened path flags p r) s'"
| call_read: "op_read ops s sz off \<lparr>fi_flags = flags, fi_fh = p\<rparr> = Some (Ok (r, bs)) \<Longrightarrow>
    library_call ops s (Bytes p sz off r bs) s"
| call_flush: "op_flush ops path \<lparr>fi_flags = flags, fi_fh = p\<rparr> = 0 \<Longrightarrow>
    library_call ops s (Flushed p) s"
| call_release: "open_files s p \<noteq> None \<Longrightarrow> p \<noteq> 0 \<Longrightarrow>
    op_release ops s \<lparr>fi_flags = flags, fi_fh = p\<rparr> = Ok (r, s') \<Longrightarrow>
    library_call ops s (Released p) s'"

inductive library_run :: "fuse_operations \<Rightarrow> Session \<Rightarrow> event list \<Rightarrow> Session \<Rightarrow> bool"
  for ops :: fuse_operations and s0 :: Session
where
  library_start: "library_run ops s0 [] s0"
| library_step: "library_run ops s0 es s \<Longrightarrow> library_call ops s e s' \<Longrightarrow> library_run ops s0 (es @ [e]) s'"

definition runs_sessions :: "fuse_main \<Rightarrow> bool" where
  "runs_sessions fuse \<longleftrightarrow> (\<forall>args ops fds tree quits fds1 ret fds'.
     op_init ops fds = (Ok (tree, quits), fds1) \<longrightarrow> fuse args ops fds = (ret, fds') \<longrightarrow>
     fds' = fds \<or>
     (\<exists>es s. library_run ops \<lparr>private_data = tree, open_files = (\<lambda>p. None)\<rparr> es s \<and> (quits \<longrightarrow> es = []) \<and>
        fds' = fold remove1 (op_destroy ops (private_data s)) fds1))"

text \<open>The table leads every request to the handler of its kind.\<close>

lemma library_call_session:
  "library_call (fs_oper w has_fuse g_conf) s e s' \<longleftrightarrow> session_step (w_pread w) (w_decode w) s e s'"
  by (simp add: library_call.simps session_step.simps fs_oper_def)

lemma library_run_session:
  "library_run (fs_oper w has_fuse g_conf) s es s' \<longleftrightarrow> session_run (w_pread w) (w_decode w) s es s'"
proof
  assume "library_run (fs_oper w has_fuse g_conf) s es s'"
  then show "session_run (w_pread w) (w_decode w) s es s'"
    by induction (auto simp: library_call_session intro: session_run.intros)
next
  assume "session_run (w_pread w) (w_decode w) s es s'"
  then show "library_run (fs_oper w has_fuse g_conf) s es s'"
    by induction (auto intro: library_run.intros library_call_session [THEN iffD2])
qed

lemma session_step_private: "session_step os dt s e s' \<Longrightarrow> private_data s' = private_data s"
  by (auto simp: session_step.simps vtk_open_def vtk_release_def bindR_eq_Ok split: if_split_asm)

lemma session_run_private: "session_run os dt s0 es s \<Longrightarrow> private_data s = private_data s0"
  by (induction rule: session_run.induct) (simp_all add: session_step_private)

text \<open>After \<open>init\<close> and \<open>destroy\<close> the descriptors are as they were before.\<close>

lemma init_descriptors:
  assumes "vtk_init_tree_int w has_fuse fname fds = (Ok (tree, quits), fds1)"
    and "\<And>fd. w_open w fname = Some fd \<Longrightarrow> w_fstat w fd \<noteq> None"
  shows "fold remove1 (vtk_destroy_tree tree) fds1 = fds"
proof (cases "ParseVtkFile w fname fds")
  case (Pair r fds2)
  show ?thesis
  proof (cases r)
    case (Ok d)
    with Pair obtain mesh where "ParseVtkFileInternal w fname mesh
        (EndsWith fname ''.vtu'' \<or> EndsWith fname ''.vts'') (EndsWith fname ''.vtu'') fds = (Ok d, fds2)"
      using ParseVtkFile_internal by blast
    from ParseVtkFileInternal_ok [OF this] obtain fd where "fds2 = fd # fds" "Dir_delete d = [fd]"
      by (elim exE conjE) (rule that)
    moreover have "tree = Some d" "fds1 = fds2"
      using assms(1) Pair Ok by (simp_all add: vtk_init_tree_int_def)
    ultimately show ?thesis by (simp add: vtk_destroy_tree_def)
  next
    case (Error e)
    with Pair have "ParseVtkFile w fname fds = (Error e, fds2)" by simp
    from ParseVtkFile_fails [OF this] assms(2) have "fds2 = fds" by blast
    then show ?thesis
      using assms(1) Pair Error by (auto simp: vtk_init_tree_int_def vtk_destroy_tree_def split: if_split_asm)
  qed
qed

section \<open>Properties\<close>

text \<open>
  C15: From start to end the program leaves no descriptor behind. Whatever requests come in between,
  a run of \<open>main\<close> that returns has closed the VTK file exactly once, whether it could be parsed or
  not, provided that \<open>fstat\<close> works on it.
\<close>

theorem main_closes_vtk_file:
  assumes "runs_sessions fuse"
    and "opt_parse argv \<lparr>underlying_file = None\<rparr> = (\<lparr>underlying_file = Some fname\<rparr>, args)"
    and "vtk_init_tree_int w has_fuse fname fds = (Ok (tree, quits), fds1)"
    and "\<And>fd. w_open w fname = Some fd \<Longrightarrow> w_fstat w fd \<noteq> None"
    and "fs_main opt_parse fuse w has_fuse argv fds = (ret, fds')"
  shows "fds' = fds"
proof (rule ccontr)
  assume "fds' \<noteq> fds"
  let ?ops = "fs_oper w has_fuse \<lparr>underlying_file = Some fname\<rparr>"
  have "op_init ?ops fds = (Ok (tree, quits), fds1)"
    using assms(3) by (simp add: fs_oper_def fs_init_tree_def)
  moreover have "fuse args ?ops fds = (ret, fds')"
    using assms(2,5) by (simp add: fs_main_def)
  ultimately obtain es s where run: "library_run ?ops \<lparr>private_data = tree, open_files = (\<lambda>p. None)\<rparr> es s"
    and closed: "fds' = fold remove1 (op_destroy ?ops (private_data s)) fds1"
    using assms(1) \<open>fds' \<noteq> fds\<close> unfolding runs_sessions_def by metis
  have "private_data s = tree"
    using session_run_private [OF run [unfolded library_run_session]] by simp
  then have "fds' = fold remove1 (vtk_destroy_tree tree) fds1"
    using closed by (simp add: fs_oper_def)
  with init_descriptors [OF assms(3,4)] \<open>fds' \<noteq> fds\<close> show False by simp
qed

theorem main_closes_vtk_file_witness:
  "\<exists>ret. fs_main (\<lambda>argv conf. (\<lparr>underlying_file = Some (hd argv)\<rparr>, []))
     (\<lambda>args ops fds. case op_init ops fds of
        (Ok (tree, quits), fds1) \<Rightarrow> (0, fold remove1 (op_destroy ops tree) fds1)
      | (Error e, fds1) \<Rightarrow> (1, fds1)) sample_world True [''a.vti''] [] = (ret, []) \<and>
   w_open sample_world ''a.vti'' = Some 3"
proof -
  let ?fuse = "\<lambda>args ops fds. case op_init ops fds of
      (Ok (tree, quits), fds1) \<Rightarrow> (0, fold remove1 (op_destroy ops tree) fds1)
    | (Error e, fds1) \<Rightarrow> (1, fds1)"
  have "runs_sessions ?fuse"
    unfolding runs_sessions_def
  proof (intro allI impI disjI2 exI conjI)
    fix args ops fds tree quits fds1 ret fds'
    show "library_run ops \<lparr>private_data = tree, open_files = (\<lambda>p. None)\<rparr> []
        \<lparr>private_data = tree, open_files = (\<lambda>p. None)\<rparr>"
      by (rule library_start)
    assume "op_init ops fds = (Ok (tree, quits), fds1)" "?fuse args ops fds = (ret, fds')"
    then show "fds' = fold remove1 (op_destroy ops
        (private_data \<lparr>private_data = tree, open_files = (\<lambda>p. None)\<rparr>)) fds1"
      by simp
  qed simp
  moreover obtain tree where "vtk_init_tree_int sample_world True ''a.vti'' [] = (Ok (Some tree, False), [3])"
    using sample_init by blast
  moreover obtain ret fds' where run: "fs_main (\<lambda>argv conf. (\<lparr>underlying_file = Some (hd argv)\<rparr>, [])) ?fuse
      sample_world True [''a.vti''] [] = (ret, fds')"
    by fastforce
  moreover have "w_open sample_world ''a.vti'' = Some 3" "w_fstat sample_world fd \<noteq> None" for fd
    by (simp_all add: named_world_def)
  ultimately have "fds' = []"
    by (intro main_closes_vtk_file) simp_all
  with run show ?thesis by (simp add: named_world_def)
qed

end
