(* ===== verification/Bench_Main.thy ===== *)
theory Bench_Main
  imports Bench Vtk_File
begin

text \<open>
  The main program of the benchmark (src/bench.c): the command line, dropping the page cache, and the
  choice between the two loops of theory \<open>Bench\<close>. The calls that ask the operating system for the
  page cache and for memory are parameters; printing and the clock are left out.
\<close>

section \<open>The command line\<close>

text \<open>
  \<open>getopt(argc, argv, "b:m:")\<close> of the C library, called until it returns -1: the options with
  their arguments (\<open>?\<close> for one that it does not know or that lacks its argument), and the other
  words of the command line, which the GNU library moves to the end (\<open>permutes\<close>) and others take as
  the end of the options. An argument is the rest of the word or else the next word.
\<close>

fun getopt_word :: "string \<Rightarrow> string list \<Rightarrow> (char \<times> string) list \<times> string list" where
  "getopt_word [] args = ([], args)"
| "getopt_word (c # cs) args =
     (if c = CHR ''b'' \<or> c = CHR ''m'' then
        (if cs \<noteq> [] then ([(c, cs)], args)
         else case args of
           [] \<Rightarrow> ([(CHR ''?'', [])], [])
         | a # args \<Rightarrow> ([(c, a)], args))
      else case getopt_word cs args of (opts, args) \<Rightarrow> ((CHR ''?'', []) # opts, args))"

lemma getopt_word_shorter: "getopt_word w args = (opts, args') \<Longrightarrow> length args' \<le> length args"
  by (induction w args arbitrary: opts rule: getopt_word.induct)
    (auto split: if_split_asm list.split_asm prod.split_asm)

function getopt_all :: "bool \<Rightarrow> string list \<Rightarrow> (char \<times> string) list \<times> string list" where
  "getopt_all permutes [] = ([], [])"
| "getopt_all permutes (a # args) =
     (if a = ''--'' then ([], args)
      else if 1 < length a \<and> hd a = CHR ''-'' then
        (case getopt_word (tl a) args of (opts, args) \<Rightarrow>
          case getopt_all permutes args of (opts', operands) \<Rightarrow> (opts @ opts', operands))
      else if permutes then
        (case getopt_all permutes args of (opts, operands) \<Rightarrow> (opts, a # operands))
      else ([], a # args))"
  by pat_completeness auto
termination
  by (relation "measure (\<lambda>(permutes, args). length args)")
    (auto simp: less_Suc_eq_le dest: getopt_word_shorter [OF sym])

text \<open>
  The loop over the options: \<open>mode\<close> and \<open>bufsz\<close>, into which an \<open>int\<close> is converted.
\<close>

fun bench_options :: "(char \<times> string) list \<Rightarrow> int \<Rightarrow> u64 \<Rightarrow> (int \<times> u64) result" where
  "bench_options [] mode bufsz = Ok (mode, bufsz)"
| "bench_options ((c, optarg) # opts) mode bufsz =
     (if c = CHR ''b'' then bindR (atoi optarg) (\<lambda>n. bench_options opts mode (word_of_int n))
      else if c = CHR ''m'' then bindR (atoi optarg) (\<lambda>n. bench_options opts n bufsz)
      else bench_options opts mode bufsz)"

section \<open>The runs\<close>

text \<open>
  What the operating system answers: to \<open>open\<close> and \<open>write\<close> on the page cache's control file, and to
  \<open>malloc\<close>. A failing \<open>malloc\<close> is not checked; what follows is undefined.
\<close>

record bench_os =
  drop_open :: "int option"
  drop_write :: int
  can_malloc :: "u64 \<Rightarrow> bool"

text \<open>Whether the program goes on; it exits otherwise. The file is closed again.\<close>

definition os_drop_caches :: "bench_os \<Rightarrow> bool" where
  "os_drop_caches bos =
     (case drop_open bos of None \<Rightarrow> False | Some fd \<Rightarrow> \<not> drop_write bos \<noteq> 2)"

text \<open>
  The end of a run: the exit status, the number of bytes in the report, where there is one, the open
  descriptors and the objects that are alive.
\<close>

record bench_end =
  exit_status :: int
  reported :: "int option"
  end_fds :: "int list"
  end_heap :: heap

definition exit_now :: "int list \<Rightarrow> heap \<Rightarrow> bench_end result option" where
  "exit_now fds h = Some (Ok \<lparr>exit_status = 1, reported = None, end_fds = fds, end_heap = h\<rparr>)"

definition bench_posix ::
  "bench_os \<Rightarrow> (string \<Rightarrow> int option) \<Rightarrow> os_pread \<Rightarrow> u64 \<Rightarrow> string list \<Rightarrow> int list \<Rightarrow> heap \<Rightarrow> bench_end result option"
where
  "bench_posix bos os_open os bufsz operands fds h =
     (case operands of
        [] \<Rightarrow> exit_now fds h
      | fname # _ \<Rightarrow>
          if \<not> os_drop_caches bos then exit_now fds h
          else if bufsz \<noteq> 0 \<and> \<not> can_malloc bos bufsz then Some (Error Undefined)
          else (case run_posix os_open os fname bufsz fds of
                  None \<Rightarrow> None
                | Some (Error e) \<Rightarrow> Some (Error e)
                | Some (Ok (n, fds)) \<Rightarrow>
                    Some (Ok \<lparr>exit_status = 0, reported = n, end_fds = fds, end_heap = h\<rparr>)))"

definition bench_bypass ::
  "bench_os \<Rightarrow> 'e world \<Rightarrow> u64 \<Rightarrow> fuse_file_info \<Rightarrow> u64 \<Rightarrow> string list \<Rightarrow> int list \<Rightarrow> heap \<Rightarrow> bench_end result option"
where
  "bench_bypass bos w new_file fi bufsz operands fds h =
     (case operands of
        vtk_fname # vir_fname # _ \<Rightarrow>
          (case TEST_init_tree w vtk_fname fds of
             (Error e, fds) \<Rightarrow> Some (Error e)
           | (Ok None, fds) \<Rightarrow> exit_now fds h
           | (Ok (Some tree), fds) \<Rightarrow>
               if \<not> os_drop_caches bos then exit_now fds h
               else if bufsz \<noteq> 0 \<and> \<not> can_malloc bos bufsz then Some (Error Undefined)
               else (case run_bypass (w_pread w) (w_decode w) new_file (Some tree) (Some vir_fname) h fi bufsz of
                       None \<Rightarrow> None
                     | Some (Error e) \<Rightarrow> Some (Error e)
                     | Some (Ok (n, h)) \<Rightarrow>
                         Some (Ok \<lparr>exit_status = 0, reported = n,
                           end_fds = fold remove1 (TEST_destroy_tree (Some tree)) fds, end_heap = h\<rparr>)))
      | _ \<Rightarrow> exit_now fds h)"

definition bench_main ::
  "bool \<Rightarrow> bench_os \<Rightarrow> 'e world \<Rightarrow> u64 \<Rightarrow> fuse_file_info \<Rightarrow> string list \<Rightarrow> int list \<Rightarrow> heap \<Rightarrow> bench_end result option"
where
  "bench_main permutes bos w new_file fi args fds h =
     (case getopt_all permutes args of (opts, operands) \<Rightarrow>
        case bench_options opts 1 131072 of
          Error e \<Rightarrow> Some (Error e)
        | Ok (mode, bufsz) \<Rightarrow>
            if mode = 0 then bench_posix bos (w_open w) (w_pread w) bufsz operands fds h
            else bench_bypass bos w new_file fi bufsz operands fds h)"

section \<open>Properties\<close>

lemma getopt_operands:
  assumes "hd a \<noteq> CHR ''-''" "hd b \<noteq> CHR ''-''" "a \<noteq> []" "b \<noteq> []" "n \<noteq> []"
  shows "getopt_all permutes [''-b'', n, a, b] = ([(CHR ''b'', n)], [a, b])"
  using assms by (cases permutes) auto

lemma atoi_bufsz: "n < 2 ^ 31 \<Longrightarrow> bench_options [(CHR ''b'', decimal n)] 1 131072 = Ok (1, word_of_nat n)"
  by (simp add: atoi_decimal)

text \<open>
  C33: The benchmark as it is meant to be run, with a buffer size in decimal, a VTK file and a path
  of the tree: for every buffer size from 1 to \<open>2 ^ 31 - 1\<close> it returns 0 and reports the length of the
  virtual file, and at its end no descriptor is open and no object alive that was not before.
\<close>

theorem bench_reports_length:
  assumes "0 < n" "n < 2 ^ 31"
    and "ParseVtkFile w vtk_fname fds = (Ok tree, fds1)"
    and "path_entry tree vir_fname = Inr (EFile f sz)"
    and "file_holds (w_pread w) (w_decode w) f content" "length content < 2 ^ 63"
    and "os_drop_caches bos" "can_malloc bos (word_of_nat n)"
    and "new_file \<noteq> 0" "h new_file = None"
    and "vtk_fname \<noteq> []" "hd vtk_fname \<noteq> CHR ''-''" "vir_fname \<noteq> []" "hd vir_fname \<noteq> CHR ''-''"
  shows "bench_main permutes bos w new_file fi [''-b'', decimal n, vtk_fname, vir_fname] fds h =
    Some (Ok \<lparr>exit_status = 0, reported = Some (int (length content)), end_fds = fds, end_heap = h\<rparr>)"
proof -
  have n: "unat (word_of_nat n :: u64) = n" using assms(2) by (intro unat_of_nat_u64) simp
  obtain mesh where "ParseVtkFileInternal w vtk_fname mesh
      (EndsWith vtk_fname ''.vtu'' \<or> EndsWith vtk_fname ''.vts'') (EndsWith vtk_fname ''.vtu'') fds = (Ok tree, fds1)"
    using ParseVtkFile_internal [OF assms(3)] by blast
  from ParseVtkFileInternal_ok [OF this] obtain fd where tree: "fds1 = fd # fds" "Dir_delete tree = [fd]" "dir_ok tree"
    by (elim exE conjE) (rule that)
  have run: "run_bypass (w_pread w) (w_decode w) new_file (Some tree) (Some vir_fname) h fi (word_of_nat n) =
      Some (Ok (Some (int (length content)), h))"
    using assms(1,2) n by (intro run_bypass_reads_whole_file [OF tree(3) assms(4,5,6)]) (simp_all add: assms(9,10))
  have "bench_bypass bos w new_file fi (word_of_nat n) [vtk_fname, vir_fname] fds h =
      Some (Ok \<lparr>exit_status = 0, reported = Some (int (length content)), end_fds = fds, end_heap = h\<rparr>)"
    using assms(3,7,8) by (simp add: bench_bypass_def TEST_init_tree_def TEST_destroy_tree_def run tree)
  then show ?thesis
    using getopt_operands [OF assms(12,14,11,13) decimal_not_Nil] atoi_bufsz [OF assms(2)]
    by (simp add: bench_main_def)
qed

theorem bench_reports_length_witness:
  "bench_main True \<lparr>drop_open = Some 4, drop_write = 2, can_malloc = (\<lambda>n. True)\<rparr> sample_world 4096
     \<lparr>fi_flags = 0, fi_fh = 0\<rparr> [''-b'', ''4'', ''a.vti'', ''/METADATA/header_type''] [] (\<lambda>p. None) =
   Some (Ok \<lparr>exit_status = 0, reported = Some 6, end_fds = [], end_heap = (\<lambda>p. None)\<rparr>)"
proof -
  obtain tree where parse: "ParseVtkFile sample_world ''a.vti'' [] = (Ok tree, [3])"
    using sample_parse by blast
  then have init: "vtk_init_tree_int sample_world True ''a.vti'' [] = (Ok (Some tree, False), [3])"
    by (simp add: vtk_init_tree_int_def)
  have entry: "path_entry tree ''/METADATA/header_type'' =
      Inr (EFile (AStringBufFile \<lparr>sbf_strbuf = string_bytes ''UInt32''\<rparr>) 6)"
    using metadata_entry(2) [OF init sample_kind sample_info, of "''header_type''" "''UInt32''"] by simp
  have "bench_main True \<lparr>drop_open = Some 4, drop_write = 2, can_malloc = (\<lambda>n. True)\<rparr> sample_world 4096
      \<lparr>fi_flags = 0, fi_fh = 0\<rparr> [''-b'', decimal 4, ''a.vti'', ''/METADATA/header_type''] [] (\<lambda>p. None) =
    Some (Ok \<lparr>exit_status = 0, reported = Some (int (length (string_bytes ''UInt32''))), end_fds = [],
      end_heap = (\<lambda>p. None)\<rparr>)"
    using bench_reports_length [OF _ _ parse entry string_file_holds, of 4
        "\<lparr>drop_open = Some 4, drop_write = 2, can_malloc = (\<lambda>n. True)\<rparr>" 4096 "\<lambda>p. None" True "\<lparr>fi_flags = 0, fi_fh = 0\<rparr>"]
    by (simp add: os_drop_caches_def)
  then show ?thesis by (simp add: decimal.simps digit_def)
qed

end
