(* ===== verification/Parquet_Members.thy ===== *)
theory Parquet_Members
  imports Parquet_Types
begin

text \<open>
  The other members of the generated classes (src/gen-cpp/parquet_types.cpp): copying, swapping and
  comparison, each over the members that the C++ function names. What these functions should do is known without looking at
  the list of members (a copy is equal, a swap exchanges everything, objects are equal when all
  members are): the lemmas say that no list misses a member.
\<close>

section \<open>Copies\<close>

named_theorems members

declare list.map_id [members] option.map_id [members] list.rel_eq [members] option.rel_eq [members]

text \<open>The copy constructor and the assignment operator.\<close>

definition copy_SizeStatistics :: "SizeStatistics \<Rightarrow> SizeStatistics" where
  "copy_SizeStatistics other =
    \<lparr>SizeStatistics_unencoded_byte_array_data_bytes = SizeStatistics_unencoded_byte_array_data_bytes other,
     SizeStatistics_repetition_level_histogram = SizeStatistics_repetition_level_histogram other,
     SizeStatistics_definition_level_histogram = SizeStatistics_definition_level_histogram other\<rparr>"

definition assign_SizeStatistics :: "SizeStatistics \<Rightarrow> SizeStatistics \<Rightarrow> SizeStatistics" where
  "assign_SizeStatistics this other = this
    \<lparr>SizeStatistics_unencoded_byte_array_data_bytes := SizeStatistics_unencoded_byte_array_data_bytes other,
     SizeStatistics_repetition_level_histogram := SizeStatistics_repetition_level_histogram other,
     SizeStatistics_definition_level_histogram := SizeStatistics_definition_level_histogram other\<rparr>"

definition copy_BoundingBox :: "BoundingBox \<Rightarrow> BoundingBox" where
  "copy_BoundingBox other =
    \<lparr>BoundingBox_xmin = BoundingBox_xmin other, BoundingBox_xmax = BoundingBox_xmax other,
     BoundingBox_ymin = BoundingBox_ymin other, BoundingBox_ymax = BoundingBox_ymax other,
     BoundingBox_zmin = BoundingBox_zmin other, BoundingBox_zmax = BoundingBox_zmax other,
     BoundingBox_mmin = BoundingBox_mmin other, BoundingBox_mmax = BoundingBox_mmax other\<rparr>"

definition assign_BoundingBox :: "BoundingBox \<Rightarrow> BoundingBox \<Rightarrow> BoundingBox" where
  "assign_BoundingBox this other = this
    \<lparr>BoundingBox_xmin := BoundingBox_xmin other, BoundingBox_xmax := BoundingBox_xmax other,
     BoundingBox_ymin := BoundingBox_ymin other, BoundingBox_ymax := BoundingBox_ymax other,
     BoundingBox_zmin := BoundingBox_zmin other, BoundingBox_zmax := BoundingBox_zmax other,
     BoundingBox_mmin := BoundingBox_mmin other, BoundingBox_mmax := BoundingBox_mmax other\<rparr>"

definition copy_GeospatialStatistics :: "GeospatialStatistics \<Rightarrow> GeospatialStatistics" where
  "copy_GeospatialStatistics other =
    \<lparr>GeospatialStatistics_bbox = map_option copy_BoundingBox (GeospatialStatistics_bbox other),
     GeospatialStatistics_geospatial_types = GeospatialStatistics_geospatial_types other\<rparr>"

definition assign_GeospatialStatistics :: "GeospatialStatistics \<Rightarrow> GeospatialStatistics \<Rightarrow> GeospatialStatistics" where
  "assign_GeospatialStatistics this other = this
    \<lparr>GeospatialStatistics_bbox := map_option copy_BoundingBox (GeospatialStatistics_bbox other),
     GeospatialStatistics_geospatial_types := GeospatialStatistics_geospatial_types other\<rparr>"

definition copy_Statistics :: "Statistics \<Rightarrow> Statistics" where
  "copy_Statistics other =
    \<lparr>Statistics_max = Statistics_max other, Statistics_min = Statistics_min other,
     Statistics_null_count = Statistics_null_count other,
     Statistics_distinct_count = Statistics_distinct_count other,
     Statistics_max_value = Statistics_max_value other,
     Statistics_min_value = Statistics_min_value other,
     Statistics_is_max_value_exact = Statistics_is_max_value_exact other,
     Statistics_is_min_value_exact = Statistics_is_min_value_exact other\<rparr>"

definition assign_Statistics :: "Statistics \<Rightarrow> Statistics \<Rightarrow> Statistics" where
  "assign_Statistics this other = this
    \<lparr>Statistics_max := Statistics_max other, Statistics_min := Statistics_min other,
     Statistics_null_count := Statistics_null_count other,
     Statistics_distinct_count := Statistics_distinct_count other,
     Statistics_max_value := Statistics_max_value other,
     Statistics_min_value := Statistics_min_value other,
     Statistics_is_max_value_exact := Statistics_is_max_value_exact other,
     Statistics_is_min_value_exact := Statistics_is_min_value_exact other\<rparr>"

definition copy_StringType :: "StringType \<Rightarrow> StringType" where
  "copy_StringType other = StringType"

definition assign_StringType :: "StringType \<Rightarrow> StringType \<Rightarrow> StringType" where
  "assign_StringType this other = this"

definition copy_UUIDType :: "UUIDType \<Rightarrow> UUIDType" where
  "copy_UUIDType other = UUIDType"

definition assign_UUIDType :: "UUIDType \<Rightarrow> UUIDType \<Rightarrow> UUIDType" where
  "assign_UUIDType this other = this"

definition copy_MapType :: "MapType \<Rightarrow> MapType" where
  "copy_MapType other = MapType"

definition assign_MapType :: "MapType \<Rightarrow> MapType \<Rightarrow> MapType" where
  "assign_MapType this other = this"

definition copy_ListType :: "ListType \<Rightarrow> ListType" where
  "copy_ListType other = ListType"

definition assign_ListType :: "ListType \<Rightarrow> ListType \<Rightarrow> ListType" where
  "assign_ListType this other = this"

definition copy_EnumType :: "EnumType \<Rightarrow> EnumType" where
  "copy_EnumType other = EnumType"

definition assign_EnumType :: "EnumType \<Rightarrow> EnumType \<Rightarrow> EnumType" where
  "assign_EnumType this other = this"

definition copy_DateType :: "DateType \<Rightarrow> DateType" where
  "copy_DateType other = DateType"

definition assign_DateType :: "DateType \<Rightarrow> DateType \<Rightarrow> DateType" where
  "assign_DateType this other = this"

definition copy_Float16Type :: "Float16Type \<Rightarrow> Float16Type" where
  "copy_Float16Type other = Float16Type"

definition assign_Float16Type :: "Float16Type \<Rightarrow> Float16Type \<Rightarrow> Float16Type" where
  "assign_Float16Type this other = this"

definition copy_NullType :: "NullType \<Rightarrow> NullType" where
  "copy_NullType other = NullType"

definition assign_NullType :: "NullType \<Rightarrow> NullType \<Rightarrow> NullType" where
  "assign_NullType this other = this"

definition copy_DecimalType :: "DecimalType \<Rightarrow> DecimalType" where
  "copy_DecimalType other =
    \<lparr>DecimalType_scale = DecimalType_scale other,
     DecimalType_precision = DecimalType_precision other\<rparr>"

definition assign_DecimalType :: "DecimalType \<Rightarrow> DecimalType \<Rightarrow> DecimalType" where
  "assign_DecimalType this other = this
    \<lparr>DecimalType_scale := DecimalType_scale other,
     DecimalType_precision := DecimalType_precision other\<rparr>"

definition copy_MilliSeconds :: "MilliSeconds \<Rightarrow> MilliSeconds" where
  "copy_MilliSeconds other = MilliSeconds"

definition assign_MilliSeconds :: "MilliSeconds \<Rightarrow> MilliSeconds \<Rightarrow> MilliSeconds" where
  "assign_MilliSeconds this other = this"

definition copy_MicroSeconds :: "MicroSeconds \<Rightarrow> MicroSeconds" where
  "copy_MicroSeconds other = MicroSeconds"

definition assign_MicroSeconds :: "MicroSeconds \<Rightarrow> MicroSeconds \<Rightarrow> MicroSeconds" where
  "assign_MicroSeconds this other = this"

definition copy_NanoSeconds :: "NanoSeconds \<Rightarrow> NanoSeconds" where
  "copy_NanoSeconds other = NanoSeconds"

definition assign_NanoSeconds :: "NanoSeconds \<Rightarrow> NanoSeconds \<Rightarrow> NanoSeconds" where
  "assign_NanoSeconds this other = this"

definition copy_TimeUnit :: "TimeUnit \<Rightarrow> TimeUnit" where
  "copy_TimeUnit other =
    \<lparr>TimeUnit_MILLIS = map_option copy_MilliSeconds (TimeUnit_MILLIS other),
     TimeUnit_MICROS = map_option copy_MicroSeconds (TimeUnit_MICROS other),
     TimeUnit_NANOS = map_option copy_NanoSeconds (TimeUnit_NANOS other)\<rparr>"

definition assign_TimeUnit :: "TimeUnit \<Rightarrow> TimeUnit \<Rightarrow> TimeUnit" where
  "assign_TimeUnit this other = this
    \<lparr>TimeUnit_MILLIS := map_option copy_MilliSeconds (TimeUnit_MILLIS other),
     TimeUnit_MICROS := map_option copy_MicroSeconds (TimeUnit_MICROS other),
     TimeUnit_NANOS := map_option copy_NanoSeconds (TimeUnit_NANOS other)\<rparr>"

definition copy_TimestampType :: "TimestampType \<Rightarrow> TimestampType" where
  "copy_TimestampType other =
    \<lparr>TimestampType_isAdjustedToUTC = TimestampType_isAdjustedToUTC other,
     TimestampType_unit = copy_TimeUnit (TimestampType_unit other)\<rparr>"

definition assign_TimestampType :: "TimestampType \<Rightarrow> TimestampType \<Rightarrow> TimestampType" where
  "assign_TimestampType this other = this
    \<lparr>TimestampType_isAdjustedToUTC := TimestampType_isAdjustedToUTC other,
     TimestampType_unit := copy_TimeUnit (TimestampType_unit other)\<rparr>"

definition copy_TimeType :: "TimeType \<Rightarrow> TimeType" where
  "copy_TimeType other =
    \<lparr>TimeType_isAdjustedToUTC = TimeType_isAdjustedToUTC other,
     TimeType_unit = copy_TimeUnit (TimeType_unit other)\<rparr>"

definition assign_TimeType :: "TimeType \<Rightarrow> TimeType \<Rightarrow> TimeType" where
  "assign_TimeType this other = this
    \<lparr>TimeType_isAdjustedToUTC := TimeType_isAdjustedToUTC other,
     TimeType_unit := copy_TimeUnit (TimeType_unit other)\<rparr>"

definition copy_IntType :: "IntType \<Rightarrow> IntType" where
  "copy_IntType other =
    \<lparr>IntType_bitWidth = IntType_bitWidth other, IntType_isSigned = IntType_isSigned other\<rparr>"

definition assign_IntType :: "IntType \<Rightarrow> IntType \<Rightarrow> IntType" where
  "assign_IntType this other = this
    \<lparr>IntType_bitWidth := IntType_bitWidth other, IntType_isSigned := IntType_isSigned other\<rparr>"

definition copy_JsonType :: "JsonType \<Rightarrow> JsonType" where
  "copy_JsonType other = JsonType"

definition assign_JsonType :: "JsonType \<Rightarrow> JsonType \<Rightarrow> JsonType" where
  "assign_JsonType this other = this"

definition copy_BsonType :: "BsonType \<Rightarrow> BsonType" where
  "copy_BsonType other = BsonType"

definition assign_BsonType :: "BsonType \<Rightarrow> BsonType \<Rightarrow> BsonType" where
  "assign_BsonType this other = this"

definition copy_VariantType :: "VariantType \<Rightarrow> VariantType" where
  "copy_VariantType other =
    \<lparr>VariantType_specification_version = VariantType_specification_version other\<rparr>"

definition assign_VariantType :: "VariantType \<Rightarrow> VariantType \<Rightarrow> VariantType" where
  "assign_VariantType this other = this
    \<lparr>VariantType_specification_version := VariantType_specification_version other\<rparr>"

definition copy_GeometryType :: "GeometryType \<Rightarrow> GeometryType" where
  "copy_GeometryType other =
    \<lparr>GeometryType_crs = GeometryType_crs other\<rparr>"

definition assign_GeometryType :: "GeometryType \<Rightarrow> GeometryType \<Rightarrow> GeometryType" where
  "assign_GeometryType this other = this
    \<lparr>GeometryType_crs := GeometryType_crs other\<rparr>"

definition copy_GeographyType :: "GeographyType \<Rightarrow> GeographyType" where
  "copy_GeographyType other =
    \<lparr>GeographyType_crs = GeographyType_crs other,
     GeographyType_algorithm = GeographyType_algorithm other\<rparr>"

definition assign_GeographyType :: "GeographyType \<Rightarrow> GeographyType \<Rightarrow> GeographyType" where
  "assign_GeographyType this other = this
    \<lparr>GeographyType_crs := GeographyType_crs other,
     GeographyType_algorithm := GeographyType_algorithm other\<rparr>"

definition copy_LogicalType :: "LogicalType \<Rightarrow> LogicalType" where
  "copy_LogicalType other =
    \<lparr>LogicalType_STRING = map_option copy_StringType (LogicalType_STRING other),
     LogicalType_MAP = map_option copy_MapType (LogicalType_MAP other),
     LogicalType_LIST = map_option copy_ListType (LogicalType_LIST other),
     LogicalType_ENUM = map_option copy_EnumType (LogicalType_ENUM other),
     LogicalType_DECIMAL = map_option copy_DecimalType (LogicalType_DECIMAL other),
     LogicalType_DATE = map_option copy_DateType (LogicalType_DATE other),
     LogicalType_TIME = map_option copy_TimeType (LogicalType_TIME other),
     LogicalType_TIMESTAMP = map_option copy_TimestampType (LogicalType_TIMESTAMP other),
     LogicalType_INTEGER = map_option copy_IntType (LogicalType_INTEGER other),
     LogicalType_UNKNOWN = map_option copy_NullType (LogicalType_UNKNOWN other),
     LogicalType_JSON = map_option copy_JsonType (LogicalType_JSON other),
     LogicalType_BSON = map_option copy_BsonType (LogicalType_BSON other),
     LogicalType_UUID = map_option copy_UUIDType (LogicalType_UUID other),
     LogicalType_FLOAT16 = map_option copy_Float16Type (LogicalType_FLOAT16 other),
     LogicalType_VARIANT = map_option copy_VariantType (LogicalType_VARIANT other),
     LogicalType_GEOMETRY = map_option copy_GeometryType (LogicalType_GEOMETRY other),
     LogicalType_GEOGRAPHY = map_option copy_GeographyType (LogicalType_GEOGRAPHY other)\<rparr>"

definition assign_LogicalType :: "LogicalType \<Rightarrow> LogicalType \<Rightarrow> LogicalType" where
  "assign_LogicalType this other = this
    \<lparr>LogicalType_STRING := map_option copy_StringType (LogicalType_STRING other),
     LogicalType_MAP := map_option copy_MapType (LogicalType_MAP other),
     LogicalType_LIST := map_option copy_ListType (LogicalType_LIST other),
     LogicalType_ENUM := map_option copy_EnumType (LogicalType_ENUM other),
     LogicalType_DECIMAL := map_option copy_DecimalType (LogicalType_DECIMAL other),
     LogicalType_DATE := map_option copy_DateType (LogicalType_DATE other),
     LogicalType_TIME := map_option copy_TimeType (LogicalType_TIME other),
     LogicalType_TIMESTAMP := map_option copy_TimestampType (LogicalType_TIMESTAMP other),
     LogicalType_INTEGER := map_option copy_IntType (LogicalType_INTEGER other),
     LogicalType_UNKNOWN := map_option copy_NullType (LogicalType_UNKNOWN other),
     LogicalType_JSON := map_option copy_JsonType (LogicalType_JSON other),
     LogicalType_BSON := map_option copy_BsonType (LogicalType_BSON other),
     LogicalType_UUID := map_option copy_UUIDType (LogicalType_UUID other),
     LogicalType_FLOAT16 := map_option copy_Float16Type (LogicalType_FLOAT16 other),
     LogicalType_VARIANT := map_option copy_VariantType (LogicalType_VARIANT other),
     LogicalType_GEOMETRY := map_option copy_GeometryType (LogicalType_GEOMETRY other),
     LogicalType_GEOGRAPHY := map_option copy_GeographyType (LogicalType_GEOGRAPHY other)\<rparr>"

definition copy_SchemaElement :: "SchemaElement \<Rightarrow> SchemaElement" where
  "copy_SchemaElement other =
    \<lparr>SchemaElement_type = SchemaElement_type other,
     SchemaElement_type_length = SchemaElement_type_length other,
     SchemaElement_repetition_type = SchemaElement_repetition_type other,
     SchemaElement_name = SchemaElement_name other,
     SchemaElement_num_children = SchemaElement_num_children other,
     SchemaElement_converted_type = SchemaElement_converted_type other,
     SchemaElement_scale = SchemaElement_scale other,
     SchemaElement_precision = SchemaElement_precision other,
     SchemaElement_field_id = SchemaElement_field_id other,
     SchemaElement_logicalType = map_option copy_LogicalType (SchemaElement_logicalType other)\<rparr>"

definition assign_SchemaElement :: "SchemaElement \<Rightarrow> SchemaElement \<Rightarrow> SchemaElement" where
  "assign_SchemaElement this other = this
    \<lparr>SchemaElement_type := SchemaElement_type other,
     SchemaElement_type_length := SchemaElement_type_length other,
     SchemaElement_repetition_type := SchemaElement_repetition_type other,
     SchemaElement_name := SchemaElement_name other,
     SchemaElement_num_children := SchemaElement_num_children other,
     SchemaElement_converted_type := SchemaElement_converted_type other,
     SchemaElement_scale := SchemaElement_scale other,
     SchemaElement_precision := SchemaElement_precision other,
     SchemaElement_field_id := SchemaElement_field_id other,
     SchemaElement_logicalType := map_option copy_LogicalType (SchemaElement_logicalType other)\<rparr>"

definition copy_DataPageHeader :: "DataPageHeader \<Rightarrow> DataPageHeader" where
  "copy_DataPageHeader other =
    \<lparr>DataPageHeader_num_values = DataPageHeader_num_values other,
     DataPageHeader_encoding = DataPageHeader_encoding other,
     DataPageHeader_definition_level_encoding = DataPageHeader_definition_level_encoding other,
     DataPageHeader_repetition_level_encoding = DataPageHeader_repetition_level_encoding other,
     DataPageHeader_statistics = map_option copy_Statistics (DataPageHeader_statistics other)\<rparr>"

definition assign_DataPageHeader :: "DataPageHeader \<Rightarrow> DataPageHeader \<Rightarrow> DataPageHeader" where
  "assign_DataPageHeader this other = this
    \<lparr>DataPageHeader_num_values := DataPageHeader_num_values other,
     DataPageHeader_encoding := DataPageHeader_encoding other,
     DataPageHeader_definition_level_encoding := DataPageHeader_definition_level_encoding other,
     DataPageHeader_repetition_level_encoding := DataPageHeader_repetition_level_encoding other,
     DataPageHeader_statistics := map_option copy_Statistics (DataPageHeader_statistics other)\<rparr>"

definition copy_IndexPageHeader :: "IndexPageHeader \<Rightarrow> IndexPageHeader" where
  "copy_IndexPageHeader other = IndexPageHeader"

definition assign_IndexPageHeader :: "IndexPageHeader \<Rightarrow> IndexPageHeader \<Rightarrow> IndexPageHeader" where
  "assign_IndexPageHeader this other = this"

definition copy_DictionaryPageHeader :: "DictionaryPageHeader \<Rightarrow> DictionaryPageHeader" where
  "copy_DictionaryPageHeader other =
    \<lparr>DictionaryPageHeader_num_values = DictionaryPageHeader_num_values other,
     DictionaryPageHeader_encoding = DictionaryPageHeader_encoding other,
     DictionaryPageHeader_is_sorted = DictionaryPageHeader_is_sorted other\<rparr>"

definition assign_DictionaryPageHeader :: "DictionaryPageHeader \<Rightarrow> DictionaryPageHeader \<Rightarrow> DictionaryPageHeader" where
  "assign_DictionaryPageHeader this other = this
    \<lparr>DictionaryPageHeader_num_values := DictionaryPageHeader_num_values other,
     DictionaryPageHeader_encoding := DictionaryPageHeader_encoding other,
     DictionaryPageHeader_is_sorted := DictionaryPageHeader_is_sorted other\<rparr>"

definition copy_DataPageHeaderV2 :: "DataPageHeaderV2 \<Rightarrow> DataPageHeaderV2" where
  "copy_DataPageHeaderV2 other =
    \<lparr>DataPageHeaderV2_num_values = DataPageHeaderV2_num_values other,
     DataPageHeaderV2_num_nulls = DataPageHeaderV2_num_nulls other,
     DataPageHeaderV2_num_rows = DataPageHeaderV2_num_rows other,
     DataPageHeaderV2_encoding = DataPageHeaderV2_encoding other,
     DataPageHeaderV2_definition_levels_byte_length = DataPageHeaderV2_definition_levels_byte_length other,
     DataPageHeaderV2_repetition_levels_byte_length = DataPageHeaderV2_repetition_levels_byte_length other,
     DataPageHeaderV2_is_compressed = DataPageHeaderV2_is_compressed other,
     DataPageHeaderV2_statistics = map_option copy_Statistics (DataPageHeaderV2_statistics other)\<rparr>"

definition assign_DataPageHeaderV2 :: "DataPageHeaderV2 \<Rightarrow> DataPageHeaderV2 \<Rightarrow> DataPageHeaderV2" where
  "assign_DataPageHeaderV2 this other = this
    \<lparr>DataPageHeaderV2_num_values := DataPageHeaderV2_num_values other,
     DataPageHeaderV2_num_nulls := DataPageHeaderV2_num_nulls other,
     DataPageHeaderV2_num_rows := DataPageHeaderV2_num_rows other,
     DataPageHeaderV2_encoding := DataPageHeaderV2_encoding other,
     DataPageHeaderV2_definition_levels_byte_length := DataPageHeaderV2_definition_levels_byte_length other,
     DataPageHeaderV2_repetition_levels_byte_length := DataPageHeaderV2_repetition_levels_byte_length other,
     DataPageHeaderV2_is_compressed := DataPageHeaderV2_is_compressed other,
     DataPageHeaderV2_statistics := map_option copy_Statistics (DataPageHeaderV2_statistics other)\<rparr>"

definition copy_SplitBlockAlgorithm :: "SplitBlockAlgorithm \<Rightarrow> SplitBlockAlgorithm" where
  "copy_SplitBlockAlgorithm other = SplitBlockAlgorithm"

definition assign_SplitBlockAlgorithm :: "SplitBlockAlgorithm \<Rightarrow> SplitBlockAlgorithm \<Rightarrow> SplitBlockAlgorithm" where
  "assign_SplitBlockAlgorithm this other = this"

definition copy_BloomFilterAlgorithm :: "BloomFilterAlgorithm \<Rightarrow> BloomFilterAlgorithm" where
  "copy_BloomFilterAlgorithm other =
    \<lparr>BloomFilterAlgorithm_BLOCK = map_option copy_SplitBlockAlgorithm (BloomFilterAlgorithm_BLOCK other)\<rparr>"

definition assign_BloomFilterAlgorithm :: "BloomFilterAlgorithm \<Rightarrow> BloomFilterAlgorithm \<Rightarrow> BloomFilterAlgorithm" where
  "assign_BloomFilterAlgorithm this other = this
    \<lparr>BloomFilterAlgorithm_BLOCK := map_option copy_SplitBlockAlgorithm (BloomFilterAlgorithm_BLOCK other)\<rparr>"

definition copy_XxHash :: "XxHash \<Rightarrow> XxHash" where
  "copy_XxHash other = XxHash"

definition assign_XxHash :: "XxHash \<Rightarrow> XxHash \<Rightarrow> XxHash" where
  "assign_XxHash this other = this"

definition copy_BloomFilterHash :: "BloomFilterHash \<Rightarrow> BloomFilterHash" where
  "copy_BloomFilterHash other =
    \<lparr>BloomFilterHash_XXHASH = map_option copy_XxHash (BloomFilterHash_XXHASH other)\<rparr>"

definition assign_BloomFilterHash :: "BloomFilterHash \<Rightarrow> BloomFilterHash \<Rightarrow> BloomFilterHash" where
  "assign_BloomFilterHash this other = this
    \<lparr>BloomFilterHash_XXHASH := map_option copy_XxHash (BloomFilterHash_XXHASH other)\<rparr>"

definition copy_Uncompressed :: "Uncompressed \<Rightarrow> Uncompressed" where
  "copy_Uncompressed other = Uncompressed"

definition assign_Uncompressed :: "Uncompressed \<Rightarrow> Uncompressed \<Rightarrow> Uncompressed" where
  "assign_Uncompressed this other = this"

definition copy_BloomFilterCompression :: "BloomFilterCompression \<Rightarrow> BloomFilterCompression" where
  "copy_BloomFilterCompression other =
    \<lparr>BloomFilterCompression_UNCOMPRESSED = map_option copy_Uncompressed (BloomFilterCompression_UNCOMPRESSED other)\<rparr>"

definition assign_BloomFilterCompression :: "BloomFilterCompression \<Rightarrow> BloomFilterCompression \<Rightarrow> BloomFilterCompression" where
  "assign_BloomFilterCompression this other = this
    \<lparr>BloomFilterCompression_UNCOMPRESSED := map_option copy_Uncompressed (BloomFilterCompression_UNCOMPRESSED other)\<rparr>"

definition copy_BloomFilterHeader :: "BloomFilterHeader \<Rightarrow> BloomFilterHeader" where
  "copy_BloomFilterHeader other =
    \<lparr>BloomFilterHeader_numBytes = BloomFilterHeader_numBytes other,
     BloomFilterHeader_algorithm = copy_BloomFilterAlgorithm (BloomFilterHeader_algorithm other),
     BloomFilterHeader_hash = copy_BloomFilterHash (BloomFilterHeader_hash other),
     BloomFilterHeader_compression = copy_BloomFilterCompression (BloomFilterHeader_compression other)\<rparr>"

definition assign_BloomFilterHeader :: "BloomFilterHeader \<Rightarrow> BloomFilterHeader \<Rightarrow> BloomFilterHeader" where
  "assign_BloomFilterHeader this other = this
    \<lparr>BloomFilterHeader_numBytes := BloomFilterHeader_numBytes other,
     BloomFilterHeader_algorithm := copy_BloomFilterAlgorithm (BloomFilterHeader_algorithm other),
     BloomFilterHeader_hash := copy_BloomFilterHash (BloomFilterHeader_hash other),
     BloomFilterHeader_compression := copy_BloomFilterCompression (BloomFilterHeader_compression other)\<rparr>"

definition copy_PageHeader :: "PageHeader \<Rightarrow> PageHeader" where
  "copy_PageHeader other =
    \<lparr>PageHeader_type = PageHeader_type other,
     PageHeader_uncompressed_page_size = PageHeader_uncompressed_page_size other,
     PageHeader_compressed_page_size = PageHeader_compressed_page_size other,
     PageHeader_crc = PageHeader_crc other,
     PageHeader_data_page_header = map_option copy_DataPageHeader (PageHeader_data_page_header other),
     PageHeader_index_page_header = map_option copy_IndexPageHeader (PageHeader_index_page_header other),
     PageHeader_dictionary_page_header = map_option copy_DictionaryPageHeader (PageHeader_dictionary_page_header other),
     PageHeader_data_page_header_v2 = map_option copy_DataPageHeaderV2 (PageHeader_data_page_header_v2 other)\<rparr>"

definition assign_PageHeader :: "PageHeader \<Rightarrow> PageHeader \<Rightarrow> PageHeader" where
  "assign_PageHeader this other = this
    \<lparr>PageHeader_type := PageHeader_type other,
     PageHeader_uncompressed_page_size := PageHeader_uncompressed_page_size other,
     PageHeader_compressed_page_size := PageHeader_compressed_page_size other,
     PageHeader_crc := PageHeader_crc other,
     PageHeader_data_page_header := map_option copy_DataPageHeader (PageHeader_data_page_header other),
     PageHeader_index_page_header := map_option copy_IndexPageHeader (PageHeader_index_page_header other),
     PageHeader_dictionary_page_header := map_option copy_DictionaryPageHeader (PageHeader_dictionary_page_header other),
     PageHeader_data_page_header_v2 := map_option copy_DataPageHeaderV2 (PageHeader_data_page_header_v2 other)\<rparr>"

definition copy_KeyValue :: "KeyValue \<Rightarrow> KeyValue" where
  "copy_KeyValue other =
    \<lparr>KeyValue_key = KeyValue_key other, KeyValue_value = KeyValue_value other\<rparr>"

definition assign_KeyValue :: "KeyValue \<Rightarrow> KeyValue \<Rightarrow> KeyValue" where
  "assign_KeyValue this other = this
    \<lparr>KeyValue_key := KeyValue_key other, KeyValue_value := KeyValue_value other\<rparr>"

definition copy_SortingColumn :: "SortingColumn \<Rightarrow> SortingColumn" where
  "copy_SortingColumn other =
    \<lparr>SortingColumn_column_idx = SortingColumn_column_idx other,
     SortingColumn_descending = SortingColumn_descending other,
     SortingColumn_nulls_first = SortingColumn_nulls_first other\<rparr>"

definition assign_SortingColumn :: "SortingColumn \<Rightarrow> SortingColumn \<Rightarrow> SortingColumn" where
  "assign_SortingColumn this other = this
    \<lparr>SortingColumn_column_idx := SortingColumn_column_idx other,
     SortingColumn_descending := SortingColumn_descending other,
     SortingColumn_nulls_first := SortingColumn_nulls_first other\<rparr>"

definition copy_PageEncodingStats :: "PageEncodingStats \<Rightarrow> PageEncodingStats" where
  "copy_PageEncodingStats other =
    \<lparr>PageEncodingStats_page_type = PageEncodingStats_page_type other,
     PageEncodingStats_encoding = PageEncodingStats_encoding other,
     PageEncodingStats_count = PageEncodingStats_count other\<rparr>"

definition assign_PageEncodingStats :: "PageEncodingStats \<Rightarrow> PageEncodingStats \<Rightarrow> PageEncodingStats" where
  "assign_PageEncodingStats this other = this
    \<lparr>PageEncodingStats_page_type := PageEncodingStats_page_type other,
     PageEncodingStats_encoding := PageEncodingStats_encoding other,
     PageEncodingStats_count := PageEncodingStats_count other\<rparr>"

definition copy_ColumnMetaData :: "ColumnMetaData \<Rightarrow> ColumnMetaData" where
  "copy_ColumnMetaData other =
    \<lparr>ColumnMetaData_type = ColumnMetaData_type other,
     ColumnMetaData_encodings = ColumnMetaData_encodings other,
     ColumnMetaData_path_in_schema = ColumnMetaData_path_in_schema other,
     ColumnMetaData_codec = ColumnMetaData_codec other,
     ColumnMetaData_num_values = ColumnMetaData_num_values other,
     ColumnMetaData_total_uncompressed_size = ColumnMetaData_total_uncompressed_size other,
     ColumnMetaData_total_compressed_size = ColumnMetaData_total_compressed_size other,
     ColumnMetaData_key_value_metadata = map_option (map copy_KeyValue) (ColumnMetaData_key_value_metadata other),
     ColumnMetaData_data_page_offset = ColumnMetaData_data_page_offset other,
     ColumnMetaData_index_page_offset = ColumnMetaData_index_page_offset other,
     ColumnMetaData_dictionary_page_offset = ColumnMetaData_dictionary_page_offset other,
     ColumnMetaData_statistics = map_option copy_Statistics (ColumnMetaData_statistics other),
     ColumnMetaData_encoding_stats = map_option (map copy_PageEncodingStats) (ColumnMetaData_encoding_stats other),
     ColumnMetaData_bloom_filter_offset = ColumnMetaData_bloom_filter_offset other,
     ColumnMetaData_bloom_filter_length = ColumnMetaData_bloom_filter_length other,
     ColumnMetaData_size_statistics = map_option copy_SizeStatistics (ColumnMetaData_size_statistics other),
     ColumnMetaData_geospatial_statistics = map_option copy_GeospatialStatistics (ColumnMetaData_geospatial_statistics other)\<rparr>"

definition assign_ColumnMetaData :: "ColumnMetaData \<Rightarrow> ColumnMetaData \<Rightarrow> ColumnMetaData" where
  "assign_ColumnMetaData this other = this
    \<lparr>ColumnMetaData_type := ColumnMetaData_type other,
     ColumnMetaData_encodings := ColumnMetaData_encodings other,
     ColumnMetaData_path_in_schema := ColumnMetaData_path_in_schema other,
     ColumnMetaData_codec := ColumnMetaData_codec other,
     ColumnMetaData_num_values := ColumnMetaData_num_values other,
     ColumnMetaData_total_uncompressed_size := ColumnMetaData_total_uncompressed_size other,
     ColumnMetaData_total_compressed_size := ColumnMetaData_total_compressed_size other,
     ColumnMetaData_key_value_metadata := map_option (map copy_KeyValue) (ColumnMetaData_key_value_metadata other),
     ColumnMetaData_data_page_offset := ColumnMetaData_data_page_offset other,
     ColumnMetaData_index_page_offset := ColumnMetaData_index_page_offset other,
     ColumnMetaData_dictionary_page_offset := ColumnMetaData_dictionary_page_offset other,
     ColumnMetaData_statistics := map_option copy_Statistics (ColumnMetaData_statistics other),
     ColumnMetaData_encoding_stats := map_option (map copy_PageEncodingStats) (ColumnMetaData_encoding_stats other),
     ColumnMetaData_bloom_filter_offset := ColumnMetaData_bloom_filter_offset other,
     ColumnMetaData_bloom_filter_length := ColumnMetaData_bloom_filter_length other,
     ColumnMetaData_size_statistics := map_option copy_SizeStatistics (ColumnMetaData_size_statistics other),
     ColumnMetaData_geospatial_statistics := map_option copy_GeospatialStatistics (ColumnMetaData_geospatial_statistics other)\<rparr>"

definition copy_EncryptionWithFooterKey :: "EncryptionWithFooterKey \<Rightarrow> EncryptionWithFooterKey" where
  "copy_EncryptionWithFooterKey other = EncryptionWithFooterKey"

definition assign_EncryptionWithFooterKey :: "EncryptionWithFooterKey \<Rightarrow> EncryptionWithFooterKey \<Rightarrow> EncryptionWithFooterKey" where
  "assign_EncryptionWithFooterKey this other = this"

definition copy_EncryptionWithColumnKey :: "EncryptionWithColumnKey \<Rightarrow> EncryptionWithColumnKey" where
  "copy_EncryptionWithColumnKey other =
    \<lparr>EncryptionWithColumnKey_path_in_schema = EncryptionWithColumnKey_path_in_schema other,
     EncryptionWithColumnKey_key_metadata = EncryptionWithColumnKey_key_metadata other\<rparr>"

definition assign_EncryptionWithColumnKey :: "EncryptionWithColumnKey \<Rightarrow> EncryptionWithColumnKey \<Rightarrow> EncryptionWithColumnKey" where
  "assign_EncryptionWithColumnKey this other = this
    \<lparr>EncryptionWithColumnKey_path_in_schema := EncryptionWithColumnKey_path_in_schema other,
     EncryptionWithColumnKey_key_metadata := EncryptionWithColumnKey_key_metadata other\<rparr>"

definition copy_ColumnCryptoMetaData :: "ColumnCryptoMetaData \<Rightarrow> ColumnCryptoMetaData" where
  "copy_ColumnCryptoMetaData other =
    \<lparr>ColumnCryptoMetaData_ENCRYPTION_WITH_FOOTER_KEY = map_option copy_EncryptionWithFooterKey (ColumnCryptoMetaData_ENCRYPTION_WITH_FOOTER_KEY other),
     ColumnCryptoMetaData_ENCRYPTION_WITH_COLUMN_KEY = map_option copy_EncryptionWithColumnKey (ColumnCryptoMetaData_ENCRYPTION_WITH_COLUMN_KEY other)\<rparr>"

definition assign_ColumnCryptoMetaData :: "ColumnCryptoMetaData \<Rightarrow> ColumnCryptoMetaData \<Rightarrow> ColumnCryptoMetaData" where
  "assign_ColumnCryptoMetaData this other = this
    \<lparr>ColumnCryptoMetaData_ENCRYPTION_WITH_FOOTER_KEY := map_option copy_EncryptionWithFooterKey (ColumnCryptoMetaData_ENCRYPTION_WITH_FOOTER_KEY other),
     ColumnCryptoMetaData_ENCRYPTION_WITH_COLUMN_KEY := map_option copy_EncryptionWithColumnKey (ColumnCryptoMetaData_ENCRYPTION_WITH_COLUMN_KEY other)\<rparr>"

definition copy_ColumnChunk :: "ColumnChunk \<Rightarrow> ColumnChunk" where
  "copy_ColumnChunk other =
    \<lparr>ColumnChunk_file_path = ColumnChunk_file_path other,
     ColumnChunk_file_offset = ColumnChunk_file_offset other,
     ColumnChunk_meta_data = map_option copy_ColumnMetaData (ColumnChunk_meta_data other),
     ColumnChunk_offset_index_offset = ColumnChunk_offset_index_offset other,
     ColumnChunk_offset_index_length = ColumnChunk_offset_index_length other,
     ColumnChunk_column_index_offset = ColumnChunk_column_index_offset other,
     ColumnChunk_column_index_length = ColumnChunk_column_index_length other,
     ColumnChunk_crypto_metadata = map_option copy_ColumnCryptoMetaData (ColumnChunk_crypto_metadata other),
     ColumnChunk_encrypted_column_metadata = ColumnChunk_encrypted_column_metadata other\<rparr>"

definition assign_ColumnChunk :: "ColumnChunk \<Rightarrow> ColumnChunk \<Rightarrow> ColumnChunk" where
  "assign_ColumnChunk this other = this
    \<lparr>ColumnChunk_file_path := ColumnChunk_file_path other,
     ColumnChunk_file_offset := ColumnChunk_file_offset other,
     ColumnChunk_meta_data := map_option copy_ColumnMetaData (ColumnChunk_meta_data other),
     ColumnChunk_offset_index_offset := ColumnChunk_offset_index_offset other,
     ColumnChunk_offset_index_length := ColumnChunk_offset_index_length other,
     ColumnChunk_column_index_offset := ColumnChunk_column_index_offset other,
     ColumnChunk_column_index_length := ColumnChunk_column_index_length other,
     ColumnChunk_crypto_metadata := map_option copy_ColumnCryptoMetaData (ColumnChunk_crypto_metadata other),
     ColumnChunk_encrypted_column_metadata := ColumnChunk_encrypted_column_metadata other\<rparr>"

definition copy_RowGroup :: "RowGroup \<Rightarrow> RowGroup" where
  "copy_RowGroup other =
    \<lparr>RowGroup_columns = map copy_ColumnChunk (RowGroup_columns other),
     RowGroup_total_byte_size = RowGroup_total_byte_size other,
     RowGroup_num_rows = RowGroup_num_rows other,
     RowGroup_sorting_columns = map_option (map copy_SortingColumn) (RowGroup_sorting_columns other),
     RowGroup_file_offset = RowGroup_file_offset other,
     RowGroup_total_compressed_size = RowGroup_total_compressed_size other,
     RowGroup_ordinal = RowGroup_ordinal other\<rparr>"

definition assign_RowGroup :: "RowGroup \<Rightarrow> RowGroup \<Rightarrow> RowGroup" where
  "assign_RowGroup this other = this
    \<lparr>RowGroup_columns := map copy_ColumnChunk (RowGroup_columns other),
     RowGroup_total_byte_size := RowGroup_total_byte_size other,
     RowGroup_num_rows := RowGroup_num_rows other,
     RowGroup_sorting_columns := map_option (map copy_SortingColumn) (RowGroup_sorting_columns other),
     RowGroup_file_offset := RowGroup_file_offset other,
     RowGroup_total_compressed_size := RowGroup_total_compressed_size other,
     RowGroup_ordinal := RowGroup_ordinal other\<rparr>"

definition copy_TypeDefinedOrder :: "TypeDefinedOrder \<Rightarrow> TypeDefinedOrder" where
  "copy_TypeDefinedOrder other = TypeDefinedOrder"

definition assign_TypeDefinedOrder :: "TypeDefinedOrder \<Rightarrow> TypeDefinedOrder \<Rightarrow> TypeDefinedOrder" where
  "assign_TypeDefinedOrder this other = this"

definition copy_ColumnOrder :: "ColumnOrder \<Rightarrow> ColumnOrder" where
  "copy_ColumnOrder other =
    \<lparr>ColumnOrder_TYPE_ORDER = map_option copy_TypeDefinedOrder (ColumnOrder_TYPE_ORDER other)\<rparr>"

definition assign_ColumnOrder :: "ColumnOrder \<Rightarrow> ColumnOrder \<Rightarrow> ColumnOrder" where
  "assign_ColumnOrder this other = this
    \<lparr>ColumnOrder_TYPE_ORDER := map_option copy_TypeDefinedOrder (ColumnOrder_TYPE_ORDER other)\<rparr>"

definition copy_PageLocation :: "PageLocation \<Rightarrow> PageLocation" where
  "copy_PageLocation other =
    \<lparr>PageLocation_offset = PageLocation_offset other,
     PageLocation_compressed_page_size = PageLocation_compressed_page_size other,
     PageLocation_first_row_index = PageLocation_first_row_index other\<rparr>"

definition assign_PageLocation :: "PageLocation \<Rightarrow> PageLocation \<Rightarrow> PageLocation" where
  "assign_PageLocation this other = this
    \<lparr>PageLocation_offset := PageLocation_offset other,
     PageLocation_compressed_page_size := PageLocation_compressed_page_size other,
     PageLocation_first_row_index := PageLocation_first_row_index other\<rparr>"

definition copy_OffsetIndex :: "OffsetIndex \<Rightarrow> OffsetIndex" where
  "copy_OffsetIndex other =
    \<lparr>OffsetIndex_page_locations = map copy_PageLocation (OffsetIndex_page_locations other),
     OffsetIndex_unencoded_byte_array_data_bytes = OffsetIndex_unencoded_byte_array_data_bytes other\<rparr>"

definition assign_OffsetIndex :: "OffsetIndex \<Rightarrow> OffsetIndex \<Rightarrow> OffsetIndex" where
  "assign_OffsetIndex this other = this
    \<lparr>OffsetIndex_page_locations := map copy_PageLocation (OffsetIndex_page_locations other),
     OffsetIndex_unencoded_byte_array_data_bytes := OffsetIndex_unencoded_byte_array_data_bytes other\<rparr>"

definition copy_ColumnIndex :: "ColumnIndex \<Rightarrow> ColumnIndex" where
  "copy_ColumnIndex other =
    \<lparr>ColumnIndex_null_pages = ColumnIndex_null_pages other,
     ColumnIndex_min_values = ColumnIndex_min_values other,
     ColumnIndex_max_values = ColumnIndex_max_values other,
     ColumnIndex_boundary_order = ColumnIndex_boundary_order other,
     ColumnIndex_null_counts = ColumnIndex_null_counts other,
     ColumnIndex_repetition_level_histograms = ColumnIndex_repetition_level_histograms other,
     ColumnIndex_definition_level_histograms = ColumnIndex_definition_level_histograms other\<rparr>"

definition assign_ColumnIndex :: "ColumnIndex \<Rightarrow> ColumnIndex \<Rightarrow> ColumnIndex" where
  "assign_ColumnIndex this other = this
    \<lparr>ColumnIndex_null_pages := ColumnIndex_null_pages other,
     ColumnIndex_min_values := ColumnIndex_min_values other,
     ColumnIndex_max_values := ColumnIndex_max_values other,
     ColumnIndex_boundary_order := ColumnIndex_boundary_order other,
     ColumnIndex_null_counts := ColumnIndex_null_counts other,
     ColumnIndex_repetition_level_histograms := ColumnIndex_repetition_level_histograms other,
     ColumnIndex_definition_level_histograms := ColumnIndex_definition_level_histograms other\<rparr>"

definition copy_AesGcmV1 :: "AesGcmV1 \<Rightarrow> AesGcmV1" where
  "copy_AesGcmV1 other =
    \<lparr>AesGcmV1_aad_prefix = AesGcmV1_aad_prefix other,
     AesGcmV1_aad_file_unique = AesGcmV1_aad_file_unique other,
     AesGcmV1_supply_aad_prefix = AesGcmV1_supply_aad_prefix other\<rparr>"

definition assign_AesGcmV1 :: "AesGcmV1 \<Rightarrow> AesGcmV1 \<Rightarrow> AesGcmV1" where
  "assign_AesGcmV1 this other = this
    \<lparr>AesGcmV1_aad_prefix := AesGcmV1_aad_prefix other,
     AesGcmV1_aad_file_unique := AesGcmV1_aad_file_unique other,
     AesGcmV1_supply_aad_prefix := AesGcmV1_supply_aad_prefix other\<rparr>"

definition copy_AesGcmCtrV1 :: "AesGcmCtrV1 \<Rightarrow> AesGcmCtrV1" where
  "copy_AesGcmCtrV1 other =
    \<lparr>AesGcmCtrV1_aad_prefix = AesGcmCtrV1_aad_prefix other,
     AesGcmCtrV1_aad_file_unique = AesGcmCtrV1_aad_file_unique other,
     AesGcmCtrV1_supply_aad_prefix = AesGcmCtrV1_supply_aad_prefix other\<rparr>"

definition assign_AesGcmCtrV1 :: "AesGcmCtrV1 \<Rightarrow> AesGcmCtrV1 \<Rightarrow> AesGcmCtrV1" where
  "assign_AesGcmCtrV1 this other = this
    \<lparr>AesGcmCtrV1_aad_prefix := AesGcmCtrV1_aad_prefix other,
     AesGcmCtrV1_aad_file_unique := AesGcmCtrV1_aad_file_unique other,
     AesGcmCtrV1_supply_aad_prefix := AesGcmCtrV1_supply_aad_prefix other\<rparr>"

definition copy_EncryptionAlgorithm :: "EncryptionAlgorithm \<Rightarrow> EncryptionAlgorithm" where
  "copy_EncryptionAlgorithm other =
    \<lparr>EncryptionAlgorithm_AES_GCM_V1 = map_option copy_AesGcmV1 (EncryptionAlgorithm_AES_GCM_V1 other),
     EncryptionAlgorithm_AES_GCM_CTR_V1 = map_option copy_AesGcmCtrV1 (EncryptionAlgorithm_AES_GCM_CTR_V1 other)\<rparr>"

definition assign_EncryptionAlgorithm :: "EncryptionAlgorithm \<Rightarrow> EncryptionAlgorithm \<Rightarrow> EncryptionAlgorithm" where
  "assign_EncryptionAlgorithm this other = this
    \<lparr>EncryptionAlgorithm_AES_GCM_V1 := map_option copy_AesGcmV1 (EncryptionAlgorithm_AES_GCM_V1 other),
     EncryptionAlgorithm_AES_GCM_CTR_V1 := map_option copy_AesGcmCtrV1 (EncryptionAlgorithm_AES_GCM_CTR_V1 other)\<rparr>"

definition copy_FileMetaData :: "FileMetaData \<Rightarrow> FileMetaData" where
  "copy_FileMetaData other =
    \<lparr>FileMetaData_version = FileMetaData_version other,
     FileMetaData_schema = map copy_SchemaElement (FileMetaData_schema other),
     FileMetaData_num_rows = FileMetaData_num_rows other,
     FileMetaData_row_groups = map copy_RowGroup (FileMetaData_row_groups other),
     FileMetaData_key_value_metadata = map_option (map copy_KeyValue) (FileMetaData_key_value_metadata other),
     FileMetaData_created_by = FileMetaData_created_by other,
     FileMetaData_column_orders = map_option (map copy_ColumnOrder) (FileMetaData_column_orders other),
     FileMetaData_encryption_algorithm = map_option copy_EncryptionAlgorithm (FileMetaData_encryption_algorithm other),
     FileMetaData_footer_signing_key_metadata = FileMetaData_footer_signing_key_metadata other\<rparr>"

definition assign_FileMetaData :: "FileMetaData \<Rightarrow> FileMetaData \<Rightarrow> FileMetaData" where
  "assign_FileMetaData this other = this
    \<lparr>FileMetaData_version := FileMetaData_version other,
     FileMetaData_schema := map copy_SchemaElement (FileMetaData_schema other),
     FileMetaData_num_rows := FileMetaData_num_rows other,
     FileMetaData_row_groups := map copy_RowGroup (FileMetaData_row_groups other),
     FileMetaData_key_value_metadata := map_option (map copy_KeyValue) (FileMetaData_key_value_metadata other),
     FileMetaData_created_by := FileMetaData_created_by other,
     FileMetaData_column_orders := map_option (map copy_ColumnOrder) (FileMetaData_column_orders other),
     FileMetaData_encryption_algorithm := map_option copy_EncryptionAlgorithm (FileMetaData_encryption_algorithm other),
     FileMetaData_footer_signing_key_metadata := FileMetaData_footer_signing_key_metadata other\<rparr>"

definition copy_FileCryptoMetaData :: "FileCryptoMetaData \<Rightarrow> FileCryptoMetaData" where
  "copy_FileCryptoMetaData other =
    \<lparr>FileCryptoMetaData_encryption_algorithm = copy_EncryptionAlgorithm (FileCryptoMetaData_encryption_algorithm other),
     FileCryptoMetaData_key_metadata = FileCryptoMetaData_key_metadata other\<rparr>"

definition assign_FileCryptoMetaData :: "FileCryptoMetaData \<Rightarrow> FileCryptoMetaData \<Rightarrow> FileCryptoMetaData" where
  "assign_FileCryptoMetaData this other = this
    \<lparr>FileCryptoMetaData_encryption_algorithm := copy_EncryptionAlgorithm (FileCryptoMetaData_encryption_algorithm other),
     FileCryptoMetaData_key_metadata := FileCryptoMetaData_key_metadata other\<rparr>"

section \<open>Swaps\<close>

text \<open>\<open>swap(a, b)\<close> gives the new values of \<open>a\<close> and \<open>b\<close>.\<close>

fun swap_SizeStatistics :: "SizeStatistics \<times> SizeStatistics \<Rightarrow> SizeStatistics \<times> SizeStatistics" where
  "swap_SizeStatistics (a, b) =
    (a\<lparr>SizeStatistics_unencoded_byte_array_data_bytes := SizeStatistics_unencoded_byte_array_data_bytes b,
       SizeStatistics_repetition_level_histogram := SizeStatistics_repetition_level_histogram b,
       SizeStatistics_definition_level_histogram := SizeStatistics_definition_level_histogram b\<rparr>,
     b\<lparr>SizeStatistics_unencoded_byte_array_data_bytes := SizeStatistics_unencoded_byte_array_data_bytes a,
       SizeStatistics_repetition_level_histogram := SizeStatistics_repetition_level_histogram a,
       SizeStatistics_definition_level_histogram := SizeStatistics_definition_level_histogram a\<rparr>)"

fun swap_BoundingBox :: "BoundingBox \<times> BoundingBox \<Rightarrow> BoundingBox \<times> BoundingBox" where
  "swap_BoundingBox (a, b) =
    (a\<lparr>BoundingBox_xmin := BoundingBox_xmin b, BoundingBox_xmax := BoundingBox_xmax b,
       BoundingBox_ymin := BoundingBox_ymin b, BoundingBox_ymax := BoundingBox_ymax b,
       BoundingBox_zmin := BoundingBox_zmin b, BoundingBox_zmax := BoundingBox_zmax b,
       BoundingBox_mmin := BoundingBox_mmin b, BoundingBox_mmax := BoundingBox_mmax b\<rparr>,
     b\<lparr>BoundingBox_xmin := BoundingBox_xmin a, BoundingBox_xmax := BoundingBox_xmax a,
       BoundingBox_ymin := BoundingBox_ymin a, BoundingBox_ymax := BoundingBox_ymax a,
       BoundingBox_zmin := BoundingBox_zmin a, BoundingBox_zmax := BoundingBox_zmax a,
       BoundingBox_mmin := BoundingBox_mmin a, BoundingBox_mmax := BoundingBox_mmax a\<rparr>)"

fun swap_GeospatialStatistics :: "GeospatialStatistics \<times> GeospatialStatistics \<Rightarrow> GeospatialStatistics \<times> GeospatialStatistics" where
  "swap_GeospatialStatistics (a, b) =
    (a\<lparr>GeospatialStatistics_bbox := GeospatialStatistics_bbox b,
       GeospatialStatistics_geospatial_types := GeospatialStatistics_geospatial_types b\<rparr>,
     b\<lparr>GeospatialStatistics_bbox := GeospatialStatistics_bbox a,
       GeospatialStatistics_geospatial_types := GeospatialStatistics_geospatial_types a\<rparr>)"

fun swap_Statistics :: "Statistics \<times> Statistics \<Rightarrow> Statistics \<times> Statistics" where
  "swap_Statistics (a, b) =
    (a\<lparr>Statistics_max := Statistics_max b, Statistics_min := Statistics_min b,
       Statistics_null_count := Statistics_null_count b,
       Statistics_distinct_count := Statistics_distinct_count b,
       Statistics_max_value := Statistics_max_value b,
       Statistics_min_value := Statistics_min_value b,
       Statistics_is_max_value_exact := Statistics_is_max_value_exact b,
       Statistics_is_min_value_exact := Statistics_is_min_value_exact b\<rparr>,
     b\<lparr>Statistics_max := Statistics_max a, Statistics_min := Statistics_min a,
       Statistics_null_count := Statistics_null_count a,
       Statistics_distinct_count := Statistics_distinct_count a,
       Statistics_max_value := Statistics_max_value a,
       Statistics_min_value := Statistics_min_value a,
       Statistics_is_max_value_exact := Statistics_is_max_value_exact a,
       Statistics_is_min_value_exact := Statistics_is_min_value_exact a\<rparr>)"

definition swap_StringType :: "StringType \<times> StringType \<Rightarrow> StringType \<times> StringType" where
  "swap_StringType p = p"

definition swap_UUIDType :: "UUIDType \<times> UUIDType \<Rightarrow> UUIDType \<times> UUIDType" where
  "swap_UUIDType p = p"

definition swap_MapType :: "MapType \<times> MapType \<Rightarrow> MapType \<times> MapType" where
  "swap_MapType p = p"

definition swap_ListType :: "ListType \<times> ListType \<Rightarrow> ListType \<times> ListType" where
  "swap_ListType p = p"

definition swap_EnumType :: "EnumType \<times> EnumType \<Rightarrow> EnumType \<times> EnumType" where
  "swap_EnumType p = p"

definition swap_DateType :: "DateType \<times> DateType \<Rightarrow> DateType \<times> DateType" where
  "swap_DateType p = p"

definition swap_Float16Type :: "Float16Type \<times> Float16Type \<Rightarrow> Float16Type \<times> Float16Type" where
  "swap_Float16Type p = p"

definition swap_NullType :: "NullType \<times> NullType \<Rightarrow> NullType \<times> NullType" where
  "swap_NullType p = p"

fun swap_DecimalType :: "DecimalType \<times> DecimalType \<Rightarrow> DecimalType \<times> DecimalType" where
  "swap_DecimalType (a, b) =
    (a\<lparr>DecimalType_scale := DecimalType_scale b, DecimalType_precision := DecimalType_precision b\<rparr>,
     b\<lparr>DecimalType_scale := DecimalType_scale a, DecimalType_precision := DecimalType_precision a\<rparr>)"

definition swap_MilliSeconds :: "MilliSeconds \<times> MilliSeconds \<Rightarrow> MilliSeconds \<times> MilliSeconds" where
  "swap_MilliSeconds p = p"

definition swap_MicroSeconds :: "MicroSeconds \<times> MicroSeconds \<Rightarrow> MicroSeconds \<times> MicroSeconds" where
  "swap_MicroSeconds p = p"

definition swap_NanoSeconds :: "NanoSeconds \<times> NanoSeconds \<Rightarrow> NanoSeconds \<times> NanoSeconds" where
  "swap_NanoSeconds p = p"

fun swap_TimeUnit :: "TimeUnit \<times> TimeUnit \<Rightarrow> TimeUnit \<times> TimeUnit" where
  "swap_TimeUnit (a, b) =
    (a\<lparr>TimeUnit_MILLIS := TimeUnit_MILLIS b, TimeUnit_MICROS := TimeUnit_MICROS b,
       TimeUnit_NANOS := TimeUnit_NANOS b\<rparr>,
     b\<lparr>TimeUnit_MILLIS := TimeUnit_MILLIS a, TimeUnit_MICROS := TimeUnit_MICROS a,
       TimeUnit_NANOS := TimeUnit_NANOS a\<rparr>)"

fun swap_TimestampType :: "TimestampType \<times> TimestampType \<Rightarrow> TimestampType \<times> TimestampType" where
  "swap_TimestampType (a, b) =
    (a\<lparr>TimestampType_isAdjustedToUTC := TimestampType_isAdjustedToUTC b,
       TimestampType_unit := TimestampType_unit b\<rparr>,
     b\<lparr>TimestampType_isAdjustedToUTC := TimestampType_isAdjustedToUTC a,
       TimestampType_unit := TimestampType_unit a\<rparr>)"

fun swap_TimeType :: "TimeType \<times> TimeType \<Rightarrow> TimeType \<times> TimeType" where
  "swap_TimeType (a, b) =
    (a\<lparr>TimeType_isAdjustedToUTC := TimeType_isAdjustedToUTC b, TimeType_unit := TimeType_unit b\<rparr>,
     b\<lparr>TimeType_isAdjustedToUTC := TimeType_isAdjustedToUTC a, TimeType_unit := TimeType_unit a\<rparr>)"

fun swap_IntType :: "IntType \<times> IntType \<Rightarrow> IntType \<times> IntType" where
  "swap_IntType (a, b) =
    (a\<lparr>IntType_bitWidth := IntType_bitWidth b, IntType_isSigned := IntType_isSigned b\<rparr>,
     b\<lparr>IntType_bitWidth := IntType_bitWidth a, IntType_isSigned := IntType_isSigned a\<rparr>)"

definition swap_JsonType :: "JsonType \<times> JsonType \<Rightarrow> JsonType \<times> JsonType" where
  "swap_JsonType p = p"

definition swap_BsonType :: "BsonType \<times> BsonType \<Rightarrow> BsonType \<times> BsonType" where
  "swap_BsonType p = p"

fun swap_VariantType :: "VariantType \<times> VariantType \<Rightarrow> VariantType \<times> VariantType" where
  "swap_VariantType (a, b) =
    (a\<lparr>VariantType_specification_version := VariantType_specification_version b\<rparr>,
     b\<lparr>VariantType_specification_version := VariantType_specification_version a\<rparr>)"

fun swap_GeometryType :: "GeometryType \<times> GeometryType \<Rightarrow> GeometryType \<times> GeometryType" where
  "swap_GeometryType (a, b) =
    (a\<lparr>GeometryType_crs := GeometryType_crs b\<rparr>,
     b\<lparr>GeometryType_crs := GeometryType_crs a\<rparr>)"

fun swap_GeographyType :: "GeographyType \<times> GeographyType \<Rightarrow> GeographyType \<times> GeographyType" where
  "swap_GeographyType (a, b) =
    (a\<lparr>GeographyType_crs := GeographyType_crs b,
       GeographyType_algorithm := GeographyType_algorithm b\<rparr>,
     b\<lparr>GeographyType_crs := GeographyType_crs a,
       GeographyType_algorithm := GeographyType_algorithm a\<rparr>)"

fun swap_LogicalType :: "LogicalType \<times> LogicalType \<Rightarrow> LogicalType \<times> LogicalType" where
  "swap_LogicalType (a, b) =
    (a\<lparr>LogicalType_STRING := LogicalType_STRING b, LogicalType_MAP := LogicalType_MAP b,
       LogicalType_LIST := LogicalType_LIST b, LogicalType_ENUM := LogicalType_ENUM b,
       LogicalType_DECIMAL := LogicalType_DECIMAL b, LogicalType_DATE := LogicalType_DATE b,
       LogicalType_TIME := LogicalType_TIME b, LogicalType_TIMESTAMP := LogicalType_TIMESTAMP b,
       LogicalType_INTEGER := LogicalType_INTEGER b, LogicalType_UNKNOWN := LogicalType_UNKNOWN b,
       LogicalType_JSON := LogicalType_JSON b, LogicalType_BSON := LogicalType_BSON b,
       LogicalType_UUID := LogicalType_UUID b, LogicalType_FLOAT16 := LogicalType_FLOAT16 b,
       LogicalType_VARIANT := LogicalType_VARIANT b,
       LogicalType_GEOMETRY := LogicalType_GEOMETRY b,
       LogicalType_GEOGRAPHY := LogicalType_GEOGRAPHY b\<rparr>,
     b\<lparr>LogicalType_STRING := LogicalType_STRING a, LogicalType_MAP := LogicalType_MAP a,
       LogicalType_LIST := LogicalType_LIST a, LogicalType_ENUM := LogicalType_ENUM a,
       LogicalType_DECIMAL := LogicalType_DECIMAL a, LogicalType_DATE := LogicalType_DATE a,
       LogicalType_TIME := LogicalType_TIME a, LogicalType_TIMESTAMP := LogicalType_TIMESTAMP a,
       LogicalType_INTEGER := LogicalType_INTEGER a, LogicalType_UNKNOWN := LogicalType_UNKNOWN a,
       LogicalType_JSON := LogicalType_JSON a, LogicalType_BSON := LogicalType_BSON a,
       LogicalType_UUID := LogicalType_UUID a, LogicalType_FLOAT16 := LogicalType_FLOAT16 a,
       LogicalType_VARIANT := LogicalType_VARIANT a,
       LogicalType_GEOMETRY := LogicalType_GEOMETRY a,
       LogicalType_GEOGRAPHY := LogicalType_GEOGRAPHY a\<rparr>)"

fun swap_SchemaElement :: "SchemaElement \<times> SchemaElement \<Rightarrow> SchemaElement \<times> SchemaElement" where
  "swap_SchemaElement (a, b) =
    (a\<lparr>SchemaElement_type := SchemaElement_type b,
       SchemaElement_type_length := SchemaElement_type_length b,
       SchemaElement_repetition_type := SchemaElement_repetition_type b,
       SchemaElement_name := SchemaElement_name b,
       SchemaElement_num_children := SchemaElement_num_children b,
       SchemaElement_converted_type := SchemaElement_converted_type b,
       SchemaElement_scale := SchemaElement_scale b,
       SchemaElement_precision := SchemaElement_precision b,
       SchemaElement_field_id := SchemaElement_field_id b,
       SchemaElement_logicalType := SchemaElement_logicalType b\<rparr>,
     b\<lparr>SchemaElement_type := SchemaElement_type a,
       SchemaElement_type_length := SchemaElement_type_length a,
       SchemaElement_repetition_type := SchemaElement_repetition_type a,
       SchemaElement_name := SchemaElement_name a,
       SchemaElement_num_children := SchemaElement_num_children a,
       SchemaElement_converted_type := SchemaElement_converted_type a,
       SchemaElement_scale := SchemaElement_scale a,
       SchemaElement_precision := SchemaElement_precision a,
       SchemaElement_field_id := SchemaElement_field_id a,
       SchemaElement_logicalType := SchemaElement_logicalType a\<rparr>)"

fun swap_DataPageHeader :: "DataPageHeader \<times> DataPageHeader \<Rightarrow> DataPageHeader \<times> DataPageHeader" where
  "swap_DataPageHeader (a, b) =
    (a\<lparr>DataPageHeader_num_values := DataPageHeader_num_values b,
       DataPageHeader_encoding := DataPageHeader_encoding b,
       DataPageHeader_definition_level_encoding := DataPageHeader_definition_level_encoding b,
       DataPageHeader_repetition_level_encoding := DataPageHeader_repetition_level_encoding b,
       DataPageHeader_statistics := DataPageHeader_statistics b\<rparr>,
     b\<lparr>DataPageHeader_num_values := DataPageHeader_num_values a,
       DataPageHeader_encoding := DataPageHeader_encoding a,
       DataPageHeader_definition_level_encoding := DataPageHeader_definition_level_encoding a,
       DataPageHeader_repetition_level_encoding := DataPageHeader_repetition_level_encoding a,
       DataPageHeader_statistics := DataPageHeader_statistics a\<rparr>)"

definition swap_IndexPageHeader :: "IndexPageHeader \<times> IndexPageHeader \<Rightarrow> IndexPageHeader \<times> IndexPageHeader" where
  "swap_IndexPageHeader p = p"

fun swap_DictionaryPageHeader :: "DictionaryPageHeader \<times> DictionaryPageHeader \<Rightarrow> DictionaryPageHeader \<times> DictionaryPageHeader" where
  "swap_DictionaryPageHeader (a, b) =
    (a\<lparr>DictionaryPageHeader_num_values := DictionaryPageHeader_num_values b,
       DictionaryPageHeader_encoding := DictionaryPageHeader_encoding b,
       DictionaryPageHeader_is_sorted := DictionaryPageHeader_is_sorted b\<rparr>,
     b\<lparr>DictionaryPageHeader_num_values := DictionaryPageHeader_num_values a,
       DictionaryPageHeader_encoding := DictionaryPageHeader_encoding a,
       DictionaryPageHeader_is_sorted := DictionaryPageHeader_is_sorted a\<rparr>)"

fun swap_DataPageHeaderV2 :: "DataPageHeaderV2 \<times> DataPageHeaderV2 \<Rightarrow> DataPageHeaderV2 \<times> DataPageHeaderV2" where
  "swap_DataPageHeaderV2 (a, b) =
    (a\<lparr>DataPageHeaderV2_num_values := DataPageHeaderV2_num_values b,
       DataPageHeaderV2_num_nulls := DataPageHeaderV2_num_nulls b,
       DataPageHeaderV2_num_rows := DataPageHeaderV2_num_rows b,
       DataPageHeaderV2_encoding := DataPageHeaderV2_encoding b,
       DataPageHeaderV2_definition_levels_byte_length := DataPageHeaderV2_definition_levels_byte_length b,
       DataPageHeaderV2_repetition_levels_byte_length := DataPageHeaderV2_repetition_levels_byte_length b,
       DataPageHeaderV2_is_compressed := DataPageHeaderV2_is_compressed b,
       DataPageHeaderV2_statistics := DataPageHeaderV2_statistics b\<rparr>,
     b\<lparr>DataPageHeaderV2_num_values := DataPageHeaderV2_num_values a,
       DataPageHeaderV2_num_nulls := DataPageHeaderV2_num_nulls a,
       DataPageHeaderV2_num_rows := DataPageHeaderV2_num_rows a,
       DataPageHeaderV2_encoding := DataPageHeaderV2_encoding a,
       DataPageHeaderV2_definition_levels_byte_length := DataPageHeaderV2_definition_levels_byte_length a,
       DataPageHeaderV2_repetition_levels_byte_length := DataPageHeaderV2_repetition_levels_byte_length a,
       DataPageHeaderV2_is_compressed := DataPageHeaderV2_is_compressed a,
       DataPageHeaderV2_statistics := DataPageHeaderV2_statistics a\<rparr>)"

definition swap_SplitBlockAlgorithm :: "SplitBlockAlgorithm \<times> SplitBlockAlgorithm \<Rightarrow> SplitBlockAlgorithm \<times> SplitBlockAlgorithm" where
  "swap_SplitBlockAlgorithm p = p"

fun swap_BloomFilterAlgorithm :: "BloomFilterAlgorithm \<times> BloomFilterAlgorithm \<Rightarrow> BloomFilterAlgorithm \<times> BloomFilterAlgorithm" where
  "swap_BloomFilterAlgorithm (a, b) =
    (a\<lparr>BloomFilterAlgorithm_BLOCK := BloomFilterAlgorithm_BLOCK b\<rparr>,
     b\<lparr>BloomFilterAlgorithm_BLOCK := BloomFilterAlgorithm_BLOCK a\<rparr>)"

definition swap_XxHash :: "XxHash \<times> XxHash \<Rightarrow> XxHash \<times> XxHash" where
  "swap_XxHash p = p"

fun swap_BloomFilterHash :: "BloomFilterHash \<times> BloomFilterHash \<Rightarrow> BloomFilterHash \<times> BloomFilterHash" where
  "swap_BloomFilterHash (a, b) =
    (a\<lparr>BloomFilterHash_XXHASH := BloomFilterHash_XXHASH b\<rparr>,
     b\<lparr>BloomFilterHash_XXHASH := BloomFilterHash_XXHASH a\<rparr>)"

definition swap_Uncompressed :: "Uncompressed \<times> Uncompressed \<Rightarrow> Uncompressed \<times> Uncompressed" where
  "swap_Uncompressed p = p"

fun swap_BloomFilterCompression :: "BloomFilterCompression \<times> BloomFilterCompression \<Rightarrow> BloomFilterCompression \<times> BloomFilterCompression" where
  "swap_BloomFilterCompression (a, b) =
    (a\<lparr>BloomFilterCompression_UNCOMPRESSED := BloomFilterCompression_UNCOMPRESSED b\<rparr>,
     b\<lparr>BloomFilterCompression_UNCOMPRESSED := BloomFilterCompression_UNCOMPRESSED a\<rparr>)"

fun swap_BloomFilterHeader :: "BloomFilterHeader \<times> BloomFilterHeader \<Rightarrow> BloomFilterHeader \<times> BloomFilterHeader" where
  "swap_BloomFilterHeader (a, b) =
    (a\<lparr>BloomFilterHeader_numBytes := BloomFilterHeader_numBytes b,
       BloomFilterHeader_algorithm := BloomFilterHeader_algorithm b,
       BloomFilterHeader_hash := BloomFilterHeader_hash b,
       BloomFilterHeader_compression := BloomFilterHeader_compression b\<rparr>,
     b\<lparr>BloomFilterHeader_numBytes := BloomFilterHeader_numBytes a,
       BloomFilterHeader_algorithm := BloomFilterHeader_algorithm a,
       BloomFilterHeader_hash := BloomFilterHeader_hash a,
       BloomFilterHeader_compression := BloomFilterHeader_compression a\<rparr>)"

fun swap_PageHeader :: "PageHeader \<times> PageHeader \<Rightarrow> PageHeader \<times> PageHeader" where
  "swap_PageHeader (a, b) =
    (a\<lparr>PageHeader_type := PageHeader_type b,
       PageHeader_uncompressed_page_size := PageHeader_uncompressed_page_size b,
       PageHeader_compressed_page_size := PageHeader_compressed_page_size b,
       PageHeader_crc := PageHeader_crc b,
       PageHeader_data_page_header := PageHeader_data_page_header b,
       PageHeader_index_page_header := PageHeader_index_page_header b,
       PageHeader_dictionary_page_header := PageHeader_dictionary_page_header b,
       PageHeader_data_page_header_v2 := PageHeader_data_page_header_v2 b\<rparr>,
     b\<lparr>PageHeader_type := PageHeader_type a,
       PageHeader_uncompressed_page_size := PageHeader_uncompressed_page_size a,
       PageHeader_compressed_page_size := PageHeader_compressed_page_size a,
       PageHeader_crc := PageHeader_crc a,
       PageHeader_data_page_header := PageHeader_data_page_header a,
       PageHeader_index_page_header := PageHeader_index_page_header a,
       PageHeader_dictionary_page_header := PageHeader_dictionary_page_header a,
       PageHeader_data_page_header_v2 := PageHeader_data_page_header_v2 a\<rparr>)"

fun swap_KeyValue :: "KeyValue \<times> KeyValue \<Rightarrow> KeyValue \<times> KeyValue" where
  "swap_KeyValue (a, b) =
    (a\<lparr>KeyValue_key := KeyValue_key b, KeyValue_value := KeyValue_value b\<rparr>,
     b\<lparr>KeyValue_key := KeyValue_key a, KeyValue_value := KeyValue_value a\<rparr>)"

fun swap_SortingColumn :: "SortingColumn \<times> SortingColumn \<Rightarrow> SortingColumn \<times> SortingColumn" where
  "swap_SortingColumn (a, b) =
    (a\<lparr>SortingColumn_column_idx := SortingColumn_column_idx b,
       SortingColumn_descending := SortingColumn_descending b,
       SortingColumn_nulls_first := SortingColumn_nulls_first b\<rparr>,
     b\<lparr>SortingColumn_column_idx := SortingColumn_column_idx a,
       SortingColumn_descending := SortingColumn_descending a,
       SortingColumn_nulls_first := SortingColumn_nulls_first a\<rparr>)"

fun swap_PageEncodingStats :: "PageEncodingStats \<times> PageEncodingStats \<Rightarrow> PageEncodingStats \<times> PageEncodingStats" where
  "swap_PageEncodingStats (a, b) =
    (a\<lparr>PageEncodingStats_page_type := PageEncodingStats_page_type b,
       PageEncodingStats_encoding := PageEncodingStats_encoding b,
       PageEncodingStats_count := PageEncodingStats_count b\<rparr>,
     b\<lparr>PageEncodingStats_page_type := PageEncodingStats_page_type a,
       PageEncodingStats_encoding := PageEncodingStats_encoding a,
       PageEncodingStats_count := PageEncodingStats_count a\<rparr>)"

fun swap_ColumnMetaData :: "ColumnMetaData \<times> ColumnMetaData \<Rightarrow> ColumnMetaData \<times> ColumnMetaData" where
  "swap_ColumnMetaData (a, b) =
    (a\<lparr>ColumnMetaData_type := ColumnMetaData_type b,
       ColumnMetaData_encodings := ColumnMetaData_encodings b,
       ColumnMetaData_path_in_schema := ColumnMetaData_path_in_schema b,
       ColumnMetaData_codec := ColumnMetaData_codec b,
       ColumnMetaData_num_values := ColumnMetaData_num_values b,
       ColumnMetaData_total_uncompressed_size := ColumnMetaData_total_uncompressed_size b,
       ColumnMetaData_total_compressed_size := ColumnMetaData_total_compressed_size b,
       ColumnMetaData_key_value_metadata := ColumnMetaData_key_value_metadata b,
       ColumnMetaData_data_page_offset := ColumnMetaData_data_page_offset b,
       ColumnMetaData_index_page_offset := ColumnMetaData_index_page_offset b,
       ColumnMetaData_dictionary_page_offset := ColumnMetaData_dictionary_page_offset b,
       ColumnMetaData_statistics := ColumnMetaData_statistics b,
       ColumnMetaData_encoding_stats := ColumnMetaData_encoding_stats b,
       ColumnMetaData_bloom_filter_offset := ColumnMetaData_bloom_filter_offset b,
       ColumnMetaData_bloom_filter_length := ColumnMetaData_bloom_filter_length b,
       ColumnMetaData_size_statistics := ColumnMetaData_size_statistics b,
       ColumnMetaData_geospatial_statistics := ColumnMetaData_geospatial_statistics b\<rparr>,
     b\<lparr>ColumnMetaData_type := ColumnMetaData_type a,
       ColumnMetaData_encodings := ColumnMetaData_encodings a,
       ColumnMetaData_path_in_schema := ColumnMetaData_path_in_schema a,
       ColumnMetaData_codec := ColumnMetaData_codec a,
       ColumnMetaData_num_values := ColumnMetaData_num_values a,
       ColumnMetaData_total_uncompressed_size := ColumnMetaData_total_uncompressed_size a,
       ColumnMetaData_total_compressed_size := ColumnMetaData_total_compressed_size a,
       ColumnMetaData_key_value_metadata := ColumnMetaData_key_value_metadata a,
       ColumnMetaData_data_page_offset := ColumnMetaData_data_page_offset a,
       ColumnMetaData_index_page_offset := ColumnMetaData_index_page_offset a,
       ColumnMetaData_dictionary_page_offset := ColumnMetaData_dictionary_page_offset a,
       ColumnMetaData_statistics := ColumnMetaData_statistics a,
       ColumnMetaData_encoding_stats := ColumnMetaData_encoding_stats a,
       ColumnMetaData_bloom_filter_offset := ColumnMetaData_bloom_filter_offset a,
       ColumnMetaData_bloom_filter_length := ColumnMetaData_bloom_filter_length a,
       ColumnMetaData_size_statistics := ColumnMetaData_size_statistics a,
       ColumnMetaData_geospatial_statistics := ColumnMetaData_geospatial_statistics a\<rparr>)"

definition swap_EncryptionWithFooterKey :: "EncryptionWithFooterKey \<times> EncryptionWithFooterKey \<Rightarrow> EncryptionWithFooterKey \<times> EncryptionWithFooterKey" where
  "swap_EncryptionWithFooterKey p = p"

fun swap_EncryptionWithColumnKey :: "EncryptionWithColumnKey \<times> EncryptionWithColumnKey \<Rightarrow> EncryptionWithColumnKey \<times> EncryptionWithColumnKey" where
  "swap_EncryptionWithColumnKey (a, b) =
    (a\<lparr>EncryptionWithColumnKey_path_in_schema := EncryptionWithColumnKey_path_in_schema b,
       EncryptionWithColumnKey_key_metadata := EncryptionWithColumnKey_key_metadata b\<rparr>,
     b\<lparr>EncryptionWithColumnKey_path_in_schema := EncryptionWithColumnKey_path_in_schema a,
       EncryptionWithColumnKey_key_metadata := EncryptionWithColumnKey_key_metadata a\<rparr>)"

fun swap_ColumnCryptoMetaData :: "ColumnCryptoMetaData \<times> ColumnCryptoMetaData \<Rightarrow> ColumnCryptoMetaData \<times> ColumnCryptoMetaData" where
  "swap_ColumnCryptoMetaData (a, b) =
    (a\<lparr>ColumnCryptoMetaData_ENCRYPTION_WITH_FOOTER_KEY := ColumnCryptoMetaData_ENCRYPTION_WITH_FOOTER_KEY b,
       ColumnCryptoMetaData_ENCRYPTION_WITH_COLUMN_KEY := ColumnCryptoMetaData_ENCRYPTION_WITH_COLUMN_KEY b\<rparr>,
     b\<lparr>ColumnCryptoMetaData_ENCRYPTION_WITH_FOOTER_KEY := ColumnCryptoMetaData_ENCRYPTION_WITH_FOOTER_KEY a,
       ColumnCryptoMetaData_ENCRYPTION_WITH_COLUMN_KEY := ColumnCryptoMetaData_ENCRYPTION_WITH_COLUMN_KEY a\<rparr>)"

fun swap_ColumnChunk :: "ColumnChunk \<times> ColumnChunk \<Rightarrow> ColumnChunk \<times> ColumnChunk" where
  "swap_ColumnChunk (a, b) =
    (a\<lparr>ColumnChunk_file_path := ColumnChunk_file_path b,
       ColumnChunk_file_offset := ColumnChunk_file_offset b,
       ColumnChunk_meta_data := ColumnChunk_meta_data b,
       ColumnChunk_offset_index_offset := ColumnChunk_offset_index_offset b,
       ColumnChunk_offset_index_length := ColumnChunk_offset_index_length b,
       ColumnChunk_column_index_offset := ColumnChunk_column_index_offset b,
       ColumnChunk_column_index_length := ColumnChunk_column_index_length b,
       ColumnChunk_crypto_metadata := ColumnChunk_crypto_metadata b,
       ColumnChunk_encrypted_column_metadata := ColumnChunk_encrypted_column_metadata b\<rparr>,
     b\<lparr>ColumnChunk_file_path := ColumnChunk_file_path a,
       ColumnChunk_file_offset := ColumnChunk_file_offset a,
       ColumnChunk_meta_data := ColumnChunk_meta_data a,
       ColumnChunk_offset_index_offset := ColumnChunk_offset_index_offset a,
       ColumnChunk_offset_index_length := ColumnChunk_offset_index_length a,
       ColumnChunk_column_index_offset := ColumnChunk_column_index_offset a,
       ColumnChunk_column_index_length := ColumnChunk_column_index_length a,
       ColumnChunk_crypto_metadata := ColumnChunk_crypto_metadata a,
       ColumnChunk_encrypted_column_metadata := ColumnChunk_encrypted_column_metadata a\<rparr>)"

fun swap_RowGroup :: "RowGroup \<times> RowGroup \<Rightarrow> RowGroup \<times> RowGroup" where
  "swap_RowGroup (a, b) =
    (a\<lparr>RowGroup_columns := RowGroup_columns b,
       RowGroup_total_byte_size := RowGroup_total_byte_size b,
       RowGroup_num_rows := RowGroup_num_rows b,
       RowGroup_sorting_columns := RowGroup_sorting_columns b,
       RowGroup_file_offset := RowGroup_file_offset b,
       RowGroup_total_compressed_size := RowGroup_total_compressed_size b,
       RowGroup_ordinal := RowGroup_ordinal b\<rparr>,
     b\<lparr>RowGroup_columns := RowGroup_columns a,
       RowGroup_total_byte_size := RowGroup_total_byte_size a,
       RowGroup_num_rows := RowGroup_num_rows a,
       RowGroup_sorting_columns := RowGroup_sorting_columns a,
       RowGroup_file_offset := RowGroup_file_offset a,
       RowGroup_total_compressed_size := RowGroup_total_compressed_size a,
       RowGroup_ordinal := RowGroup_ordinal a\<rparr>)"

definition swap_TypeDefinedOrder :: "TypeDefinedOrder \<times> TypeDefinedOrder \<Rightarrow> TypeDefinedOrder \<times> TypeDefinedOrder" where
  "swap_TypeDefinedOrder p = p"

fun swap_ColumnOrder :: "ColumnOrder \<times> ColumnOrder \<Rightarrow> ColumnOrder \<times> ColumnOrder" where
  "swap_ColumnOrder (a, b) =
    (a\<lparr>ColumnOrder_TYPE_ORDER := ColumnOrder_TYPE_ORDER b\<rparr>,
     b\<lparr>ColumnOrder_TYPE_ORDER := ColumnOrder_TYPE_ORDER a\<rparr>)"

fun swap_PageLocation :: "PageLocation \<times> PageLocation \<Rightarrow> PageLocation \<times> PageLocation" where
  "swap_PageLocation (a, b) =
    (a\<lparr>PageLocation_offset := PageLocation_offset b,
       PageLocation_compressed_page_size := PageLocation_compressed_page_size b,
       PageLocation_first_row_index := PageLocation_first_row_index b\<rparr>,
     b\<lparr>PageLocation_offset := PageLocation_offset a,
       PageLocation_compressed_page_size := PageLocation_compressed_page_size a,
       PageLocation_first_row_index := PageLocation_first_row_index a\<rparr>)"

fun swap_OffsetIndex :: "OffsetIndex \<times> OffsetIndex \<Rightarrow> OffsetIndex \<times> OffsetIndex" where
  "swap_OffsetIndex (a, b) =
    (a\<lparr>OffsetIndex_page_locations := OffsetIndex_page_locations b,
       OffsetIndex_unencoded_byte_array_data_bytes := OffsetIndex_unencoded_byte_array_data_bytes b\<rparr>,
     b\<lparr>OffsetIndex_page_locations := OffsetIndex_page_locations a,
       OffsetIndex_unencoded_byte_array_data_bytes := OffsetIndex_unencoded_byte_array_data_bytes a\<rparr>)"

fun swap_ColumnIndex :: "ColumnIndex \<times> ColumnIndex \<Rightarrow> ColumnIndex \<times> ColumnIndex" where
  "swap_ColumnIndex (a, b) =
    (a\<lparr>ColumnIndex_null_pages := ColumnIndex_null_pages b,
       ColumnIndex_min_values := ColumnIndex_min_values b,
       ColumnIndex_max_values := ColumnIndex_max_values b,
       ColumnIndex_boundary_order := ColumnIndex_boundary_order b,
       ColumnIndex_null_counts := ColumnIndex_null_counts b,
       ColumnIndex_repetition_level_histograms := ColumnIndex_repetition_level_histograms b,
       ColumnIndex_definition_level_histograms := ColumnIndex_definition_level_histograms b\<rparr>,
     b\<lparr>ColumnIndex_null_pages := ColumnIndex_null_pages a,
       ColumnIndex_min_values := ColumnIndex_min_values a,
       ColumnIndex_max_values := ColumnIndex_max_values a,
       ColumnIndex_boundary_order := ColumnIndex_boundary_order a,
       ColumnIndex_null_counts := ColumnIndex_null_counts a,
       ColumnIndex_repetition_level_histograms := ColumnIndex_repetition_level_histograms a,
       ColumnIndex_definition_level_histograms := ColumnIndex_definition_level_histograms a\<rparr>)"

fun swap_AesGcmV1 :: "AesGcmV1 \<times> AesGcmV1 \<Rightarrow> AesGcmV1 \<times> AesGcmV1" where
  "swap_AesGcmV1 (a, b) =
    (a\<lparr>AesGcmV1_aad_prefix := AesGcmV1_aad_prefix b,
       AesGcmV1_aad_file_unique := AesGcmV1_aad_file_unique b,
       AesGcmV1_supply_aad_prefix := AesGcmV1_supply_aad_prefix b\<rparr>,
     b\<lparr>AesGcmV1_aad_prefix := AesGcmV1_aad_prefix a,
       AesGcmV1_aad_file_unique := AesGcmV1_aad_file_unique a,
       AesGcmV1_supply_aad_prefix := AesGcmV1_supply_aad_prefix a\<rparr>)"

fun swap_AesGcmCtrV1 :: "AesGcmCtrV1 \<times> AesGcmCtrV1 \<Rightarrow> AesGcmCtrV1 \<times> AesGcmCtrV1" where
  "swap_AesGcmCtrV1 (a, b) =
    (a\<lparr>AesGcmCtrV1_aad_prefix := AesGcmCtrV1_aad_prefix b,
       AesGcmCtrV1_aad_file_unique := AesGcmCtrV1_aad_file_unique b,
       AesGcmCtrV1_supply_aad_prefix := AesGcmCtrV1_supply_aad_prefix b\<rparr>,
     b\<lparr>AesGcmCtrV1_aad_prefix := AesGcmCtrV1_aad_prefix a,
       AesGcmCtrV1_aad_file_unique := AesGcmCtrV1_aad_file_unique a,
       AesGcmCtrV1_supply_aad_prefix := AesGcmCtrV1_supply_aad_prefix a\<rparr>)"

fun swap_EncryptionAlgorithm :: "EncryptionAlgorithm \<times> EncryptionAlgorithm \<Rightarrow> EncryptionAlgorithm \<times> EncryptionAlgorithm" where
  "swap_EncryptionAlgorithm (a, b) =
    (a\<lparr>EncryptionAlgorithm_AES_GCM_V1 := EncryptionAlgorithm_AES_GCM_V1 b,
       EncryptionAlgorithm_AES_GCM_CTR_V1 := EncryptionAlgorithm_AES_GCM_CTR_V1 b\<rparr>,
     b\<lparr>EncryptionAlgorithm_AES_GCM_V1 := EncryptionAlgorithm_AES_GCM_V1 a,
       EncryptionAlgorithm_AES_GCM_CTR_V1 := EncryptionAlgorithm_AES_GCM_CTR_V1 a\<rparr>)"

fun swap_FileMetaData :: "FileMetaData \<times> FileMetaData \<Rightarrow> FileMetaData \<times> FileMetaData" where
  "swap_FileMetaData (a, b) =
    (a\<lparr>FileMetaData_version := FileMetaData_version b,
       FileMetaData_schema := FileMetaData_schema b,
       FileMetaData_num_rows := FileMetaData_num_rows b,
       FileMetaData_row_groups := FileMetaData_row_groups b,
       FileMetaData_key_value_metadata := FileMetaData_key_value_metadata b,
       FileMetaData_created_by := FileMetaData_created_by b,
       FileMetaData_column_orders := FileMetaData_column_orders b,
       FileMetaData_encryption_algorithm := FileMetaData_encryption_algorithm b,
       FileMetaData_footer_signing_key_metadata := FileMetaData_footer_signing_key_metadata b\<rparr>,
     b\<lparr>FileMetaData_version := FileMetaData_version a,
       FileMetaData_schema := FileMetaData_schema a,
       FileMetaData_num_rows := FileMetaData_num_rows a,
       FileMetaData_row_groups := FileMetaData_row_groups a,
       FileMetaData_key_value_metadata := FileMetaData_key_value_metadata a,
       FileMetaData_created_by := FileMetaData_created_by a,
       FileMetaData_column_orders := FileMetaData_column_orders a,
       FileMetaData_encryption_algorithm := FileMetaData_encryption_algorithm a,
       FileMetaData_footer_signing_key_metadata := FileMetaData_footer_signing_key_metadata a\<rparr>)"

fun swap_FileCryptoMetaData :: "FileCryptoMetaData \<times> FileCryptoMetaData \<Rightarrow> FileCryptoMetaData \<times> FileCryptoMetaData" where
  "swap_FileCryptoMetaData (a, b) =
    (a\<lparr>FileCryptoMetaData_encryption_algorithm := FileCryptoMetaData_encryption_algorithm b,
       FileCryptoMetaData_key_metadata := FileCryptoMetaData_key_metadata b\<rparr>,
     b\<lparr>FileCryptoMetaData_encryption_algorithm := FileCryptoMetaData_encryption_algorithm a,
       FileCryptoMetaData_key_metadata := FileCryptoMetaData_key_metadata a\<rparr>)"

section \<open>Comparisons\<close>

text \<open>
  A \<open>double\<close> is given by its bits: a NaN is not equal to anything, and the two zeros are equal.
\<close>

unbundle bit_operations_syntax

definition is_nan :: "u64 \<Rightarrow> bool" where
  "is_nan x \<longleftrightarrow> x AND 0x7FF0000000000000 = 0x7FF0000000000000 \<and> x AND 0x000FFFFFFFFFFFFF \<noteq> 0"

definition is_zero :: "u64 \<Rightarrow> bool" where
  "is_zero x \<longleftrightarrow> x AND 0x7FFFFFFFFFFFFFFF = 0"

definition eq_double :: "u64 \<Rightarrow> u64 \<Rightarrow> bool" where
  "eq_double x y \<longleftrightarrow> \<not> is_nan x \<and> \<not> is_nan y \<and> (x = y \<or> is_zero x \<and> is_zero y)"

definition eq_SizeStatistics :: "SizeStatistics \<Rightarrow> SizeStatistics \<Rightarrow> bool" where
  "eq_SizeStatistics x y \<longleftrightarrow>
     SizeStatistics_unencoded_byte_array_data_bytes x = SizeStatistics_unencoded_byte_array_data_bytes y \<and>
     SizeStatistics_repetition_level_histogram x = SizeStatistics_repetition_level_histogram y \<and>
     SizeStatistics_definition_level_histogram x = SizeStatistics_definition_level_histogram y"

definition eq_BoundingBox :: "BoundingBox \<Rightarrow> BoundingBox \<Rightarrow> bool" where
  "eq_BoundingBox x y \<longleftrightarrow>
     eq_double (BoundingBox_xmin x) (BoundingBox_xmin y) \<and>
     eq_double (BoundingBox_xmax x) (BoundingBox_xmax y) \<and>
     eq_double (BoundingBox_ymin x) (BoundingBox_ymin y) \<and>
     eq_double (BoundingBox_ymax x) (BoundingBox_ymax y) \<and>
     rel_option eq_double (BoundingBox_zmin x) (BoundingBox_zmin y) \<and>
     rel_option eq_double (BoundingBox_zmax x) (BoundingBox_zmax y) \<and>
     rel_option eq_double (BoundingBox_mmin x) (BoundingBox_mmin y) \<and>
     rel_option eq_double (BoundingBox_mmax x) (BoundingBox_mmax y)"

definition eq_GeospatialStatistics :: "GeospatialStatistics \<Rightarrow> GeospatialStatistics \<Rightarrow> bool" where
  "eq_GeospatialStatistics x y \<longleftrightarrow>
     rel_option eq_BoundingBox (GeospatialStatistics_bbox x) (GeospatialStatistics_bbox y) \<and>
     GeospatialStatistics_geospatial_types x = GeospatialStatistics_geospatial_types y"

definition eq_Statistics :: "Statistics \<Rightarrow> Statistics \<Rightarrow> bool" where
  "eq_Statistics x y \<longleftrightarrow>
     Statistics_max x = Statistics_max y \<and>
     Statistics_min x = Statistics_min y \<and>
     Statistics_null_count x = Statistics_null_count y \<and>
     Statistics_distinct_count x = Statistics_distinct_count y \<and>
     Statistics_max_value x = Statistics_max_value y \<and>
     Statistics_min_value x = Statistics_min_value y \<and>
     Statistics_is_max_value_exact x = Statistics_is_max_value_exact y \<and>
     Statistics_is_min_value_exact x = Statistics_is_min_value_exact y"

definition eq_StringType :: "StringType \<Rightarrow> StringType \<Rightarrow> bool" where
  "eq_StringType x y \<longleftrightarrow>
     True"

definition eq_UUIDType :: "UUIDType \<Rightarrow> UUIDType \<Rightarrow> bool" where
  "eq_UUIDType x y \<longleftrightarrow>
     True"

definition eq_MapType :: "MapType \<Rightarrow> MapType \<Rightarrow> bool" where
  "eq_MapType x y \<longleftrightarrow>
     True"

definition eq_ListType :: "ListType \<Rightarrow> ListType \<Rightarrow> bool" where
  "eq_ListType x y \<longleftrightarrow>
     True"

definition eq_EnumType :: "EnumType \<Rightarrow> EnumType \<Rightarrow> bool" where
  "eq_EnumType x y \<longleftrightarrow>
     True"

definition eq_DateType :: "DateType \<Rightarrow> DateType \<Rightarrow> bool" where
  "eq_DateType x y \<longleftrightarrow>
     True"

definition eq_Float16Type :: "Float16Type \<Rightarrow> Float16Type \<Rightarrow> bool" where
  "eq_Float16Type x y \<longleftrightarrow>
     True"

definition eq_NullType :: "NullType \<Rightarrow> NullType \<Rightarrow> bool" where
  "eq_NullType x y \<longleftrightarrow>
     True"

definition eq_DecimalType :: "DecimalType \<Rightarrow> DecimalType \<Rightarrow> bool" where
  "eq_DecimalType x y \<longleftrightarrow>
     DecimalType_scale x = DecimalType_scale y \<and>
     DecimalType_precision x = DecimalType_precision y"

definition eq_MilliSeconds :: "MilliSeconds \<Rightarrow> MilliSeconds \<Rightarrow> bool" where
  "eq_MilliSeconds x y \<longleftrightarrow>
     True"

definition eq_MicroSeconds :: "MicroSeconds \<Rightarrow> MicroSeconds \<Rightarrow> bool" where
  "eq_MicroSeconds x y \<longleftrightarrow>
     True"

definition eq_NanoSeconds :: "NanoSeconds \<Rightarrow> NanoSeconds \<Rightarrow> bool" where
  "eq_NanoSeconds x y \<longleftrightarrow>
     True"

definition eq_TimeUnit :: "TimeUnit \<Rightarrow> TimeUnit \<Rightarrow> bool" where
  "eq_TimeUnit x y \<longleftrightarrow>
     rel_option eq_MilliSeconds (TimeUnit_MILLIS x) (TimeUnit_MILLIS y) \<and>
     rel_option eq_MicroSeconds (TimeUnit_MICROS x) (TimeUnit_MICROS y) \<and>
     rel_option eq_NanoSeconds (TimeUnit_NANOS x) (TimeUnit_NANOS y)"

definition eq_TimestampType :: "TimestampType \<Rightarrow> TimestampType \<Rightarrow> bool" where
  "eq_TimestampType x y \<longleftrightarrow>
     TimestampType_isAdjustedToUTC x = TimestampType_isAdjustedToUTC y \<and>
     eq_TimeUnit (TimestampType_unit x) (TimestampType_unit y)"

definition eq_TimeType :: "TimeType \<Rightarrow> TimeType \<Rightarrow> bool" where
  "eq_TimeType x y \<longleftrightarrow>
     TimeType_isAdjustedToUTC x = TimeType_isAdjustedToUTC y \<and>
     eq_TimeUnit (TimeType_unit x) (TimeType_unit y)"

definition eq_IntType :: "IntType \<Rightarrow> IntType \<Rightarrow> bool" where
  "eq_IntType x y \<longleftrightarrow>
     IntType_bitWidth x = IntType_bitWidth y \<and>
     IntType_isSigned x = IntType_isSigned y"

definition eq_JsonType :: "JsonType \<Rightarrow> JsonType \<Rightarrow> bool" where
  "eq_JsonType x y \<longleftrightarrow>
     True"

definition eq_BsonType :: "BsonType \<Rightarrow> BsonType \<Rightarrow> bool" where
  "eq_BsonType x y \<longleftrightarrow>
     True"

definition eq_VariantType :: "VariantType \<Rightarrow> VariantType \<Rightarrow> bool" where
  "eq_VariantType x y \<longleftrightarrow>
     VariantType_specification_version x = VariantType_specification_version y"

definition eq_GeometryType :: "GeometryType \<Rightarrow> GeometryType \<Rightarrow> bool" where
  "eq_GeometryType x y \<longleftrightarrow>
     GeometryType_crs x = GeometryType_crs y"

definition eq_GeographyType :: "GeographyType \<Rightarrow> GeographyType \<Rightarrow> bool" where
  "eq_GeographyType x y \<longleftrightarrow>
     GeographyType_crs x = GeographyType_crs y \<and>
     GeographyType_algorithm x = GeographyType_algorithm y"

definition eq_LogicalType :: "LogicalType \<Rightarrow> LogicalType \<Rightarrow> bool" where
  "eq_LogicalType x y \<longleftrightarrow>
     rel_option eq_StringType (LogicalType_STRING x) (LogicalType_STRING y) \<and>
     rel_option eq_MapType (LogicalType_MAP x) (LogicalType_MAP y) \<and>
     rel_option eq_ListType (LogicalType_LIST x) (LogicalType_LIST y) \<and>
     rel_option eq_EnumType (LogicalType_ENUM x) (LogicalType_ENUM y) \<and>
     rel_option eq_DecimalType (LogicalType_DECIMAL x) (LogicalType_DECIMAL y) \<and>
     rel_option eq_DateType (LogicalType_DATE x) (LogicalType_DATE y) \<and>
     rel_option eq_TimeType (LogicalType_TIME x) (LogicalType_TIME y) \<and>
     rel_option eq_TimestampType (LogicalType_TIMESTAMP x) (LogicalType_TIMESTAMP y) \<and>
     rel_option eq_IntType (LogicalType_INTEGER x) (LogicalType_INTEGER y) \<and>
     rel_option eq_NullType (LogicalType_UNKNOWN x) (LogicalType_UNKNOWN y) \<and>
     rel_option eq_JsonType (LogicalType_JSON x) (LogicalType_JSON y) \<and>
     rel_option eq_BsonType (LogicalType_BSON x) (LogicalType_BSON y) \<and>
     rel_option eq_UUIDType (LogicalType_UUID x) (LogicalType_UUID y) \<and>
     rel_option eq_Float16Type (LogicalType_FLOAT16 x) (LogicalType_FLOAT16 y) \<and>
     rel_option eq_VariantType (LogicalType_VARIANT x) (LogicalType_VARIANT y) \<and>
     rel_option eq_GeometryType (LogicalType_GEOMETRY x) (LogicalType_GEOMETRY y) \<and>
     rel_option eq_GeographyType (LogicalType_GEOGRAPHY x) (LogicalType_GEOGRAPHY y)"

definition eq_SchemaElement :: "SchemaElement \<Rightarrow> SchemaElement \<Rightarrow> bool" where
  "eq_SchemaElement x y \<longleftrightarrow>
     SchemaElement_type x = SchemaElement_type y \<and>
     SchemaElement_type_length x = SchemaElement_type_length y \<and>
     SchemaElement_repetition_type x = SchemaElement_repetition_type y \<and>
     SchemaElement_name x = SchemaElement_name y \<and>
     SchemaElement_num_children x = SchemaElement_num_children y \<and>
     SchemaElement_converted_type x = SchemaElement_converted_type y \<and>
     SchemaElement_scale x = SchemaElement_scale y \<and>
     SchemaElement_precision x = SchemaElement_precision y \<and>
     SchemaElement_field_id x = SchemaElement_field_id y \<and>
     rel_option eq_LogicalType (SchemaElement_logicalType x) (SchemaElement_logicalType y)"

definition eq_DataPageHeader :: "DataPageHeader \<Rightarrow> DataPageHeader \<Rightarrow> bool" where
  "eq_DataPageHeader x y \<longleftrightarrow>
     DataPageHeader_num_values x = DataPageHeader_num_values y \<and>
     DataPageHeader_encoding x = DataPageHeader_encoding y \<and>
     DataPageHeader_definition_level_encoding x = DataPageHeader_definition_level_encoding y \<and>
     DataPageHeader_repetition_level_encoding x = DataPageHeader_repetition_level_encoding y \<and>
     rel_option eq_Statistics (DataPageHeader_statistics x) (DataPageHeader_statistics y)"

definition eq_IndexPageHeader :: "IndexPageHeader \<Rightarrow> IndexPageHeader \<Rightarrow> bool" where
  "eq_IndexPageHeader x y \<longleftrightarrow>
     True"

definition eq_DictionaryPageHeader :: "DictionaryPageHeader \<Rightarrow> DictionaryPageHeader \<Rightarrow> bool" where
  "eq_DictionaryPageHeader x y \<longleftrightarrow>
     DictionaryPageHeader_num_values x = DictionaryPageHeader_num_values y \<and>
     DictionaryPageHeader_encoding x = DictionaryPageHeader_encoding y \<and>
     DictionaryPageHeader_is_sorted x = DictionaryPageHeader_is_sorted y"

definition eq_DataPageHeaderV2 :: "DataPageHeaderV2 \<Rightarrow> DataPageHeaderV2 \<Rightarrow> bool" where
  "eq_DataPageHeaderV2 x y \<longleftrightarrow>
     DataPageHeaderV2_num_values x = DataPageHeaderV2_num_values y \<and>
     DataPageHeaderV2_num_nulls x = DataPageHeaderV2_num_nulls y \<and>
     DataPageHeaderV2_num_rows x = DataPageHeaderV2_num_rows y \<and>
     DataPageHeaderV2_encoding x = DataPageHeaderV2_encoding y \<and>
     DataPageHeaderV2_definition_levels_byte_length x = DataPageHeaderV2_definition_levels_byte_length y \<and>
     DataPageHeaderV2_repetition_levels_byte_length x = DataPageHeaderV2_repetition_levels_byte_length y \<and>
     DataPageHeaderV2_is_compressed x = DataPageHeaderV2_is_compressed y \<and>
     rel_option eq_Statistics (DataPageHeaderV2_statistics x) (DataPageHeaderV2_statistics y)"

definition eq_SplitBlockAlgorithm :: "SplitBlockAlgorithm \<Rightarrow> SplitBlockAlgorithm \<Rightarrow> bool" where
  "eq_SplitBlockAlgorithm x y \<longleftrightarrow>
     True"

definition eq_BloomFilterAlgorithm :: "BloomFilterAlgorithm \<Rightarrow> BloomFilterAlgorithm \<Rightarrow> bool" where
  "eq_BloomFilterAlgorithm x y \<longleftrightarrow>
     rel_option eq_SplitBlockAlgorithm (BloomFilterAlgorithm_BLOCK x) (BloomFilterAlgorithm_BLOCK y)"

definition eq_XxHash :: "XxHash \<Rightarrow> XxHash \<Rightarrow> bool" where
  "eq_XxHash x y \<longleftrightarrow>
     True"

definition eq_BloomFilterHash :: "BloomFilterHash \<Rightarrow> BloomFilterHash \<Rightarrow> bool" where
  "eq_BloomFilterHash x y \<longleftrightarrow>
     rel_option eq_XxHash (BloomFilterHash_XXHASH x) (BloomFilterHash_XXHASH y)"

definition eq_Uncompressed :: "Uncompressed \<Rightarrow> Uncompressed \<Rightarrow> bool" where
  "eq_Uncompressed x y \<longleftrightarrow>
     True"

definition eq_BloomFilterCompression :: "BloomFilterCompression \<Rightarrow> BloomFilterCompression \<Rightarrow> bool" where
  "eq_BloomFilterCompression x y \<longleftrightarrow>
     rel_option eq_Uncompressed (BloomFilterCompression_UNCOMPRESSED x) (BloomFilterCompression_UNCOMPRESSED y)"

definition eq_BloomFilterHeader :: "BloomFilterHeader \<Rightarrow> BloomFilterHeader \<Rightarrow> bool" where
  "eq_BloomFilterHeader x y \<longleftrightarrow>
     BloomFilterHeader_numBytes x = BloomFilterHeader_numBytes y \<and>
     eq_BloomFilterAlgorithm (BloomFilterHeader_algorithm x) (BloomFilterHeader_algorithm y) \<and>
     eq_BloomFilterHash (BloomFilterHeader_hash x) (BloomFilterHeader_hash y) \<and>
     eq_BloomFilterCompression (BloomFilterHeader_compression x) (BloomFilterHeader_compression y)"

definition eq_PageHeader :: "PageHeader \<Rightarrow> PageHeader \<Rightarrow> bool" where
  "eq_PageHeader x y \<longleftrightarrow>
     PageHeader_type x = PageHeader_type y \<and>
     PageHeader_uncompressed_page_size x = PageHeader_uncompressed_page_size y \<and>
     PageHeader_compressed_page_size x = PageHeader_compressed_page_size y \<and>
     PageHeader_crc x = PageHeader_crc y \<and>
     rel_option eq_DataPageHeader (PageHeader_data_page_header x) (PageHeader_data_page_header y) \<and>
     rel_option eq_IndexPageHeader (PageHeader_index_page_header x) (PageHeader_index_page_header y) \<and>
     rel_option eq_DictionaryPageHeader (PageHeader_dictionary_page_header x) (PageHeader_dictionary_page_header y) \<and>
     rel_option eq_DataPageHeaderV2 (PageHeader_data_page_header_v2 x) (PageHeader_data_page_header_v2 y)"

definition eq_KeyValue :: "KeyValue \<Rightarrow> KeyValue \<Rightarrow> bool" where
  "eq_KeyValue x y \<longleftrightarrow>
     KeyValue_key x = KeyValue_key y \<and>
     KeyValue_value x = KeyValue_value y"

definition eq_SortingColumn :: "SortingColumn \<Rightarrow> SortingColumn \<Rightarrow> bool" where
  "eq_SortingColumn x y \<longleftrightarrow>
     SortingColumn_column_idx x = SortingColumn_column_idx y \<and>
     SortingColumn_descending x = SortingColumn_descending y \<and>
     SortingColumn_nulls_first x = SortingColumn_nulls_first y"

definition eq_PageEncodingStats :: "PageEncodingStats \<Rightarrow> PageEncodingStats \<Rightarrow> bool" where
  "eq_PageEncodingStats x y \<longleftrightarrow>
     PageEncodingStats_page_type x = PageEncodingStats_page_type y \<and>
     PageEncodingStats_encoding x = PageEncodingStats_encoding y \<and>
     PageEncodingStats_count x = PageEncodingStats_count y"

definition eq_ColumnMetaData :: "ColumnMetaData \<Rightarrow> ColumnMetaData \<Rightarrow> bool" where
  "eq_ColumnMetaData x y \<longleftrightarrow>
     ColumnMetaData_type x = ColumnMetaData_type y \<and>
     ColumnMetaData_encodings x = ColumnMetaData_encodings y \<and>
     ColumnMetaData_path_in_schema x = ColumnMetaData_path_in_schema y \<and>
     ColumnMetaData_codec x = ColumnMetaData_codec y \<and>
     ColumnMetaData_num_values x = ColumnMetaData_num_values y \<and>
     ColumnMetaData_total_uncompressed_size x = ColumnMetaData_total_uncompressed_size y \<and>
     ColumnMetaData_total_compressed_size x = ColumnMetaData_total_compressed_size y \<and>
     rel_option (list_all2 eq_KeyValue) (ColumnMetaData_key_value_metadata x) (ColumnMetaData_key_value_metadata y) \<and>
     ColumnMetaData_data_page_offset x = ColumnMetaData_data_page_offset y \<and>
     ColumnMetaData_index_page_offset x = ColumnMetaData_index_page_offset y \<and>
     ColumnMetaData_dictionary_page_offset x = ColumnMetaData_dictionary_page_offset y \<and>
     rel_option eq_Statistics (ColumnMetaData_statistics x) (ColumnMetaData_statistics y) \<and>
     rel_option (list_all2 eq_PageEncodingStats) (ColumnMetaData_encoding_stats x) (ColumnMetaData_encoding_stats y) \<and>
     ColumnMetaData_bloom_filter_offset x = ColumnMetaData_bloom_filter_offset y \<and>
     ColumnMetaData_bloom_filter_length x = ColumnMetaData_bloom_filter_length y \<and>
     rel_option eq_SizeStatistics (ColumnMetaData_size_statistics x) (ColumnMetaData_size_statistics y) \<and>
     rel_option eq_GeospatialStatistics (ColumnMetaData_geospatial_statistics x) (ColumnMetaData_geospatial_statistics y)"

definition eq_EncryptionWithFooterKey :: "EncryptionWithFooterKey \<Rightarrow> EncryptionWithFooterKey \<Rightarrow> bool" where
  "eq_EncryptionWithFooterKey x y \<longleftrightarrow>
     True"

definition eq_EncryptionWithColumnKey :: "EncryptionWithColumnKey \<Rightarrow> EncryptionWithColumnKey \<Rightarrow> bool" where
  "eq_EncryptionWithColumnKey x y \<longleftrightarrow>
     EncryptionWithColumnKey_path_in_schema x = EncryptionWithColumnKey_path_in_schema y \<and>
     EncryptionWithColumnKey_key_metadata x = EncryptionWithColumnKey_key_metadata y"

definition eq_ColumnCryptoMetaData :: "ColumnCryptoMetaData \<Rightarrow> ColumnCryptoMetaData \<Rightarrow> bool" where
  "eq_ColumnCryptoMetaData x y \<longleftrightarrow>
     rel_option eq_EncryptionWithFooterKey (ColumnCryptoMetaData_ENCRYPTION_WITH_FOOTER_KEY x) (ColumnCryptoMetaData_ENCRYPTION_WITH_FOOTER_KEY y) \<and>
     rel_option eq_EncryptionWithColumnKey (ColumnCryptoMetaData_ENCRYPTION_WITH_COLUMN_KEY x) (ColumnCryptoMetaData_ENCRYPTION_WITH_COLUMN_KEY y)"

definition eq_ColumnChunk :: "ColumnChunk \<Rightarrow> ColumnChunk \<Rightarrow> bool" where
  "eq_ColumnChunk x y \<longleftrightarrow>
     ColumnChunk_file_path x = ColumnChunk_file_path y \<and>
     ColumnChunk_file_offset x = ColumnChunk_file_offset y \<and>
     rel_option eq_ColumnMetaData (ColumnChunk_meta_data x) (ColumnChunk_meta_data y) \<and>
     ColumnChunk_offset_index_offset x = ColumnChunk_offset_index_offset y \<and>
     ColumnChunk_offset_index_length x = ColumnChunk_offset_index_length y \<and>
     ColumnChunk_column_index_offset x = ColumnChunk_column_index_offset y \<and>
     ColumnChunk_column_index_length x = ColumnChunk_column_index_length y \<and>
     rel_option eq_ColumnCryptoMetaData (ColumnChunk_crypto_metadata x) (ColumnChunk_crypto_metadata y) \<and>
     ColumnChunk_encrypted_column_metadata x = ColumnChunk_encrypted_column_metadata y"

definition eq_RowGroup :: "RowGroup \<Rightarrow> RowGroup \<Rightarrow> bool" where
  "eq_RowGroup x y \<longleftrightarrow>
     (list_all2 eq_ColumnChunk) (RowGroup_columns x) (RowGroup_columns y) \<and>
     RowGroup_total_byte_size x = RowGroup_total_byte_size y \<and>
     RowGroup_num_rows x = RowGroup_num_rows y \<and>
     rel_option (list_all2 eq_SortingColumn) (RowGroup_sorting_columns x) (RowGroup_sorting_columns y) \<and>
     RowGroup_file_offset x = RowGroup_file_offset y \<and>
     RowGroup_total_compressed_size x = RowGroup_total_compressed_size y \<and>
     RowGroup_ordinal x = RowGroup_ordinal y"

definition eq_TypeDefinedOrder :: "TypeDefinedOrder \<Rightarrow> TypeDefinedOrder \<Rightarrow> bool" where
  "eq_TypeDefinedOrder x y \<longleftrightarrow>
     True"

definition eq_ColumnOrder :: "ColumnOrder \<Rightarrow> ColumnOrder \<Rightarrow> bool" where
  "eq_ColumnOrder x y \<longleftrightarrow>
     rel_option eq_TypeDefinedOrder (ColumnOrder_TYPE_ORDER x) (ColumnOrder_TYPE_ORDER y)"

definition eq_PageLocation :: "PageLocation \<Rightarrow> PageLocation \<Rightarrow> bool" where
  "eq_PageLocation x y \<longleftrightarrow>
     PageLocation_offset x = PageLocation_offset y \<and>
     PageLocation_compressed_page_size x = PageLocation_compressed_page_size y \<and>
     PageLocation_first_row_index x = PageLocation_first_row_index y"

definition eq_OffsetIndex :: "OffsetIndex \<Rightarrow> OffsetIndex \<Rightarrow> bool" where
  "eq_OffsetIndex x y \<longleftrightarrow>
     (list_all2 eq_PageLocation) (OffsetIndex_page_locations x) (OffsetIndex_page_locations y) \<and>
     OffsetIndex_unencoded_byte_array_data_bytes x = OffsetIndex_unencoded_byte_array_data_bytes y"

definition eq_ColumnIndex :: "ColumnIndex \<Rightarrow> ColumnIndex \<Rightarrow> bool" where
  "eq_ColumnIndex x y \<longleftrightarrow>
     ColumnIndex_null_pages x = ColumnIndex_null_pages y \<and>
     ColumnIndex_min_values x = ColumnIndex_min_values y \<and>
     ColumnIndex_max_values x = ColumnIndex_max_values y \<and>
     ColumnIndex_boundary_order x = ColumnIndex_boundary_order y \<and>
     ColumnIndex_null_counts x = ColumnIndex_null_counts y \<and>
     ColumnIndex_repetition_level_histograms x = ColumnIndex_repetition_level_histograms y \<and>
     ColumnIndex_definition_level_histograms x = ColumnIndex_definition_level_histograms y"

definition eq_AesGcmV1 :: "AesGcmV1 \<Rightarrow> AesGcmV1 \<Rightarrow> bool" where
  "eq_AesGcmV1 x y \<longleftrightarrow>
     AesGcmV1_aad_prefix x = AesGcmV1_aad_prefix y \<and>
     AesGcmV1_aad_file_unique x = AesGcmV1_aad_file_unique y \<and>
     AesGcmV1_supply_aad_prefix x = AesGcmV1_supply_aad_prefix y"

definition eq_AesGcmCtrV1 :: "AesGcmCtrV1 \<Rightarrow> AesGcmCtrV1 \<Rightarrow> bool" where
  "eq_AesGcmCtrV1 x y \<longleftrightarrow>
     AesGcmCtrV1_aad_prefix x = AesGcmCtrV1_aad_prefix y \<and>
     AesGcmCtrV1_aad_file_unique x = AesGcmCtrV1_aad_file_unique y \<and>
     AesGcmCtrV1_supply_aad_prefix x = AesGcmCtrV1_supply_aad_prefix y"

definition eq_EncryptionAlgorithm :: "EncryptionAlgorithm \<Rightarrow> EncryptionAlgorithm \<Rightarrow> bool" where
  "eq_EncryptionAlgorithm x y \<longleftrightarrow>
     rel_option eq_AesGcmV1 (EncryptionAlgorithm_AES_GCM_V1 x) (EncryptionAlgorithm_AES_GCM_V1 y) \<and>
     rel_option eq_AesGcmCtrV1 (EncryptionAlgorithm_AES_GCM_CTR_V1 x) (EncryptionAlgorithm_AES_GCM_CTR_V1 y)"

definition eq_FileMetaData :: "FileMetaData \<Rightarrow> FileMetaData \<Rightarrow> bool" where
  "eq_FileMetaData x y \<longleftrightarrow>
     FileMetaData_version x = FileMetaData_version y \<and>
     (list_all2 eq_SchemaElement) (FileMetaData_schema x) (FileMetaData_schema y) \<and>
     FileMetaData_num_rows x = FileMetaData_num_rows y \<and>
     (list_all2 eq_RowGroup) (FileMetaData_row_groups x) (FileMetaData_row_groups y) \<and>
     rel_option (list_all2 eq_KeyValue) (FileMetaData_key_value_metadata x) (FileMetaData_key_value_metadata y) \<and>
     FileMetaData_created_by x = FileMetaData_created_by y \<and>
     rel_option (list_all2 eq_ColumnOrder) (FileMetaData_column_orders x) (FileMetaData_column_orders y) \<and>
     rel_option eq_EncryptionAlgorithm (FileMetaData_encryption_algorithm x) (FileMetaData_encryption_algorithm y) \<and>
     FileMetaData_footer_signing_key_metadata x = FileMetaData_footer_signing_key_metadata y"

definition eq_FileCryptoMetaData :: "FileCryptoMetaData \<Rightarrow> FileCryptoMetaData \<Rightarrow> bool" where
  "eq_FileCryptoMetaData x y \<longleftrightarrow>
     eq_EncryptionAlgorithm (FileCryptoMetaData_encryption_algorithm x) (FileCryptoMetaData_encryption_algorithm y) \<and>
     FileCryptoMetaData_key_metadata x = FileCryptoMetaData_key_metadata y"

section \<open>No member is forgotten\<close>

lemma copy_SizeStatistics [members]: "copy_SizeStatistics = id" "assign_SizeStatistics this other = other"
  by (simp_all add: members fun_eq_iff copy_SizeStatistics_def assign_SizeStatistics_def)

lemma swap_SizeStatistics [members]: "swap_SizeStatistics (a, b) = (b, a)"
  by simp

lemma copy_BoundingBox [members]: "copy_BoundingBox = id" "assign_BoundingBox this other = other"
  by (simp_all add: members fun_eq_iff copy_BoundingBox_def assign_BoundingBox_def)

lemma swap_BoundingBox [members]: "swap_BoundingBox (a, b) = (b, a)"
  by simp

lemma copy_GeospatialStatistics [members]: "copy_GeospatialStatistics = id" "assign_GeospatialStatistics this other = other"
  by (simp_all add: members fun_eq_iff copy_GeospatialStatistics_def assign_GeospatialStatistics_def)

lemma swap_GeospatialStatistics [members]: "swap_GeospatialStatistics (a, b) = (b, a)"
  by simp

lemma copy_Statistics [members]: "copy_Statistics = id" "assign_Statistics this other = other"
  by (simp_all add: members fun_eq_iff copy_Statistics_def assign_Statistics_def)

lemma swap_Statistics [members]: "swap_Statistics (a, b) = (b, a)"
  by simp

lemma copy_StringType [members]: "copy_StringType = id" "assign_StringType this other = other"
  by (metis StringType.exhaust ext copy_StringType_def id_apply) (metis StringType.exhaust)

lemma swap_StringType [members]: "swap_StringType (a, b) = (b, a)"
  by (cases a; cases b) (simp add: swap_StringType_def)

lemma copy_UUIDType [members]: "copy_UUIDType = id" "assign_UUIDType this other = other"
  by (metis UUIDType.exhaust ext copy_UUIDType_def id_apply) (metis UUIDType.exhaust)

lemma swap_UUIDType [members]: "swap_UUIDType (a, b) = (b, a)"
  by (cases a; cases b) (simp add: swap_UUIDType_def)

lemma copy_MapType [members]: "copy_MapType = id" "assign_MapType this other = other"
  by (metis MapType.exhaust ext copy_MapType_def id_apply) (metis MapType.exhaust)

lemma swap_MapType [members]: "swap_MapType (a, b) = (b, a)"
  by (cases a; cases b) (simp add: swap_MapType_def)

lemma copy_ListType [members]: "copy_ListType = id" "assign_ListType this other = other"
  by (metis ListType.exhaust ext copy_ListType_def id_apply) (metis ListType.exhaust)

lemma swap_ListType [members]: "swap_ListType (a, b) = (b, a)"
  by (cases a; cases b) (simp add: swap_ListType_def)

lemma copy_EnumType [members]: "copy_EnumType = id" "assign_EnumType this other = other"
  by (metis EnumType.exhaust ext copy_EnumType_def id_apply) (metis EnumType.exhaust)

lemma swap_EnumType [members]: "swap_EnumType (a, b) = (b, a)"
  by (cases a; cases b) (simp add: swap_EnumType_def)

lemma copy_DateType [members]: "copy_DateType = id" "assign_DateType this other = other"
  by (metis DateType.exhaust ext copy_DateType_def id_apply) (metis DateType.exhaust)

lemma swap_DateType [members]: "swap_DateType (a, b) = (b, a)"
  by (cases a; cases b) (simp add: swap_DateType_def)

lemma copy_Float16Type [members]: "copy_Float16Type = id" "assign_Float16Type this other = other"
  by (metis Float16Type.exhaust ext copy_Float16Type_def id_apply) (metis Float16Type.exhaust)

lemma swap_Float16Type [members]: "swap_Float16Type (a, b) = (b, a)"
  by (cases a; cases b) (simp add: swap_Float16Type_def)

lemma copy_NullType [members]: "copy_NullType = id" "assign_NullType this other = other"
  by (metis NullType.exhaust ext copy_NullType_def id_apply) (metis NullType.exhaust)

lemma swap_NullType [members]: "swap_NullType (a, b) = (b, a)"
  by (cases a; cases b) (simp add: swap_NullType_def)

lemma copy_DecimalType [members]: "copy_DecimalType = id" "assign_DecimalType this other = other"
  by (simp_all add: members fun_eq_iff copy_DecimalType_def assign_DecimalType_def)

lemma swap_DecimalType [members]: "swap_DecimalType (a, b) = (b, a)"
  by simp

lemma copy_MilliSeconds [members]: "copy_MilliSeconds = id" "assign_MilliSeconds this other = other"
  by (metis MilliSeconds.exhaust ext copy_MilliSeconds_def id_apply) (metis MilliSeconds.exhaust)

lemma swap_MilliSeconds [members]: "swap_MilliSeconds (a, b) = (b, a)"
  by (cases a; cases b) (simp add: swap_MilliSeconds_def)

lemma copy_MicroSeconds [members]: "copy_MicroSeconds = id" "assign_MicroSeconds this other = other"
  by (metis MicroSeconds.exhaust ext copy_MicroSeconds_def id_apply) (metis MicroSeconds.exhaust)

lemma swap_MicroSeconds [members]: "swap_MicroSeconds (a, b) = (b, a)"
  by (cases a; cases b) (simp add: swap_MicroSeconds_def)

lemma copy_NanoSeconds [members]: "copy_NanoSeconds = id" "assign_NanoSeconds this other = other"
  by (metis NanoSeconds.exhaust ext copy_NanoSeconds_def id_apply) (metis NanoSeconds.exhaust)

lemma swap_NanoSeconds [members]: "swap_NanoSeconds (a, b) = (b, a)"
  by (cases a; cases b) (simp add: swap_NanoSeconds_def)

lemma copy_TimeUnit [members]: "copy_TimeUnit = id" "assign_TimeUnit this other = other"
  by (simp_all add: members fun_eq_iff copy_TimeUnit_def assign_TimeUnit_def)

lemma swap_TimeUnit [members]: "swap_TimeUnit (a, b) = (b, a)"
  by simp

lemma copy_TimestampType [members]: "copy_TimestampType = id" "assign_TimestampType this other = other"
  by (simp_all add: members fun_eq_iff copy_TimestampType_def assign_TimestampType_def)

lemma swap_TimestampType [members]: "swap_TimestampType (a, b) = (b, a)"
  by simp

lemma copy_TimeType [members]: "copy_TimeType = id" "assign_TimeType this other = other"
  by (simp_all add: members fun_eq_iff copy_TimeType_def assign_TimeType_def)

lemma swap_TimeType [members]: "swap_TimeType (a, b) = (b, a)"
  by simp

lemma copy_IntType [members]: "copy_IntType = id" "assign_IntType this other = other"
  by (simp_all add: members fun_eq_iff copy_IntType_def assign_IntType_def)

lemma swap_IntType [members]: "swap_IntType (a, b) = (b, a)"
  by simp

lemma copy_JsonType [members]: "copy_JsonType = id" "assign_JsonType this other = other"
  by (metis JsonType.exhaust ext copy_JsonType_def id_apply) (metis JsonType.exhaust)

lemma swap_JsonType [members]: "swap_JsonType (a, b) = (b, a)"
  by (cases a; cases b) (simp add: swap_JsonType_def)

lemma copy_BsonType [members]: "copy_BsonType = id" "assign_BsonType this other = other"
  by (metis BsonType.exhaust ext copy_BsonType_def id_apply) (metis BsonType.exhaust)

lemma swap_BsonType [members]: "swap_BsonType (a, b) = (b, a)"
  by (cases a; cases b) (simp add: swap_BsonType_def)

lemma copy_VariantType [members]: "copy_VariantType = id" "assign_VariantType this other = other"
  by (simp_all add: members fun_eq_iff copy_VariantType_def assign_VariantType_def)

lemma swap_VariantType [members]: "swap_VariantType (a, b) = (b, a)"
  by simp

lemma copy_GeometryType [members]: "copy_GeometryType = id" "assign_GeometryType this other = other"
  by (simp_all add: members fun_eq_iff copy_GeometryType_def assign_GeometryType_def)

lemma swap_GeometryType [members]: "swap_GeometryType (a, b) = (b, a)"
  by simp

lemma copy_GeographyType [members]: "copy_GeographyType = id" "assign_GeographyType this other = other"
  by (simp_all add: members fun_eq_iff copy_GeographyType_def assign_GeographyType_def)

lemma swap_GeographyType [members]: "swap_GeographyType (a, b) = (b, a)"
  by simp

lemma copy_LogicalType [members]: "copy_LogicalType = id" "assign_LogicalType this other = other"
  by (simp_all add: members fun_eq_iff copy_LogicalType_def assign_LogicalType_def)

lemma swap_LogicalType [members]: "swap_LogicalType (a, b) = (b, a)"
  by simp

lemma copy_SchemaElement [members]: "copy_SchemaElement = id" "assign_SchemaElement this other = other"
  by (simp_all add: members fun_eq_iff copy_SchemaElement_def assign_SchemaElement_def)

lemma swap_SchemaElement [members]: "swap_SchemaElement (a, b) = (b, a)"
  by simp

lemma copy_DataPageHeader [members]: "copy_DataPageHeader = id" "assign_DataPageHeader this other = other"
  by (simp_all add: members fun_eq_iff copy_DataPageHeader_def assign_DataPageHeader_def)

lemma swap_DataPageHeader [members]: "swap_DataPageHeader (a, b) = (b, a)"
  by simp

lemma copy_IndexPageHeader [members]: "copy_IndexPageHeader = id" "assign_IndexPageHeader this other = other"
  by (metis IndexPageHeader.exhaust ext copy_IndexPageHeader_def id_apply) (metis IndexPageHeader.exhaust)

lemma swap_IndexPageHeader [members]: "swap_IndexPageHeader (a, b) = (b, a)"
  by (cases a; cases b) (simp add: swap_IndexPageHeader_def)

lemma copy_DictionaryPageHeader [members]: "copy_DictionaryPageHeader = id" "assign_DictionaryPageHeader this other = other"
  by (simp_all add: members fun_eq_iff copy_DictionaryPageHeader_def assign_DictionaryPageHeader_def)

lemma swap_DictionaryPageHeader [members]: "swap_DictionaryPageHeader (a, b) = (b, a)"
  by simp

lemma copy_DataPageHeaderV2 [members]: "copy_DataPageHeaderV2 = id" "assign_DataPageHeaderV2 this other = other"
  by (simp_all add: members fun_eq_iff copy_DataPageHeaderV2_def assign_DataPageHeaderV2_def)

lemma swap_DataPageHeaderV2 [members]: "swap_DataPageHeaderV2 (a, b) = (b, a)"
  by simp

lemma copy_SplitBlockAlgorithm [members]: "copy_SplitBlockAlgorithm = id" "assign_SplitBlockAlgorithm this other = other"
  by (metis SplitBlockAlgorithm.exhaust ext copy_SplitBlockAlgorithm_def id_apply) (metis SplitBlockAlgorithm.exhaust)

lemma swap_SplitBlockAlgorithm [members]: "swap_SplitBlockAlgorithm (a, b) = (b, a)"
  by (cases a; cases b) (simp add: swap_SplitBlockAlgorithm_def)

lemma copy_BloomFilterAlgorithm [members]: "copy_BloomFilterAlgorithm = id" "assign_BloomFilterAlgorithm this other = other"
  by (simp_all add: members fun_eq_iff copy_BloomFilterAlgorithm_def assign_BloomFilterAlgorithm_def)

lemma swap_BloomFilterAlgorithm [members]: "swap_BloomFilterAlgorithm (a, b) = (b, a)"
  by simp

lemma copy_XxHash [members]: "copy_XxHash = id" "assign_XxHash this other = other"
  by (metis XxHash.exhaust ext copy_XxHash_def id_apply) (metis XxHash.exhaust)

lemma swap_XxHash [members]: "swap_XxHash (a, b) = (b, a)"
  by (cases a; cases b) (simp add: swap_XxHash_def)

lemma copy_BloomFilterHash [members]: "copy_BloomFilterHash = id" "assign_BloomFilterHash this other = other"
  by (simp_all add: members fun_eq_iff copy_BloomFilterHash_def assign_BloomFilterHash_def)

lemma swap_BloomFilterHash [members]: "swap_BloomFilterHash (a, b) = (b, a)"
  by simp

lemma copy_Uncompressed [members]: "copy_Uncompressed = id" "assign_Uncompressed this other = other"
  by (metis Uncompressed.exhaust ext copy_Uncompressed_def id_apply) (metis Uncompressed.exhaust)

lemma swap_Uncompressed [members]: "swap_Uncompressed (a, b) = (b, a)"
  by (cases a; cases b) (simp add: swap_Uncompressed_def)

lemma copy_BloomFilterCompression [members]: "copy_BloomFilterCompression = id" "assign_BloomFilterCompression this other = other"
  by (simp_all add: members fun_eq_iff copy_BloomFilterCompression_def assign_BloomFilterCompression_def)

lemma swap_BloomFilterCompression [members]: "swap_BloomFilterCompression (a, b) = (b, a)"
  by simp

lemma copy_BloomFilterHeader [members]: "copy_BloomFilterHeader = id" "assign_BloomFilterHeader this other = other"
  by (simp_all add: members fun_eq_iff copy_BloomFilterHeader_def assign_BloomFilterHeader_def)

lemma swap_BloomFilterHeader [members]: "swap_BloomFilterHeader (a, b) = (b, a)"
  by simp

lemma copy_PageHeader [members]: "copy_PageHeader = id" "assign_PageHeader this other = other"
  by (simp_all add: members fun_eq_iff copy_PageHeader_def assign_PageHeader_def)

lemma swap_PageHeader [members]: "swap_PageHeader (a, b) = (b, a)"
  by simp

lemma copy_KeyValue [members]: "copy_KeyValue = id" "assign_KeyValue this other = other"
  by (simp_all add: members fun_eq_iff copy_KeyValue_def assign_KeyValue_def)

lemma swap_KeyValue [members]: "swap_KeyValue (a, b) = (b, a)"
  by simp

lemma copy_SortingColumn [members]: "copy_SortingColumn = id" "assign_SortingColumn this other = other"
  by (simp_all add: members fun_eq_iff copy_SortingColumn_def assign_SortingColumn_def)

lemma swap_SortingColumn [members]: "swap_SortingColumn (a, b) = (b, a)"
  by simp

lemma copy_PageEncodingStats [members]: "copy_PageEncodingStats = id" "assign_PageEncodingStats this other = other"
  by (simp_all add: members fun_eq_iff copy_PageEncodingStats_def assign_PageEncodingStats_def)

lemma swap_PageEncodingStats [members]: "swap_PageEncodingStats (a, b) = (b, a)"
  by simp

lemma copy_ColumnMetaData [members]: "copy_ColumnMetaData = id" "assign_ColumnMetaData this other = other"
  by (simp_all add: members fun_eq_iff copy_ColumnMetaData_def assign_ColumnMetaData_def)

lemma swap_ColumnMetaData [members]: "swap_ColumnMetaData (a, b) = (b, a)"
  by simp

lemma copy_EncryptionWithFooterKey [members]: "copy_EncryptionWithFooterKey = id" "assign_EncryptionWithFooterKey this other = other"
  by (metis EncryptionWithFooterKey.exhaust ext copy_EncryptionWithFooterKey_def id_apply) (metis EncryptionWithFooterKey.exhaust)

lemma swap_EncryptionWithFooterKey [members]: "swap_EncryptionWithFooterKey (a, b) = (b, a)"
  by (cases a; cases b) (simp add: swap_EncryptionWithFooterKey_def)

lemma copy_EncryptionWithColumnKey [members]: "copy_EncryptionWithColumnKey = id" "assign_EncryptionWithColumnKey this other = other"
  by (simp_all add: members fun_eq_iff copy_EncryptionWithColumnKey_def assign_EncryptionWithColumnKey_def)

lemma swap_EncryptionWithColumnKey [members]: "swap_EncryptionWithColumnKey (a, b) = (b, a)"
  by simp

lemma copy_ColumnCryptoMetaData [members]: "copy_ColumnCryptoMetaData = id" "assign_ColumnCryptoMetaData this other = other"
  by (simp_all add: members fun_eq_iff copy_ColumnCryptoMetaData_def assign_ColumnCryptoMetaData_def)

lemma swap_ColumnCryptoMetaData [members]: "swap_ColumnCryptoMetaData (a, b) = (b, a)"
  by simp

lemma copy_ColumnChunk [members]: "copy_ColumnChunk = id" "assign_ColumnChunk this other = other"
  by (simp_all add: members fun_eq_iff copy_ColumnChunk_def assign_ColumnChunk_def)

lemma swap_ColumnChunk [members]: "swap_ColumnChunk (a, b) = (b, a)"
  by simp

lemma copy_RowGroup [members]: "copy_RowGroup = id" "assign_RowGroup this other = other"
  by (simp_all add: members fun_eq_iff copy_RowGroup_def assign_RowGroup_def)

lemma swap_RowGroup [members]: "swap_RowGroup (a, b) = (b, a)"
  by simp

lemma copy_TypeDefinedOrder [members]: "copy_TypeDefinedOrder = id" "assign_TypeDefinedOrder this other = other"
  by (metis TypeDefinedOrder.exhaust ext copy_TypeDefinedOrder_def id_apply) (metis TypeDefinedOrder.exhaust)

lemma swap_TypeDefinedOrder [members]: "swap_TypeDefinedOrder (a, b) = (b, a)"
  by (cases a; cases b) (simp add: swap_TypeDefinedOrder_def)

lemma copy_ColumnOrder [members]: "copy_ColumnOrder = id" "assign_ColumnOrder this other = other"
  by (simp_all add: members fun_eq_iff copy_ColumnOrder_def assign_ColumnOrder_def)

lemma swap_ColumnOrder [members]: "swap_ColumnOrder (a, b) = (b, a)"
  by simp

lemma copy_PageLocation [members]: "copy_PageLocation = id" "assign_PageLocation this other = other"
  by (simp_all add: members fun_eq_iff copy_PageLocation_def assign_PageLocation_def)

lemma swap_PageLocation [members]: "swap_PageLocation (a, b) = (b, a)"
  by simp

lemma copy_OffsetIndex [members]: "copy_OffsetIndex = id" "assign_OffsetIndex this other = other"
  by (simp_all add: members fun_eq_iff copy_OffsetIndex_def assign_OffsetIndex_def)

lemma swap_OffsetIndex [members]: "swap_OffsetIndex (a, b) = (b, a)"
  by simp

lemma copy_ColumnIndex [members]: "copy_ColumnIndex = id" "assign_ColumnIndex this other = other"
  by (simp_all add: members fun_eq_iff copy_ColumnIndex_def assign_ColumnIndex_def)

lemma swap_ColumnIndex [members]: "swap_ColumnIndex (a, b) = (b, a)"
  by simp

lemma copy_AesGcmV1 [members]: "copy_AesGcmV1 = id" "assign_AesGcmV1 this other = other"
  by (simp_all add: members fun_eq_iff copy_AesGcmV1_def assign_AesGcmV1_def)

lemma swap_AesGcmV1 [members]: "swap_AesGcmV1 (a, b) = (b, a)"
  by simp

lemma copy_AesGcmCtrV1 [members]: "copy_AesGcmCtrV1 = id" "assign_AesGcmCtrV1 this other = other"
  by (simp_all add: members fun_eq_iff copy_AesGcmCtrV1_def assign_AesGcmCtrV1_def)

lemma swap_AesGcmCtrV1 [members]: "swap_AesGcmCtrV1 (a, b) = (b, a)"
  by simp

lemma copy_EncryptionAlgorithm [members]: "copy_EncryptionAlgorithm = id" "assign_EncryptionAlgorithm this other = other"
  by (simp_all add: members fun_eq_iff copy_EncryptionAlgorithm_def assign_EncryptionAlgorithm_def)

lemma swap_EncryptionAlgorithm [members]: "swap_EncryptionAlgorithm (a, b) = (b, a)"
  by simp

lemma copy_FileMetaData [members]: "copy_FileMetaData = id" "assign_FileMetaData this other = other"
  by (simp_all add: members fun_eq_iff copy_FileMetaData_def assign_FileMetaData_def)

lemma swap_FileMetaData [members]: "swap_FileMetaData (a, b) = (b, a)"
  by simp

lemma copy_FileCryptoMetaData [members]: "copy_FileCryptoMetaData = id" "assign_FileCryptoMetaData this other = other"
  by (simp_all add: members fun_eq_iff copy_FileCryptoMetaData_def assign_FileCryptoMetaData_def)

lemma swap_FileCryptoMetaData [members]: "swap_FileCryptoMetaData (a, b) = (b, a)"
  by simp

text \<open>Numbers that compare like their bits, and objects whose numbers do.\<close>

definition exact_double :: "u64 \<Rightarrow> bool" where
  "exact_double x \<longleftrightarrow> \<not> is_nan x \<and> \<not> is_zero x"

lemma exact_double: "exact_double x \<Longrightarrow> eq_double x y \<longleftrightarrow> x = y"
  by (auto simp: exact_double_def eq_double_def)

lemma rel_option_exact:
  "(\<And>x y. P x \<Longrightarrow> eq x y \<longleftrightarrow> x = y) \<Longrightarrow> pred_option P a \<Longrightarrow> rel_option eq a b \<longleftrightarrow> a = b"
  by (cases a; cases b) auto

lemma list_all2_exact:
  "(\<And>x y. P x \<Longrightarrow> eq x y \<longleftrightarrow> x = y) \<Longrightarrow> list_all P xs \<Longrightarrow> list_all2 eq xs ys \<longleftrightarrow> xs = ys"
  by (induction xs arbitrary: ys) (auto simp: list_all2_Cons1)

definition exact_BoundingBox :: "BoundingBox \<Rightarrow> bool" where
  "exact_BoundingBox x \<longleftrightarrow>
     exact_double (BoundingBox_xmin x) \<and>
     exact_double (BoundingBox_xmax x) \<and>
     exact_double (BoundingBox_ymin x) \<and>
     exact_double (BoundingBox_ymax x) \<and>
     pred_option exact_double (BoundingBox_zmin x) \<and>
     pred_option exact_double (BoundingBox_zmax x) \<and>
     pred_option exact_double (BoundingBox_mmin x) \<and>
     pred_option exact_double (BoundingBox_mmax x)"

definition exact_GeospatialStatistics :: "GeospatialStatistics \<Rightarrow> bool" where
  "exact_GeospatialStatistics x \<longleftrightarrow>
     pred_option exact_BoundingBox (GeospatialStatistics_bbox x)"

definition exact_ColumnMetaData :: "ColumnMetaData \<Rightarrow> bool" where
  "exact_ColumnMetaData x \<longleftrightarrow>
     pred_option exact_GeospatialStatistics (ColumnMetaData_geospatial_statistics x)"

definition exact_ColumnChunk :: "ColumnChunk \<Rightarrow> bool" where
  "exact_ColumnChunk x \<longleftrightarrow>
     pred_option exact_ColumnMetaData (ColumnChunk_meta_data x)"

definition exact_RowGroup :: "RowGroup \<Rightarrow> bool" where
  "exact_RowGroup x \<longleftrightarrow>
     list_all exact_ColumnChunk (RowGroup_columns x)"

definition exact_FileMetaData :: "FileMetaData \<Rightarrow> bool" where
  "exact_FileMetaData x \<longleftrightarrow>
     list_all exact_RowGroup (FileMetaData_row_groups x)"

lemma eq_SizeStatistics [members]: "eq_SizeStatistics = (=)"
  by (auto simp: members fun_eq_iff eq_SizeStatistics_def)

lemma exact_BoundingBox: "exact_BoundingBox x \<Longrightarrow> eq_BoundingBox x y \<longleftrightarrow> x = y"
  by (auto simp: members exact_BoundingBox_def eq_BoundingBox_def exact_double
      rel_option_exact [of exact_double] )

lemma exact_GeospatialStatistics: "exact_GeospatialStatistics x \<Longrightarrow> eq_GeospatialStatistics x y \<longleftrightarrow> x = y"
  by (auto simp: members exact_GeospatialStatistics_def eq_GeospatialStatistics_def exact_double exact_BoundingBox
      rel_option_exact [of exact_double] rel_option_exact [of exact_BoundingBox, OF exact_BoundingBox] list_all2_exact [of exact_BoundingBox, OF exact_BoundingBox])

lemma eq_Statistics [members]: "eq_Statistics = (=)"
  by (auto simp: members fun_eq_iff eq_Statistics_def)

lemma eq_StringType [members]: "eq_StringType = (=)"
  by (intro ext) (metis eq_StringType_def StringType.exhaust)

lemma eq_UUIDType [members]: "eq_UUIDType = (=)"
  by (intro ext) (metis eq_UUIDType_def UUIDType.exhaust)

lemma eq_MapType [members]: "eq_MapType = (=)"
  by (intro ext) (metis eq_MapType_def MapType.exhaust)

lemma eq_ListType [members]: "eq_ListType = (=)"
  by (intro ext) (metis eq_ListType_def ListType.exhaust)

lemma eq_EnumType [members]: "eq_EnumType = (=)"
  by (intro ext) (metis eq_EnumType_def EnumType.exhaust)

lemma eq_DateType [members]: "eq_DateType = (=)"
  by (intro ext) (metis eq_DateType_def DateType.exhaust)

lemma eq_Float16Type [members]: "eq_Float16Type = (=)"
  by (intro ext) (metis eq_Float16Type_def Float16Type.exhaust)

lemma eq_NullType [members]: "eq_NullType = (=)"
  by (intro ext) (metis eq_NullType_def NullType.exhaust)

lemma eq_DecimalType [members]: "eq_DecimalType = (=)"
  by (auto simp: members fun_eq_iff eq_DecimalType_def)

lemma eq_MilliSeconds [members]: "eq_MilliSeconds = (=)"
  by (intro ext) (metis eq_MilliSeconds_def MilliSeconds.exhaust)

lemma eq_MicroSeconds [members]: "eq_MicroSeconds = (=)"
  by (intro ext) (metis eq_MicroSeconds_def MicroSeconds.exhaust)

lemma eq_NanoSeconds [members]: "eq_NanoSeconds = (=)"
  by (intro ext) (metis eq_NanoSeconds_def NanoSeconds.exhaust)

lemma eq_TimeUnit [members]: "eq_TimeUnit = (=)"
  by (auto simp: members fun_eq_iff eq_TimeUnit_def)

lemma eq_TimestampType [members]: "eq_TimestampType = (=)"
  by (auto simp: members fun_eq_iff eq_TimestampType_def)

lemma eq_TimeType [members]: "eq_TimeType = (=)"
  by (auto simp: members fun_eq_iff eq_TimeType_def)

lemma eq_IntType [members]: "eq_IntType = (=)"
  by (auto simp: members fun_eq_iff eq_IntType_def)

lemma eq_JsonType [members]: "eq_JsonType = (=)"
  by (intro ext) (metis eq_JsonType_def JsonType.exhaust)

lemma eq_BsonType [members]: "eq_BsonType = (=)"
  by (intro ext) (metis eq_BsonType_def BsonType.exhaust)

lemma eq_VariantType [members]: "eq_VariantType = (=)"
  by (auto simp: members fun_eq_iff eq_VariantType_def)

lemma eq_GeometryType [members]: "eq_GeometryType = (=)"
  by (auto simp: members fun_eq_iff eq_GeometryType_def)

lemma eq_GeographyType [members]: "eq_GeographyType = (=)"
  by (auto simp: members fun_eq_iff eq_GeographyType_def)

lemma eq_LogicalType [members]: "eq_LogicalType = (=)"
  by (auto simp: members fun_eq_iff eq_LogicalType_def)

lemma eq_SchemaElement [members]: "eq_SchemaElement = (=)"
  by (auto simp: members fun_eq_iff eq_SchemaElement_def)

lemma eq_DataPageHeader [members]: "eq_DataPageHeader = (=)"
  by (auto simp: members fun_eq_iff eq_DataPageHeader_def)

lemma eq_IndexPageHeader [members]: "eq_IndexPageHeader = (=)"
  by (intro ext) (metis eq_IndexPageHeader_def IndexPageHeader.exhaust)

lemma eq_DictionaryPageHeader [members]: "eq_DictionaryPageHeader = (=)"
  by (auto simp: members fun_eq_iff eq_DictionaryPageHeader_def)

lemma eq_DataPageHeaderV2 [members]: "eq_DataPageHeaderV2 = (=)"
  by (auto simp: members fun_eq_iff eq_DataPageHeaderV2_def)

lemma eq_SplitBlockAlgorithm [members]: "eq_SplitBlockAlgorithm = (=)"
  by (intro ext) (metis eq_SplitBlockAlgorithm_def SplitBlockAlgorithm.exhaust)

lemma eq_BloomFilterAlgorithm [members]: "eq_BloomFilterAlgorithm = (=)"
  by (auto simp: members fun_eq_iff eq_BloomFilterAlgorithm_def)

lemma eq_XxHash [members]: "eq_XxHash = (=)"
  by (intro ext) (metis eq_XxHash_def XxHash.exhaust)

lemma eq_BloomFilterHash [members]: "eq_BloomFilterHash = (=)"
  by (auto simp: members fun_eq_iff eq_BloomFilterHash_def)

lemma eq_Uncompressed [members]: "eq_Uncompressed = (=)"
  by (intro ext) (metis eq_Uncompressed_def Uncompressed.exhaust)

lemma eq_BloomFilterCompression [members]: "eq_BloomFilterCompression = (=)"
  by (auto simp: members fun_eq_iff eq_BloomFilterCompression_def)

lemma eq_BloomFilterHeader [members]: "eq_BloomFilterHeader = (=)"
  by (auto simp: members fun_eq_iff eq_BloomFilterHeader_def)

lemma eq_PageHeader [members]: "eq_PageHeader = (=)"
  by (auto simp: members fun_eq_iff eq_PageHeader_def)

lemma eq_KeyValue [members]: "eq_KeyValue = (=)"
  by (auto simp: members fun_eq_iff eq_KeyValue_def)

lemma eq_SortingColumn [members]: "eq_SortingColumn = (=)"
  by (auto simp: members fun_eq_iff eq_SortingColumn_def)

lemma eq_PageEncodingStats [members]: "eq_PageEncodingStats = (=)"
  by (auto simp: members fun_eq_iff eq_PageEncodingStats_def)

lemma exact_ColumnMetaData: "exact_ColumnMetaData x \<Longrightarrow> eq_ColumnMetaData x y \<longleftrightarrow> x = y"
  by (auto simp: members exact_ColumnMetaData_def eq_ColumnMetaData_def exact_double exact_GeospatialStatistics
      rel_option_exact [of exact_double] rel_option_exact [of exact_GeospatialStatistics, OF exact_GeospatialStatistics] list_all2_exact [of exact_GeospatialStatistics, OF exact_GeospatialStatistics])

lemma eq_EncryptionWithFooterKey [members]: "eq_EncryptionWithFooterKey = (=)"
  by (intro ext) (metis eq_EncryptionWithFooterKey_def EncryptionWithFooterKey.exhaust)

lemma eq_EncryptionWithColumnKey [members]: "eq_EncryptionWithColumnKey = (=)"
  by (auto simp: members fun_eq_iff eq_EncryptionWithColumnKey_def)

lemma eq_ColumnCryptoMetaData [members]: "eq_ColumnCryptoMetaData = (=)"
  by (auto simp: members fun_eq_iff eq_ColumnCryptoMetaData_def)

lemma exact_ColumnChunk: "exact_ColumnChunk x \<Longrightarrow> eq_ColumnChunk x y \<longleftrightarrow> x = y"
  by (auto simp: members exact_ColumnChunk_def eq_ColumnChunk_def exact_double exact_ColumnMetaData
      rel_option_exact [of exact_double] rel_option_exact [of exact_ColumnMetaData, OF exact_ColumnMetaData] list_all2_exact [of exact_ColumnMetaData, OF exact_ColumnMetaData])

lemma exact_RowGroup: "exact_RowGroup x \<Longrightarrow> eq_RowGroup x y \<longleftrightarrow> x = y"
  by (auto simp: members exact_RowGroup_def eq_RowGroup_def exact_double exact_ColumnChunk
      rel_option_exact [of exact_double] rel_option_exact [of exact_ColumnChunk, OF exact_ColumnChunk] list_all2_exact [of exact_ColumnChunk, OF exact_ColumnChunk])

lemma eq_TypeDefinedOrder [members]: "eq_TypeDefinedOrder = (=)"
  by (intro ext) (metis eq_TypeDefinedOrder_def TypeDefinedOrder.exhaust)

lemma eq_ColumnOrder [members]: "eq_ColumnOrder = (=)"
  by (auto simp: members fun_eq_iff eq_ColumnOrder_def)

lemma eq_PageLocation [members]: "eq_PageLocation = (=)"
  by (auto simp: members fun_eq_iff eq_PageLocation_def)

lemma eq_OffsetIndex [members]: "eq_OffsetIndex = (=)"
  by (auto simp: members fun_eq_iff eq_OffsetIndex_def)

lemma eq_ColumnIndex [members]: "eq_ColumnIndex = (=)"
  by (auto simp: members fun_eq_iff eq_ColumnIndex_def)

lemma eq_AesGcmV1 [members]: "eq_AesGcmV1 = (=)"
  by (auto simp: members fun_eq_iff eq_AesGcmV1_def)

lemma eq_AesGcmCtrV1 [members]: "eq_AesGcmCtrV1 = (=)"
  by (auto simp: members fun_eq_iff eq_AesGcmCtrV1_def)

lemma eq_EncryptionAlgorithm [members]: "eq_EncryptionAlgorithm = (=)"
  by (auto simp: members fun_eq_iff eq_EncryptionAlgorithm_def)

lemma exact_FileMetaData: "exact_FileMetaData x \<Longrightarrow> eq_FileMetaData x y \<longleftrightarrow> x = y"
  by (auto simp: members exact_FileMetaData_def eq_FileMetaData_def exact_double exact_RowGroup
      rel_option_exact [of exact_double] rel_option_exact [of exact_RowGroup, OF exact_RowGroup] list_all2_exact [of exact_RowGroup, OF exact_RowGroup])

lemma eq_FileCryptoMetaData [members]: "eq_FileCryptoMetaData = (=)"
  by (auto simp: members fun_eq_iff eq_FileCryptoMetaData_def)

section \<open>Properties\<close>

text \<open>
  C40: The metadata classes have value semantics: copies and assigned objects are equal to the
  original, a swap exchanges two objects, and the comparison of page headers, and of file metadata
  without coordinates that are NaN or zero, is equality.
\<close>

theorem metadata_value_semantics:
  "copy_FileMetaData md = md \<and> assign_FileMetaData md' md = md \<and>
   swap_FileMetaData (md, md') = (md', md) \<and>
   copy_PageHeader ph = ph \<and> assign_PageHeader ph' ph = ph \<and> swap_PageHeader (ph, ph') = (ph', ph) \<and>
   (eq_PageHeader ph ph' \<longleftrightarrow> ph = ph') \<and>
   (exact_FileMetaData md \<longrightarrow> (eq_FileMetaData md md' \<longleftrightarrow> md = md'))"
  using exact_FileMetaData [of md md'] by (simp add: members)

theorem metadata_value_semantics_witness:
  "\<not> eq_FileMetaData FileMetaData_init (FileMetaData_init\<lparr>FileMetaData_num_rows := 7\<rparr>)"
proof -
  have "exact_FileMetaData FileMetaData_init" by (simp add: exact_FileMetaData_def FileMetaData_init_def)
  then show ?thesis
    using metadata_value_semantics [of FileMetaData_init "FileMetaData_init\<lparr>FileMetaData_num_rows := 7\<rparr>"
        PageHeader_init PageHeader_init]
    by (simp add: FileMetaData_init_def)
qed

end
