(* ===== verification/Parquet_Enums.thy ===== *)
theory Parquet_Enums
  imports Parquet_Types Decimal
begin

text \<open>
  The tables of the enumerations (src/gen-cpp/parquet_types.cpp): for each enumeration the arrays of
  its enumerators and of their names, the map from numbers to names that is built of them, and the
  two functions that turn a number of the enumeration into text. The iterator that pairs the arrays
  (\<open>TEnumIterator\<close>) belongs to the Thrift library and is a parameter. That an array of enumerators
  lists each of them once is the law of the class \<open>enum\<close>, of which every enumeration is an instance.
\<close>

type_synonym enum_iterator = "nat \<Rightarrow> i32 list \<Rightarrow> string list \<Rightarrow> (i32 \<times> string) list"

section \<open>The tables\<close>

definition kTypeValues :: "Type list" where
  "kTypeValues =
    [Type_BOOLEAN, Type_INT32, Type_INT64, Type_INT96, Type_FLOAT, Type_DOUBLE, Type_BYTE_ARRAY,
      Type_FIXED_LEN_BYTE_ARRAY]"

definition kTypeNames :: "string list" where
  "kTypeNames =
    [''BOOLEAN'', ''INT32'', ''INT64'', ''INT96'', ''FLOAT'', ''DOUBLE'', ''BYTE_ARRAY'',
      ''FIXED_LEN_BYTE_ARRAY'']"

definition Type_VALUES_TO_NAMES :: "enum_iterator \<Rightarrow> i32 \<rightharpoonup> string" where
  "Type_VALUES_TO_NAMES it = map_of (it 8 (map Type_val kTypeValues) kTypeNames)"

definition put_Type :: "enum_iterator \<Rightarrow> Type_t \<Rightarrow> string \<Rightarrow> string" where
  "put_Type it val out =
    (case Type_VALUES_TO_NAMES it val of Some n \<Rightarrow> out @ n | None \<Rightarrow> out @ int_text (sint val))"

definition to_string_Type :: "enum_iterator \<Rightarrow> Type_t \<Rightarrow> string" where
  "to_string_Type it val =
    (case Type_VALUES_TO_NAMES it val of Some n \<Rightarrow> n | None \<Rightarrow> int_text (sint val))"

definition kConvertedTypeValues :: "ConvertedType list" where
  "kConvertedTypeValues =
    [ConvertedType_UTF8, ConvertedType_MAP, ConvertedType_MAP_KEY_VALUE, ConvertedType_LIST,
      ConvertedType_ENUM, ConvertedType_DECIMAL, ConvertedType_DATE, ConvertedType_TIME_MILLIS,
      ConvertedType_TIME_MICROS, ConvertedType_TIMESTAMP_MILLIS, ConvertedType_TIMESTAMP_MICROS,
      ConvertedType_UINT_8, ConvertedType_UINT_16, ConvertedType_UINT_32, ConvertedType_UINT_64,
      ConvertedType_INT_8, ConvertedType_INT_16, ConvertedType_INT_32, ConvertedType_INT_64,
      ConvertedType_JSON, ConvertedType_BSON, ConvertedType_INTERVAL]"

definition kConvertedTypeNames :: "string list" where
  "kConvertedTypeNames =
    [''UTF8'', ''MAP'', ''MAP_KEY_VALUE'', ''LIST'', ''ENUM'', ''DECIMAL'', ''DATE'',
      ''TIME_MILLIS'', ''TIME_MICROS'', ''TIMESTAMP_MILLIS'', ''TIMESTAMP_MICROS'', ''UINT_8'',
      ''UINT_16'', ''UINT_32'', ''UINT_64'', ''INT_8'', ''INT_16'', ''INT_32'', ''INT_64'',
      ''JSON'', ''BSON'', ''INTERVAL'']"

definition ConvertedType_VALUES_TO_NAMES :: "enum_iterator \<Rightarrow> i32 \<rightharpoonup> string" where
  "ConvertedType_VALUES_TO_NAMES it = map_of (it 22 (map ConvertedType_val kConvertedTypeValues) kConvertedTypeNames)"

definition put_ConvertedType :: "enum_iterator \<Rightarrow> ConvertedType_t \<Rightarrow> string \<Rightarrow> string" where
  "put_ConvertedType it val out =
    (case ConvertedType_VALUES_TO_NAMES it val of Some n \<Rightarrow> out @ n | None \<Rightarrow> out @ int_text (sint val))"

definition to_string_ConvertedType :: "enum_iterator \<Rightarrow> ConvertedType_t \<Rightarrow> string" where
  "to_string_ConvertedType it val =
    (case ConvertedType_VALUES_TO_NAMES it val of Some n \<Rightarrow> n | None \<Rightarrow> int_text (sint val))"

definition kFieldRepetitionTypeValues :: "FieldRepetitionType list" where
  "kFieldRepetitionTypeValues =
    [FieldRepetitionType_REQUIRED, FieldRepetitionType_OPTIONAL, FieldRepetitionType_REPEATED]"

definition kFieldRepetitionTypeNames :: "string list" where
  "kFieldRepetitionTypeNames =
    [''REQUIRED'', ''OPTIONAL'', ''REPEATED'']"

definition FieldRepetitionType_VALUES_TO_NAMES :: "enum_iterator \<Rightarrow> i32 \<rightharpoonup> string" where
  "FieldRepetitionType_VALUES_TO_NAMES it = map_of (it 3 (map FieldRepetitionType_val kFieldRepetitionTypeValues) kFieldRepetitionTypeNames)"

definition put_FieldRepetitionType :: "enum_iterator \<Rightarrow> FieldRepetitionType_t \<Rightarrow> string \<Rightarrow> string" where
  "put_FieldRepetitionType it val out =
    (case FieldRepetitionType_VALUES_TO_NAMES it val of Some n \<Rightarrow> out @ n | None \<Rightarrow> out @ int_text (sint val))"

definition to_string_FieldRepetitionType :: "enum_iterator \<Rightarrow> FieldRepetitionType_t \<Rightarrow> string" where
  "to_string_FieldRepetitionType it val =
    (case FieldRepetitionType_VALUES_TO_NAMES it val of Some n \<Rightarrow> n | None \<Rightarrow> int_text (sint val))"

definition kEdgeInterpolationAlgorithmValues :: "EdgeInterpolationAlgorithm list" where
  "kEdgeInterpolationAlgorithmValues =
    [EdgeInterpolationAlgorithm_SPHERICAL, EdgeInterpolationAlgorithm_VINCENTY,
      EdgeInterpolationAlgorithm_THOMAS, EdgeInterpolationAlgorithm_ANDOYER,
      EdgeInterpolationAlgorithm_KARNEY]"

definition kEdgeInterpolationAlgorithmNames :: "string list" where
  "kEdgeInterpolationAlgorithmNames =
    [''SPHERICAL'', ''VINCENTY'', ''THOMAS'', ''ANDOYER'', ''KARNEY'']"

definition EdgeInterpolationAlgorithm_VALUES_TO_NAMES :: "enum_iterator \<Rightarrow> i32 \<rightharpoonup> string" where
  "EdgeInterpolationAlgorithm_VALUES_TO_NAMES it = map_of (it 5 (map EdgeInterpolationAlgorithm_val kEdgeInterpolationAlgorithmValues) kEdgeInterpolationAlgorithmNames)"

definition put_EdgeInterpolationAlgorithm :: "enum_iterator \<Rightarrow> EdgeInterpolationAlgorithm_t \<Rightarrow> string \<Rightarrow> string" where
  "put_EdgeInterpolationAlgorithm it val out =
    (case EdgeInterpolationAlgorithm_VALUES_TO_NAMES it val of Some n \<Rightarrow> out @ n | None \<Rightarrow> out @ int_text (sint val))"

definition to_string_EdgeInterpolationAlgorithm :: "enum_iterator \<Rightarrow> EdgeInterpolationAlgorithm_t \<Rightarrow> string" where
  "to_string_EdgeInterpolationAlgorithm it val =
    (case EdgeInterpolationAlgorithm_VALUES_TO_NAMES it val of Some n \<Rightarrow> n | None \<Rightarrow> int_text (sint val))"

definition kEncodingValues :: "Encoding list" where
  "kEncodingValues =
    [Encoding_PLAIN, Encoding_PLAIN_DICTIONARY, Encoding_RLE, Encoding_BIT_PACKED,
      Encoding_DELTA_BINARY_PACKED, Encoding_DELTA_LENGTH_BYTE_ARRAY, Encoding_DELTA_BYTE_ARRAY,
      Encoding_RLE_DICTIONARY, Encoding_BYTE_STREAM_SPLIT]"

definition kEncodingNames :: "string list" where
  "kEncodingNames =
    [''PLAIN'', ''PLAIN_DICTIONARY'', ''RLE'', ''BIT_PACKED'', ''DELTA_BINARY_PACKED'',
      ''DELTA_LENGTH_BYTE_ARRAY'', ''DELTA_BYTE_ARRAY'', ''RLE_DICTIONARY'',
      ''BYTE_STREAM_SPLIT'']"

definition Encoding_VALUES_TO_NAMES :: "enum_iterator \<Rightarrow> i32 \<rightharpoonup> string" where
  "Encoding_VALUES_TO_NAMES it = map_of (it 9 (map Encoding_val kEncodingValues) kEncodingNames)"

definition put_Encoding :: "enum_iterator \<Rightarrow> Encoding_t \<Rightarrow> string \<Rightarrow> string" where
  "put_Encoding it val out =
    (case Encoding_VALUES_TO_NAMES it val of Some n \<Rightarrow> out @ n | None \<Rightarrow> out @ int_text (sint val))"

definition to_string_Encoding :: "enum_iterator \<Rightarrow> Encoding_t \<Rightarrow> string" where
  "to_string_Encoding it val =
    (case Encoding_VALUES_TO_NAMES it val of Some n \<Rightarrow> n | None \<Rightarrow> int_text (sint val))"

definition kCompressionCodecValues :: "CompressionCodec list" where
  "kCompressionCodecValues =
    [CompressionCodec_UNCOMPRESSED, CompressionCodec_SNAPPY, CompressionCodec_GZIP,
      CompressionCodec_LZO, CompressionCodec_BROTLI, CompressionCodec_LZ4,
      CompressionCodec_ZSTD, CompressionCodec_LZ4_RAW]"

definition kCompressionCodecNames :: "string list" where
  "kCompressionCodecNames =
    [''UNCOMPRESSED'', ''SNAPPY'', ''GZIP'', ''LZO'', ''BROTLI'', ''LZ4'', ''ZSTD'', ''LZ4_RAW'']"

definition CompressionCodec_VALUES_TO_NAMES :: "enum_iterator \<Rightarrow> i32 \<rightharpoonup> string" where
  "CompressionCodec_VALUES_TO_NAMES it = map_of (it 8 (map CompressionCodec_val kCompressionCodecValues) kCompressionCodecNames)"

definition put_CompressionCodec :: "enum_iterator \<Rightarrow> CompressionCodec_t \<Rightarrow> string \<Rightarrow> string" where
  "put_CompressionCodec it val out =
    (case CompressionCodec_VALUES_TO_NAMES it val of Some n \<Rightarrow> out @ n | None \<Rightarrow> out @ int_text (sint val))"

definition to_string_CompressionCodec :: "enum_iterator \<Rightarrow> CompressionCodec_t \<Rightarrow> string" where
  "to_string_CompressionCodec it val =
    (case CompressionCodec_VALUES_TO_NAMES it val of Some n \<Rightarrow> n | None \<Rightarrow> int_text (sint val))"

definition kPageTypeValues :: "PageType list" where
  "kPageTypeValues =
    [PageType_DATA_PAGE, PageType_INDEX_PAGE, PageType_DICTIONARY_PAGE, PageType_DATA_PAGE_V2]"

definition kPageTypeNames :: "string list" where
  "kPageTypeNames =
    [''DATA_PAGE'', ''INDEX_PAGE'', ''DICTIONARY_PAGE'', ''DATA_PAGE_V2'']"

definition PageType_VALUES_TO_NAMES :: "enum_iterator \<Rightarrow> i32 \<rightharpoonup> string" where
  "PageType_VALUES_TO_NAMES it = map_of (it 4 (map PageType_val kPageTypeValues) kPageTypeNames)"

definition put_PageType :: "enum_iterator \<Rightarrow> PageType_t \<Rightarrow> string \<Rightarrow> string" where
  "put_PageType it val out =
    (case PageType_VALUES_TO_NAMES it val of Some n \<Rightarrow> out @ n | None \<Rightarrow> out @ int_text (sint val))"

definition to_string_PageType :: "enum_iterator \<Rightarrow> PageType_t \<Rightarrow> string" where
  "to_string_PageType it val =
    (case PageType_VALUES_TO_NAMES it val of Some n \<Rightarrow> n | None \<Rightarrow> int_text (sint val))"

definition kBoundaryOrderValues :: "BoundaryOrder list" where
  "kBoundaryOrderValues =
    [BoundaryOrder_UNORDERED, BoundaryOrder_ASCENDING, BoundaryOrder_DESCENDING]"

definition kBoundaryOrderNames :: "string list" where
  "kBoundaryOrderNames =
    [''UNORDERED'', ''ASCENDING'', ''DESCENDING'']"

definition BoundaryOrder_VALUES_TO_NAMES :: "enum_iterator \<Rightarrow> i32 \<rightharpoonup> string" where
  "BoundaryOrder_VALUES_TO_NAMES it = map_of (it 3 (map BoundaryOrder_val kBoundaryOrderValues) kBoundaryOrderNames)"

definition put_BoundaryOrder :: "enum_iterator \<Rightarrow> BoundaryOrder_t \<Rightarrow> string \<Rightarrow> string" where
  "put_BoundaryOrder it val out =
    (case BoundaryOrder_VALUES_TO_NAMES it val of Some n \<Rightarrow> out @ n | None \<Rightarrow> out @ int_text (sint val))"

definition to_string_BoundaryOrder :: "enum_iterator \<Rightarrow> BoundaryOrder_t \<Rightarrow> string" where
  "to_string_BoundaryOrder it val =
    (case BoundaryOrder_VALUES_TO_NAMES it val of Some n \<Rightarrow> n | None \<Rightarrow> int_text (sint val))"

section \<open>The arrays list every enumerator once\<close>

instantiation Type :: enum
begin

definition enum_Type where
  "enum_class.enum = kTypeValues"

definition enum_all_Type where
  "enum_class.enum_all P = list_all P kTypeValues"

definition enum_ex_Type where
  "enum_class.enum_ex P = list_ex P kTypeValues"

instance
proof
  have all: "c \<in> set kTypeValues" for c :: Type
    by (cases c) (simp_all add: kTypeValues_def)
  show "(UNIV :: Type set) = set enum_class.enum"
    using all by (auto simp: enum_Type_def)
  show "distinct (enum_class.enum :: Type list)"
    by (simp add: enum_Type_def kTypeValues_def)
  show "enum_class.enum_all P = Ball UNIV P" for P :: "Type \<Rightarrow> bool"
    using all by (auto simp: enum_all_Type_def list_all_iff)
  show "enum_class.enum_ex P = Bex UNIV P" for P :: "Type \<Rightarrow> bool"
    using all by (auto simp: enum_ex_Type_def list_ex_iff)
qed

end

instantiation ConvertedType :: enum
begin

definition enum_ConvertedType where
  "enum_class.enum = kConvertedTypeValues"

definition enum_all_ConvertedType where
  "enum_class.enum_all P = list_all P kConvertedTypeValues"

definition enum_ex_ConvertedType where
  "enum_class.enum_ex P = list_ex P kConvertedTypeValues"

instance
proof
  have all: "c \<in> set kConvertedTypeValues" for c :: ConvertedType
    by (cases c) (simp_all add: kConvertedTypeValues_def)
  show "(UNIV :: ConvertedType set) = set enum_class.enum"
    using all by (auto simp: enum_ConvertedType_def)
  show "distinct (enum_class.enum :: ConvertedType list)"
    by (simp add: enum_ConvertedType_def kConvertedTypeValues_def)
  show "enum_class.enum_all P = Ball UNIV P" for P :: "ConvertedType \<Rightarrow> bool"
    using all by (auto simp: enum_all_ConvertedType_def list_all_iff)
  show "enum_class.enum_ex P = Bex UNIV P" for P :: "ConvertedType \<Rightarrow> bool"
    using all by (auto simp: enum_ex_ConvertedType_def list_ex_iff)
qed

end

instantiation FieldRepetitionType :: enum
begin

definition enum_FieldRepetitionType where
  "enum_class.enum = kFieldRepetitionTypeValues"

definition enum_all_FieldRepetitionType where
  "enum_class.enum_all P = list_all P kFieldRepetitionTypeValues"

definition enum_ex_FieldRepetitionType where
  "enum_class.enum_ex P = list_ex P kFieldRepetitionTypeValues"

instance
proof
  have all: "c \<in> set kFieldRepetitionTypeValues" for c :: FieldRepetitionType
    by (cases c) (simp_all add: kFieldRepetitionTypeValues_def)
  show "(UNIV :: FieldRepetitionType set) = set enum_class.enum"
    using all by (auto simp: enum_FieldRepetitionType_def)
  show "distinct (enum_class.enum :: FieldRepetitionType list)"
    by (simp add: enum_FieldRepetitionType_def kFieldRepetitionTypeValues_def)
  show "enum_class.enum_all P = Ball UNIV P" for P :: "FieldRepetitionType \<Rightarrow> bool"
    using all by (auto simp: enum_all_FieldRepetitionType_def list_all_iff)
  show "enum_class.enum_ex P = Bex UNIV P" for P :: "FieldRepetitionType \<Rightarrow> bool"
    using all by (auto simp: enum_ex_FieldRepetitionType_def list_ex_iff)
qed

end

instantiation EdgeInterpolationAlgorithm :: enum
begin

definition enum_EdgeInterpolationAlgorithm where
  "enum_class.enum = kEdgeInterpolationAlgorithmValues"

definition enum_all_EdgeInterpolationAlgorithm where
  "enum_class.enum_all P = list_all P kEdgeInterpolationAlgorithmValues"

definition enum_ex_EdgeInterpolationAlgorithm where
  "enum_class.enum_ex P = list_ex P kEdgeInterpolationAlgorithmValues"

instance
proof
  have all: "c \<in> set kEdgeInterpolationAlgorithmValues" for c :: EdgeInterpolationAlgorithm
    by (cases c) (simp_all add: kEdgeInterpolationAlgorithmValues_def)
  show "(UNIV :: EdgeInterpolationAlgorithm set) = set enum_class.enum"
    using all by (auto simp: enum_EdgeInterpolationAlgorithm_def)
  show "distinct (enum_class.enum :: EdgeInterpolationAlgorithm list)"
    by (simp add: enum_EdgeInterpolationAlgorithm_def kEdgeInterpolationAlgorithmValues_def)
  show "enum_class.enum_all P = Ball UNIV P" for P :: "EdgeInterpolationAlgorithm \<Rightarrow> bool"
    using all by (auto simp: enum_all_EdgeInterpolationAlgorithm_def list_all_iff)
  show "enum_class.enum_ex P = Bex UNIV P" for P :: "EdgeInterpolationAlgorithm \<Rightarrow> bool"
    using all by (auto simp: enum_ex_EdgeInterpolationAlgorithm_def list_ex_iff)
qed

end

instantiation Encoding :: enum
begin

definition enum_Encoding where
  "enum_class.enum = kEncodingValues"

definition enum_all_Encoding where
  "enum_class.enum_all P = list_all P kEncodingValues"

definition enum_ex_Encoding where
  "enum_class.enum_ex P = list_ex P kEncodingValues"

instance
proof
  have all: "c \<in> set kEncodingValues" for c :: Encoding
    by (cases c) (simp_all add: kEncodingValues_def)
  show "(UNIV :: Encoding set) = set enum_class.enum"
    using all by (auto simp: enum_Encoding_def)
  show "distinct (enum_class.enum :: Encoding list)"
    by (simp add: enum_Encoding_def kEncodingValues_def)
  show "enum_class.enum_all P = Ball UNIV P" for P :: "Encoding \<Rightarrow> bool"
    using all by (auto simp: enum_all_Encoding_def list_all_iff)
  show "enum_class.enum_ex P = Bex UNIV P" for P :: "Encoding \<Rightarrow> bool"
    using all by (auto simp: enum_ex_Encoding_def list_ex_iff)
qed

end

instantiation CompressionCodec :: enum
begin

definition enum_CompressionCodec where
  "enum_class.enum = kCompressionCodecValues"

definition enum_all_CompressionCodec where
  "enum_class.enum_all P = list_all P kCompressionCodecValues"

definition enum_ex_CompressionCodec where
  "enum_class.enum_ex P = list_ex P kCompressionCodecValues"

instance
proof
  have all: "c \<in> set kCompressionCodecValues" for c :: CompressionCodec
    by (cases c) (simp_all add: kCompressionCodecValues_def)
  show "(UNIV :: CompressionCodec set) = set enum_class.enum"
    using all by (auto simp: enum_CompressionCodec_def)
  show "distinct (enum_class.enum :: CompressionCodec list)"
    by (simp add: enum_CompressionCodec_def kCompressionCodecValues_def)
  show "enum_class.enum_all P = Ball UNIV P" for P :: "CompressionCodec \<Rightarrow> bool"
    using all by (auto simp: enum_all_CompressionCodec_def list_all_iff)
  show "enum_class.enum_ex P = Bex UNIV P" for P :: "CompressionCodec \<Rightarrow> bool"
    using all by (auto simp: enum_ex_CompressionCodec_def list_ex_iff)
qed

end

instantiation PageType :: enum
begin

definition enum_PageType where
  "enum_class.enum = kPageTypeValues"

definition enum_all_PageType where
  "enum_class.enum_all P = list_all P kPageTypeValues"

definition enum_ex_PageType where
  "enum_class.enum_ex P = list_ex P kPageTypeValues"

instance
proof
  have all: "c \<in> set kPageTypeValues" for c :: PageType
    by (cases c) (simp_all add: kPageTypeValues_def)
  show "(UNIV :: PageType set) = set enum_class.enum"
    using all by (auto simp: enum_PageType_def)
  show "distinct (enum_class.enum :: PageType list)"
    by (simp add: enum_PageType_def kPageTypeValues_def)
  show "enum_class.enum_all P = Ball UNIV P" for P :: "PageType \<Rightarrow> bool"
    using all by (auto simp: enum_all_PageType_def list_all_iff)
  show "enum_class.enum_ex P = Bex UNIV P" for P :: "PageType \<Rightarrow> bool"
    using all by (auto simp: enum_ex_PageType_def list_ex_iff)
qed

end

instantiation BoundaryOrder :: enum
begin

definition enum_BoundaryOrder where
  "enum_class.enum = kBoundaryOrderValues"

definition enum_all_BoundaryOrder where
  "enum_class.enum_all P = list_all P kBoundaryOrderValues"

definition enum_ex_BoundaryOrder where
  "enum_class.enum_ex P = list_ex P kBoundaryOrderValues"

instance
proof
  have all: "c \<in> set kBoundaryOrderValues" for c :: BoundaryOrder
    by (cases c) (simp_all add: kBoundaryOrderValues_def)
  show "(UNIV :: BoundaryOrder set) = set enum_class.enum"
    using all by (auto simp: enum_BoundaryOrder_def)
  show "distinct (enum_class.enum :: BoundaryOrder list)"
    by (simp add: enum_BoundaryOrder_def kBoundaryOrderValues_def)
  show "enum_class.enum_all P = Ball UNIV P" for P :: "BoundaryOrder \<Rightarrow> bool"
    using all by (auto simp: enum_all_BoundaryOrder_def list_all_iff)
  show "enum_class.enum_ex P = Bex UNIV P" for P :: "BoundaryOrder \<Rightarrow> bool"
    using all by (auto simp: enum_ex_BoundaryOrder_def list_ex_iff)
qed

end

section \<open>Numbers and texts\<close>

text \<open>The iterator visits the arrays side by side, as many elements as it is told to.\<close>

definition pairs_arrays :: "enum_iterator \<Rightarrow> bool" where
  "pairs_arrays it \<longleftrightarrow> (\<forall>vs ns. length vs = length ns \<longrightarrow> it (length vs) vs ns = zip vs ns)"

text \<open>A name is no number: it does not begin as one.\<close>

definition is_name :: "string \<Rightarrow> bool" where
  "is_name n \<longleftrightarrow> n \<noteq> [] \<and> hd n \<noteq> CHR ''-'' \<and> \<not> isdigit (hd n)"

lemma name_not_number: "is_name n \<Longrightarrow> n \<noteq> int_text i"
  using hd_int_text [of i] by (auto simp: is_name_def)

text \<open>
  What the two functions of an enumeration rely on: its table pairs different numbers with different
  names. The table shows a number by its name or else in decimal.
\<close>

definition table_text :: "i32 list \<Rightarrow> string list \<Rightarrow> i32 \<Rightarrow> string" where
  "table_text vs ns v = (case map_of (zip vs ns) v of Some n \<Rightarrow> n | None \<Rightarrow> int_text (sint v))"

text \<open>
  What the texts of an enumeration should be: those of its numbers \<open>vs\<close> are their names \<open>ns\<close>, any
  other number is shown in decimal, with its sign, and no two numbers have the same text.
\<close>

definition enum_texts :: "(i32 \<Rightarrow> string) \<Rightarrow> i32 list \<Rightarrow> string list \<Rightarrow> bool" where
  "enum_texts f vs ns \<longleftrightarrow>
     map f vs = ns \<and> (\<forall>v. v \<notin> set vs \<longrightarrow> f v = int_text (sint v)) \<and> inj f"

lemma enum_texts_inj: "enum_texts f vs ns \<Longrightarrow> inj f"
  by (simp add: enum_texts_def)

locale name_table =
  fixes vs :: "i32 list" and ns :: "string list"
  assumes same_length: "length vs = length ns"
    and distinct_numbers: "distinct vs" and distinct_names: "distinct ns"
    and names: "n \<in> set ns \<Longrightarrow> is_name n"
begin

lemma lookup: "map_of (zip vs ns) v = Some n \<longleftrightarrow> (\<exists>i<length vs. v = vs ! i \<and> n = ns ! i)"
  using same_length distinct_numbers by (simp add: map_of_eq_Some_iff in_set_zip) (metis)

lemma text_inj: "inj (table_text vs ns)"
proof (rule injI)
  fix v w assume eq: "table_text vs ns v = table_text vs ns w"
  have name: "is_name n" if "map_of (zip vs ns) u = Some n" for u n
    using that names by (auto dest!: map_of_SomeD set_zip_rightD)
  show "v = w"
  proof (cases "map_of (zip vs ns) v")
    case None
    with eq name [of w] name_not_number show ?thesis
      by (cases "map_of (zip vs ns) w") (auto simp: table_text_def int_text_inj intro: signed_word_eqI)
  next
    case (Some n)
    with eq name [of v] name_not_number have "map_of (zip vs ns) w = Some n"
      by (cases "map_of (zip vs ns) w") (auto simp: table_text_def)
    with Some obtain i j where "i < length vs" "v = vs ! i" "n = ns ! i" "j < length vs" "w = vs ! j" "n = ns ! j"
      unfolding lookup by blast
    then show ?thesis using same_length distinct_names by (simp add: nth_eq_iff_index_eq)
  qed
qed

lemma text_names: "map (table_text vs ns) vs = ns"
proof (rule nth_equalityI)
  fix i assume i: "i < length (map (table_text vs ns) vs)"
  then have "map_of (zip vs ns) (vs ! i) = Some (ns ! i)" unfolding lookup by auto
  with i show "map (table_text vs ns) vs ! i = ns ! i" by (simp add: table_text_def)
qed (simp add: same_length)

lemma text_other: "v \<notin> set vs \<Longrightarrow> table_text vs ns v = int_text (sint v)"
  using same_length by (simp add: table_text_def map_of_zip_is_None [THEN iffD2])

lemma texts: "enum_texts (table_text vs ns) vs ns"
  using text_names text_other text_inj by (simp add: enum_texts_def)

end

lemmas names_facts = is_name_def isdigit_def char_code_def of_char_def

lemma names_Type: "\<forall>n\<in>set kTypeNames. is_name n"
  by (simp add: kTypeNames_def names_facts)

interpretation table_Type: name_table "map Type_val kTypeValues" kTypeNames
proof
  show "is_name n" if "n \<in> set kTypeNames" for n using that names_Type by blast
qed (simp_all add: kTypeValues_def kTypeNames_def)

lemma text_Type:
  assumes "pairs_arrays it"
  shows "to_string_Type it = table_text (map Type_val kTypeValues) kTypeNames"
    "put_Type it v out = out @ to_string_Type it v"
proof -
  have "length (map Type_val kTypeValues) = 8" by (simp add: kTypeValues_def)
  then have "Type_VALUES_TO_NAMES it = map_of (zip (map Type_val kTypeValues) kTypeNames)"
    using assms table_Type.same_length unfolding pairs_arrays_def Type_VALUES_TO_NAMES_def by metis
  then show "to_string_Type it = table_text (map Type_val kTypeValues) kTypeNames"
    and "put_Type it v out = out @ to_string_Type it v"
    by (simp_all add: fun_eq_iff table_text_def to_string_Type_def put_Type_def split: option.split)
qed

lemma texts_Type: "pairs_arrays it \<Longrightarrow> enum_texts (to_string_Type it) (map Type_val enum_class.enum) kTypeNames"
  using table_Type.texts by (simp add: text_Type(1) enum_Type_def)

lemma names_ConvertedType: "\<forall>n\<in>set kConvertedTypeNames. is_name n"
  by (simp add: kConvertedTypeNames_def names_facts)

interpretation table_ConvertedType: name_table "map ConvertedType_val kConvertedTypeValues" kConvertedTypeNames
proof
  show "is_name n" if "n \<in> set kConvertedTypeNames" for n using that names_ConvertedType by blast
qed (simp_all add: kConvertedTypeValues_def kConvertedTypeNames_def)

lemma text_ConvertedType:
  assumes "pairs_arrays it"
  shows "to_string_ConvertedType it = table_text (map ConvertedType_val kConvertedTypeValues) kConvertedTypeNames"
    "put_ConvertedType it v out = out @ to_string_ConvertedType it v"
proof -
  have "length (map ConvertedType_val kConvertedTypeValues) = 22" by (simp add: kConvertedTypeValues_def)
  then have "ConvertedType_VALUES_TO_NAMES it = map_of (zip (map ConvertedType_val kConvertedTypeValues) kConvertedTypeNames)"
    using assms table_ConvertedType.same_length unfolding pairs_arrays_def ConvertedType_VALUES_TO_NAMES_def by metis
  then show "to_string_ConvertedType it = table_text (map ConvertedType_val kConvertedTypeValues) kConvertedTypeNames"
    and "put_ConvertedType it v out = out @ to_string_ConvertedType it v"
    by (simp_all add: fun_eq_iff table_text_def to_string_ConvertedType_def put_ConvertedType_def split: option.split)
qed

lemma texts_ConvertedType: "pairs_arrays it \<Longrightarrow> enum_texts (to_string_ConvertedType it) (map ConvertedType_val enum_class.enum) kConvertedTypeNames"
  using table_ConvertedType.texts by (simp add: text_ConvertedType(1) enum_ConvertedType_def)

lemma names_FieldRepetitionType: "\<forall>n\<in>set kFieldRepetitionTypeNames. is_name n"
  by (simp add: kFieldRepetitionTypeNames_def names_facts)

interpretation table_FieldRepetitionType: name_table "map FieldRepetitionType_val kFieldRepetitionTypeValues" kFieldRepetitionTypeNames
proof
  show "is_name n" if "n \<in> set kFieldRepetitionTypeNames" for n using that names_FieldRepetitionType by blast
qed (simp_all add: kFieldRepetitionTypeValues_def kFieldRepetitionTypeNames_def)

lemma text_FieldRepetitionType:
  assumes "pairs_arrays it"
  shows "to_string_FieldRepetitionType it = table_text (map FieldRepetitionType_val kFieldRepetitionTypeValues) kFieldRepetitionTypeNames"
    "put_FieldRepetitionType it v out = out @ to_string_FieldRepetitionType it v"
proof -
  have "length (map FieldRepetitionType_val kFieldRepetitionTypeValues) = 3" by (simp add: kFieldRepetitionTypeValues_def)
  then have "FieldRepetitionType_VALUES_TO_NAMES it = map_of (zip (map FieldRepetitionType_val kFieldRepetitionTypeValues) kFieldRepetitionTypeNames)"
    using assms table_FieldRepetitionType.same_length unfolding pairs_arrays_def FieldRepetitionType_VALUES_TO_NAMES_def by metis
  then show "to_string_FieldRepetitionType it = table_text (map FieldRepetitionType_val kFieldRepetitionTypeValues) kFieldRepetitionTypeNames"
    and "put_FieldRepetitionType it v out = out @ to_string_FieldRepetitionType it v"
    by (simp_all add: fun_eq_iff table_text_def to_string_FieldRepetitionType_def put_FieldRepetitionType_def split: option.split)
qed

lemma texts_FieldRepetitionType: "pairs_arrays it \<Longrightarrow> enum_texts (to_string_FieldRepetitionType it) (map FieldRepetitionType_val enum_class.enum) kFieldRepetitionTypeNames"
  using table_FieldRepetitionType.texts by (simp add: text_FieldRepetitionType(1) enum_FieldRepetitionType_def)

lemma names_EdgeInterpolationAlgorithm: "\<forall>n\<in>set kEdgeInterpolationAlgorithmNames. is_name n"
  by (simp add: kEdgeInterpolationAlgorithmNames_def names_facts)

interpretation table_EdgeInterpolationAlgorithm: name_table "map EdgeInterpolationAlgorithm_val kEdgeInterpolationAlgorithmValues" kEdgeInterpolationAlgorithmNames
proof
  show "is_name n" if "n \<in> set kEdgeInterpolationAlgorithmNames" for n using that names_EdgeInterpolationAlgorithm by blast
qed (simp_all add: kEdgeInterpolationAlgorithmValues_def kEdgeInterpolationAlgorithmNames_def)

lemma text_EdgeInterpolationAlgorithm:
  assumes "pairs_arrays it"
  shows "to_string_EdgeInterpolationAlgorithm it = table_text (map EdgeInterpolationAlgorithm_val kEdgeInterpolationAlgorithmValues) kEdgeInterpolationAlgorithmNames"
    "put_EdgeInterpolationAlgorithm it v out = out @ to_string_EdgeInterpolationAlgorithm it v"
proof -
  have "length (map EdgeInterpolationAlgorithm_val kEdgeInterpolationAlgorithmValues) = 5" by (simp add: kEdgeInterpolationAlgorithmValues_def)
  then have "EdgeInterpolationAlgorithm_VALUES_TO_NAMES it = map_of (zip (map EdgeInterpolationAlgorithm_val kEdgeInterpolationAlgorithmValues) kEdgeInterpolationAlgorithmNames)"
    using assms table_EdgeInterpolationAlgorithm.same_length unfolding pairs_arrays_def EdgeInterpolationAlgorithm_VALUES_TO_NAMES_def by metis
  then show "to_string_EdgeInterpolationAlgorithm it = table_text (map EdgeInterpolationAlgorithm_val kEdgeInterpolationAlgorithmValues) kEdgeInterpolationAlgorithmNames"
    and "put_EdgeInterpolationAlgorithm it v out = out @ to_string_EdgeInterpolationAlgorithm it v"
    by (simp_all add: fun_eq_iff table_text_def to_string_EdgeInterpolationAlgorithm_def put_EdgeInterpolationAlgorithm_def split: option.split)
qed

lemma texts_EdgeInterpolationAlgorithm: "pairs_arrays it \<Longrightarrow> enum_texts (to_string_EdgeInterpolationAlgorithm it) (map EdgeInterpolationAlgorithm_val enum_class.enum) kEdgeInterpolationAlgorithmNames"
  using table_EdgeInterpolationAlgorithm.texts by (simp add: text_EdgeInterpolationAlgorithm(1) enum_EdgeInterpolationAlgorithm_def)

lemma names_Encoding: "\<forall>n\<in>set kEncodingNames. is_name n"
  by (simp add: kEncodingNames_def names_facts)

interpretation table_Encoding: name_table "map Encoding_val kEncodingValues" kEncodingNames
proof
  show "is_name n" if "n \<in> set kEncodingNames" for n using that names_Encoding by blast
qed (simp_all add: kEncodingValues_def kEncodingNames_def)

lemma text_Encoding:
  assumes "pairs_arrays it"
  shows "to_string_Encoding it = table_text (map Encoding_val kEncodingValues) kEncodingNames"
    "put_Encoding it v out = out @ to_string_Encoding it v"
proof -
  have "length (map Encoding_val kEncodingValues) = 9" by (simp add: kEncodingValues_def)
  then have "Encoding_VALUES_TO_NAMES it = map_of (zip (map Encoding_val kEncodingValues) kEncodingNames)"
    using assms table_Encoding.same_length unfolding pairs_arrays_def Encoding_VALUES_TO_NAMES_def by metis
  then show "to_string_Encoding it = table_text (map Encoding_val kEncodingValues) kEncodingNames"
    and "put_Encoding it v out = out @ to_string_Encoding it v"
    by (simp_all add: fun_eq_iff table_text_def to_string_Encoding_def put_Encoding_def split: option.split)
qed

lemma texts_Encoding: "pairs_arrays it \<Longrightarrow> enum_texts (to_string_Encoding it) (map Encoding_val enum_class.enum) kEncodingNames"
  using table_Encoding.texts by (simp add: text_Encoding(1) enum_Encoding_def)

lemma names_CompressionCodec: "\<forall>n\<in>set kCompressionCodecNames. is_name n"
  by (simp add: kCompressionCodecNames_def names_facts)

interpretation table_CompressionCodec: name_table "map CompressionCodec_val kCompressionCodecValues" kCompressionCodecNames
proof
  show "is_name n" if "n \<in> set kCompressionCodecNames" for n using that names_CompressionCodec by blast
qed (simp_all add: kCompressionCodecValues_def kCompressionCodecNames_def)

lemma text_CompressionCodec:
  assumes "pairs_arrays it"
  shows "to_string_CompressionCodec it = table_text (map CompressionCodec_val kCompressionCodecValues) kCompressionCodecNames"
    "put_CompressionCodec it v out = out @ to_string_CompressionCodec it v"
proof -
  have "length (map CompressionCodec_val kCompressionCodecValues) = 8" by (simp add: kCompressionCodecValues_def)
  then have "CompressionCodec_VALUES_TO_NAMES it = map_of (zip (map CompressionCodec_val kCompressionCodecValues) kCompressionCodecNames)"
    using assms table_CompressionCodec.same_length unfolding pairs_arrays_def CompressionCodec_VALUES_TO_NAMES_def by metis
  then show "to_string_CompressionCodec it = table_text (map CompressionCodec_val kCompressionCodecValues) kCompressionCodecNames"
    and "put_CompressionCodec it v out = out @ to_string_CompressionCodec it v"
    by (simp_all add: fun_eq_iff table_text_def to_string_CompressionCodec_def put_CompressionCodec_def split: option.split)
qed

lemma texts_CompressionCodec: "pairs_arrays it \<Longrightarrow> enum_texts (to_string_CompressionCodec it) (map CompressionCodec_val enum_class.enum) kCompressionCodecNames"
  using table_CompressionCodec.texts by (simp add: text_CompressionCodec(1) enum_CompressionCodec_def)

lemma names_PageType: "\<forall>n\<in>set kPageTypeNames. is_name n"
  by (simp add: kPageTypeNames_def names_facts)

interpretation table_PageType: name_table "map PageType_val kPageTypeValues" kPageTypeNames
proof
  show "is_name n" if "n \<in> set kPageTypeNames" for n using that names_PageType by blast
qed (simp_all add: kPageTypeValues_def kPageTypeNames_def)

lemma text_PageType:
  assumes "pairs_arrays it"
  shows "to_string_PageType it = table_text (map PageType_val kPageTypeValues) kPageTypeNames"
    "put_PageType it v out = out @ to_string_PageType it v"
proof -
  have "length (map PageType_val kPageTypeValues) = 4" by (simp add: kPageTypeValues_def)
  then have "PageType_VALUES_TO_NAMES it = map_of (zip (map PageType_val kPageTypeValues) kPageTypeNames)"
    using assms table_PageType.same_length unfolding pairs_arrays_def PageType_VALUES_TO_NAMES_def by metis
  then show "to_string_PageType it = table_text (map PageType_val kPageTypeValues) kPageTypeNames"
    and "put_PageType it v out = out @ to_string_PageType it v"
    by (simp_all add: fun_eq_iff table_text_def to_string_PageType_def put_PageType_def split: option.split)
qed

lemma texts_PageType: "pairs_arrays it \<Longrightarrow> enum_texts (to_string_PageType it) (map PageType_val enum_class.enum) kPageTypeNames"
  using table_PageType.texts by (simp add: text_PageType(1) enum_PageType_def)

lemma names_BoundaryOrder: "\<forall>n\<in>set kBoundaryOrderNames. is_name n"
  by (simp add: kBoundaryOrderNames_def names_facts)

interpretation table_BoundaryOrder: name_table "map BoundaryOrder_val kBoundaryOrderValues" kBoundaryOrderNames
proof
  show "is_name n" if "n \<in> set kBoundaryOrderNames" for n using that names_BoundaryOrder by blast
qed (simp_all add: kBoundaryOrderValues_def kBoundaryOrderNames_def)

lemma text_BoundaryOrder:
  assumes "pairs_arrays it"
  shows "to_string_BoundaryOrder it = table_text (map BoundaryOrder_val kBoundaryOrderValues) kBoundaryOrderNames"
    "put_BoundaryOrder it v out = out @ to_string_BoundaryOrder it v"
proof -
  have "length (map BoundaryOrder_val kBoundaryOrderValues) = 3" by (simp add: kBoundaryOrderValues_def)
  then have "BoundaryOrder_VALUES_TO_NAMES it = map_of (zip (map BoundaryOrder_val kBoundaryOrderValues) kBoundaryOrderNames)"
    using assms table_BoundaryOrder.same_length unfolding pairs_arrays_def BoundaryOrder_VALUES_TO_NAMES_def by metis
  then show "to_string_BoundaryOrder it = table_text (map BoundaryOrder_val kBoundaryOrderValues) kBoundaryOrderNames"
    and "put_BoundaryOrder it v out = out @ to_string_BoundaryOrder it v"
    by (simp_all add: fun_eq_iff table_text_def to_string_BoundaryOrder_def put_BoundaryOrder_def split: option.split)
qed

lemma texts_BoundaryOrder: "pairs_arrays it \<Longrightarrow> enum_texts (to_string_BoundaryOrder it) (map BoundaryOrder_val enum_class.enum) kBoundaryOrderNames"
  using table_BoundaryOrder.texts by (simp add: text_BoundaryOrder(1) enum_BoundaryOrder_def)

section \<open>Properties\<close>

text \<open>
  C39: Every number of an enumeration has a text of its own. The texts of the enumerators are their
  names, in the order of the table; any other number, as a reader may find it in a file, is shown
  in decimal, and no two numbers have the same text.
\<close>

theorem enumeration_texts:
  assumes "pairs_arrays it"
  shows "enum_texts (to_string_Type it) (map Type_val enum_class.enum) kTypeNames \<and>
    enum_texts (to_string_ConvertedType it) (map ConvertedType_val enum_class.enum) kConvertedTypeNames \<and>
    enum_texts (to_string_FieldRepetitionType it) (map FieldRepetitionType_val enum_class.enum) kFieldRepetitionTypeNames \<and>
    enum_texts (to_string_EdgeInterpolationAlgorithm it) (map EdgeInterpolationAlgorithm_val enum_class.enum) kEdgeInterpolationAlgorithmNames \<and>
    enum_texts (to_string_Encoding it) (map Encoding_val enum_class.enum) kEncodingNames \<and>
    enum_texts (to_string_CompressionCodec it) (map CompressionCodec_val enum_class.enum) kCompressionCodecNames \<and>
    enum_texts (to_string_PageType it) (map PageType_val enum_class.enum) kPageTypeNames \<and>
    enum_texts (to_string_BoundaryOrder it) (map BoundaryOrder_val enum_class.enum) kBoundaryOrderNames"
  by (intro conjI texts_Type [OF assms]
      texts_ConvertedType [OF assms]
      texts_FieldRepetitionType [OF assms]
      texts_EdgeInterpolationAlgorithm [OF assms]
      texts_Encoding [OF assms]
      texts_CompressionCodec [OF assms]
      texts_PageType [OF assms]
      texts_BoundaryOrder [OF assms])

theorem enumeration_texts_witness:
  "(let it = (\<lambda>n vs ns. zip vs ns) in
     map (to_string_Type it \<circ> Type_val) [Type_BOOLEAN, Type_INT32] = [''BOOLEAN'', ''INT32''] \<and>
     to_string_Type it 8 = ''8'' \<and> to_string_Type it (- 1) = ''-1'' \<and> inj (to_string_Encoding it))"
proof -
  have "pairs_arrays (\<lambda>n vs ns. zip vs ns)" by (simp add: pairs_arrays_def)
  note texts = enumeration_texts [OF this, unfolded enum_texts_def]
  from texts have "map (to_string_Type (\<lambda>n vs ns. zip vs ns)) (map Type_val enum_class.enum) = kTypeNames"
    and other: "\<forall>v. v \<notin> set (map Type_val enum_class.enum) \<longrightarrow>
      to_string_Type (\<lambda>n vs ns. zip vs ns) v = int_text (sint v)" by blast+
  then have "map (to_string_Type (\<lambda>n vs ns. zip vs ns) \<circ> Type_val) [Type_BOOLEAN, Type_INT32] = [''BOOLEAN'', ''INT32'']"
    by (simp add: enum_Type_def kTypeValues_def kTypeNames_def)
  moreover have "to_string_Type (\<lambda>n vs ns. zip vs ns) 8 = ''8''"
    and "to_string_Type (\<lambda>n vs ns. zip vs ns) (- 1) = ''-1''"
    using other [rule_format, of 8] other [rule_format, of "- 1"]
    by (simp_all add: enum_Type_def kTypeValues_def int_text_def decimal.simps digit_def)
  ultimately show ?thesis using texts by (simp add: Let_def)
qed

end
