(* ===== verification/Parquet_Print.thy ===== *)
theory Parquet_Print
  imports Parquet_Enums
begin

text \<open>
  The generated \<open>printTo\<close> functions and stream operators (src/gen-cpp/parquet_types.cpp): the text of
  each struct, which lists its fields with their names, \<open><null>\<close> where an optional one is not set. A
  stream is what was put into it so far. The functions \<open>to_string\<close> of the Thrift library are a
  parameter, one for each type of a field: for vectors it is given the one for the elements, for
  structs the stream operator.
\<close>

record to_strings =
  ts_enum :: enum_iterator
  ts_bool :: "bool \<Rightarrow> string"
  ts_byte :: "i8 \<Rightarrow> string"
  ts_i16 :: "i16 \<Rightarrow> string"
  ts_i32 :: "i32 \<Rightarrow> string"
  ts_i64 :: "i64 \<Rightarrow> string"
  ts_double :: "u64 \<Rightarrow> string"
  ts_string :: "string \<Rightarrow> string"
  ts_list :: "string list \<Rightarrow> string"
  ts_stream :: "(string \<Rightarrow> string) \<Rightarrow> string"

definition ts_vector :: "to_strings \<Rightarrow> ('a \<Rightarrow> string) \<Rightarrow> 'a list \<Rightarrow> string" where
  "ts_vector ts f xs = ts_list ts (map f xs)"

definition ts_streamed :: "to_strings \<Rightarrow> ('a \<Rightarrow> string \<Rightarrow> string) \<Rightarrow> 'a \<Rightarrow> string" where
  "ts_streamed ts put x = ts_stream ts (put x)"

definition out_field :: "string \<Rightarrow> ('a \<Rightarrow> string) \<Rightarrow> 'a \<Rightarrow> string" where
  "out_field name to_string v = name @ ''='' @ to_string v"

definition out_opt :: "string \<Rightarrow> ('a \<Rightarrow> string) \<Rightarrow> 'a option \<Rightarrow> string" where
  "out_opt name to_string v =
     name @ ''='' @ (case v of Some x \<Rightarrow> to_string x | None \<Rightarrow> ''<null>'')"

fun comma_separated :: "string list \<Rightarrow> string" where
  "comma_separated [] = []"
| "comma_separated [f] = f"
| "comma_separated (f # fs) = f @ '', '' @ comma_separated fs"

definition out_struct :: "string \<Rightarrow> string list \<Rightarrow> string \<Rightarrow> string" where
  "out_struct name fs out = out @ name @ ''('' @ comma_separated fs @ '')''"

section \<open>The structs\<close>

definition SizeStatistics_printTo :: "to_strings \<Rightarrow> SizeStatistics \<Rightarrow> string \<Rightarrow> string" where
  "SizeStatistics_printTo ts x out = out_struct ''SizeStatistics''
    [out_opt ''unencoded_byte_array_data_bytes'' (ts_i64 ts) (SizeStatistics_unencoded_byte_array_data_bytes x),
     out_opt ''repetition_level_histogram'' (ts_vector ts (ts_i64 ts)) (SizeStatistics_repetition_level_histogram x),
     out_opt ''definition_level_histogram'' (ts_vector ts (ts_i64 ts)) (SizeStatistics_definition_level_histogram x)] out"

definition put_SizeStatistics :: "to_strings \<Rightarrow> SizeStatistics \<Rightarrow> string \<Rightarrow> string" where
  "put_SizeStatistics ts obj out = SizeStatistics_printTo ts obj out"

definition BoundingBox_printTo :: "to_strings \<Rightarrow> BoundingBox \<Rightarrow> string \<Rightarrow> string" where
  "BoundingBox_printTo ts x out = out_struct ''BoundingBox''
    [out_field ''xmin'' (ts_double ts) (BoundingBox_xmin x),
     out_field ''xmax'' (ts_double ts) (BoundingBox_xmax x),
     out_field ''ymin'' (ts_double ts) (BoundingBox_ymin x),
     out_field ''ymax'' (ts_double ts) (BoundingBox_ymax x),
     out_opt ''zmin'' (ts_double ts) (BoundingBox_zmin x),
     out_opt ''zmax'' (ts_double ts) (BoundingBox_zmax x),
     out_opt ''mmin'' (ts_double ts) (BoundingBox_mmin x),
     out_opt ''mmax'' (ts_double ts) (BoundingBox_mmax x)] out"

definition put_BoundingBox :: "to_strings \<Rightarrow> BoundingBox \<Rightarrow> string \<Rightarrow> string" where
  "put_BoundingBox ts obj out = BoundingBox_printTo ts obj out"

definition GeospatialStatistics_printTo :: "to_strings \<Rightarrow> GeospatialStatistics \<Rightarrow> string \<Rightarrow> string" where
  "GeospatialStatistics_printTo ts x out = out_struct ''GeospatialStatistics''
    [out_opt ''bbox'' (ts_streamed ts (put_BoundingBox ts)) (GeospatialStatistics_bbox x),
     out_opt ''geospatial_types'' (ts_vector ts (ts_i32 ts)) (GeospatialStatistics_geospatial_types x)] out"

definition put_GeospatialStatistics :: "to_strings \<Rightarrow> GeospatialStatistics \<Rightarrow> string \<Rightarrow> string" where
  "put_GeospatialStatistics ts obj out = GeospatialStatistics_printTo ts obj out"

definition Statistics_printTo :: "to_strings \<Rightarrow> Statistics \<Rightarrow> string \<Rightarrow> string" where
  "Statistics_printTo ts x out = out_struct ''Statistics''
    [out_opt ''max'' (ts_string ts) (Statistics_max x),
     out_opt ''min'' (ts_string ts) (Statistics_min x),
     out_opt ''null_count'' (ts_i64 ts) (Statistics_null_count x),
     out_opt ''distinct_count'' (ts_i64 ts) (Statistics_distinct_count x),
     out_opt ''max_value'' (ts_string ts) (Statistics_max_value x),
     out_opt ''min_value'' (ts_string ts) (Statistics_min_value x),
     out_opt ''is_max_value_exact'' (ts_bool ts) (Statistics_is_max_value_exact x),
     out_opt ''is_min_value_exact'' (ts_bool ts) (Statistics_is_min_value_exact x)] out"

definition put_Statistics :: "to_strings \<Rightarrow> Statistics \<Rightarrow> string \<Rightarrow> string" where
  "put_Statistics ts obj out = Statistics_printTo ts obj out"

definition StringType_printTo :: "to_strings \<Rightarrow> StringType \<Rightarrow> string \<Rightarrow> string" where
  "StringType_printTo ts x out = out_struct ''StringType''
    [] out"

definition put_StringType :: "to_strings \<Rightarrow> StringType \<Rightarrow> string \<Rightarrow> string" where
  "put_StringType ts obj out = StringType_printTo ts obj out"

definition UUIDType_printTo :: "to_strings \<Rightarrow> UUIDType \<Rightarrow> string \<Rightarrow> string" where
  "UUIDType_printTo ts x out = out_struct ''UUIDType''
    [] out"

definition put_UUIDType :: "to_strings \<Rightarrow> UUIDType \<Rightarrow> string \<Rightarrow> string" where
  "put_UUIDType ts obj out = UUIDType_printTo ts obj out"

definition MapType_printTo :: "to_strings \<Rightarrow> MapType \<Rightarrow> string \<Rightarrow> string" where
  "MapType_printTo ts x out = out_struct ''MapType''
    [] out"

definition put_MapType :: "to_strings \<Rightarrow> MapType \<Rightarrow> string \<Rightarrow> string" where
  "put_MapType ts obj out = MapType_printTo ts obj out"

definition ListType_printTo :: "to_strings \<Rightarrow> ListType \<Rightarrow> string \<Rightarrow> string" where
  "ListType_printTo ts x out = out_struct ''ListType''
    [] out"

definition put_ListType :: "to_strings \<Rightarrow> ListType \<Rightarrow> string \<Rightarrow> string" where
  "put_ListType ts obj out = ListType_printTo ts obj out"

definition EnumType_printTo :: "to_strings \<Rightarrow> EnumType \<Rightarrow> string \<Rightarrow> string" where
  "EnumType_printTo ts x out = out_struct ''EnumType''
    [] out"

definition put_EnumType :: "to_strings \<Rightarrow> EnumType \<Rightarrow> string \<Rightarrow> string" where
  "put_EnumType ts obj out = EnumType_printTo ts obj out"

definition DateType_printTo :: "to_strings \<Rightarrow> DateType \<Rightarrow> string \<Rightarrow> string" where
  "DateType_printTo ts x out = out_struct ''DateType''
    [] out"

definition put_DateType :: "to_strings \<Rightarrow> DateType \<Rightarrow> string \<Rightarrow> string" where
  "put_DateType ts obj out = DateType_printTo ts obj out"

definition Float16Type_printTo :: "to_strings \<Rightarrow> Float16Type \<Rightarrow> string \<Rightarrow> string" where
  "Float16Type_printTo ts x out = out_struct ''Float16Type''
    [] out"

definition put_Float16Type :: "to_strings \<Rightarrow> Float16Type \<Rightarrow> string \<Rightarrow> string" where
  "put_Float16Type ts obj out = Float16Type_printTo ts obj out"

definition NullType_printTo :: "to_strings \<Rightarrow> NullType \<Rightarrow> string \<Rightarrow> string" where
  "NullType_printTo ts x out = out_struct ''NullType''
    [] out"

definition put_NullType :: "to_strings \<Rightarrow> NullType \<Rightarrow> string \<Rightarrow> string" where
  "put_NullType ts obj out = NullType_printTo ts obj out"

definition DecimalType_printTo :: "to_strings \<Rightarrow> DecimalType \<Rightarrow> string \<Rightarrow> string" where
  "DecimalType_printTo ts x out = out_struct ''DecimalType''
    [out_field ''scale'' (ts_i32 ts) (DecimalType_scale x),
     out_field ''precision'' (ts_i32 ts) (DecimalType_precision x)] out"

definition put_DecimalType :: "to_strings \<Rightarrow> DecimalType \<Rightarrow> string \<Rightarrow> string" where
  "put_DecimalType ts obj out = DecimalType_printTo ts obj out"

definition MilliSeconds_printTo :: "to_strings \<Rightarrow> MilliSeconds \<Rightarrow> string \<Rightarrow> string" where
  "MilliSeconds_printTo ts x out = out_struct ''MilliSeconds''
    [] out"

definition put_MilliSeconds :: "to_strings \<Rightarrow> MilliSeconds \<Rightarrow> string \<Rightarrow> string" where
  "put_MilliSeconds ts obj out = MilliSeconds_printTo ts obj out"

definition MicroSeconds_printTo :: "to_strings \<Rightarrow> MicroSeconds \<Rightarrow> string \<Rightarrow> string" where
  "MicroSeconds_printTo ts x out = out_struct ''MicroSeconds''
    [] out"

definition put_MicroSeconds :: "to_strings \<Rightarrow> MicroSeconds \<Rightarrow> string \<Rightarrow> string" where
  "put_MicroSeconds ts obj out = MicroSeconds_printTo ts obj out"

definition NanoSeconds_printTo :: "to_strings \<Rightarrow> NanoSeconds \<Rightarrow> string \<Rightarrow> string" where
  "NanoSeconds_printTo ts x out = out_struct ''NanoSeconds''
    [] out"

definition put_NanoSeconds :: "to_strings \<Rightarrow> NanoSeconds \<Rightarrow> string \<Rightarrow> string" where
  "put_NanoSeconds ts obj out = NanoSeconds_printTo ts obj out"

definition TimeUnit_printTo :: "to_strings \<Rightarrow> TimeUnit \<Rightarrow> string \<Rightarrow> string" where
  "TimeUnit_printTo ts x out = out_struct ''TimeUnit''
    [out_opt ''MILLIS'' (ts_streamed ts (put_MilliSeconds ts)) (TimeUnit_MILLIS x),
     out_opt ''MICROS'' (ts_streamed ts (put_MicroSeconds ts)) (TimeUnit_MICROS x),
     out_opt ''NANOS'' (ts_streamed ts (put_NanoSeconds ts)) (TimeUnit_NANOS x)] out"

definition put_TimeUnit :: "to_strings \<Rightarrow> TimeUnit \<Rightarrow> string \<Rightarrow> string" where
  "put_TimeUnit ts obj out = TimeUnit_printTo ts obj out"

definition TimestampType_printTo :: "to_strings \<Rightarrow> TimestampType \<Rightarrow> string \<Rightarrow> string" where
  "TimestampType_printTo ts x out = out_struct ''TimestampType''
    [out_field ''isAdjustedToUTC'' (ts_bool ts) (TimestampType_isAdjustedToUTC x),
     out_field ''unit'' (ts_streamed ts (put_TimeUnit ts)) (TimestampType_unit x)] out"

definition put_TimestampType :: "to_strings \<Rightarrow> TimestampType \<Rightarrow> string \<Rightarrow> string" where
  "put_TimestampType ts obj out = TimestampType_printTo ts obj out"

definition TimeType_printTo :: "to_strings \<Rightarrow> TimeType \<Rightarrow> string \<Rightarrow> string" where
  "TimeType_printTo ts x out = out_struct ''TimeType''
    [out_field ''isAdjustedToUTC'' (ts_bool ts) (TimeType_isAdjustedToUTC x),
     out_field ''unit'' (ts_streamed ts (put_TimeUnit ts)) (TimeType_unit x)] out"

definition put_TimeType :: "to_strings \<Rightarrow> TimeType \<Rightarrow> string \<Rightarrow> string" where
  "put_TimeType ts obj out = TimeType_printTo ts obj out"

definition IntType_printTo :: "to_strings \<Rightarrow> IntType \<Rightarrow> string \<Rightarrow> string" where
  "IntType_printTo ts x out = out_struct ''IntType''
    [out_field ''bitWidth'' (ts_byte ts) (IntType_bitWidth x),
     out_field ''isSigned'' (ts_bool ts) (IntType_isSigned x)] out"

definition put_IntType :: "to_strings \<Rightarrow> IntType \<Rightarrow> string \<Rightarrow> string" where
  "put_IntType ts obj out = IntType_printTo ts obj out"

definition JsonType_printTo :: "to_strings \<Rightarrow> JsonType \<Rightarrow> string \<Rightarrow> string" where
  "JsonType_printTo ts x out = out_struct ''JsonType''
    [] out"

definition put_JsonType :: "to_strings \<Rightarrow> JsonType \<Rightarrow> string \<Rightarrow> string" where
  "put_JsonType ts obj out = JsonType_printTo ts obj out"

definition BsonType_printTo :: "to_strings \<Rightarrow> BsonType \<Rightarrow> string \<Rightarrow> string" where
  "BsonType_printTo ts x out = out_struct ''BsonType''
    [] out"

definition put_BsonType :: "to_strings \<Rightarrow> BsonType \<Rightarrow> string \<Rightarrow> string" where
  "put_BsonType ts obj out = BsonType_printTo ts obj out"

definition VariantType_printTo :: "to_strings \<Rightarrow> VariantType \<Rightarrow> string \<Rightarrow> string" where
  "VariantType_printTo ts x out = out_struct ''VariantType''
    [out_opt ''specification_version'' (ts_byte ts) (VariantType_specification_version x)] out"

definition put_VariantType :: "to_strings \<Rightarrow> VariantType \<Rightarrow> string \<Rightarrow> string" where
  "put_VariantType ts obj out = VariantType_printTo ts obj out"

definition GeometryType_printTo :: "to_strings \<Rightarrow> GeometryType \<Rightarrow> string \<Rightarrow> string" where
  "GeometryType_printTo ts x out = out_struct ''GeometryType''
    [out_opt ''crs'' (ts_string ts) (GeometryType_crs x)] out"

definition put_GeometryType :: "to_strings \<Rightarrow> GeometryType \<Rightarrow> string \<Rightarrow> string" where
  "put_GeometryType ts obj out = GeometryType_printTo ts obj out"

definition GeographyType_printTo :: "to_strings \<Rightarrow> GeographyType \<Rightarrow> string \<Rightarrow> string" where
  "GeographyType_printTo ts x out = out_struct ''GeographyType''
    [out_opt ''crs'' (ts_string ts) (GeographyType_crs x),
     out_opt ''algorithm'' (to_string_EdgeInterpolationAlgorithm (ts_enum ts)) (GeographyType_algorithm x)] out"

definition put_GeographyType :: "to_strings \<Rightarrow> GeographyType \<Rightarrow> string \<Rightarrow> string" where
  "put_GeographyType ts obj out = GeographyType_printTo ts obj out"

definition LogicalType_printTo :: "to_strings \<Rightarrow> LogicalType \<Rightarrow> string \<Rightarrow> string" where
  "LogicalType_printTo ts x out = out_struct ''LogicalType''
    [out_opt ''STRING'' (ts_streamed ts (put_StringType ts)) (LogicalType_STRING x),
     out_opt ''MAP'' (ts_streamed ts (put_MapType ts)) (LogicalType_MAP x),
     out_opt ''LIST'' (ts_streamed ts (put_ListType ts)) (LogicalType_LIST x),
     out_opt ''ENUM'' (ts_streamed ts (put_EnumType ts)) (LogicalType_ENUM x),
     out_opt ''DECIMAL'' (ts_streamed ts (put_DecimalType ts)) (LogicalType_DECIMAL x),
     out_opt ''DATE'' (ts_streamed ts (put_DateType ts)) (LogicalType_DATE x),
     out_opt ''TIME'' (ts_streamed ts (put_TimeType ts)) (LogicalType_TIME x),
     out_opt ''TIMESTAMP'' (ts_streamed ts (put_TimestampType ts)) (LogicalType_TIMESTAMP x),
     out_opt ''INTEGER'' (ts_streamed ts (put_IntType ts)) (LogicalType_INTEGER x),
     out_opt ''UNKNOWN'' (ts_streamed ts (put_NullType ts)) (LogicalType_UNKNOWN x),
     out_opt ''JSON'' (ts_streamed ts (put_JsonType ts)) (LogicalType_JSON x),
     out_opt ''BSON'' (ts_streamed ts (put_BsonType ts)) (LogicalType_BSON x),
     out_opt ''UUID'' (ts_streamed ts (put_UUIDType ts)) (LogicalType_UUID x),
     out_opt ''FLOAT16'' (ts_streamed ts (put_Float16Type ts)) (LogicalType_FLOAT16 x),
     out_opt ''VARIANT'' (ts_streamed ts (put_VariantType ts)) (LogicalType_VARIANT x),
     out_opt ''GEOMETRY'' (ts_streamed ts (put_GeometryType ts)) (LogicalType_GEOMETRY x),
     out_opt ''GEOGRAPHY'' (ts_streamed ts (put_GeographyType ts)) (LogicalType_GEOGRAPHY x)] out"

definition put_LogicalType :: "to_strings \<Rightarrow> LogicalType \<Rightarrow> string \<Rightarrow> string" where
  "put_LogicalType ts obj out = LogicalType_printTo ts obj out"

definition SchemaElement_printTo :: "to_strings \<Rightarrow> SchemaElement \<Rightarrow> string \<Rightarrow> string" where
  "SchemaElement_printTo ts x out = out_struct ''SchemaElement''
    [out_opt ''type'' (to_string_Type (ts_enum ts)) (SchemaElement_type x),
     out_opt ''type_length'' (ts_i32 ts) (SchemaElement_type_length x),
     out_opt ''repetition_type'' (to_string_FieldRepetitionType (ts_enum ts)) (SchemaElement_repetition_type x),
     out_field ''name'' (ts_string ts) (SchemaElement_name x),
     out_opt ''num_children'' (ts_i32 ts) (SchemaElement_num_children x),
     out_opt ''converted_type'' (to_string_ConvertedType (ts_enum ts)) (SchemaElement_converted_type x),
     out_opt ''scale'' (ts_i32 ts) (SchemaElement_scale x),
     out_opt ''precision'' (ts_i32 ts) (SchemaElement_precision x),
     out_opt ''field_id'' (ts_i32 ts) (SchemaElement_field_id x),
     out_opt ''logicalType'' (ts_streamed ts (put_LogicalType ts)) (SchemaElement_logicalType x)] out"

definition put_SchemaElement :: "to_strings \<Rightarrow> SchemaElement \<Rightarrow> string \<Rightarrow> string" where
  "put_SchemaElement ts obj out = SchemaElement_printTo ts obj out"

definition DataPageHeader_printTo :: "to_strings \<Rightarrow> DataPageHeader \<Rightarrow> string \<Rightarrow> string" where
  "DataPageHeader_printTo ts x out = out_struct ''DataPageHeader''
    [out_field ''num_values'' (ts_i32 ts) (DataPageHeader_num_values x),
     out_field ''encoding'' (to_string_Encoding (ts_enum ts)) (DataPageHeader_encoding x),
     out_field ''definition_level_encoding'' (to_string_Encoding (ts_enum ts)) (DataPageHeader_definition_level_encoding x),
     out_field ''repetition_level_encoding'' (to_string_Encoding (ts_enum ts)) (DataPageHeader_repetition_level_encoding x),
     out_opt ''statistics'' (ts_streamed ts (put_Statistics ts)) (DataPageHeader_statistics x)] out"

definition put_DataPageHeader :: "to_strings \<Rightarrow> DataPageHeader \<Rightarrow> string \<Rightarrow> string" where
  "put_DataPageHeader ts obj out = DataPageHeader_printTo ts obj out"

definition IndexPageHeader_printTo :: "to_strings \<Rightarrow> IndexPageHeader \<Rightarrow> string \<Rightarrow> string" where
  "IndexPageHeader_printTo ts x out = out_struct ''IndexPageHeader''
    [] out"

definition put_IndexPageHeader :: "to_strings \<Rightarrow> IndexPageHeader \<Rightarrow> string \<Rightarrow> string" where
  "put_IndexPageHeader ts obj out = IndexPageHeader_printTo ts obj out"

definition DictionaryPageHeader_printTo :: "to_strings \<Rightarrow> DictionaryPageHeader \<Rightarrow> string \<Rightarrow> string" where
  "DictionaryPageHeader_printTo ts x out = out_struct ''DictionaryPageHeader''
    [out_field ''num_values'' (ts_i32 ts) (DictionaryPageHeader_num_values x),
     out_field ''encoding'' (to_string_Encoding (ts_enum ts)) (DictionaryPageHeader_encoding x),
     out_opt ''is_sorted'' (ts_bool ts) (DictionaryPageHeader_is_sorted x)] out"

definition put_DictionaryPageHeader :: "to_strings \<Rightarrow> DictionaryPageHeader \<Rightarrow> string \<Rightarrow> string" where
  "put_DictionaryPageHeader ts obj out = DictionaryPageHeader_printTo ts obj out"

definition DataPageHeaderV2_printTo :: "to_strings \<Rightarrow> DataPageHeaderV2 \<Rightarrow> string \<Rightarrow> string" where
  "DataPageHeaderV2_printTo ts x out = out_struct ''DataPageHeaderV2''
    [out_field ''num_values'' (ts_i32 ts) (DataPageHeaderV2_num_values x),
     out_field ''num_nulls'' (ts_i32 ts) (DataPageHeaderV2_num_nulls x),
     out_field ''num_rows'' (ts_i32 ts) (DataPageHeaderV2_num_rows x),
     out_field ''encoding'' (to_string_Encoding (ts_enum ts)) (DataPageHeaderV2_encoding x),
     out_field ''definition_levels_byte_length'' (ts_i32 ts) (DataPageHeaderV2_definition_levels_byte_length x),
     out_field ''repetition_levels_byte_length'' (ts_i32 ts) (DataPageHeaderV2_repetition_levels_byte_length x),
     out_opt ''is_compressed'' (ts_bool ts) (DataPageHeaderV2_is_compressed x),
     out_opt ''statistics'' (ts_streamed ts (put_Statistics ts)) (DataPageHeaderV2_statistics x)] out"

definition put_DataPageHeaderV2 :: "to_strings \<Rightarrow> DataPageHeaderV2 \<Rightarrow> string \<Rightarrow> string" where
  "put_DataPageHeaderV2 ts obj out = DataPageHeaderV2_printTo ts obj out"

definition SplitBlockAlgorithm_printTo :: "to_strings \<Rightarrow> SplitBlockAlgorithm \<Rightarrow> string \<Rightarrow> string" where
  "SplitBlockAlgorithm_printTo ts x out = out_struct ''SplitBlockAlgorithm''
    [] out"

definition put_SplitBlockAlgorithm :: "to_strings \<Rightarrow> SplitBlockAlgorithm \<Rightarrow> string \<Rightarrow> string" where
  "put_SplitBlockAlgorithm ts obj out = SplitBlockAlgorithm_printTo ts obj out"

definition BloomFilterAlgorithm_printTo :: "to_strings \<Rightarrow> BloomFilterAlgorithm \<Rightarrow> string \<Rightarrow> string" where
  "BloomFilterAlgorithm_printTo ts x out = out_struct ''BloomFilterAlgorithm''
    [out_opt ''BLOCK'' (ts_streamed ts (put_SplitBlockAlgorithm ts)) (BloomFilterAlgorithm_BLOCK x)] out"

definition put_BloomFilterAlgorithm :: "to_strings \<Rightarrow> BloomFilterAlgorithm \<Rightarrow> string \<Rightarrow> string" where
  "put_BloomFilterAlgorithm ts obj out = BloomFilterAlgorithm_printTo ts obj out"

definition XxHash_printTo :: "to_strings \<Rightarrow> XxHash \<Rightarrow> string \<Rightarrow> string" where
  "XxHash_printTo ts x out = out_struct ''XxHash''
    [] out"

definition put_XxHash :: "to_strings \<Rightarrow> XxHash \<Rightarrow> string \<Rightarrow> string" where
  "put_XxHash ts obj out = XxHash_printTo ts obj out"

definition BloomFilterHash_printTo :: "to_strings \<Rightarrow> BloomFilterHash \<Rightarrow> string \<Rightarrow> string" where
  "BloomFilterHash_printTo ts x out = out_struct ''BloomFilterHash''
    [out_opt ''XXHASH'' (ts_streamed ts (put_XxHash ts)) (BloomFilterHash_XXHASH x)] out"

definition put_BloomFilterHash :: "to_strings \<Rightarrow> BloomFilterHash \<Rightarrow> string \<Rightarrow> string" where
  "put_BloomFilterHash ts obj out = BloomFilterHash_printTo ts obj out"

definition Uncompressed_printTo :: "to_strings \<Rightarrow> Uncompressed \<Rightarrow> string \<Rightarrow> string" where
  "Uncompressed_printTo ts x out = out_struct ''Uncompressed''
    [] out"

definition put_Uncompressed :: "to_strings \<Rightarrow> Uncompressed \<Rightarrow> string \<Rightarrow> string" where
  "put_Uncompressed ts obj out = Uncompressed_printTo ts obj out"

definition BloomFilterCompression_printTo :: "to_strings \<Rightarrow> BloomFilterCompression \<Rightarrow> string \<Rightarrow> string" where
  "BloomFilterCompression_printTo ts x out = out_struct ''BloomFilterCompression''
    [out_opt ''UNCOMPRESSED'' (ts_streamed ts (put_Uncompressed ts)) (BloomFilterCompression_UNCOMPRESSED x)] out"

definition put_BloomFilterCompression :: "to_strings \<Rightarrow> BloomFilterCompression \<Rightarrow> string \<Rightarrow> string" where
  "put_BloomFilterCompression ts obj out = BloomFilterCompression_printTo ts obj out"

definition BloomFilterHeader_printTo :: "to_strings \<Rightarrow> BloomFilterHeader \<Rightarrow> string \<Rightarrow> string" where
  "BloomFilterHeader_printTo ts x out = out_struct ''BloomFilterHeader''
    [out_field ''numBytes'' (ts_i32 ts) (BloomFilterHeader_numBytes x),
     out_field ''algorithm'' (ts_streamed ts (put_BloomFilterAlgorithm ts)) (BloomFilterHeader_algorithm x),
     out_field ''hash'' (ts_streamed ts (put_BloomFilterHash ts)) (BloomFilterHeader_hash x),
     out_field ''compression'' (ts_streamed ts (put_BloomFilterCompression ts)) (BloomFilterHeader_compression x)] out"

definition put_BloomFilterHeader :: "to_strings \<Rightarrow> BloomFilterHeader \<Rightarrow> string \<Rightarrow> string" where
  "put_BloomFilterHeader ts obj out = BloomFilterHeader_printTo ts obj out"

definition PageHeader_printTo :: "to_strings \<Rightarrow> PageHeader \<Rightarrow> string \<Rightarrow> string" where
  "PageHeader_printTo ts x out = out_struct ''PageHeader''
    [out_field ''type'' (to_string_PageType (ts_enum ts)) (PageHeader_type x),
     out_field ''uncompressed_page_size'' (ts_i32 ts) (PageHeader_uncompressed_page_size x),
     out_field ''compressed_page_size'' (ts_i32 ts) (PageHeader_compressed_page_size x),
     out_opt ''crc'' (ts_i32 ts) (PageHeader_crc x),
     out_opt ''data_page_header'' (ts_streamed ts (put_DataPageHeader ts)) (PageHeader_data_page_header x),
     out_opt ''index_page_header'' (ts_streamed ts (put_IndexPageHeader ts)) (PageHeader_index_page_header x),
     out_opt ''dictionary_page_header'' (ts_streamed ts (put_DictionaryPageHeader ts)) (PageHeader_dictionary_page_header x),
     out_opt ''data_page_header_v2'' (ts_streamed ts (put_DataPageHeaderV2 ts)) (PageHeader_data_page_header_v2 x)] out"

definition put_PageHeader :: "to_strings \<Rightarrow> PageHeader \<Rightarrow> string \<Rightarrow> string" where
  "put_PageHeader ts obj out = PageHeader_printTo ts obj out"

definition KeyValue_printTo :: "to_strings \<Rightarrow> KeyValue \<Rightarrow> string \<Rightarrow> string" where
  "KeyValue_printTo ts x out = out_struct ''KeyValue''
    [out_field ''key'' (ts_string ts) (KeyValue_key x),
     out_opt ''value'' (ts_string ts) (KeyValue_value x)] out"

definition put_KeyValue :: "to_strings \<Rightarrow> KeyValue \<Rightarrow> string \<Rightarrow> string" where
  "put_KeyValue ts obj out = KeyValue_printTo ts obj out"

definition SortingColumn_printTo :: "to_strings \<Rightarrow> SortingColumn \<Rightarrow> string \<Rightarrow> string" where
  "SortingColumn_printTo ts x out = out_struct ''SortingColumn''
    [out_field ''column_idx'' (ts_i32 ts) (SortingColumn_column_idx x),
     out_field ''descending'' (ts_bool ts) (SortingColumn_descending x),
     out_field ''nulls_first'' (ts_bool ts) (SortingColumn_nulls_first x)] out"

definition put_SortingColumn :: "to_strings \<Rightarrow> SortingColumn \<Rightarrow> string \<Rightarrow> string" where
  "put_SortingColumn ts obj out = SortingColumn_printTo ts obj out"

definition PageEncodingStats_printTo :: "to_strings \<Rightarrow> PageEncodingStats \<Rightarrow> string \<Rightarrow> string" where
  "PageEncodingStats_printTo ts x out = out_struct ''PageEncodingStats''
    [out_field ''page_type'' (to_string_PageType (ts_enum ts)) (PageEncodingStats_page_type x),
     out_field ''encoding'' (to_string_Encoding (ts_enum ts)) (PageEncodingStats_encoding x),
     out_field ''count'' (ts_i32 ts) (PageEncodingStats_count x)] out"

definition put_PageEncodingStats :: "to_strings \<Rightarrow> PageEncodingStats \<Rightarrow> string \<Rightarrow> string" where
  "put_PageEncodingStats ts obj out = PageEncodingStats_printTo ts obj out"

definition ColumnMetaData_printTo :: "to_strings \<Rightarrow> ColumnMetaData \<Rightarrow> string \<Rightarrow> string" where
  "ColumnMetaData_printTo ts x out = out_struct ''ColumnMetaData''
    [out_field ''type'' (to_string_Type (ts_enum ts)) (ColumnMetaData_type x),
     out_field ''encodings'' (ts_vector ts (to_string_Encoding (ts_enum ts))) (ColumnMetaData_encodings x),
     out_field ''path_in_schema'' (ts_vector ts (ts_string ts)) (ColumnMetaData_path_in_schema x),
     out_field ''codec'' (to_string_CompressionCodec (ts_enum ts)) (ColumnMetaData_codec x),
     out_field ''num_values'' (ts_i64 ts) (ColumnMetaData_num_values x),
     out_field ''total_uncompressed_size'' (ts_i64 ts) (ColumnMetaData_total_uncompressed_size x),
     out_field ''total_compressed_size'' (ts_i64 ts) (ColumnMetaData_total_compressed_size x),
     out_opt ''key_value_metadata'' (ts_vector ts (ts_streamed ts (put_KeyValue ts))) (ColumnMetaData_key_value_metadata x),
     out_field ''data_page_offset'' (ts_i64 ts) (ColumnMetaData_data_page_offset x),
     out_opt ''index_page_offset'' (ts_i64 ts) (ColumnMetaData_index_page_offset x),
     out_opt ''dictionary_page_offset'' (ts_i64 ts) (ColumnMetaData_dictionary_page_offset x),
     out_opt ''statistics'' (ts_streamed ts (put_Statistics ts)) (ColumnMetaData_statistics x),
     out_opt ''encoding_stats'' (ts_vector ts (ts_streamed ts (put_PageEncodingStats ts))) (ColumnMetaData_encoding_stats x),
     out_opt ''bloom_filter_offset'' (ts_i64 ts) (ColumnMetaData_bloom_filter_offset x),
     out_opt ''bloom_filter_length'' (ts_i32 ts) (ColumnMetaData_bloom_filter_length x),
     out_opt ''size_statistics'' (ts_streamed ts (put_SizeStatistics ts)) (ColumnMetaData_size_statistics x),
     out_opt ''geospatial_statistics'' (ts_streamed ts (put_GeospatialStatistics ts)) (ColumnMetaData_geospatial_statistics x)] out"

definition put_ColumnMetaData :: "to_strings \<Rightarrow> ColumnMetaData \<Rightarrow> string \<Rightarrow> string" where
  "put_ColumnMetaData ts obj out = ColumnMetaData_printTo ts obj out"

definition EncryptionWithFooterKey_printTo :: "to_strings \<Rightarrow> EncryptionWithFooterKey \<Rightarrow> string \<Rightarrow> string" where
  "EncryptionWithFooterKey_printTo ts x out = out_struct ''EncryptionWithFooterKey''
    [] out"

definition put_EncryptionWithFooterKey :: "to_strings \<Rightarrow> EncryptionWithFooterKey \<Rightarrow> string \<Rightarrow> string" where
  "put_EncryptionWithFooterKey ts obj out = EncryptionWithFooterKey_printTo ts obj out"

definition EncryptionWithColumnKey_printTo :: "to_strings \<Rightarrow> EncryptionWithColumnKey \<Rightarrow> string \<Rightarrow> string" where
  "EncryptionWithColumnKey_printTo ts x out = out_struct ''EncryptionWithColumnKey''
    [out_field ''path_in_schema'' (ts_vector ts (ts_string ts)) (EncryptionWithColumnKey_path_in_schema x),
     out_opt ''key_metadata'' (ts_string ts) (EncryptionWithColumnKey_key_metadata x)] out"

definition put_EncryptionWithColumnKey :: "to_strings \<Rightarrow> EncryptionWithColumnKey \<Rightarrow> string \<Rightarrow> string" where
  "put_EncryptionWithColumnKey ts obj out = EncryptionWithColumnKey_printTo ts obj out"

definition ColumnCryptoMetaData_printTo :: "to_strings \<Rightarrow> ColumnCryptoMetaData \<Rightarrow> string \<Rightarrow> string" where
  "ColumnCryptoMetaData_printTo ts x out = out_struct ''ColumnCryptoMetaData''
    [out_opt ''ENCRYPTION_WITH_FOOTER_KEY'' (ts_streamed ts (put_EncryptionWithFooterKey ts)) (ColumnCryptoMetaData_ENCRYPTION_WITH_FOOTER_KEY x),
     out_opt ''ENCRYPTION_WITH_COLUMN_KEY'' (ts_streamed ts (put_EncryptionWithColumnKey ts)) (ColumnCryptoMetaData_ENCRYPTION_WITH_COLUMN_KEY x)] out"

definition put_ColumnCryptoMetaData :: "to_strings \<Rightarrow> ColumnCryptoMetaData \<Rightarrow> string \<Rightarrow> string" where
  "put_ColumnCryptoMetaData ts obj out = ColumnCryptoMetaData_printTo ts obj out"

definition ColumnChunk_printTo :: "to_strings \<Rightarrow> ColumnChunk \<Rightarrow> string \<Rightarrow> string" where
  "ColumnChunk_printTo ts x out = out_struct ''ColumnChunk''
    [out_opt ''file_path'' (ts_string ts) (ColumnChunk_file_path x),
     out_field ''file_offset'' (ts_i64 ts) (ColumnChunk_file_offset x),
     out_opt ''meta_data'' (ts_streamed ts (put_ColumnMetaData ts)) (ColumnChunk_meta_data x),
     out_opt ''offset_index_offset'' (ts_i64 ts) (ColumnChunk_offset_index_offset x),
     out_opt ''offset_index_length'' (ts_i32 ts) (ColumnChunk_offset_index_length x),
     out_opt ''column_index_offset'' (ts_i64 ts) (ColumnChunk_column_index_offset x),
     out_opt ''column_index_length'' (ts_i32 ts) (ColumnChunk_column_index_length x),
     out_opt ''crypto_metadata'' (ts_streamed ts (put_ColumnCryptoMetaData ts)) (ColumnChunk_crypto_metadata x),
     out_opt ''encrypted_column_metadata'' (ts_string ts) (ColumnChunk_encrypted_column_metadata x)] out"

definition put_ColumnChunk :: "to_strings \<Rightarrow> ColumnChunk \<Rightarrow> string \<Rightarrow> string" where
  "put_ColumnChunk ts obj out = ColumnChunk_printTo ts obj out"

definition RowGroup_printTo :: "to_strings \<Rightarrow> RowGroup \<Rightarrow> string \<Rightarrow> string" where
  "RowGroup_printTo ts x out = out_struct ''RowGroup''
    [out_field ''columns'' (ts_vector ts (ts_streamed ts (put_ColumnChunk ts))) (RowGroup_columns x),
     out_field ''total_byte_size'' (ts_i64 ts) (RowGroup_total_byte_size x),
     out_field ''num_rows'' (ts_i64 ts) (RowGroup_num_rows x),
     out_opt ''sorting_columns'' (ts_vector ts (ts_streamed ts (put_SortingColumn ts))) (RowGroup_sorting_columns x),
     out_opt ''file_offset'' (ts_i64 ts) (RowGroup_file_offset x),
     out_opt ''total_compressed_size'' (ts_i64 ts) (RowGroup_total_compressed_size x),
     out_opt ''ordinal'' (ts_i16 ts) (RowGroup_ordinal x)] out"

definition put_RowGroup :: "to_strings \<Rightarrow> RowGroup \<Rightarrow> string \<Rightarrow> string" where
  "put_RowGroup ts obj out = RowGroup_printTo ts obj out"

definition TypeDefinedOrder_printTo :: "to_strings \<Rightarrow> TypeDefinedOrder \<Rightarrow> string \<Rightarrow> string" where
  "TypeDefinedOrder_printTo ts x out = out_struct ''TypeDefinedOrder''
    [] out"

definition put_TypeDefinedOrder :: "to_strings \<Rightarrow> TypeDefinedOrder \<Rightarrow> string \<Rightarrow> string" where
  "put_TypeDefinedOrder ts obj out = TypeDefinedOrder_printTo ts obj out"

definition ColumnOrder_printTo :: "to_strings \<Rightarrow> ColumnOrder \<Rightarrow> string \<Rightarrow> string" where
  "ColumnOrder_printTo ts x out = out_struct ''ColumnOrder''
    [out_opt ''TYPE_ORDER'' (ts_streamed ts (put_TypeDefinedOrder ts)) (ColumnOrder_TYPE_ORDER x)] out"

definition put_ColumnOrder :: "to_strings \<Rightarrow> ColumnOrder \<Rightarrow> string \<Rightarrow> string" where
  "put_ColumnOrder ts obj out = ColumnOrder_printTo ts obj out"

definition PageLocation_printTo :: "to_strings \<Rightarrow> PageLocation \<Rightarrow> string \<Rightarrow> string" where
  "PageLocation_printTo ts x out = out_struct ''PageLocation''
    [out_field ''offset'' (ts_i64 ts) (PageLocation_offset x),
     out_field ''compressed_page_size'' (ts_i32 ts) (PageLocation_compressed_page_size x),
     out_field ''first_row_index'' (ts_i64 ts) (PageLocation_first_row_index x)] out"

definition put_PageLocation :: "to_strings \<Rightarrow> PageLocation \<Rightarrow> string \<Rightarrow> string" where
  "put_PageLocation ts obj out = PageLocation_printTo ts obj out"

definition OffsetIndex_printTo :: "to_strings \<Rightarrow> OffsetIndex \<Rightarrow> string \<Rightarrow> string" where
  "OffsetIndex_printTo ts x out = out_struct ''OffsetIndex''
    [out_field ''page_locations'' (ts_vector ts (ts_streamed ts (put_PageLocation ts))) (OffsetIndex_page_locations x),
     out_opt ''unencoded_byte_array_data_bytes'' (ts_vector ts (ts_i64 ts)) (OffsetIndex_unencoded_byte_array_data_bytes x)] out"

definition put_OffsetIndex :: "to_strings \<Rightarrow> OffsetIndex \<Rightarrow> string \<Rightarrow> string" where
  "put_OffsetIndex ts obj out = OffsetIndex_printTo ts obj out"

definition ColumnIndex_printTo :: "to_strings \<Rightarrow> ColumnIndex \<Rightarrow> string \<Rightarrow> string" where
  "ColumnIndex_printTo ts x out = out_struct ''ColumnIndex''
    [out_field ''null_pages'' (ts_vector ts (ts_bool ts)) (ColumnIndex_null_pages x),
     out_field ''min_values'' (ts_vector ts (ts_string ts)) (ColumnIndex_min_values x),
     out_field ''max_values'' (ts_vector ts (ts_string ts)) (ColumnIndex_max_values x),
     out_field ''boundary_order'' (to_string_BoundaryOrder (ts_enum ts)) (ColumnIndex_boundary_order x),
     out_opt ''null_counts'' (ts_vector ts (ts_i64 ts)) (ColumnIndex_null_counts x),
     out_opt ''repetition_level_histograms'' (ts_vector ts (ts_i64 ts)) (ColumnIndex_repetition_level_histograms x),
     out_opt ''definition_level_histograms'' (ts_vector ts (ts_i64 ts)) (ColumnIndex_definition_level_histograms x)] out"

definition put_ColumnIndex :: "to_strings \<Rightarrow> ColumnIndex \<Rightarrow> string \<Rightarrow> string" where
  "put_ColumnIndex ts obj out = ColumnIndex_printTo ts obj out"

definition AesGcmV1_printTo :: "to_strings \<Rightarrow> AesGcmV1 \<Rightarrow> string \<Rightarrow> string" where
  "AesGcmV1_printTo ts x out = out_struct ''AesGcmV1''
    [out_opt ''aad_prefix'' (ts_string ts) (AesGcmV1_aad_prefix x),
     out_opt ''aad_file_unique'' (ts_string ts) (AesGcmV1_aad_file_unique x),
     out_opt ''supply_aad_prefix'' (ts_bool ts) (AesGcmV1_supply_aad_prefix x)] out"

definition put_AesGcmV1 :: "to_strings \<Rightarrow> AesGcmV1 \<Rightarrow> string \<Rightarrow> string" where
  "put_AesGcmV1 ts obj out = AesGcmV1_printTo ts obj out"

definition AesGcmCtrV1_printTo :: "to_strings \<Rightarrow> AesGcmCtrV1 \<Rightarrow> string \<Rightarrow> string" where
  "AesGcmCtrV1_printTo ts x out = out_struct ''AesGcmCtrV1''
    [out_opt ''aad_prefix'' (ts_string ts) (AesGcmCtrV1_aad_prefix x),
     out_opt ''aad_file_unique'' (ts_string ts) (AesGcmCtrV1_aad_file_unique x),
     out_opt ''supply_aad_prefix'' (ts_bool ts) (AesGcmCtrV1_supply_aad_prefix x)] out"

definition put_AesGcmCtrV1 :: "to_strings \<Rightarrow> AesGcmCtrV1 \<Rightarrow> string \<Rightarrow> string" where
  "put_AesGcmCtrV1 ts obj out = AesGcmCtrV1_printTo ts obj out"

definition EncryptionAlgorithm_printTo :: "to_strings \<Rightarrow> EncryptionAlgorithm \<Rightarrow> string \<Rightarrow> string" where
  "EncryptionAlgorithm_printTo ts x out = out_struct ''EncryptionAlgorithm''
    [out_opt ''AES_GCM_V1'' (ts_streamed ts (put_AesGcmV1 ts)) (EncryptionAlgorithm_AES_GCM_V1 x),
     out_opt ''AES_GCM_CTR_V1'' (ts_streamed ts (put_AesGcmCtrV1 ts)) (EncryptionAlgorithm_AES_GCM_CTR_V1 x)] out"

definition put_EncryptionAlgorithm :: "to_strings \<Rightarrow> EncryptionAlgorithm \<Rightarrow> string \<Rightarrow> string" where
  "put_EncryptionAlgorithm ts obj out = EncryptionAlgorithm_printTo ts obj out"

definition FileMetaData_printTo :: "to_strings \<Rightarrow> FileMetaData \<Rightarrow> string \<Rightarrow> string" where
  "FileMetaData_printTo ts x out = out_struct ''FileMetaData''
    [out_field ''version'' (ts_i32 ts) (FileMetaData_version x),
     out_field ''schema'' (ts_vector ts (ts_streamed ts (put_SchemaElement ts))) (FileMetaData_schema x),
     out_field ''num_rows'' (ts_i64 ts) (FileMetaData_num_rows x),
     out_field ''row_groups'' (ts_vector ts (ts_streamed ts (put_RowGroup ts))) (FileMetaData_row_groups x),
     out_opt ''key_value_metadata'' (ts_vector ts (ts_streamed ts (put_KeyValue ts))) (FileMetaData_key_value_metadata x),
     out_opt ''created_by'' (ts_string ts) (FileMetaData_created_by x),
     out_opt ''column_orders'' (ts_vector ts (ts_streamed ts (put_ColumnOrder ts))) (FileMetaData_column_orders x),
     out_opt ''encryption_algorithm'' (ts_streamed ts (put_EncryptionAlgorithm ts)) (FileMetaData_encryption_algorithm x),
     out_opt ''footer_signing_key_metadata'' (ts_string ts) (FileMetaData_footer_signing_key_metadata x)] out"

definition put_FileMetaData :: "to_strings \<Rightarrow> FileMetaData \<Rightarrow> string \<Rightarrow> string" where
  "put_FileMetaData ts obj out = FileMetaData_printTo ts obj out"

definition FileCryptoMetaData_printTo :: "to_strings \<Rightarrow> FileCryptoMetaData \<Rightarrow> string \<Rightarrow> string" where
  "FileCryptoMetaData_printTo ts x out = out_struct ''FileCryptoMetaData''
    [out_field ''encryption_algorithm'' (ts_streamed ts (put_EncryptionAlgorithm ts)) (FileCryptoMetaData_encryption_algorithm x),
     out_opt ''key_metadata'' (ts_string ts) (FileCryptoMetaData_key_metadata x)] out"

definition put_FileCryptoMetaData :: "to_strings \<Rightarrow> FileCryptoMetaData \<Rightarrow> string \<Rightarrow> string" where
  "put_FileCryptoMetaData ts obj out = FileCryptoMetaData_printTo ts obj out"

section \<open>Reading a text\<close>

text \<open>
  The functions of the library, as far as numbers are concerned: \<open>int32_t\<close> in decimal, the arrays of
  an enumeration visited side by side.
\<close>

definition prints_numbers :: "to_strings \<Rightarrow> bool" where
  "prints_numbers ts \<longleftrightarrow> pairs_arrays (ts_enum ts) \<and> (\<forall>v. ts_i32 ts v = int_text (sint v))"

text \<open>Up to a comma a text without commas can be read off.\<close>

definition no_comma :: "string \<Rightarrow> bool" where
  "no_comma s \<longleftrightarrow> CHR '','' \<notin> set s"

lemma comma_cancel:
  "no_comma a \<Longrightarrow> no_comma b \<Longrightarrow> a @ CHR '','' # r = b @ CHR '','' # s \<longleftrightarrow> a = b \<and> r = s"
proof (induction a arbitrary: b)
  case Nil
  then show ?case by (cases b) (auto simp: no_comma_def)
next
  case (Cons c a)
  then show ?case by (cases b) (auto simp: no_comma_def)
qed

lemma sint_eq: "sint v = sint w \<longleftrightarrow> v = w"
  by (auto intro: signed_word_eqI)

lemma no_comma_int_text [simp]: "no_comma (int_text i)"
proof -
  have "\<not> isdigit (CHR '','')" by (simp add: isdigit_def char_code_def of_char_def)
  then show ?thesis using decimal_digits by (auto simp: no_comma_def int_text_def)
qed

lemma no_comma_Encoding:
  assumes "pairs_arrays it"
  shows "no_comma (to_string_Encoding it v)"
proof (cases "map_of (zip (map Encoding_val kEncodingValues) kEncodingNames) v")
  case (Some n)
  have "\<forall>n\<in>set kEncodingNames. no_comma n" by (simp add: kEncodingNames_def no_comma_def)
  with Some show ?thesis
    by (simp add: text_Encoding(1) [OF assms] table_text_def) (metis map_of_SomeD set_zip_rightD)
qed (simp add: text_Encoding(1) [OF assms] table_text_def)

section \<open>Properties\<close>

text \<open>
  The text of the header of a page shows what the page holds: headers with the same text agree
  in their counts, their encoding and the lengths of their levels, whatever the statistics print.
\<close>

theorem page_header_text_counts:
  assumes "prints_numbers ts" and "put_DataPageHeaderV2 ts a out = put_DataPageHeaderV2 ts b out"
  shows "DataPageHeaderV2_num_values a = DataPageHeaderV2_num_values b \<and>
    DataPageHeaderV2_num_nulls a = DataPageHeaderV2_num_nulls b \<and>
    DataPageHeaderV2_num_rows a = DataPageHeaderV2_num_rows b \<and>
    DataPageHeaderV2_encoding a = DataPageHeaderV2_encoding b \<and>
    DataPageHeaderV2_definition_levels_byte_length a = DataPageHeaderV2_definition_levels_byte_length b \<and>
    DataPageHeaderV2_repetition_levels_byte_length a = DataPageHeaderV2_repetition_levels_byte_length b"
proof -
  have it: "pairs_arrays (ts_enum ts)" and i32: "\<And>v. ts_i32 ts v = int_text (sint v)"
    using assms(1) by (simp_all add: prints_numbers_def)
  note enc = no_comma_Encoding [OF it]
  from assms(2) show ?thesis
    by (simp add: put_DataPageHeaderV2_def DataPageHeaderV2_printTo_def out_struct_def out_field_def
        i32 comma_cancel enc int_text_inj inj_eq [OF enum_texts_inj [OF texts_Encoding [OF it]]] sint_eq)
qed

text \<open>A library that shows no strings: two headers that differ in their statistics look the same.\<close>

definition sample_strings :: to_strings where
  "sample_strings =
    \<lparr>ts_enum = (\<lambda>n vs ns. zip vs ns), ts_bool = (\<lambda>b. if b then ''1'' else ''0''),
     ts_byte = (\<lambda>v. int_text (sint v)), ts_i16 = (\<lambda>v. int_text (sint v)),
     ts_i32 = (\<lambda>v. int_text (sint v)), ts_i64 = (\<lambda>v. int_text (sint v)), ts_double = (\<lambda>v. ''?''),
     ts_string = (\<lambda>s. ''?''), ts_list = (\<lambda>xs. ''['' @ comma_separated xs @ '']''), ts_stream = (\<lambda>put. put [])\<rparr>"

definition stats_header :: "string \<Rightarrow> DataPageHeaderV2" where
  "stats_header s = DataPageHeaderV2_init
    \<lparr>DataPageHeaderV2_num_values := 5,
     DataPageHeaderV2_statistics := Some (Statistics_init\<lparr>Statistics_max := Some s\<rparr>)\<rparr>"

theorem page_header_text_counts_witness:
  "put_DataPageHeaderV2 sample_strings (stats_header ''a'') [] =
     put_DataPageHeaderV2 sample_strings (stats_header ''b'') [] \<and>
   stats_header ''a'' \<noteq> stats_header ''b'' \<and>
   DataPageHeaderV2_num_values (stats_header ''a'') = DataPageHeaderV2_num_values (stats_header ''b'')"
proof -
  have ts: "prints_numbers sample_strings"
    by (simp add: prints_numbers_def sample_strings_def pairs_arrays_def)
  have eq: "put_DataPageHeaderV2 sample_strings (stats_header ''a'') [] =
      put_DataPageHeaderV2 sample_strings (stats_header ''b'') []"
    by (simp add: put_DataPageHeaderV2_def DataPageHeaderV2_printTo_def stats_header_def out_opt_def
        ts_streamed_def put_Statistics_def Statistics_printTo_def sample_strings_def)
  have "stats_header ''a'' \<noteq> stats_header ''b''"
    by (simp add: stats_header_def Statistics_init_def DataPageHeaderV2_init_def)
  with eq page_header_text_counts [OF ts eq] show ?thesis by simp
qed

end
