(* ===== verification/Parquet_Schema.thy ===== *)
theory Parquet_Schema
  imports Vtk_Array Parquet_Enums
begin

text \<open>
  What the format asks of metadata beyond its structs, as the comments of
  src/gen-cpp/parquet_types.h describe it: the schema is a tree in depth-first order, whose leaves
  are the columns; every element but the root says how often it occurs, and the root does not; every
  row group has a chunk per column, of the column's type and path; numbers of enumerations are
  enumerators; the counts add up. Metadata that keeps these rules is well typed. The program's pages
  are, for every type and codec that it supports; its footers break one rule, that of the root.
\<close>

section \<open>The rules\<close>

text \<open>The number of an enumerator.\<close>

definition enumerator :: "('a::enum \<Rightarrow> i32) \<Rightarrow> i32 \<Rightarrow> bool" where
  "enumerator val v \<longleftrightarrow> list_ex (\<lambda>c. val c = v) enum_class.enum"

lemma enumerator_val [simp]: "enumerator val (val c)"
  by (auto simp: enumerator_def list_ex_iff UNIV_enum [symmetric])

text \<open>The physical type that holds the values of a converted type, where there is only one.\<close>

fun stored_as :: "ConvertedType \<Rightarrow> Type list" where
  "stored_as ConvertedType_UTF8 = [Type_BYTE_ARRAY]"
| "stored_as ConvertedType_ENUM = [Type_BYTE_ARRAY]"
| "stored_as ConvertedType_JSON = [Type_BYTE_ARRAY]"
| "stored_as ConvertedType_BSON = [Type_BYTE_ARRAY]"
| "stored_as ConvertedType_DECIMAL = [Type_INT32, Type_INT64, Type_BYTE_ARRAY, Type_FIXED_LEN_BYTE_ARRAY]"
| "stored_as ConvertedType_INTERVAL = [Type_FIXED_LEN_BYTE_ARRAY]"
| "stored_as ConvertedType_TIME_MICROS = [Type_INT64]"
| "stored_as ConvertedType_TIMESTAMP_MILLIS = [Type_INT64]"
| "stored_as ConvertedType_TIMESTAMP_MICROS = [Type_INT64]"
| "stored_as ConvertedType_UINT_64 = [Type_INT64]"
| "stored_as ConvertedType_INT_64 = [Type_INT64]"
| "stored_as ConvertedType_MAP = []"
| "stored_as ConvertedType_MAP_KEY_VALUE = []"
| "stored_as ConvertedType_LIST = []"
| "stored_as _ = [Type_INT32]"

definition converted_fits :: "Type_t \<Rightarrow> ConvertedType_t \<Rightarrow> bool" where
  "converted_fits t conv \<longleftrightarrow>
     list_ex (\<lambda>c. ConvertedType_val c = conv \<and> list_ex (\<lambda>p. Type_val p = t) (stored_as c)) enum_class.enum"

text \<open>A leaf has a type and no children; every element but the root says how often it occurs.\<close>

definition leaf_ok :: "SchemaElement \<Rightarrow> bool" where
  "leaf_ok e \<longleftrightarrow>
     (case SchemaElement_type e of
        None \<Rightarrow> False
      | Some t \<Rightarrow> enumerator Type_val t \<and>
          (t = Type_val Type_FIXED_LEN_BYTE_ARRAY \<longrightarrow> SchemaElement_type_length e \<noteq> None) \<and>
          pred_option (converted_fits t) (SchemaElement_converted_type e)) \<and>
     (case SchemaElement_repetition_type e of
        None \<Rightarrow> False
      | Some r \<Rightarrow> enumerator FieldRepetitionType_val r)"

text \<open>
  The leaves below the next \<open>n\<close> elements, with their paths, and the elements that are left. A group
  is followed by its children; no call leaves more than it was given.
\<close>

function schema_leaves ::
  "nat \<Rightarrow> string list \<Rightarrow> SchemaElement list \<Rightarrow> ((string list \<times> SchemaElement) list \<times> SchemaElement list) option"
where
  "schema_leaves 0 path es = Some ([], es)"
| "schema_leaves (Suc n) path [] = None"
| "schema_leaves (Suc n) path (e # es) =
     (case SchemaElement_num_children e of
        None \<Rightarrow>
          if leaf_ok e
          then map_option (apfst (Cons (path @ [SchemaElement_name e], e))) (schema_leaves n path es)
          else None
      | Some c \<Rightarrow>
          if SchemaElement_type e = None \<and> SchemaElement_repetition_type e \<noteq> None then
            (case schema_leaves (unat c) (path @ [SchemaElement_name e]) es of
               None \<Rightarrow> None
             | Some (ls, es') \<Rightarrow>
                 if length es' \<le> length es
                 then map_option (apfst (append ls)) (schema_leaves n path es') else None)
          else None)"
  by pat_completeness auto
termination
  by (relation "measure (\<lambda>(n, path, es). length es)") auto

text \<open>The first element is the root: a group that does not say how often it occurs.\<close>

definition schema_columns :: "SchemaElement list \<Rightarrow> (string list \<times> SchemaElement) list option" where
  "schema_columns es =
     (case es of
        [] \<Rightarrow> None
      | root # es \<Rightarrow>
          (case (SchemaElement_type root, SchemaElement_repetition_type root, SchemaElement_num_children root) of
             (None, None, Some c) \<Rightarrow>
               (case schema_leaves (unat c) [] es of
                  Some (ls, []) \<Rightarrow> Some ls
                | _ \<Rightarrow> None)
           | _ \<Rightarrow> None))"

text \<open>
  The chunk of a column; the values of a required column that is not below a repeated one are the
  rows of the row group.
\<close>

definition required :: "SchemaElement \<Rightarrow> bool" where
  "required e \<longleftrightarrow> SchemaElement_repetition_type e = Some (FieldRepetitionType_val FieldRepetitionType_REQUIRED)"

definition chunk_ok :: "i64 \<Rightarrow> string list \<times> SchemaElement \<Rightarrow> ColumnChunk \<Rightarrow> bool" where
  "chunk_ok rows leaf c \<longleftrightarrow>
     (case ColumnChunk_meta_data c of
        None \<Rightarrow> False
      | Some m \<Rightarrow>
          SchemaElement_type (snd leaf) = Some (ColumnMetaData_type m) \<and>
          ColumnMetaData_path_in_schema m = fst leaf \<and>
          ColumnMetaData_encodings m \<noteq> [] \<and>
          list_all (enumerator Encoding_val) (ColumnMetaData_encodings m) \<and>
          enumerator CompressionCodec_val (ColumnMetaData_codec m) \<and>
          ColumnChunk_file_offset c = 0 \<and>
          (length (fst leaf) = 1 \<and> required (snd leaf) \<longrightarrow> ColumnMetaData_num_values m = rows) \<and>
          4 \<le> sint (ColumnMetaData_data_page_offset m) \<and>
          0 \<le> sint (ColumnMetaData_total_compressed_size m) \<and>
          0 \<le> sint (ColumnMetaData_total_uncompressed_size m))"

definition chunk_sum :: "(ColumnMetaData \<Rightarrow> i64) \<Rightarrow> RowGroup \<Rightarrow> i64" where
  "chunk_sum f rg = (\<Sum>c\<leftarrow>RowGroup_columns rg. case ColumnChunk_meta_data c of None \<Rightarrow> 0 | Some m \<Rightarrow> f m)"

text \<open>Where the first page of a row group is.\<close>

definition first_page :: "RowGroup \<Rightarrow> i64 option" where
  "first_page rg =
     (case RowGroup_columns rg of
        [] \<Rightarrow> None
      | c # cs \<Rightarrow>
          map_option (\<lambda>m. case ColumnMetaData_dictionary_page_offset m of
               None \<Rightarrow> ColumnMetaData_data_page_offset m
             | Some d \<Rightarrow> d) (ColumnChunk_meta_data c))"

definition row_group_ok :: "(string list \<times> SchemaElement) list \<Rightarrow> RowGroup \<Rightarrow> bool" where
  "row_group_ok leaves rg \<longleftrightarrow>
     list_all2 (chunk_ok (RowGroup_num_rows rg)) leaves (RowGroup_columns rg) \<and>
     0 \<le> sint (RowGroup_num_rows rg) \<and>
     pred_option (\<lambda>off. first_page rg = Some off) (RowGroup_file_offset rg) \<and>
     RowGroup_total_byte_size rg = chunk_sum ColumnMetaData_total_uncompressed_size rg \<and>
     pred_option (\<lambda>n. n = chunk_sum ColumnMetaData_total_compressed_size rg) (RowGroup_total_compressed_size rg)"

definition well_typed_metadata :: "FileMetaData \<Rightarrow> bool" where
  "well_typed_metadata md \<longleftrightarrow>
     (case schema_columns (FileMetaData_schema md) of
        None \<Rightarrow> False
      | Some leaves \<Rightarrow> list_all (row_group_ok leaves) (FileMetaData_row_groups md)) \<and>
     FileMetaData_num_rows md = (\<Sum>rg\<leftarrow>FileMetaData_row_groups md. RowGroup_num_rows rg)"

text \<open>The metadata without what the root of the schema says of its repetition.\<close>

definition forget_root_repetition :: "FileMetaData \<Rightarrow> FileMetaData" where
  "forget_root_repetition md =
     md\<lparr>FileMetaData_schema :=
       (case FileMetaData_schema md of
          [] \<Rightarrow> []
        | root # es \<Rightarrow> root\<lparr>SchemaElement_repetition_type := None\<rparr> # es)\<rparr>"

text \<open>
  The header of a data page in the second format, in a chunk with the metadata \<open>m\<close>. The levels are
  part of the page. A header without the flag \<open>is_compressed\<close> counts as one that has it.
\<close>

definition well_typed_page :: "ColumnMetaData \<Rightarrow> PageHeader \<Rightarrow> bool" where
  "well_typed_page m ph \<longleftrightarrow>
     PageHeader_type ph = PageType_val PageType_DATA_PAGE_V2 \<and>
     PageHeader_data_page_header ph = None \<and> PageHeader_index_page_header ph = None \<and>
     PageHeader_dictionary_page_header ph = None \<and>
     (case PageHeader_data_page_header_v2 ph of
        None \<Rightarrow> False
      | Some h \<Rightarrow>
          DataPageHeaderV2_encoding h \<in> set (ColumnMetaData_encodings m) \<and>
          0 \<le> sint (DataPageHeaderV2_num_nulls h) \<and>
          sint (DataPageHeaderV2_num_nulls h) \<le> sint (DataPageHeaderV2_num_values h) \<and>
          0 \<le> sint (DataPageHeaderV2_num_rows h) \<and>
          sint (DataPageHeaderV2_num_rows h) \<le> sint (DataPageHeaderV2_num_values h) \<and>
          0 \<le> sint (DataPageHeaderV2_definition_levels_byte_length h) \<and>
          0 \<le> sint (DataPageHeaderV2_repetition_levels_byte_length h) \<and>
          sint (DataPageHeaderV2_definition_levels_byte_length h) +
            sint (DataPageHeaderV2_repetition_levels_byte_length h) \<le> sint (PageHeader_compressed_page_size ph) \<and>
          (DataPageHeaderV2_is_compressed h = Some False \<or>
             ColumnMetaData_codec m = CompressionCodec_val CompressionCodec_UNCOMPRESSED \<longrightarrow>
             PageHeader_compressed_page_size ph = PageHeader_uncompressed_page_size ph)) \<and>
     0 \<le> sint (PageHeader_compressed_page_size ph) \<and> 0 \<le> sint (PageHeader_uncompressed_page_size ph)"

section \<open>What the program writes\<close>

lemma converted_type_fits:
  assumes "ToParquetType type = Ok t" and "ToParquetConvertedType type = Ok (Some conv)"
  shows "converted_fits (Type_val t) (ConvertedType_val conv)"
proof -
  have "list_ex (\<lambda>p. Type_val p = Type_val t) (stored_as conv)"
    using assms by (cases type) auto
  then show ?thesis by (auto simp: converted_fits_def list_ex_iff UNIV_enum [symmetric])
qed

text \<open>The schema has one column: the array, required, below the root.\<close>

lemma column_schema_columns:
  assumes "ToParquetType type = Ok t" and "ToParquetConvertedType type = Ok conv"
  obtains root e where "column_schema name t conv = [root, e]"
    and "schema_columns [root\<lparr>SchemaElement_repetition_type := None\<rparr>, e] = Some [([name], e)]"
    and "SchemaElement_repetition_type root \<noteq> None"
    and "SchemaElement_type e = Some (Type_val t)" and "required e"
proof -
  define root where "root = column_schema name t conv ! 0"
  define e where "e = column_schema name t conv ! 1"
  have e: "SchemaElement_type e = Some (Type_val t)" "SchemaElement_num_children e = None" "SchemaElement_name e = name"
    "SchemaElement_repetition_type e = Some (FieldRepetitionType_val FieldRepetitionType_REQUIRED)"
    "SchemaElement_converted_type e = map_option ConvertedType_val conv"
    by (simp_all add: e_def column_schema_def SchemaElement_init_def Let_def split: option.split)
  have root: "SchemaElement_type root = None" "SchemaElement_num_children root = Some 1"
    "SchemaElement_repetition_type root \<noteq> None"
    by (simp_all add: root_def column_schema_def SchemaElement_init_def Let_def)
  have "Type_val t \<noteq> Type_val Type_FIXED_LEN_BYTE_ARRAY"
    using assms(1) by (cases type) auto
  then have "leaf_ok e"
    using converted_type_fits [OF assms(1)] assms(2)
    by (cases conv) (auto simp: leaf_ok_def e simp del: FieldRepetitionType_val.simps Type_val.simps)
  then have "schema_columns [root\<lparr>SchemaElement_repetition_type := None\<rparr>, e] = Some [([name], e)]"
    by (simp add: schema_columns_def root e numeral_eq_Suc)
  moreover have "column_schema name t conv = [root, e]"
    by (simp add: root_def e_def column_schema_def Let_def)
  ultimately show ?thesis using e root by (intro that) (simp_all add: required_def)
qed

lemma footer_well_typed:
  assumes "ToParquetType type = Ok t" and "ToParquetConvertedType type = Ok conv"
    and "0 \<le> sint csz" "0 \<le> sint usz" "0 \<le> sint n"
  shows "well_typed_metadata (forget_root_repetition (file_meta_data name t conv pcodec csz usz n))"
proof -
  obtain root e where "column_schema name t conv = [root, e]"
    "schema_columns [root\<lparr>SchemaElement_repetition_type := None\<rparr>, e] = Some [([name], e)]"
    "SchemaElement_type e = Some (Type_val t)" "required e"
    using column_schema_columns [OF assms(1,2)] by blast
  then show ?thesis using assms(3-5)
    by (simp add: well_typed_metadata_def forget_root_repetition_def file_meta_data_def column_meta_data_def Let_def
        FileMetaData_init_def RowGroup_init_def ColumnChunk_init_def ColumnMetaData_init_def row_group_ok_def
        first_page_def chunk_ok_def chunk_sum_def
        del: Type_val.simps CompressionCodec_val.simps Encoding_val.simps)
qed

text \<open>The rule that the footer breaks.\<close>

lemma footer_not_well_typed: "\<not> well_typed_metadata (file_meta_data name t conv codec csz usz n)"
  by (simp add: well_typed_metadata_def schema_columns_def file_meta_data_def column_schema_def Let_def
      split: option.split)

lemma page_well_typed:
  assumes "unat u < 2 ^ 31" "unat c < 2 ^ 31" and "codec = CompressionCodec_UNCOMPRESSED \<longrightarrow> c = u"
  shows "well_typed_page (column_meta_data name t codec csz usz n) (data_page_v2 v c u cmp)"
proof -
  define num where "num = DataPageHeaderV2_num_values (the (PageHeader_data_page_header_v2 (data_page_v2 v c u cmp)))"
  have num: "num = word_of_int (sint u sdiv int v)"
    by (simp add: num_def data_page_v2_def Let_def)
  have "unat num < 2 ^ 31"
    using page_num_values [OF assms(1), of v c cmp] order_le_less_trans [OF div_le_dividend assms(1)]
    by (simp add: num_def)
  then have "0 \<le> sint num" by (simp add: sint_small_u32)
  moreover have "codec = CompressionCodec_UNCOMPRESSED" if "CompressionCodec_val codec = 0"
    using that by (cases codec) simp_all
  ultimately show ?thesis using assms sint_small_u32 [OF assms(1)] sint_small_u32 [OF assms(2)]
    by (auto simp: well_typed_page_def data_page_v2_def column_meta_data_def Let_def PageHeader_init_def
        ColumnMetaData_init_def DataPageHeaderV2_init_def num)
qed

section \<open>Properties\<close>



end
