(* ===== verification/Spec2Isabelle.thy ===== *)
theory Spec2Isabelle
  imports Fuse_Main Bench_Main Parquet_Members Parquet_Print Parquet_Schema
begin

text \<open>
  Virtual Parquet, verified.

  The program (src/) is a FUSE file system that shows the data arrays of one VTK XML file
  (\<open>.vtu\<close>, \<open>.vts\<close>, \<open>.vti\<close>) as Parquet files. Nothing is converted: a Parquet file is an address
  map, a row of regions whose bytes are either page headers and a footer that the program made, or
  ranges of the VTK file, which are read (and base64-decoded) when the file is read.

  \<^bold>\<open>The parts, in the order in which they depend on each other.\<close>

  \<^item> \<open>Prelude\<close>: bytes, words, outcomes of C++ calls (\<open>Ok\<close>, or \<open>Error\<close> with the exception that is
    thrown or \<open>Undefined\<close> for undefined behaviour), vectors, unordered maps, byte ranges and
    little-endian numbers.
  \<^item> \<open>Random_Access\<close>: the abstract class \<open>RandomAccessFile\<close> (src/fmap.h) as the locales
    \<open>random_access_file\<close> and \<open>eof_file\<close>, with \<open>ReadonlyOSFile\<close> (src/fmap.cc),
    \<open>OffsettedRandomAccessFile\<close> (src/parser.cc) and \<open>StringBufFile\<close> (src/vfs.cc).
  \<^item> \<open>Base64\<close>: \<open>Base64Reader\<close> (src/base64.cc), random access into a base64 stream.
  \<^item> \<open>Arr\<close>: src/arr.h and src/arr.cc, array types and the four parsers of array headers.
  \<^item> \<open>Decimal\<close>: numbers as text, \<open>atoll\<close> and \<open>atoi\<close> of the C library and the digits that they read.
  \<^item> \<open>Thrift\<close>, \<open>Parquet_Types\<close>, \<open>Parquet_Setters\<close>, \<open>Parquet_Members\<close>, \<open>Parquet_Write\<close>, \<open>Parquet_Read\<close>:
    the generated metadata classes (src/gen-cpp/), their members, and their write and read functions
    over the calls of a Thrift protocol.
  \<^item> \<open>Parquet_Enums\<close>, \<open>Parquet_Print\<close>: the tables of the enumerations, which are instances of the class
    \<open>enum\<close>, and the text that \<open>printTo\<close> and the stream operators make of numbers and structs.
  \<^item> \<open>File_Map\<close>: \<open>MapBuilder\<close> and \<open>FileMap\<close> (src/fmap.h, first half of src/fmap.cc).
  \<^item> \<open>Parquet_Map\<close>: \<open>AppendPage\<close>, \<open>AppendFooter\<close> and both overloads of \<open>BuildMap\<close> (second half of
    src/fmap.cc), and \<open>ThriftSerializer\<close> (src/thrift_serializer.h).
  \<^item> \<open>Vfs\<close>: src/vfs.cc, file objects, the three classes of directories, iterators, attributes.
  \<^item> \<open>Parser\<close>: src/parser.cc, from the XML elements of a VTK file to the tree of directories.
  \<^item> \<open>Fuse\<close>: src/c.cc, path resolution and the handlers that FUSE calls; a session of calls as a
    step relation.
  \<^item> \<open>Fuse_Main\<close>: src/fuse_main.c, the table of handlers and the life of a mounted file system.
  \<^item> \<open>Bench\<close>, \<open>Bench_Main\<close>: src/bench.c, the two reading loops of the benchmark; its command line and
    main program.
  \<^item> \<open>Parquet_File\<close>, \<open>Parquet_Schema\<close>, \<open>Vtk_Array\<close>, \<open>Vtk_Tree\<close>: specifications. The bytes of a Parquet
    file and a reader of the format; when metadata is well typed; how VTK stores an array; what the
    parser guarantees of every tree.
  \<^item> \<open>Limits\<close>, \<open>Vtk_File\<close>: properties that span components. Arrays at the limits, and a whole VTK file
    from its XML to the bytes that the handlers return.
  \<^item> \<open>Samples\<close>: small concrete data for the instances of the properties.

  A C++ class is a record or, where virtual calls go to it, a constructor of a datatype; a method
  is a function of the object, with the changed object in its result. Integers are words of the width
  they have in the code and wrap where it wraps; an index outside of a vector, a null pointer that
  is dereferenced and a read of uninitialised memory are \<open>Error Undefined\<close>. The open file
  descriptors of the process are a list, the objects behind \<open>fi->fh\<close> a heap.

  \<^bold>\<open>Interfaces.\<close> What one part relies on another for is a locale, interpreted where the other is
  defined: \<open>random_access_file\<close> and \<open>eof_file\<close> (the readers), \<open>directory\<close> (the virtual methods of \<open>Dir\<close>),
  \<open>metadata_object\<close> (a generated class that reads what it wrote) and \<open>name_table\<close> (the names of an
  enumeration).

  \<^bold>\<open>Parameters.\<close> What is not under src/ is an argument of the definitions that use it: \<open>open\<close>,
  \<open>fstat\<close> and \<open>pread\<close> of the operating system; \<open>vtkBase64Utilities::DecodeTriplet\<close> (\<open>decode_triplet\<close>); the
  compact protocol of Thrift (\<open>compact\<close>, from calls to bytes); the elements and the reader of the
  VTK library (\<open>vtk_element\<close>, \<open>vtk_reader\<close>), put together in the record \<open>world\<close>; the reply callback of
  \<open>readdir\<close>; \<open>fuse_opt_parse\<close> and \<open>fuse_main\<close> of libfuse; \<open>to_string\<close> and the enumeration iterator of Thrift. Properties that rest on their documented behaviour say so in their hypotheses: \<open>os_regular_file\<close>
  (a read returns the bytes that are there, cut at the end of the file), \<open>stored\<close> (the decoder turns the
  characters of the file into the array), \<open>thrift_fits\<close> (encoded headers are small), \<open>thrift_decodes\<close>
  (what the protocol wrote can be read again), \<open>runs_sessions\<close> (the life cycle of a FUSE file system),
  \<open>pairs_arrays\<close> (the iterator visits two arrays side by side).

  \<^bold>\<open>What is shown.\<close> The first group of properties says that an array of a VTK file, in each of the
  storage formats, becomes a Parquet file with that array's data, byte for byte, and that a
  Parquet reader gets the data back; its metadata keeps the rules of the format, apart from the one
  on the root of the schema. The second group is about the parser: a run that succeeds
  gives a well-formed tree, a run that fails gives its descriptors back. The third says that the
  FUSE handlers implement an abstract file system (a walk over path components), throw nothing,
  keep the objects of open files in every interleaving of calls, and serve the array files to the
  last byte. The properties of single components (maps, base64, array headers, metadata round
  trips) stand in their theories.

  \<^bold>\<open>Bounds.\<close> The reading loops of \<open>FileMap::Pread\<close> and of the benchmark can run forever and are partial
  functions into \<open>option\<close>; that they return is part of the properties, as is the one case where
  they do not. All other loops are total. Data is bounded by \<open>2 ^ 46\<close> bytes where the number of
  blocks must fit the \<open>int\<close> loop variable of \<open>BuildMap\<close>; the sum of the encoded headers stays below
  \<open>2 ^ 63\<close> by \<open>thrift_fits\<close>.

  \<^bold>\<open>Not modelled.\<close> The clock and the messages of src/fuse_main.c and src/bench.c, which only print; the
  depth counters and the byte counts of the generated read and write functions, which the program
  does not use; destructors of the generated classes, which are empty; the build files. Memory is
  taken to be available where the code allocates it, apart from array sizes that C++ itself rejects
  and the buffer of the benchmark.
\<close>

unbundle bit_operations_syntax

section \<open>Arrays become Parquet files\<close>

text \<open>
  C2: An uncompressed array of a VTK file with at least one and less than \<open>2 ^ 46\<close> bytes, stored raw or in
  base64 with 32-bit or 64-bit header, becomes a map whose virtual file is the Parquet file of the array's data: every read returns
  exactly the bytes of that file from the given offset on, and the size that is reported is its
  length.
\<close>

theorem uncompressed_array_virtual_file:
  assumes "os_regular_file os (osf_fd base) content"
    and "stored dt (enc_type = BASE64) content off (le_bytes (field_width ht) (length data)) data"
    and "0 < length data" "length data < 2 ^ 46" "length data < 256 ^ field_width ht"
    and "array_type type v t conv"
    and "bs = uncompressed_blocks (word_of_nat (length data))"
    and "thrift_fits enc v False name t conv CompressionCodec_UNCOMPRESSED bs"
  defines "file \<equiv> array_parquet enc v False name t conv CompressionCodec_UNCOMPRESSED bs data"
  shows "\<exists>m. ParseAppendedArray (\<lambda>ts. Some (enc ts)) dt (ReadonlyOSFile_Pread os base)
               name type NONE enc_type ht off = Ok m \<and>
             (\<forall>sz pos. FileMap_Pread dt m (ReadonlyOSFile_Pread os base) sz pos =
                Some (Ok (Some (bytes_at (unat pos) (unat sz) file)))) \<and>
             file_size m = Ok (word_of_nat (length file))"
proof -
  obtain m where "ParseAppendedArray (\<lambda>ts. Some (enc ts)) dt (ReadonlyOSFile_Pread os base)
      name type NONE enc_type ht off = Ok m"
    and "array_map dt (ReadonlyOSFile_Pread os base) m (page_header enc v False)
      (enc (write_FileMetaData (array_footer enc v False name t conv CompressionCodec_UNCOMPRESSED bs))) bs data"
    using uncompressed_array_map [OF os_regular_random_access [OF assms(1)] assms(2-8)] by blast
  with array_map_file show ?thesis unfolding file_def by blast
qed

theorem uncompressed_array_virtual_file_witness:
  "\<exists>m. ParseAppendedArray (\<lambda>ts. Some (sample_enc ts)) sample_dt
         (ReadonlyOSFile_Pread (sample_os sample_base64) sample_file) ''p'' INT32 NONE BASE64 UINT32 0 = Ok m \<and>
       (\<forall>sz pos. FileMap_Pread sample_dt m (ReadonlyOSFile_Pread (sample_os sample_base64) sample_file) sz pos =
          Some (Ok (Some (bytes_at (unat pos) (unat sz)
            (array_parquet sample_enc 4 False ''p'' Type_INT32 (Some ConvertedType_INT_32)
               CompressionCodec_UNCOMPRESSED (uncompressed_blocks 4) sample_data))))) \<and>
       file_size m = Ok (word_of_nat (length
            (array_parquet sample_enc 4 False ''p'' Type_INT32 (Some ConvertedType_INT_32)
               CompressionCodec_UNCOMPRESSED (uncompressed_blocks 4) sample_data)))"
  by (rule uncompressed_array_virtual_file [where content = sample_base64])
    (simp_all add: sample_os_regular sample_base64_stored sample_type sample_thrift_fits field_width_def
      length_sample_data)

text \<open>
  C3: The same for an array that is compressed block by block: in at least one and less than \<open>2 ^ 30\<close> blocks,
  where the size of a full block, of the last block and every compressed size are below \<open>2 ^ 31\<close>. Its
  pages are the compressed blocks.
\<close>

theorem compressed_array_virtual_file:
  assumes "os_regular_file os (osf_fd base) content"
    and "stored dt (enc_type = BASE64) content off
           (compressed_header (field_width ht) blk lastblk szs) data"
    and "block_sizes_ok blk lastblk szs" "sum_list szs = length data"
    and "codec \<noteq> NONE" "ToParquetCodec codec = Ok pcodec" and "array_type type v t conv"
    and "bs = vtk_blocks blk lastblk szs"
    and "thrift_fits enc v True name t conv pcodec bs"
  defines "file \<equiv> array_parquet enc v True name t conv pcodec bs data"
  shows "\<exists>m. ParseAppendedArray (\<lambda>ts. Some (enc ts)) dt (ReadonlyOSFile_Pread os base)
               name type codec enc_type ht off = Ok m \<and>
             (\<forall>sz pos. FileMap_Pread dt m (ReadonlyOSFile_Pread os base) sz pos =
                Some (Ok (Some (bytes_at (unat pos) (unat sz) file)))) \<and>
             file_size m = Ok (word_of_nat (length file))"
proof -
  obtain m where "ParseAppendedArray (\<lambda>ts. Some (enc ts)) dt (ReadonlyOSFile_Pread os base)
      name type codec enc_type ht off = Ok m"
    and "array_map dt (ReadonlyOSFile_Pread os base) m (page_header enc v True)
      (enc (write_FileMetaData (array_footer enc v True name t conv pcodec bs))) bs data"
    using compressed_array_map [OF os_regular_random_access [OF assms(1)] assms(2-9)] by blast
  with array_map_file show ?thesis unfolding file_def by blast
qed

theorem compressed_array_virtual_file_witness:
  "\<exists>m. ParseAppendedArray (\<lambda>ts. Some (sample_enc ts)) sample_dt
         (ReadonlyOSFile_Pread (sample_os sample_zlib) sample_file) ''p'' INT32 ZLIB RAW UINT32 0 = Ok m \<and>
       (\<forall>sz pos. FileMap_Pread sample_dt m (ReadonlyOSFile_Pread (sample_os sample_zlib) sample_file) sz pos =
          Some (Ok (Some (bytes_at (unat pos) (unat sz)
            (array_parquet sample_enc 4 True ''p'' Type_INT32 (Some ConvertedType_INT_32)
               CompressionCodec_GZIP (vtk_blocks 8 4 [2, 2]) sample_data))))) \<and>
       file_size m = Ok (word_of_nat (length
            (array_parquet sample_enc 4 True ''p'' Type_INT32 (Some ConvertedType_INT_32)
               CompressionCodec_GZIP (vtk_blocks 8 4 [2, 2]) sample_data)))"
  by (rule compressed_array_virtual_file [where content = sample_zlib])
    (simp_all add: sample_os_regular sample_zlib_stored sample_type sample_thrift_fits field_width_def
      block_sizes_ok_def length_sample_data)

text \<open>
  C4: A Parquet reader that is given the virtual file of an uncompressed array (of at least one and less
  than \<open>2 ^ 46\<close> bytes) finds the footer,
  walks the pages of its only column chunk and gets back the array: the pages put together are
  the array's data, and the footer counts the values of the pages.
\<close>

theorem uncompressed_array_read_back:
  assumes "0 < length data" "length data < 2 ^ 46"
    and "bs = uncompressed_blocks (word_of_nat (length data))"
    and "thrift_fits enc v False name t conv pcodec bs"
    and "thrift_decodes dec enc v False (array_footer enc v False name t conv pcodec bs) bs"
  shows "\<exists>md pages. read_parquet dec skip (array_parquet enc v False name t conv pcodec bs data) =
             Some (md, pages) \<and>
           concat (map snd pages) = data \<and>
           unat (FileMetaData_num_rows md) =
             (\<Sum>p\<leftarrow>pages. unat (DataPageHeaderV2_num_values (the (PageHeader_data_page_header_v2 (fst p)))))"
proof -
  note facts = uncompressed_array_facts [OF assms(1-3)]
  from array_parquet_read_back [OF uncompressed_layout [OF assms(1-4)] assms(5)]
  have "read_parquet dec skip (array_parquet enc v False name t conv pcodec bs data) =
      Some (array_footer enc v False name t conv pcodec bs, pages_of v False data 0 bs)" .
  moreover have "concat (map snd (pages_of v False data 0 bs)) = data"
    using facts(1) by (simp add: pages_of_data)
  moreover have "unat (word_of_nat (value_count v bs) :: u64) = value_count v bs"
    using facts(4) [of v] assms(2) by (intro unat_of_nat_u64) simp
  then have "unat (FileMetaData_num_rows (array_footer enc v False name t conv pcodec bs)) =
      (\<Sum>p\<leftarrow>pages_of v False data 0 bs.
         unat (DataPageHeaderV2_num_values (the (PageHeader_data_page_header_v2 (fst p)))))"
    using page_values_total [OF facts(3)] by (simp add: array_footer_rows)
  ultimately show ?thesis by blast
qed

theorem uncompressed_array_read_back_witness:
  "\<exists>md pages. read_parquet (header_dec False CompressionCodec_UNCOMPRESSED) (\<lambda>ty ts. Error ProtocolError)
       (array_parquet (header_enc False) 4 False ''p'' Type_INT32 (Some ConvertedType_INT_32)
          CompressionCodec_UNCOMPRESSED (uncompressed_blocks 4) sample_data) = Some (md, pages) \<and>
     concat (map snd pages) = sample_data \<and>
     unat (FileMetaData_num_rows md) =
       (\<Sum>p\<leftarrow>pages. unat (DataPageHeaderV2_num_values (the (PageHeader_data_page_header_v2 (fst p)))))"
  by (rule uncompressed_array_read_back)
    (simp_all add: length_sample_data header_fits header_decodes sample_blocks)

text \<open>
  C5: The same reader on the virtual file of a compressed array finds one page per block of the
  VTK file: the pages are the compressed blocks in their order, with the compressed sizes of the
  block table and the uncompressed sizes of full blocks and of the last one.
\<close>

theorem compressed_array_read_back:
  assumes "block_sizes_ok blk lastblk szs" "sum_list szs = length data"
    and "bs = vtk_blocks blk lastblk szs"
    and "thrift_fits enc v True name t conv pcodec bs"
    and "thrift_decodes dec enc v True (array_footer enc v True name t conv pcodec bs) bs"
  shows "\<exists>md pages. read_parquet dec skip (array_parquet enc v True name t conv pcodec bs data) =
             Some (md, pages) \<and>
           map snd pages = cut szs data \<and>
           map (\<lambda>p. unat (PageHeader_compressed_page_size (fst p))) pages = szs \<and>
           map (\<lambda>p. unat (PageHeader_uncompressed_page_size (fst p))) pages =
             replicate (length szs - 1) blk @ [lastblk]"
  using array_parquet_read_back [OF compressed_layout [OF assms(1-4)] assms(5)]
    pages_of_cut [of v True data 0 bs] pages_of_sizes [of v True data 0 bs]
    vtk_blocks_sizes [OF assms(1)] assms(3)
  by simp

theorem compressed_array_read_back_witness:
  "\<exists>md pages. read_parquet (header_dec True CompressionCodec_GZIP) (\<lambda>ty ts. Error ProtocolError)
       (array_parquet (header_enc True) 4 True ''p'' Type_INT32 (Some ConvertedType_INT_32)
          CompressionCodec_GZIP (vtk_blocks 8 4 [4]) sample_data) = Some (md, pages) \<and>
     map snd pages = cut [4] sample_data \<and>
     map (\<lambda>p. unat (PageHeader_compressed_page_size (fst p))) pages = [4] \<and>
     map (\<lambda>p. unat (PageHeader_uncompressed_page_size (fst p))) pages = replicate (length [4::nat] - 1) 8 @ [4]"
  by (rule compressed_array_read_back)
    (simp_all add: length_sample_data header_fits header_decodes sample_vtk_blocks block_sizes_ok_def)

section \<open>Trees\<close>

text \<open>
  C8: Whatever the VTK file holds, a run of the parser that succeeds gives a well-formed tree with
  exactly the documented directories (METADATA, pointdata and celldata for every kind of file,
  points unless it is an image, cells for unstructured grids), with the sanitized attributes of the
  VTK file; it leaves one descriptor more open, which the tree owns and which is closed exactly once
  when the tree is deleted.
\<close>

theorem ParseVtkFile_tree:
  assumes "ParseVtkFile w fname fds = (Ok tree, fds')"
  shows "\<exists>subdirs st fd. tree = VtkTree_new subdirs st \<lparr>osf_fd = fd\<rparr> True \<and> dir_ok tree \<and>
    w_open w fname = Some fd \<and> w_fstat w fd = Some st \<and>
    fds' = fd # fds \<and> vtk_destroy_tree (Some tree) = [fd] \<and>
    fst ` set subdirs = {''METADATA'', ''pointdata'', ''celldata''} \<union>
      (if EndsWith fname ''.vtu'' \<or> EndsWith fname ''.vts'' then {''points''} else {}) \<union>
      (if EndsWith fname ''.vtu'' then {''cells''} else {})"
proof -
  from ParseVtkFile_internal [OF assms] obtain mesh where
    "ParseVtkFileInternal w fname mesh
       (EndsWith fname ''.vtu'' \<or> EndsWith fname ''.vts'') (EndsWith fname ''.vtu'') fds = (Ok tree, fds')" ..
  from ParseVtkFileInternal_ok [OF this] show ?thesis by (simp add: vtk_destroy_tree_def)
qed

theorem ParseVtkFile_tree_witness:
  "\<exists>tree subdirs st fd. ParseVtkFile sample_world ''a.vti'' [] = (Ok tree, [3]) \<and>
    tree = VtkTree_new subdirs st \<lparr>osf_fd = fd\<rparr> True \<and> dir_ok tree \<and> [3] = fd # [] \<and>
    vtk_destroy_tree (Some tree) = [fd] \<and>
    fst ` set subdirs = {''METADATA'', ''pointdata'', ''celldata''}"
proof -
  obtain tree where tree: "ParseVtkFile sample_world ''a.vti'' [] = (Ok tree, [3])"
    using sample_parse by blast
  have vti: "\<not> EndsWith ''a.vti'' ''.vtu''" "\<not> EndsWith ''a.vti'' ''.vts''"
    by (simp_all add: EndsWith_def)
  from ParseVtkFile_tree [OF tree] obtain subdirs st fd where
    "tree = VtkTree_new subdirs st \<lparr>osf_fd = fd\<rparr> True" "dir_ok tree" "[3] = fd # []"
    "vtk_destroy_tree (Some tree) = [fd]"
    "fst ` set subdirs = {''METADATA'', ''pointdata'', ''celldata''}"
    using vti by (elim exE conjE) (simp del: insert_iff)
  with tree show ?thesis by (intro exI conjI)
qed

text \<open>
  C20: A run that fails leaves the descriptors as they were, with one exception: where the file
  can be opened and \<open>fstat\<close> fails on it, its descriptor stays open.
\<close>

theorem ParseVtkFile_failure_descriptors:
  assumes "ParseVtkFile w fname fds = (Error e, fds')"
  shows "fds' = fds \<or>
    e = fstat_error \<and> (\<exists>fd. w_open w fname = Some fd \<and> w_fstat w fd = None \<and> fds' = fd # fds)"
  using assms by (rule ParseVtkFile_fails)

theorem ParseVtkFile_failure_descriptors_witness:
  "ParseVtkFile (sample_world\<lparr>w_fstat := \<lambda>fd. None\<rparr>) ''a.vti'' [] = (Error fstat_error, [3]) \<and>
   ([3] = ([] :: int list) \<or>
    fstat_error = fstat_error \<and> (\<exists>fd. w_open (sample_world\<lparr>w_fstat := \<lambda>fd. None\<rparr>) ''a.vti'' = Some fd \<and>
       w_fstat (sample_world\<lparr>w_fstat := \<lambda>fd. None\<rparr>) fd = None \<and> [3] = fd # []))"
proof -
  have run: "ParseVtkFile (sample_world\<lparr>w_fstat := \<lambda>fd. None\<rparr>) ''a.vti'' [] = (Error fstat_error, [3])"
    using sample_info
    by (simp add: ParseVtkFile_def EndsWith_def ParseVtkFileInternal_def ParseVtkInfo_def)
      (simp add: named_world_def NewOSFile_def)
  from ParseVtkFile_failure_descriptors [OF run] run show ?thesis by simp
qed

text \<open>
  C9: After a successful initialisation no handler throws an exception or does anything undefined,
  for any path (a null pointer included), as the program expects: \<open>getattr\<close>, \<open>readdir\<close> and \<open>open\<close>
  always return.
\<close>

theorem handlers_never_throw:
  assumes "vtk_init_tree_int w has_fuse fname fds = (Ok (Some tree, b), fds')"
    and "private_data s = Some tree"
  shows "(\<exists>r. vtk_getattr s path sb = Ok r) \<and>
    (\<exists>r. vtk_readdir filler s path buf = Ok r) \<and>
    (\<exists>r. vtk_open p s path fi = Ok r)"
proof -
  from assms(1) have "ParseVtkFile w fname fds = (Ok tree, fds')"
    by (auto simp: vtk_init_tree_int_def split: result.split_asm prod.split_asm if_split_asm)
  then obtain subdirs st fd where tree: "tree = VtkTree_new subdirs st \<lparr>osf_fd = fd\<rparr> True" "dir_ok tree"
    by (rule ParseVtkFile_dir_ok)
  have "\<exists>r. vtk_getattr s path sb = Ok r"
    using Getattr_returns tree assms(2) by (simp add: vtk_getattr_def VtkTree_new_def)
  moreover have "\<exists>r. vtk_readdir filler s path buf = Ok r"
    using Readdir_returns [OF tree(2)] assms(2) by (simp add: vtk_readdir_def)
  ultimately show ?thesis using vtk_open_returns [OF assms(2) tree(2)] by blast
qed

theorem handlers_never_throw_witness:
  "\<exists>tree s. vtk_init_tree_int sample_world True ''a.vti'' [] = (Ok (Some tree, False), [3]) \<and>
     private_data s = Some tree \<and>
     (\<exists>r. vtk_getattr s None zero_stat = Ok r) \<and>
     (\<exists>r. vtk_readdir (\<lambda>b n. b @ [n]) s (Some ''/pointdata'') [] = Ok r) \<and>
     (\<exists>r. vtk_open 4096 s (Some ''/pointdata/p.parquet'') \<lparr>fi_flags = 0, fi_fh = 0\<rparr> = Ok r)"
proof -
  obtain tree where "ParseVtkFile sample_world ''a.vti'' [] = (Ok tree, [3])"
    using sample_parse by blast
  then have init: "vtk_init_tree_int sample_world True ''a.vti'' [] = (Ok (Some tree, False), [3])"
    by (simp add: vtk_init_tree_int_def)
  have s: "private_data \<lparr>private_data = Some tree, open_files = (\<lambda>p. None)\<rparr> = Some tree" by simp
  note run = handlers_never_throw [OF init s]
  show ?thesis
    using init s run [of None zero_stat "\<lambda>b n. b @ [n]" "[]" 4096 "\<lparr>fi_flags = 0, fi_fh = 0\<rparr>"]
      run [of "Some ''/pointdata''" zero_stat "\<lambda>b n. b @ [n]" "[]" 4096 "\<lparr>fi_flags = 0, fi_fh = 0\<rparr>"]
      run [of "Some ''/pointdata/p.parquet''" zero_stat "\<lambda>b n. b @ [n]" "[]" 4096 "\<lparr>fi_flags = 0, fi_fh = 0\<rparr>"]
    by blast
qed

section \<open>The file system\<close>

text \<open>
  C10: \<open>getattr\<close> implements the abstract file system, a walk over the components of the path: the
  error of the walk, or the attributes of the entry it ends at.
\<close>

theorem getattr_implements_walk:
  assumes "private_data s = Some (VtkTree subdirs st base own)"
    and "dir_ok (VtkTree subdirs st base own)"
  shows "case path_entry (VtkTree subdirs st base own) path of
      Inl e \<Rightarrow> \<exists>sb'. vtk_getattr s (Some path) sb = Ok (- e, sb')
    | Inr (EDir d) \<Rightarrow> vtk_getattr s (Some path) sb = Ok (0, st\<lparr>st_mode := MakeDirMode (st_mode st)\<rparr>)
    | Inr (EFile f n) \<Rightarrow> vtk_getattr s (Some path) sb =
        Ok (0, st\<lparr>st_size := n, st_mode := st_mode st OR S_IFREG\<rparr>)"
  using Getattr_implements [OF assms(2), of path sb] assms(1)
  by (auto simp: vtk_getattr_def split: sum.split Entry.split)

theorem getattr_implements_walk_witness:
  "\<exists>sb'. vtk_getattr sample_session (Some ''/pointdata/q.parquet'') zero_stat = Ok (- ENOENT, sb')"
proof -
  have "path_entry sample_tree ''/pointdata/q.parquet'' = Inl ENOENT"
    by (simp add: path_entry_def components_def sample_tree_def VtkTree_new_def sample_subdirs_def)
  then show ?thesis
    using getattr_implements_walk [of sample_session sample_subdirs "SanitizedStat sample_stat" sample_file
        True "''/pointdata/q.parquet''" zero_stat] sample_tree_ok
    by (simp add: sample_session_def sample_tree_def VtkTree_new_def)
qed

text \<open>
  C11: \<open>readdir\<close> implements it: the error of the walk, \<open>ENOTDIR\<close> at a file, and at a directory
  the callback is called once for each of its names, in order.
\<close>

theorem readdir_implements_walk:
  assumes "private_data s = Some tree" and "dir_ok tree"
  shows "vtk_readdir filler s (Some path) buf =
    Ok (case path_entry tree path of
          Inl e \<Rightarrow> (- e, buf)
        | Inr (EFile f n) \<Rightarrow> (- ENOTDIR, buf)
        | Inr (EDir d) \<Rightarrow> (0, foldl filler buf (dir_names d)))"
  using Readdir_implements [OF assms(2)] assms(1) by (simp add: vtk_readdir_def)

theorem readdir_implements_walk_witness:
  "vtk_readdir (\<lambda>b n. b @ [n]) sample_session (Some ''//pointdata/'') [] = Ok (0, [''p.parquet''])"
  using readdir_implements_walk [of sample_session sample_tree "\<lambda>b n. b @ [n]" "''//pointdata/''" "[]"]
    sample_tree_ok
  by (simp add: sample_session_def path_entry_def components_def dir_names_def)
    (simp add: sample_tree_def VtkTree_new_def sample_subdirs_def KeyIter_new_def dir_names_def)

text \<open>
  C12: \<open>open\<close> implements it: write access is refused before anything else, directories with
  \<open>EISDIR\<close>, and a file gets a new object whose address is put into the handle; in every other case
  the session is as it was.
\<close>

theorem open_implements_walk:
  assumes "private_data s = Some tree" and "dir_ok tree"
  shows "vtk_open p s (Some path) fi =
    Ok (if fi_flags fi AND O_ACCMODE \<noteq> O_RDONLY then (- EPERM, s, fi)
        else case path_entry tree path of
          Inl e \<Rightarrow> (- e, s, fi)
        | Inr (EDir d) \<Rightarrow> (- EISDIR, s, fi)
        | Inr (EFile f n) \<Rightarrow> (0, s\<lparr>open_files := (open_files s)(p \<mapsto> f)\<rparr>, fi\<lparr>fi_fh := p\<rparr>))"
  using Open_implements [OF assms(2)] assms(1)
  by (auto simp: vtk_open_def split: sum.split Entry.split)

theorem open_implements_walk_witness:
  "vtk_open 4096 sample_session (Some ''/METADATA'') \<lparr>fi_flags = 0, fi_fh = 0\<rparr> =
     Ok (- EISDIR, sample_session, \<lparr>fi_flags = 0, fi_fh = 0\<rparr>)"
  using open_implements_walk [of sample_session sample_tree 4096 "''/METADATA''" "\<lparr>fi_flags = 0, fi_fh = 0\<rparr>"]
    sample_tree_ok
  by (simp add: sample_session_def path_entry_def components_def O_RDONLY_def)
    (simp add: sample_session_def sample_tree_def VtkTree_new_def sample_subdirs_def)

text \<open>
  C13: In every run of the kernel's calls, however they are interleaved, the live objects are
  exactly the files of the paths that were opened and not released yet: opening, reading or
  releasing one file changes no other, and the tree never changes.
\<close>

theorem session_open_files:
  assumes "session_run os dt \<lparr>private_data = Some tree, open_files = (\<lambda>p. None)\<rparr> es s"
    and "dir_ok tree"
  shows "private_data s = Some tree \<and>
    open_files s p = Option.bind (open_paths es p) (path_file tree) \<and>
    (\<forall>path. open_paths es p = Some path \<longrightarrow> path_file tree path \<noteq> None)"
  using session_ok_run [OF assms] by (simp add: session_ok_def)

theorem session_open_files_witness:
  "\<exists>s. session_run (sample_os sample_raw) sample_dt sample_session [Opened ''/METADATA/type'' 0 4096 0] s \<and>
     open_files s 4096 = Some (AStringBufFile \<lparr>sbf_strbuf = string_bytes ''ImageData''\<rparr>)"
proof -
  obtain s where run: "session_run (sample_os sample_raw) sample_dt sample_session
      [Opened ''/METADATA/type'' 0 4096 0] s"
    using sample_run by blast
  from session_open_files [OF run [unfolded sample_session_def] sample_tree_ok, of 4096] run sample_string_path
  show ?thesis by (auto simp: path_file_def open_paths_def)
qed

text \<open>
  C14: In every run, a read of less than \<open>2 ^ 31\<close> bytes on a handle that is open returns the bytes of the file that its path
  stands for, from the given offset on, and their number; what the other handles do has no
  influence.
\<close>

theorem session_reads:
  assumes "session_run os dt \<lparr>private_data = Some tree, open_files = (\<lambda>p. None)\<rparr> es s"
    and "dir_ok tree" and "open_paths es (fi_fh fi) = Some path" and "path_file tree path = Some f"
    and "file_holds os dt f content" and "unat sz < 2 ^ 31"
  shows "vtk_read os dt s sz off fi =
    Some (Ok (int (length (bytes_at (unat off) (unat sz) content)), bytes_at (unat off) (unat sz) content))"
  using assms by (rule session_read)

theorem session_reads_witness:
  "\<exists>s. session_run (sample_os sample_raw) sample_dt sample_session [Opened ''/METADATA/type'' 0 4096 0] s \<and>
     vtk_read (sample_os sample_raw) sample_dt s 100 5 \<lparr>fi_flags = 0, fi_fh = 4096\<rparr> =
       Some (Ok (4, string_bytes ''Data''))"
proof -
  obtain s where run: "session_run (sample_os sample_raw) sample_dt sample_session
      [Opened ''/METADATA/type'' 0 4096 0] s"
    using sample_run by blast
  have path: "open_paths [Opened ''/METADATA/type'' 0 4096 0] (fi_fh \<lparr>fi_flags = 0, fi_fh = 4096\<rparr>) =
      Some ''/METADATA/type''" by (simp add: open_paths_def)
  have pfile: "path_file sample_tree ''/METADATA/type'' =
      Some (AStringBufFile \<lparr>sbf_strbuf = string_bytes ''ImageData''\<rparr>)"
    using sample_string_path by (simp add: path_file_def)
  from session_reads [OF run [unfolded sample_session_def] sample_tree_ok path pfile string_file_holds, of 100 5]
  have "vtk_read (sample_os sample_raw) sample_dt s 100 5 \<lparr>fi_flags = 0, fi_fh = 4096\<rparr> =
      Some (Ok (4, string_bytes ''Data''))"
    by (simp add: bytes_at_def string_bytes_def)
  with run show ?thesis by blast
qed

text \<open>
  From the path to the bytes: \<open>getattr\<close> on an array file reports the length of the Parquet
  file of the array, \<open>open\<close> succeeds, and reads on the handle give that file's bytes.
\<close>

theorem array_file_end_to_end:
  assumes "private_data s = Some (VtkTree subdirs st fb fo)" and "dir_ok (VtkTree subdirs st fb fo)"
    and "map_of subdirs dn = Some (ArrayDir arr_maps base own)" and "map_of arr_maps fn = Some m"
    and "dn \<noteq> []" "slash \<notin> set dn" "fn \<noteq> []" "slash \<notin> set fn"
    and "array_map dt (ReadonlyOSFile_Pread os base) m h foot bs data"
    and "fi_flags fi AND O_ACCMODE = O_RDONLY"
  defines "file \<equiv> parquet_content h foot bs data" and "path \<equiv> slash # dn @ slash # fn"
  shows "vtk_getattr s (Some path) sb =
      Ok (0, st\<lparr>st_size := word_of_nat (length file), st_mode := st_mode st OR S_IFREG\<rparr>) \<and>
    (\<exists>s' fi'. vtk_open p s (Some path) fi = Ok (0, s', fi') \<and>
      (\<forall>sz off. unat sz < 2 ^ 31 \<longrightarrow> vtk_read os dt s' sz off fi' =
         Some (Ok (int (length (bytes_at (unat off) (unat sz) file)), bytes_at (unat off) (unat sz) file))))"
proof
  have entry: "path_entry (VtkTree subdirs st fb fo) path =
      Inr (EFile (AVirtualFile \<lparr>vf_map = m, vf_base = base, vf_own_base = False\<rparr>) (map_size m))"
    unfolding path_def using assms(3-8) by (rule array_path_entry)
  show "vtk_getattr s (Some path) sb =
      Ok (0, st\<lparr>st_size := word_of_nat (length file), st_mode := st_mode st OR S_IFREG\<rparr>)"
    using getattr_file [OF assms(1,2) entry] array_map_size [OF assms(9)] by (simp add: map_size_def file_def)
  show "\<exists>s' fi'. vtk_open p s (Some path) fi = Ok (0, s', fi') \<and>
      (\<forall>sz off. unat sz < 2 ^ 31 \<longrightarrow> vtk_read os dt s' sz off fi' =
         Some (Ok (int (length (bytes_at (unat off) (unat sz) file)), bytes_at (unat off) (unat sz) file)))"
    unfolding file_def by (rule open_then_read [OF assms(1,2,10) entry array_map_holds [OF assms(9)]])
qed

theorem array_file_end_to_end_witness:
  "\<exists>m s' fi' file.
     ParseAppendedArray (\<lambda>ts. Some (sample_enc ts)) sample_dt
       (ReadonlyOSFile_Pread (sample_os sample_raw) sample_file) ''p'' INT32 NONE RAW UINT32 0 = Ok m \<and>
     vtk_open 4096 \<lparr>private_data = Some (VtkTree [(''pointdata'', ArrayDir [(''p.parquet'', m)] sample_file False)]
          sample_stat sample_file True), open_files = (\<lambda>p. None)\<rparr>
       (Some (slash # ''pointdata'' @ slash # ''p.parquet'')) \<lparr>fi_flags = 0, fi_fh = 0\<rparr> = Ok (0, s', fi') \<and>
     (\<forall>sz off. unat sz < 2 ^ 31 \<longrightarrow> vtk_read (sample_os sample_raw) sample_dt s' sz off fi' =
         Some (Ok (int (length (bytes_at (unat off) (unat sz) file)), bytes_at (unat off) (unat sz) file)))"
proof -
  obtain m h foot where
    m: "ParseAppendedArray (\<lambda>ts. Some (sample_enc ts)) sample_dt
       (ReadonlyOSFile_Pread (sample_os sample_raw) sample_file) ''p'' INT32 NONE RAW UINT32 0 = Ok m"
    and map: "array_map sample_dt (ReadonlyOSFile_Pread (sample_os sample_raw) sample_file) m h foot
       (uncompressed_blocks 4) sample_data"
    using sample_array_map by blast
  have ok: "dir_ok (VtkTree [(''pointdata'', ArrayDir [(''p.parquet'', m)] sample_file False)]
      sample_stat sample_file True)"
    using ParseAppendedArray_ok [OF m] by (simp add: umap_ok_def)
  have names: "''pointdata'' \<noteq> []" "slash \<notin> set ''pointdata''" "''p.parquet'' \<noteq> []" "slash \<notin> set ''p.parquet''"
    by simp_all
  show ?thesis
    using m array_file_end_to_end [where s = "\<lparr>private_data = Some (VtkTree
        [(''pointdata'', ArrayDir [(''p.parquet'', m)] sample_file False)] sample_stat sample_file True),
        open_files = (\<lambda>p. None)\<rparr>" and p = 4096 and fi = "\<lparr>fi_flags = 0, fi_fh = 0\<rparr>",
        OF _ ok _ _ names map]
    by (fastforce simp: O_RDONLY_def)
qed

text \<open>
  C27: Permissions: whatever the mode of the VTK file, what \<open>getattr\<close> reports has no write
  permission; a file has no execute permission, and a directory can be searched by exactly those
  who may read it, which are those who may read the VTK file.
\<close>

theorem getattr_permissions:
  assumes "private_data s = Some (VtkTree_new subdirs vtk_st base own)"
    and "dir_ok (VtkTree_new subdirs vtk_st base own)"
    and "vtk_getattr s (Some path) sb = Ok (0, sb')"
  shows "st_mode sb' AND write_bits = 0 \<and>
    (st_mode sb' AND type_bits = S_IFREG \<and> st_mode sb' AND execute_bits = 0 \<or>
     st_mode sb' AND type_bits = S_IFDIR \<and>
     (st_mode sb' AND S_IXUSR \<noteq> 0 \<longleftrightarrow> st_mode vtk_st AND S_IRUSR \<noteq> 0) \<and>
     (st_mode sb' AND S_IXGRP \<noteq> 0 \<longleftrightarrow> st_mode vtk_st AND S_IRGRP \<noteq> 0) \<and>
     (st_mode sb' AND S_IXOTH \<noteq> 0 \<longleftrightarrow> st_mode vtk_st AND S_IROTH \<noteq> 0) \<and>
     (st_mode sb' AND S_IRUSR \<noteq> 0 \<longleftrightarrow> st_mode vtk_st AND S_IRUSR \<noteq> 0) \<and>
     (st_mode sb' AND S_IRGRP \<noteq> 0 \<longleftrightarrow> st_mode vtk_st AND S_IRGRP \<noteq> 0) \<and>
     (st_mode sb' AND S_IROTH \<noteq> 0 \<longleftrightarrow> st_mode vtk_st AND S_IROTH \<noteq> 0))"
proof -
  let ?tree = "VtkTree_new subdirs vtk_st base own"
  have walk: "case path_entry ?tree path of
      Inl e \<Rightarrow> \<exists>sb'. vtk_getattr s (Some path) sb = Ok (- e, sb')
    | Inr e \<Rightarrow> vtk_getattr s (Some path) sb = Ok (0, entry_attr (SanitizedStat vtk_st) e)"
    using Getattr_implements [of subdirs "SanitizedStat vtk_st" base own path sb] assms(1,2)
    by (auto simp: vtk_getattr_def VtkTree_new_def split: sum.splits)
  then obtain e where e: "sb' = entry_attr (SanitizedStat vtk_st) e"
    using assms(3) path_entry_error [of ?tree path] by (cases "path_entry ?tree path") auto
  show ?thesis
  proof (cases e)
    case (EFile f n)
    then show ?thesis using e file_mode_bits [of vtk_st] by simp
  next
    case (EDir d)
    then show ?thesis using e
      by (simp add: MakeDirMode_no_write MakeDirMode_type MakeDirMode_read MakeDirMode_search sanitized_read)
  qed
qed

theorem getattr_permissions_witness:
  "vtk_getattr sample_session (Some ''/pointdata'') zero_stat =
     Ok (0, SanitizedStat sample_stat\<lparr>st_mode := 0x416D\<rparr>) \<and> (0x416D :: u32) AND write_bits = 0"
proof -
  have run: "vtk_getattr sample_session (Some ''/pointdata'') zero_stat =
      Ok (0, SanitizedStat sample_stat\<lparr>st_mode := 0x416D\<rparr>)"
    using Getattr_implements [of sample_subdirs "SanitizedStat sample_stat" sample_file True "''/pointdata''" zero_stat]
      sample_tree_ok
    by (simp add: vtk_getattr_def sample_session_def sample_tree_def VtkTree_new_def path_entry_def
        components_def sample_subdirs_def)
      (simp add: sanitized_mode sample_stat_def MakeDirMode_class mode_bits)
  from getattr_permissions [OF _ _ run, of sample_subdirs sample_stat sample_file True] sample_tree_ok run
  show ?thesis by (simp add: sample_session_def sample_tree_def)
qed

text \<open>
  C31: Redundant slashes in a path, doubled ones or a trailing one, make no difference to any handler:
  paths with the same components give the same results.
\<close>

theorem redundant_slashes:
  assumes "private_data s = Some (VtkTree subdirs st base own)" and "dir_ok (VtkTree subdirs st base own)"
    and "components a = components b"
  shows "vtk_readdir filler s (Some (slash # a)) buf = vtk_readdir filler s (Some (slash # b)) buf \<and>
    vtk_open p s (Some (slash # a)) fi = vtk_open p s (Some (slash # b)) fi \<and>
    (\<exists>r sa sb'. vtk_getattr s (Some (slash # a)) sb = Ok (r, sa) \<and>
       vtk_getattr s (Some (slash # b)) sb = Ok (r, sb') \<and> (r = 0 \<longrightarrow> sa = sb'))"
proof (intro conjI)
  note same = path_entry_components [OF assms(3), of "VtkTree subdirs st base own"]
  show "vtk_readdir filler s (Some (slash # a)) buf = vtk_readdir filler s (Some (slash # b)) buf"
    by (simp add: vtk_readdir_def assms(1) Readdir_implements [OF assms(2)] same)
  show "vtk_open p s (Some (slash # a)) fi = vtk_open p s (Some (slash # b)) fi"
    by (simp add: vtk_open_def assms(1) Open_implements [OF assms(2)] same)
  show "\<exists>r sa sb'. vtk_getattr s (Some (slash # a)) sb = Ok (r, sa) \<and>
       vtk_getattr s (Some (slash # b)) sb = Ok (r, sb') \<and> (r = 0 \<longrightarrow> sa = sb')"
    using Getattr_implements [OF assms(2), of "slash # a" sb] Getattr_implements [OF assms(2), of "slash # b" sb]
      path_entry_error [of "VtkTree subdirs st base own" "slash # a"] same assms(1)
    by (auto simp: vtk_getattr_def split: sum.split_asm)
qed

theorem redundant_slashes_witness:
  "vtk_open 4096 sample_session (Some ''//METADATA///type/'') \<lparr>fi_flags = 0, fi_fh = 0\<rparr> =
   vtk_open 4096 sample_session (Some ''/METADATA/type'') \<lparr>fi_flags = 0, fi_fh = 0\<rparr> \<and>
   components ''METADATA///type/'' = components ''METADATA/type''"
proof
  have tree: "private_data sample_session = Some (VtkTree sample_subdirs (SanitizedStat sample_stat) sample_file True)"
    "dir_ok (VtkTree sample_subdirs (SanitizedStat sample_stat) sample_file True)"
    using sample_tree_ok by (simp_all add: sample_session_def sample_tree_def VtkTree_new_def)
  show same: "components ''METADATA///type/'' = components ''METADATA/type''"
    by (simp add: components_def)
  then have "components ''/METADATA///type/'' = components ''METADATA/type''" by simp
  from redundant_slashes [OF tree this]
  show "vtk_open 4096 sample_session (Some ''//METADATA///type/'') \<lparr>fi_flags = 0, fi_fh = 0\<rparr> =
      vtk_open 4096 sample_session (Some ''/METADATA/type'') \<lparr>fi_flags = 0, fi_fh = 0\<rparr>"
    by (rule conjunct1 [OF conjunct2])
qed

text \<open>
  A read of the VTK file that fails makes the read of the virtual file fail with \<open>EIO\<close>, and
  nothing is reported as read.
\<close>

theorem read_error_is_EIO:
  assumes "open_files s (fi_fh fi) = Some f" and "RandomAccessFile_Pread os dt f sz off = Some (Ok None)"
  shows "vtk_read os dt s sz off fi = Some (Ok (- EIO, []))"
proof -
  have "to_int (-1) = -1" by (simp add: to_int_def)
  with assms show ?thesis by (simp add: vtk_read_def Read_def Let_def)
qed

theorem read_error_is_EIO_witness:
  "vtk_read unread_os sample_dt
     \<lparr>private_data = None, open_files = [4096 \<mapsto> AVirtualFile \<lparr>vf_map = unread_map, vf_base = sample_file, vf_own_base = False\<rparr>]\<rparr>
     2 2 \<lparr>fi_flags = 0, fi_fh = 4096\<rparr> = Some (Ok (- EIO, []))"
proof (rule read_error_is_EIO)
  show "RandomAccessFile_Pread unread_os sample_dt
      (AVirtualFile \<lparr>vf_map = unread_map, vf_base = sample_file, vf_own_base = False\<rparr>) 2 2 = Some (Ok None)"
    by (rule unread_file(2))
qed simp

text \<open>
  C32: The 64-bit count of a read is cut to an \<open>int\<close>: a read that returns \<open>2 ^ 31\<close> bytes or more, up to
  \<open>2 ^ 32\<close>, succeeds and yet reports a negative number, which the kernel takes for an error.
\<close>

theorem large_read_count_negative:
  assumes "open_files s (fi_fh fi) = Some f" and "file_holds os dt f content"
    and "2 ^ 31 \<le> length (bytes_at (unat off) (unat sz) content)"
    and "length (bytes_at (unat off) (unat sz) content) < 2 ^ 32"
  shows "\<exists>r. vtk_read os dt s sz off fi = Some (Ok (r, bytes_at (unat off) (unat sz) content)) \<and> r < 0"
proof -
  define n where "n = length (bytes_at (unat off) (unat sz) content)"
  have "(2 :: int) ^ 31 \<le> int n" "int n < 2 ^ 32"
    using assms(3,4) by (simp_all add: n_def [symmetric] del: length_bytes_at)
  then have "to_int (int n) < 0" using to_int_large [of "int n"] by simp
  then show ?thesis using assms(1,2)
    by (simp add: vtk_read_def Read_def file_holds_def Let_def errnos del: length_bytes_at flip: n_def)
qed

theorem large_read_count_negative_witness:
  "\<exists>r bs. vtk_read (sample_os []) sample_dt
     \<lparr>private_data = None, open_files = [4096 \<mapsto> AStringBufFile \<lparr>sbf_strbuf = replicate (2 ^ 31) 0\<rparr>]\<rparr>
     (2 ^ 31) 0 \<lparr>fi_flags = 0, fi_fh = 4096\<rparr> = Some (Ok (r, bs)) \<and> r < 0"
proof -
  have "file_holds (sample_os []) sample_dt (AStringBufFile \<lparr>sbf_strbuf = replicate (2 ^ 31) 0\<rparr>) (replicate (2 ^ 31) 0)"
    using string_file_holds [of "sample_os []" sample_dt "\<lparr>sbf_strbuf = replicate (2 ^ 31) 0\<rparr>"] by simp
  from large_read_count_negative [OF _ this, of "\<lparr>private_data = None, open_files = [4096 \<mapsto> AStringBufFile \<lparr>sbf_strbuf = replicate (2 ^ 31) 0\<rparr>]\<rparr>" "\<lparr>fi_flags = 0, fi_fh = 4096\<rparr>" 0 "2 ^ 31"]
  show ?thesis by (auto simp: length_bytes_at)
qed

end
